(* ===== verification/Prelude.thy ===== *)
theory Prelude
  imports Main "HOL-Library.Word" "HOL-Library.State_Monad"
begin

text \<open>
  What every component shares: the machine integer types of the C code, the error numbers its
  functions return, the rules that run a program of the state monad step by step, and generic
  facts on lists and words. Nothing here models a particular driver.
\<close>

unbundle bit_operations_syntax

section \<open>Integer types and error numbers\<close>

type_synonym u8 = "8 word"
type_synonym u16 = "16 word"
type_synonym u32 = "32 word"
type_synonym u64 = "64 word"

text \<open>
  A C \<open>int\<close> is a 32-bit word read with \<^const>\<open>sint\<close>; \<open>is_neg\<close> is the test
  \<open>ret < 0\<close> on it. The error numbers are those of the C library and of the kernel's user
  interface.
\<close>

type_synonym c_int = "32 word"

definition is_neg :: "c_int \<Rightarrow> bool" where
  "is_neg r \<longleftrightarrow> sint r < 0"

abbreviation EPERM :: c_int where "EPERM \<equiv> 1"
abbreviation ENOMEM :: c_int where "ENOMEM \<equiv> 12"
abbreviation ENODEV :: c_int where "ENODEV \<equiv> 19"
abbreviation EINVAL :: c_int where "EINVAL \<equiv> 22"
abbreviation EADDRNOTAVAIL :: c_int where "EADDRNOTAVAIL \<equiv> 99"

lemma is_neg_numeral [simp]:
  "is_neg (- 1)" "is_neg (- EPERM)" "is_neg (- ENOMEM)" "is_neg (- ENODEV)" "is_neg (- EINVAL)"
  "is_neg (- EADDRNOTAVAIL)" "\<not> is_neg 0" "\<not> is_neg 1"
  by (simp_all add: is_neg_def)

text \<open>The sign of a C \<open>int\<close> is its top bit.\<close>

lemma is_neg_bit: "is_neg r \<longleftrightarrow> bit r 31"
  by (simp add: is_neg_def sint_uint bit_uint_iff)

lemma is_neg_nonzero: "is_neg r \<Longrightarrow> r \<noteq> 0"
  by auto

section \<open>Running programs of the state monad\<close>

text \<open>
  The drivers' handlers are programs of \<^theory_text>\<open>HOL-Library.State_Monad\<close>. These rules push
  \<^const>\<open>run_state\<close> through the C control structure, so that \<open>simp\<close> executes a
  program symbolically, one statement at a time.
\<close>

named_theorems run_simps "symbolic execution of state programs"

lemma run_if [simp, run_simps]:
  "run_state (if b then m else n) s = (if b then run_state m s else run_state n s)"
  by simp

lemma run_let [run_simps]: "run_state (Let x f) s = run_state (f x) s"
  by simp

lemma run_case_option [run_simps]:
  "run_state (case x of None \<Rightarrow> m | Some y \<Rightarrow> f y) s =
     (case x of None \<Rightarrow> run_state m s | Some y \<Rightarrow> run_state (f y) s)"
  by (cases x) simp_all

lemma case_prod_if [run_simps]:
  "(case (if b then x else y) of (u, v) \<Rightarrow> f u v) =
     (if b then (case x of (u, v) \<Rightarrow> f u v) else (case y of (u, v) \<Rightarrow> f u v))"
  by simp

section \<open>Decimal output\<close>

text \<open>What \<open>%u\<close> and \<open>%d\<close> print.\<close>

definition digit :: "nat \<Rightarrow> char" where
  "digit n = char_of (48 + n mod 10)"

fun dec_nat :: "nat \<Rightarrow> string" where
  "dec_nat n = (if n < 10 then [digit n] else dec_nat (n div 10) @ [digit n])"

declare dec_nat.simps [simp del]

definition dec_int :: "int \<Rightarrow> string" where
  "dec_int i = (if i < 0 then CHR ''-'' # dec_nat (nat (- i)) else dec_nat (nat i))"

lemma dec_nat_nonempty: "dec_nat n \<noteq> []"
  by (subst dec_nat.simps) simp

text \<open>Reading the digits back gives the number.\<close>

definition undigit :: "char \<Rightarrow> nat" where
  "undigit c = of_char c - 48"

definition read_dec :: "string \<Rightarrow> nat" where
  "read_dec cs = foldl (\<lambda>v c. 10 * v + undigit c) 0 cs"

lemma undigit_digit [simp]: "undigit (digit n) = n mod 10"
  by (simp add: undigit_def digit_def)

lemma read_dec_nat [simp]: "read_dec (dec_nat n) = n"
proof (induction n rule: dec_nat.induct)
  case (1 n)
  show ?case
  proof (cases "n < 10")
    case True
    then show ?thesis by (subst dec_nat.simps) (simp add: read_dec_def)
  next
    case False
    with 1 have "read_dec (dec_nat (n div 10)) = n div 10" by simp
    with False show ?thesis by (subst dec_nat.simps) (simp add: read_dec_def)
  qed
qed

section \<open>Lists\<close>

lemma nth_concat_map_const:
  "(\<And>x. x \<in> set xs \<Longrightarrow> length (f x) = n) \<Longrightarrow> i < length xs \<Longrightarrow> j < n \<Longrightarrow>
     concat (map f xs) ! (i * n + j) = f (xs ! i) ! j"
proof (induction xs arbitrary: i)
  case Nil
  then show ?case by simp
next
  case (Cons x xs)
  show ?case
  proof (cases i)
    case 0
    with Cons.prems show ?thesis by (simp add: nth_append)
  next
    case (Suc k)
    with Cons show ?thesis by (simp add: nth_append add.assoc)
  qed
qed

lemma length_concat_map_const:
  "(\<And>x. x \<in> set xs \<Longrightarrow> length (f x) = n) \<Longrightarrow> length (concat (map f xs)) = length xs * n"
  by (induction xs) simp_all

end
