(* ===== verification/Kernel.thy ===== *)
theory Kernel
  imports Prelude
begin

text \<open>
  The boundary between a driver and the kernel. The kernel's functions are not part of this
  repository, so they are a parameter of the model: a function that answers the \<open>n\<close>-th call of
  a run. A handler is a program that records every call it makes with the answer it got; nothing
  is assumed of the answers unless a lemma says so. A ledger reads the recorded calls and tells
  which resources are held, from what the kernel documents of each call.
\<close>

section \<open>Answers of the kernel\<close>

text \<open>
  One answer carries a value for each C return type: \<open>r_int\<close> for an \<open>int\<close>,
  \<open>r_ptr\<close> for a pointer, \<open>r_out\<close> for what the call stores through an output argument.
  A call site reads the field its C declaration names.
\<close>

record kresp =
  r_int :: c_int
  r_ptr :: u64
  r_out :: u64

type_synonym 'c kernel = "nat \<Rightarrow> 'c \<Rightarrow> kresp"

text \<open>
  Error pointers: the last 4095 addresses (the disassembly in \<open>static_call/README.md\<close> shows the
  compiled test, an unsigned comparison with \<open>0xfffffffffffff000\<close>).
\<close>

definition IS_ERR :: "u64 \<Rightarrow> bool" where
  "IS_ERR p \<longleftrightarrow> 0xfffffffffffff000 < p"

definition PTR_ERR :: "u64 \<Rightarrow> c_int" where
  "PTR_ERR p = ucast p"

lemma IS_ERR_0 [simp]: "\<not> IS_ERR 0"
  by (simp add: IS_ERR_def)

lemma IS_ERR_unat: "IS_ERR p \<longleftrightarrow> 2 ^ 64 - 4096 < unat p"
  by (simp add: IS_ERR_def word_less_nat_alt)

text \<open>The \<open>int\<close> a driver returns for an error pointer is negative.\<close>

lemma IS_ERR_bit31: "IS_ERR p \<Longrightarrow> bit p 31"
proof -
  assume "IS_ERR p"
  then have lo: "2 ^ 64 - 4096 < unat p" by (simp add: IS_ERR_unat)
  have hi: "unat p < 2 ^ 64" using unsigned_less [of p, where ?'a = nat] by simp
  have "unat p div 2 ^ 31 = 2 ^ 33 - 1"
    by (rule div_nat_eqI) (use lo hi in simp_all)
  then have "odd (unat p div 2 ^ 31)" by simp
  then have "bit (unat p) 31" by (simp add: bit_iff_odd)
  then show ?thesis by (simp add: bit_unsigned_iff)
qed

lemma is_neg_PTR_ERR: "IS_ERR p \<Longrightarrow> is_neg (PTR_ERR p)"
  by (simp add: is_neg_bit PTR_ERR_def bit_ucast_iff IS_ERR_bit31)
section \<open>Programs that call the kernel\<close>

record ('c, 'd) world =
  hist :: "('c \<times> kresp) list"
  dv :: 'd

type_synonym ('c, 'd, 'a) prog = "(('c, 'd) world, 'a) state"

text \<open>
  \<open>hist\<close> holds the calls made so far, the latest first; \<open>dv\<close> is the driver's own
  structure. \<open>sys\<close> makes a call, \<open>self\<close> reads the structure, \<open>upd\<close> writes it.
\<close>

definition sys :: "'c kernel \<Rightarrow> 'c \<Rightarrow> ('c, 'd, kresp) prog" where
  "sys K c = State (\<lambda>w. let r = K (length (hist w)) c in (r, w\<lparr>hist := (c, r) # hist w\<rparr>))"

definition self :: "('c, 'd, 'd) prog" where
  "self = State (\<lambda>w. (dv w, w))"

definition upd :: "('d \<Rightarrow> 'd) \<Rightarrow> ('c, 'd, unit) prog" where
  "upd f = State (\<lambda>w. ((), w\<lparr>dv := f (dv w)\<rparr>))"

lemma run_sys [simp, run_simps]:
  "run_state (sys K c) w =
     (K (length (hist w)) c, w\<lparr>hist := (c, K (length (hist w)) c) # hist w\<rparr>)"
  by (simp add: sys_def Let_def)

lemma run_self [simp, run_simps]: "run_state self w = (dv w, w)"
  by (simp add: self_def)

lemma run_upd [simp, run_simps]: "run_state (upd f) w = ((), w\<lparr>dv := f (dv w)\<rparr>)"
  by (simp add: upd_def)

text \<open>
  Forward execution of a long program: every answer gets a name, so that later statements do not
  repeat the call it came from. \<open>elim run_elims\<close> turns a run into its steps, with a case
  for each outcome of a test.
\<close>

definition answers :: "'c kernel \<Rightarrow> nat \<Rightarrow> 'c \<Rightarrow> kresp \<Rightarrow> bool" where
  "answers K n c r \<longleftrightarrow> K n c = r"

named_theorems run_elims "elimination of a run into its steps"

lemma sys_bindE [run_elims]:
  assumes "run_state (State_Monad.bind (sys K c) f) w = (x, w')"
  obtains r where "answers K (length (hist w)) c r"
    and "run_state (f r) (w\<lparr>hist := (c, r) # hist w\<rparr>) = (x, w')"
  using assms by (simp add: answers_def)

lemma self_bindE [run_elims]:
  assumes "run_state (State_Monad.bind self f) w = (x, w')"
  obtains "run_state (f (dv w)) w = (x, w')"
  using assms by simp

lemma upd_bindE [run_elims]:
  assumes "run_state (State_Monad.bind (upd g) f) w = (x, w')"
  obtains "run_state (f ()) (w\<lparr>dv := g (dv w)\<rparr>) = (x, w')"
  using assms by simp

lemma ifE [run_elims]:
  assumes "run_state (if b then m else n) w = (x, w')"
  obtains "b" "run_state m w = (x, w')" | "\<not> b" "run_state n w = (x, w')"
  using assms by (auto split: if_splits)

lemma returnE [run_elims]:
  assumes "run_state (State_Monad.return y) w = (x, w')"
  obtains "x = y" and "w' = w"
  using assms by simp

section \<open>The ledger of held resources\<close>

text \<open>
  What one answered call does to the resources a driver holds. Releasing a resource that is not
  held is an error, and the ledger of such a history is \<open>None\<close>.
\<close>

datatype 'r effect = Neutral | Acquire 'r | Release 'r

fun settle :: "'r effect \<Rightarrow> 'r list \<Rightarrow> 'r list option" where
  "settle Neutral rs = Some rs"
| "settle (Acquire x) rs = Some (x # rs)"
| "settle (Release x) rs = (if x \<in> set rs then Some (remove1 x rs) else None)"

fun ledger :: "('c \<Rightarrow> kresp \<Rightarrow> 'r effect) \<Rightarrow> ('c \<times> kresp) list \<Rightarrow> 'r list option" where
  "ledger eff [] = Some []"
| "ledger eff ((c, r) # h) =
     (case ledger eff h of None \<Rightarrow> None | Some rs \<Rightarrow> settle (eff c r) rs)"

text \<open>The stricter discipline of a stack: only the resource acquired last may be released.\<close>

fun settle_lifo :: "'r effect \<Rightarrow> 'r list \<Rightarrow> 'r list option" where
  "settle_lifo Neutral rs = Some rs"
| "settle_lifo (Acquire x) rs = Some (x # rs)"
| "settle_lifo (Release x) rs =
     (case rs of [] \<Rightarrow> None | y # ys \<Rightarrow> if x = y then Some ys else None)"

fun lifo :: "('c \<Rightarrow> kresp \<Rightarrow> 'r effect) \<Rightarrow> ('c \<times> kresp) list \<Rightarrow> 'r list option" where
  "lifo eff [] = Some []"
| "lifo eff ((c, r) # h) =
     (case lifo eff h of None \<Rightarrow> None | Some rs \<Rightarrow> settle_lifo (eff c r) rs)"

lemma settle_lifo_settle: "settle_lifo e rs = Some rs' \<Longrightarrow> settle e rs = Some rs'"
  by (cases e) (auto split: list.splits if_splits)

lemma lifo_ledger: "lifo eff h = Some rs \<Longrightarrow> ledger eff h = Some rs"
proof (induction h arbitrary: rs)
  case Nil
  then show ?case by simp
next
  case (Cons e h)
  obtain c r where e: "e = (c, r)" by (cases e)
  with Cons.prems obtain rs' where "lifo eff h = Some rs'" and "settle_lifo (eff c r) rs' = Some rs"
    by (auto split: option.splits)
  with Cons.IH e show ?case by (auto intro: settle_lifo_settle)
qed

text \<open>A release of something never acquired cannot be repaired by later calls.\<close>

lemma ledger_bad_stays: "ledger eff h = None \<Longrightarrow> ledger eff (es @ h) = None"
  by (induction es) auto

end
