(* ===== verification/Chrdev.thy ===== *)
theory Chrdev
  imports Kernel
begin

text \<open>
  The frame every driver of the repository shares, copied from \<open>template/template.c\<close>: a device
  number, a class and a device, created in this order and destroyed in the opposite order by the
  labels \<open>out_dev\<close>, \<open>out_class\<close>, \<open>out_dev_num\<close> and by the module's exit function.
\<close>

section \<open>Calls, resources and their documented effect\<close>

datatype base_call =
    Alloc_chrdev_region string
  | Unregister_chrdev_region u32 nat
  | Class_create string
  | Class_destroy u64
  | Device_create u64 u32 string
  | Device_destroy u64 u32
  | Printk string "int list"

text \<open>
  \<open>Printk\<close> stands for the whole \<open>printk\<close> family (\<open>pr_info\<close>, \<open>pr_err\<close>,
  \<open>dev_info\<close>, \<open>dev_err\<close>): the text and the numbers printed with it.
\<close>

text \<open>A driver makes these calls and those of its own subsystem.\<close>

datatype 'c kcall = Base base_call | Sub 'c

datatype 'r resource = Region u32 | Class u64 | Device u64 u32 | Owned 'r

fun base_effect :: "base_call \<Rightarrow> kresp \<Rightarrow> 'r resource effect" where
  "base_effect (Alloc_chrdev_region n) r =
     (if r_int r = 0 then Acquire (Region (ucast (r_out r))) else Neutral)"
| "base_effect (Unregister_chrdev_region d k) r = Release (Region d)"
| "base_effect (Class_create n) r = (if IS_ERR (r_ptr r) then Neutral else Acquire (Class (r_ptr r)))"
| "base_effect (Class_destroy c) r = Release (Class c)"
| "base_effect (Device_create c d n) r = (if IS_ERR (r_ptr r) then Neutral else Acquire (Device c d))"
| "base_effect (Device_destroy c d) r = Release (Device c d)"
| "base_effect (Printk s ns) r = Neutral"

fun kcall_effect ::
    "('c \<Rightarrow> kresp \<Rightarrow> 'r resource effect) \<Rightarrow> 'c kcall \<Rightarrow> kresp \<Rightarrow> 'r resource effect" where
  "kcall_effect eff (Base b) r = base_effect b r"
| "kcall_effect eff (Sub c) r = eff c r"

section \<open>The common part of the drivers' structures\<close>

record chrdev =
  dev_num :: u32
  class_ptr :: u64
  dev_ptr :: u64

definition frame_resources :: "'a chrdev_scheme \<Rightarrow> 'r resource list" where
  "frame_resources d = [Device (class_ptr d) (dev_num d), Class (class_ptr d), Region (dev_num d)]"

definition printk :: "'c kcall kernel \<Rightarrow> string \<Rightarrow> int list \<Rightarrow> ('c kcall, 'd, unit) prog" where
  "printk K s ns = do { _ \<leftarrow> sys K (Base (Printk s ns)); State_Monad.return () }"

lemma run_printk [simp, run_simps]:
  "run_state (printk K s ns) w =
     ((), w\<lparr>hist := (Base (Printk s ns), K (length (hist w)) (Base (Printk s ns))) # hist w\<rparr>)"
  by (simp add: printk_def)

lemma printk_bindE [run_elims]:
  assumes "run_state (State_Monad.bind (printk K s ns) f) w = (x, w')"
  obtains r where "answers K (length (hist w)) (Base (Printk s ns)) r"
    and "run_state (f ()) (w\<lparr>hist := (Base (Printk s ns), r) # hist w\<rparr>) = (x, w')"
  using assms by (simp add: answers_def)

lemma printkE [run_elims]:
  assumes "run_state (printk K s ns) w = (x, w')"
  obtains r where "answers K (length (hist w)) (Base (Printk s ns)) r"
    and "w' = w\<lparr>hist := (Base (Printk s ns), r) # hist w\<rparr>"
  using assms by (simp add: answers_def)

section \<open>The unwinding labels and the exit function\<close>

definition out_dev_num :: "'c kcall kernel \<Rightarrow> ('c kcall, 'a chrdev_scheme, unit) prog" where
  "out_dev_num K = do {
     d \<leftarrow> self;
     _ \<leftarrow> sys K (Base (Unregister_chrdev_region (dev_num d) 1));
     State_Monad.return ()
   }"

definition out_class :: "'c kcall kernel \<Rightarrow> ('c kcall, 'a chrdev_scheme, unit) prog" where
  "out_class K = do {
     d \<leftarrow> self;
     _ \<leftarrow> sys K (Base (Class_destroy (class_ptr d)));
     out_dev_num K
   }"

definition out_dev :: "'c kcall kernel \<Rightarrow> ('c kcall, 'a chrdev_scheme, unit) prog" where
  "out_dev K = do {
     d \<leftarrow> self;
     _ \<leftarrow> sys K (Base (Device_destroy (class_ptr d) (dev_num d)));
     out_class K
   }"

lemmas out_defs = out_dev_num_def out_class_def out_dev_def

lemma ledger_out_dev:
  assumes "ledger (kcall_effect eff) (hist w) = Some (frame_resources (dv w) @ rs)"
    and "run_state (out_dev K) w = (u, w')"
  shows "ledger (kcall_effect eff) (hist w') = Some rs \<and> dv w' = dv w"
  using assms by (auto simp: out_defs frame_resources_def)

end
