(* ===== verification/Module_Driver.thy ===== *)
theory Module_Driver
  imports Chrdev
begin

text \<open>
  What \<open>module_driver(x, x_register, x_unregister)\<close> and the \<open>test\<close> targets of the makefiles rely
  on: a module is loaded by its register function and unloaded by its unregister function, in any
  order the user asks for. The locale states the contract between the two functions as laws over
  an account of held resources, and proves once that every session of loading and unloading keeps
  the account exact.
\<close>

section \<open>Loading and unloading\<close>

datatype mod_cmd = Insmod | Rmmod

text \<open>
  \<open>insmod\<close> of a loaded module and \<open>rmmod\<close> of an absent one fail and change nothing (the
  makefiles ignore the failure with \<open>|| true\<close>). A module whose register function answers an
  error is not kept; a freshly loaded module starts from its initial static structure.
\<close>

fun mod_step ::
    "('c, 'd, c_int) prog \<Rightarrow> ('c, 'd, 'u) prog \<Rightarrow> 'd \<Rightarrow> mod_cmd
      \<Rightarrow> bool \<times> ('c, 'd) world \<Rightarrow> bool \<times> ('c, 'd) world" where
  "mod_step reg unreg d0 Insmod (loaded, w) =
     (if loaded then (loaded, w)
      else case run_state reg (w\<lparr>dv := d0\<rparr>) of (r, w') \<Rightarrow> (\<not> is_neg r, w'))"
| "mod_step reg unreg d0 Rmmod (loaded, w) =
     (if loaded then (case run_state unreg w of (_, w') \<Rightarrow> (False, w')) else (loaded, w))"

fun mod_session ::
    "('c, 'd, c_int) prog \<Rightarrow> ('c, 'd, 'u) prog \<Rightarrow> 'd \<Rightarrow> mod_cmd list
      \<Rightarrow> bool \<times> ('c, 'd) world \<Rightarrow> bool \<times> ('c, 'd) world" where
  "mod_session reg unreg d0 [] s = s"
| "mod_session reg unreg d0 (c # cs) s = mod_session reg unreg d0 cs (mod_step reg unreg d0 c s)"

lemma mod_session_append:
  "mod_session reg unreg d0 (xs @ ys) s =
     mod_session reg unreg d0 ys (mod_session reg unreg d0 xs s)"
  by (induction xs arbitrary: s) simp_all

section \<open>The contract\<close>

locale module_driver =
  fixes acct :: "('c \<times> kresp) list \<Rightarrow> 'r list option"
    and d0 :: 'd
    and register :: "'c kernel \<Rightarrow> ('c, 'd, c_int) prog"
    and unregister :: "'c kernel \<Rightarrow> ('c, 'd, 'u) prog"
    and holds :: "'d \<Rightarrow> 'r list"
    and good :: "'c kernel \<Rightarrow> bool"
  assumes register_ok:
      "good K \<Longrightarrow> acct (hist w) = Some rs \<Longrightarrow> dv w = d0 \<Longrightarrow>
       run_state (register K) w = (r, w') \<Longrightarrow> \<not> is_neg r \<Longrightarrow>
       acct (hist w') = Some (holds (dv w') @ rs)"
    and register_fail:
      "good K \<Longrightarrow> acct (hist w) = Some rs \<Longrightarrow> dv w = d0 \<Longrightarrow>
       run_state (register K) w = (r, w') \<Longrightarrow> is_neg r \<Longrightarrow> acct (hist w') = Some rs"
    and unregister_ok:
      "good K \<Longrightarrow> acct (hist w) = Some (holds (dv w) @ rs) \<Longrightarrow>
       run_state (unregister K) w = (u, w') \<Longrightarrow> acct (hist w') = Some rs"
begin

definition balanced :: "'r list \<Rightarrow> bool \<times> ('c, 'd) world \<Rightarrow> bool" where
  "balanced rs s \<longleftrightarrow>
     acct (hist (snd s)) = Some ((if fst s then holds (dv (snd s)) else []) @ rs)"

lemma step_balanced:
  assumes K: "good K" and s: "balanced rs s"
  shows "balanced rs (mod_step (register K) (unregister K) d0 c s)"
proof -
  obtain l w where sw: "s = (l, w)" by (cases s)
  show ?thesis
  proof (cases c)
    case Insmod
    obtain r w' where run: "run_state (register K) (w\<lparr>dv := d0\<rparr>) = (r, w')" by fastforce
    from s sw have "\<not> l \<Longrightarrow> acct (hist (w\<lparr>dv := d0\<rparr>)) = Some rs"
      by (simp add: balanced_def)
    with register_ok [OF K _ _ run] register_fail [OF K _ _ run] show ?thesis
      using s sw Insmod run by (cases l; cases "is_neg r") (simp_all add: balanced_def)
  next
    case Rmmod
    obtain u w' where run: "run_state (unregister K) w = (u, w')" by fastforce
    with unregister_ok [OF K _ run] show ?thesis
      using s sw Rmmod by (cases l) (simp_all add: balanced_def)
  qed
qed

lemma session_balanced:
  assumes "good K" and "balanced rs s"
  shows "balanced rs (mod_session (register K) (unregister K) d0 cs s)"
  using assms(2)
proof (induction cs arbitrary: s)
  case Nil
  then show ?case by simp
next
  case (Cons c cs)
  from step_balanced [OF assms(1) Cons.prems] show ?case
    by (simp add: Cons.IH)
qed

text \<open>The form the drivers use: from an unloaded module, after any session.\<close>

lemma session_account:
  assumes "good K" and "acct (hist w) = Some rs"
    and "mod_session (register K) (unregister K) d0 cs (False, w) = (l, w')"
  shows "acct (hist w') = Some ((if l then holds (dv w') else []) @ rs)"
  using session_balanced [OF assms(1), of rs "(False, w)" cs] assms(2,3)
  by (simp add: balanced_def)

lemma session_unloaded:
  assumes "good K" and "acct (hist w) = Some rs"
    and "mod_session (register K) (unregister K) d0 (cs @ [Rmmod]) (False, w) = (l, w')"
  shows "\<not> l \<and> acct (hist w') = Some rs"
proof -
  obtain l1 w1 where mid: "mod_session (register K) (unregister K) d0 cs (False, w) = (l1, w1)"
    by fastforce
  with assms(3) have "\<not> l"
    by (cases l1) (auto simp: mod_session_append split: prod.splits)
  with session_account [OF assms] show ?thesis by simp
qed

text \<open>The same, as statements about the result of a session.\<close>

lemma session_exact:
  assumes "good K" and "acct (hist w) = Some rs"
  shows "case mod_session (register K) (unregister K) d0 cs (False, w) of (l, w') \<Rightarrow>
    acct (hist w') = Some ((if l then holds (dv w') else []) @ rs)"
  using session_account [OF assms, of cs]
  by (cases "mod_session (register K) (unregister K) d0 cs (False, w)") simp

lemma session_clean:
  assumes "good K" and "acct (hist w) = Some rs"
  shows "case mod_session (register K) (unregister K) d0 (cs @ [Rmmod]) (False, w) of (l, w') \<Rightarrow>
    \<not> l \<and> acct (hist w') = Some rs"
  using session_unloaded [OF assms, of cs]
  by (cases "mod_session (register K) (unregister K) d0 (cs @ [Rmmod]) (False, w)") simp

end

section \<open>Serving callbacks\<close>

text \<open>
  Between loading and unloading the kernel calls the functions of the tables a driver registered, in
  any order and with any arguments. A life of a module is a list of commands and callbacks;
  \<open>serve\<close> is the driver's dispatch of a callback, and a module that is not loaded is not called.
\<close>

datatype 'o life_event = Module mod_cmd | Callback 'o

fun life_step ::
    "('c, 'd, c_int) prog \<Rightarrow> ('c, 'd, 'u) prog \<Rightarrow> 'd \<Rightarrow> ('o \<Rightarrow> ('c, 'd, unit) prog)
      \<Rightarrow> 'o life_event \<Rightarrow> bool \<times> ('c, 'd) world \<Rightarrow> bool \<times> ('c, 'd) world" where
  "life_step reg unreg d0 serve (Module c) s = mod_step reg unreg d0 c s"
| "life_step reg unreg d0 serve (Callback x) (loaded, w) =
     (if loaded then (True, snd (run_state (serve x) w)) else (loaded, w))"

fun life ::
    "('c, 'd, c_int) prog \<Rightarrow> ('c, 'd, 'u) prog \<Rightarrow> 'd \<Rightarrow> ('o \<Rightarrow> ('c, 'd, unit) prog)
      \<Rightarrow> 'o life_event list \<Rightarrow> bool \<times> ('c, 'd) world \<Rightarrow> bool \<times> ('c, 'd) world" where
  "life reg unreg d0 serve [] s = s"
| "life reg unreg d0 serve (e # es) s = life reg unreg d0 serve es (life_step reg unreg d0 serve e s)"

lemma life_append:
  "life reg unreg d0 serve (xs @ ys) s = life reg unreg d0 serve ys (life reg unreg d0 serve xs s)"
  by (induction xs arbitrary: s) simp_all

text \<open>The contract of a driver that serves callbacks: none of them changes the account.\<close>

locale served_driver = module_driver acct d0 register unregister holds good
  for acct :: "('c \<times> kresp) list \<Rightarrow> 'r list option"
    and d0 :: 'd
    and register :: "'c kernel \<Rightarrow> ('c, 'd, c_int) prog"
    and unregister :: "'c kernel \<Rightarrow> ('c, 'd, 'u) prog"
    and holds :: "'d \<Rightarrow> 'r list"
    and good :: "'c kernel \<Rightarrow> bool" +
  fixes serve :: "'c kernel \<Rightarrow> 'o \<Rightarrow> ('c, 'd, unit) prog"
  assumes serve_ok:
    "acct (hist w) = Some rs \<Longrightarrow> run_state (serve K x) w = (u, w') \<Longrightarrow>
     acct (hist w') = Some rs \<and> holds (dv w') = holds (dv w)"
begin

lemma life_step_balanced:
  assumes K: "good K" and s: "balanced rs s"
  shows "balanced rs (life_step (register K) (unregister K) d0 (serve K) e s)"
proof (cases e)
  case (Module c)
  with step_balanced [OF K s] show ?thesis by simp
next
  case (Callback x)
  obtain l w where sw: "s = (l, w)" by (cases s)
  obtain u w' where run: "run_state (serve K x) w = (u, w')" by (metis surj_pair)
  from s sw serve_ok [OF _ run] Callback run show ?thesis
    by (cases l) (auto simp: balanced_def)
qed

lemma life_balanced:
  assumes "good K" and "balanced rs s"
  shows "balanced rs (life (register K) (unregister K) d0 (serve K) es s)"
  using assms(2)
  by (induction es arbitrary: s) (simp_all add: life_step_balanced [OF assms(1)])

lemma life_exact:
  assumes "good K" and "acct (hist w) = Some rs"
  shows "case life (register K) (unregister K) d0 (serve K) es (False, w) of (l, w') \<Rightarrow>
    acct (hist w') = Some ((if l then holds (dv w') else []) @ rs)"
  using life_balanced [OF assms(1), of rs "(False, w)" es] assms(2)
  by (cases "life (register K) (unregister K) d0 (serve K) es (False, w)") (simp add: balanced_def)

lemma life_clean:
  assumes "good K" and "acct (hist w) = Some rs"
  shows "case life (register K) (unregister K) d0 (serve K) (es @ [Module Rmmod]) (False, w) of
    (l, w') \<Rightarrow> \<not> l \<and> acct (hist w') = Some rs"
proof -
  obtain l1 w1 where mid: "life (register K) (unregister K) d0 (serve K) es (False, w) = (l1, w1)"
    by fastforce
  have "\<not> fst (life (register K) (unregister K) d0 (serve K) (es @ [Module Rmmod]) (False, w))"
    by (cases l1) (auto simp: mid life_append split: prod.splits)
  with life_exact [OF assms, of "es @ [Module Rmmod]"] show ?thesis by (auto split: prod.splits)
qed

end

section \<open>Tables of functions\<close>

text \<open>
  Most subsystems call a driver through a structure of function pointers that the driver filled:
  \<open>slot x d\<close> is the entry for the request \<open>x\<close> in the driver's state, and an empty entry is not called.
  When no function of the table changes the account, the driver serves every request.
\<close>

definition via_table ::
    "('o \<Rightarrow> 'd \<Rightarrow> 'h option) \<Rightarrow> ('h \<Rightarrow> 'o \<Rightarrow> ('c, 'd, unit) prog) \<Rightarrow> 'o \<Rightarrow> ('c, 'd, unit) prog" where
  "via_table slot run x = do {
     d \<leftarrow> self;
     case slot x d of None \<Rightarrow> State_Monad.return () | Some h \<Rightarrow> run h x
   }"

locale table_driver = module_driver acct d0 register unregister holds good
  for acct :: "('c \<times> kresp) list \<Rightarrow> 'r list option"
    and d0 :: 'd
    and register :: "'c kernel \<Rightarrow> ('c, 'd, c_int) prog"
    and unregister :: "'c kernel \<Rightarrow> ('c, 'd, 'u) prog"
    and holds :: "'d \<Rightarrow> 'r list"
    and good :: "'c kernel \<Rightarrow> bool" +
  fixes slot :: "'o \<Rightarrow> 'd \<Rightarrow> 'h option"
    and run :: "'c kernel \<Rightarrow> 'h \<Rightarrow> 'o \<Rightarrow> ('c, 'd, unit) prog"
  assumes run_ok:
    "acct (hist w) = Some rs \<Longrightarrow> run_state (run K h x) w = (u, w') \<Longrightarrow>
     acct (hist w') = Some rs \<and> holds (dv w') = holds (dv w)"

sublocale table_driver \<subseteq> served_driver acct d0 register unregister holds good
  "\<lambda>K. via_table slot (run K)"
proof (unfold_locales, goal_cases)
  case (1 w rs K x u w')
  then show ?case
    by (cases "slot x (dv w)") (auto simp: via_table_def dest: run_ok)
qed

end
