(* ===== verification/Template.thy ===== *)
theory Template
  imports Module_Driver
begin

text \<open>
  \<open>template/template.c\<close>, the driver every other one is copied from, and \<open>hello/hello.c\<close>. The
  template does not check what \<open>alloc_chrdev_region\<close> answers; its contract therefore
  holds only for kernels where that call succeeds, and a lemma shows what happens otherwise.
\<close>

section \<open>Hello\<close>

datatype no_call = No_call

definition hello_drv_init :: "no_call kcall kernel \<Rightarrow> (no_call kcall, 'd, c_int) prog" where
  "hello_drv_init K = do {
     printk K ''Hello, world!'' [];
     State_Monad.return 0
   }"

definition hello_drv_exit :: "no_call kcall kernel \<Rightarrow> (no_call kcall, 'd, unit) prog" where
  "hello_drv_exit K = printk K ''Goodbye.'' []"

section \<open>Register and unregister\<close>

definition template :: chrdev where
  "template = \<lparr>dev_num = 0, class_ptr = 0, dev_ptr = 0\<rparr>"

definition dummy_template_drv_register ::
    "no_call kcall kernel \<Rightarrow> (no_call kcall, 'a chrdev_scheme, c_int) prog" where
  "dummy_template_drv_register K = do {
     printk K ''dummy_template_drv_register'' [];
     r \<leftarrow> sys K (Base (Alloc_chrdev_region ''dummy-template''));
     upd (dev_num_update (\<lambda>_. ucast (r_out r)));
     c \<leftarrow> sys K (Base (Class_create ''dummy-template-class''));
     upd (class_ptr_update (\<lambda>_. r_ptr c));
     if IS_ERR (r_ptr c) then do {
       printk K ''failed to create class'' [];
       out_dev_num K;
       State_Monad.return (- ENODEV)
     } else do {
       t \<leftarrow> self;
       p \<leftarrow> sys K (Base (Device_create (class_ptr t) (dev_num t) ''dummy-template-dev''));
       upd (dev_ptr_update (\<lambda>_. r_ptr p));
       if IS_ERR (r_ptr p) then do {
         printk K ''failed to create device'' [];
         out_class K;
         State_Monad.return (- ENODEV)
       } else State_Monad.return 0
     }
   }"

definition dummy_template_drv_unregister ::
    "no_call kcall kernel \<Rightarrow> (no_call kcall, 'a chrdev_scheme, unit) prog" where
  "dummy_template_drv_unregister K = do {
     out_dev K;
     printk K ''dummy_template_drv_unregister, Goodbye.'' []
   }"

lemmas template_defs = dummy_template_drv_register_def dummy_template_drv_unregister_def

section \<open>The contract\<close>

definition alloc_succeeds :: "'c kcall kernel \<Rightarrow> bool" where
  "alloc_succeeds K \<longleftrightarrow> (\<forall>n s. r_int (K n (Base (Alloc_chrdev_region s))) = 0)"

text \<open>What the kernel documents of \<open>alloc_chrdev_region\<close>: 0 or a negative error number.\<close>

definition alloc_documented :: "'c kcall kernel \<Rightarrow> bool" where
  "alloc_documented K \<longleftrightarrow>
     (\<forall>n s. r_int (K n (Base (Alloc_chrdev_region s))) = 0 \<or>
            is_neg (r_int (K n (Base (Alloc_chrdev_region s)))))"

lemma alloc_succeeds_ret [simp]:
  "alloc_succeeds K \<Longrightarrow> r_int (K n (Base (Alloc_chrdev_region s))) = 0"
  by (simp add: alloc_succeeds_def)

lemma alloc_documented_ret [simp]:
  "alloc_documented K \<Longrightarrow> r_int (K n (Base (Alloc_chrdev_region s))) \<noteq> 0 \<Longrightarrow>
     is_neg (r_int (K n (Base (Alloc_chrdev_region s))))"
  by (auto simp: alloc_documented_def)

definition no_effect :: "no_call \<Rightarrow> kresp \<Rightarrow> 'r resource effect" where
  "no_effect c r = Neutral"

text \<open>What the drivers unfold to check the contract: the labels and what they release.\<close>

lemmas frame_simps = out_defs frame_resources_def

text \<open>The account of a driver without subsystem calls: released in stack order.\<close>

abbreviation template_acct :: "(no_call kcall \<times> kresp) list \<Rightarrow> unit resource list option" where
  "template_acct \<equiv> lifo (kcall_effect no_effect)"

interpretation template_module: module_driver
  template_acct template dummy_template_drv_register dummy_template_drv_unregister
  frame_resources alloc_succeeds
  by unfold_locales (auto simp: template_defs frame_simps split: if_splits)

end
