(* ===== verification/Static_Call.thy ===== *)
theory Static_Call
  imports Template
begin

text \<open>
  \<open>static_call/static_call.c\<close>: a template driver whose register function exercises a static
  call. The call site's target is a cell of the driver's state (\<open>static_call/README.md\<close> describes
  the mechanism: an update replaces the function every later call jumps to).
\<close>

section \<open>Targets and state\<close>

datatype sc_func = Func_a | Func_b

record dummy_static_call = chrdev +
  static_target :: sc_func
  normal_call_set :: bool

text \<open>\<open>DEFINE_STATIC_CALL(dummy_static_call, func_a)\<close> gives the initial target.\<close>

definition dummy_static_call0 :: dummy_static_call where
  "dummy_static_call0 =
     \<lparr>dev_num = 0, class_ptr = 0, dev_ptr = 0, static_target = Func_a, normal_call_set = False\<rparr>"

definition func_a :: "no_call kcall kernel \<Rightarrow> c_int \<Rightarrow> (no_call kcall, 'd, c_int) prog" where
  "func_a K x = do {
     printk K ''static_call -> func_a, x'' [sint x];
     State_Monad.return x
   }"

definition func_b :: "no_call kcall kernel \<Rightarrow> c_int \<Rightarrow> (no_call kcall, 'd, c_int) prog" where
  "func_b K x = do {
     let x = x + 10;
     printk K ''static_call -> func_b, x + 10'' [sint x];
     State_Monad.return x
   }"

definition func_c :: "no_call kcall kernel \<Rightarrow> (no_call kcall, 'd, unit) prog" where
  "func_c K = printk K ''normal_call -> func_c'' []"

fun sc_body :: "sc_func \<Rightarrow> no_call kcall kernel \<Rightarrow> c_int \<Rightarrow> (no_call kcall, 'd, c_int) prog" where
  "sc_body Func_a K x = func_a K x"
| "sc_body Func_b K x = func_b K x"

text \<open>\<open>static_call(name)(x)\<close>, \<open>static_call_update(name, f)\<close> and \<open>normal_call = func_c; normal_call()\<close>.\<close>

definition static_call ::
    "no_call kcall kernel \<Rightarrow> c_int \<Rightarrow> (no_call kcall, dummy_static_call, c_int) prog" where
  "static_call K x = do { s \<leftarrow> self; sc_body (static_target s) K x }"

definition static_call_update ::
    "sc_func \<Rightarrow> (no_call kcall, dummy_static_call, unit) prog" where
  "static_call_update f = upd (static_target_update (\<lambda>_. f))"

definition call_normal ::
    "no_call kcall kernel \<Rightarrow> (no_call kcall, dummy_static_call, unit) prog" where
  "call_normal K = do {
     upd (normal_call_set_update (\<lambda>_. True));
     func_c K
   }"

section \<open>Register and unregister\<close>

definition dummy_static_call_drv_register ::
    "no_call kcall kernel \<Rightarrow> (no_call kcall, dummy_static_call, c_int) prog" where
  "dummy_static_call_drv_register K = do {
     printk K ''dummy_static_call_drv_register'' [];
     r \<leftarrow> sys K (Base (Alloc_chrdev_region ''dummy-static_call''));
     upd (dev_num_update (\<lambda>_. ucast (r_out r)));
     c \<leftarrow> sys K (Base (Class_create ''dummy-static_call-class''));
     upd (class_ptr_update (\<lambda>_. r_ptr c));
     if IS_ERR (r_ptr c) then do {
       printk K ''failed to create class'' [];
       out_dev_num K;
       State_Monad.return (- ENODEV)
     } else do {
       t \<leftarrow> self;
       p \<leftarrow> sys K (Base (Device_create (class_ptr t) (dev_num t) ''dummy-static_call-dev''));
       upd (dev_ptr_update (\<lambda>_. r_ptr p));
       if IS_ERR (r_ptr p) then do {
         printk K ''failed to create device'' [];
         out_class K;
         State_Monad.return (- ENODEV)
       } else do {
         _ \<leftarrow> static_call K 10;
         static_call_update Func_b;
         ret \<leftarrow> static_call K 10;
         printk K ''static_call -> func_b ret'' [sint ret];
         call_normal K;
         State_Monad.return 0
       }
     }
   }"

definition dummy_static_call_drv_unregister ::
    "no_call kcall kernel \<Rightarrow> (no_call kcall, dummy_static_call, unit) prog" where
  "dummy_static_call_drv_unregister K = do {
     out_dev K;
     printk K ''dummy_static_call_drv_unregister, Goodbye.'' []
   }"

lemmas static_call_defs =
  dummy_static_call_drv_register_def dummy_static_call_drv_unregister_def static_call_def
  static_call_update_def call_normal_def func_a_def func_b_def func_c_def

interpretation static_call_module: module_driver
  template_acct dummy_static_call0 dummy_static_call_drv_register
  dummy_static_call_drv_unregister frame_resources alloc_succeeds
  by unfold_locales (auto simp: static_call_defs dummy_static_call0_def Let_def frame_simps split: if_splits)

section \<open>What the static call does\<close>

lemma func_b_after_a:
  "run_state (do { static_call_update Func_b; static_call K x }) w =
     run_state (do { static_call_update Func_b; func_b K x }) w"
  by (simp add: static_call_defs)

text \<open>Loading calls \<open>func_a(10)\<close>, then \<open>func_b(10)\<close>, which returns 20, then \<open>func_c\<close>.\<close>

lemma register_call_order:
  assumes "dv w = dummy_static_call0"
    and "run_state (dummy_static_call_drv_register K) w = (0, w')"
  shows "map fst (take 4 (hist w')) =
           [Base (Printk ''normal_call -> func_c'' []),
            Base (Printk ''static_call -> func_b ret'' [20]),
            Base (Printk ''static_call -> func_b, x + 10'' [20]),
            Base (Printk ''static_call -> func_a, x'' [10])]
         \<and> static_target (dv w') = Func_b"
  using assms
  by (auto simp: static_call_defs dummy_static_call0_def out_defs Let_def split: if_splits)

end
