(* ===== verification/Firmware.thy ===== *)
theory Firmware
  imports Template
begin

text \<open>
  \<open>firmware/fw.c\<close>: a template driver that requests a firmware file, prints it and releases it
  again while it is being loaded.
\<close>

section \<open>Calls and state\<close>

datatype fw_call =
    Request_firmware string u64
  | Print_hex_dump_fw u64
  | Release_firmware u64

record dummy_firmware = chrdev +
  fw :: u64

definition dfw :: dummy_firmware where
  "dfw = \<lparr>dev_num = 0, class_ptr = 0, dev_ptr = 0, fw = 0\<rparr>"

fun fw_effect :: "fw_call \<Rightarrow> kresp \<Rightarrow> u64 resource effect" where
  "fw_effect (Request_firmware n d) r = (if r_int r = 0 then Acquire (Owned (r_out r)) else Neutral)"
| "fw_effect (Print_hex_dump_fw p) r = Neutral"
| "fw_effect (Release_firmware p) r = Release (Owned p)"

abbreviation fw_acct :: "(fw_call kcall \<times> kresp) list \<Rightarrow> u64 resource list option" where
  "fw_acct \<equiv> lifo (kcall_effect fw_effect)"

section \<open>Register and unregister\<close>

definition dummy_firmware_drv_register ::
    "fw_call kcall kernel \<Rightarrow> (fw_call kcall, dummy_firmware, c_int) prog" where
  "dummy_firmware_drv_register K = do {
     printk K ''dummy_firmware_drv_register'' [];
     r \<leftarrow> sys K (Base (Alloc_chrdev_region ''dummy-firmware''));
     upd (dev_num_update (\<lambda>_. ucast (r_out r)));
     c \<leftarrow> sys K (Base (Class_create ''dummy-firmware-class''));
     upd (class_ptr_update (\<lambda>_. r_ptr c));
     if IS_ERR (r_ptr c) then do {
       printk K ''failed to create class'' [];
       out_dev_num K;
       State_Monad.return (- ENODEV)
     } else do {
       t \<leftarrow> self;
       p \<leftarrow> sys K (Base (Device_create (class_ptr t) (dev_num t) ''dummy-firmware-dev''));
       upd (dev_ptr_update (\<lambda>_. r_ptr p));
       if IS_ERR (r_ptr p) then do {
         printk K ''failed to create device'' [];
         out_class K;
         State_Monad.return (- ENODEV)
       } else do {
         ret \<leftarrow> sys K (Sub (Request_firmware ''dummy-firmware.bin'' (r_ptr p)));
         if r_int ret \<noteq> 0 then do {
           printk K ''request_firmware failed'' [];
           out_dev K;
           State_Monad.return (- ENODEV)
         } else do {
           upd (fw_update (\<lambda>_. r_out ret));
           _ \<leftarrow> sys K (Sub (Print_hex_dump_fw (r_out ret)));
           _ \<leftarrow> sys K (Sub (Release_firmware (r_out ret)));
           State_Monad.return 0
         }
       }
     }
   }"

definition dummy_firmware_drv_unregister ::
    "fw_call kcall kernel \<Rightarrow> (fw_call kcall, dummy_firmware, unit) prog" where
  "dummy_firmware_drv_unregister K = do {
     out_dev K;
     printk K ''dummy_firmware_drv_unregister, Goodbye.'' []
   }"

lemmas firmware_defs = dummy_firmware_drv_register_def dummy_firmware_drv_unregister_def

interpretation firmware_module: module_driver
  fw_acct dfw dummy_firmware_drv_register dummy_firmware_drv_unregister frame_resources
  alloc_succeeds
  by unfold_locales (auto simp: firmware_defs dfw_def frame_simps split: if_splits)

end
