(* ===== verification/Gpio.thy ===== *)
theory Gpio
  imports Template
begin

text \<open>
  \<open>gpio/gpio.c\<close>: a chip of 16 lines whose handlers only log. Its register function checks every
  call but the one that adds the chip.
\<close>

section \<open>Calls and state\<close>

datatype gpio_handler =
    Dummy_gpio_set | Dummy_gpio_get | Dummy_gpio_request | Dummy_gpio_free
  | Dummy_gpio_get_direction | Dummy_gpio_direction_input | Dummy_gpio_direction_output

record gpio_chip =
  label :: string
  parent :: u64
  chip_base :: c_int
  chip_ngpio :: u16
  can_sleep :: bool
  set_fn :: "gpio_handler option"
  get_fn :: "gpio_handler option"
  request_fn :: "gpio_handler option"
  free_fn :: "gpio_handler option"
  get_direction_fn :: "gpio_handler option"
  direction_input_fn :: "gpio_handler option"
  direction_output_fn :: "gpio_handler option"

datatype gpio_call =
    Dev_set_drvdata_gpio u64
  | Devm_gpiochip_add_data u64 gpio_chip

record dummy_gpio = chrdev +
  gc :: gpio_chip
  ngpio :: u16
  gpio_val_bits :: u16
  gpio_dir_bits :: u16

definition empty_chip :: gpio_chip where
  "empty_chip =
     \<lparr>label = [], parent = 0, chip_base = 0, chip_ngpio = 0, can_sleep = False, set_fn = None,
      get_fn = None, request_fn = None, free_fn = None, get_direction_fn = None,
      direction_input_fn = None, direction_output_fn = None\<rparr>"

definition dummy_gpio0 :: dummy_gpio where
  "dummy_gpio0 =
     \<lparr>dev_num = 0, class_ptr = 0, dev_ptr = 0, gc = empty_chip, ngpio = 16, gpio_val_bits = 0,
      gpio_dir_bits = 0\<rparr>"

text \<open>Value of \<open>GPIO_LINE_DIRECTION_OUT\<close> in the interface of the GPIO subsystem.\<close>

abbreviation GPIO_LINE_DIRECTION_OUT :: c_int where "GPIO_LINE_DIRECTION_OUT \<equiv> 0"

section \<open>Handlers of the chip\<close>

type_synonym 'a gpio_prog = "(gpio_call kcall, dummy_gpio, 'a) prog"

definition dummy_gpio_get :: "gpio_call kcall kernel \<Rightarrow> u32 \<Rightarrow> c_int gpio_prog" where
  "dummy_gpio_get K offset = do { printk K ''dummy_gpio_get'' []; State_Monad.return 0 }"

definition dummy_gpio_set :: "gpio_call kcall kernel \<Rightarrow> u32 \<Rightarrow> c_int \<Rightarrow> unit gpio_prog" where
  "dummy_gpio_set K offset v = printk K ''dummy_gpio_set'' []"

definition dummy_gpio_request :: "gpio_call kcall kernel \<Rightarrow> u32 \<Rightarrow> c_int gpio_prog" where
  "dummy_gpio_request K offset = do { printk K ''dummy_gpio_request'' []; State_Monad.return 0 }"

definition dummy_gpio_free :: "gpio_call kcall kernel \<Rightarrow> u32 \<Rightarrow> unit gpio_prog" where
  "dummy_gpio_free K offset = printk K ''dummy_gpio_free'' []"

definition dummy_gpio_get_direction :: "gpio_call kcall kernel \<Rightarrow> u32 \<Rightarrow> c_int gpio_prog" where
  "dummy_gpio_get_direction K offset = do {
     printk K ''dummy_gpio_get_direction'' [];
     State_Monad.return GPIO_LINE_DIRECTION_OUT
   }"

definition dummy_gpio_direction_input :: "gpio_call kcall kernel \<Rightarrow> u32 \<Rightarrow> c_int gpio_prog" where
  "dummy_gpio_direction_input K offset = do {
     printk K ''dummy_gpio_direction_input'' [];
     State_Monad.return 0
   }"

definition dummy_gpio_direction_output ::
    "gpio_call kcall kernel \<Rightarrow> u32 \<Rightarrow> c_int \<Rightarrow> c_int gpio_prog" where
  "dummy_gpio_direction_output K offset v = do {
     printk K ''dummy_gpio_direction_output'' [];
     State_Monad.return 0
   }"

section \<open>Register and unregister\<close>

definition fill_chip :: "dummy_gpio \<Rightarrow> dummy_gpio" where
  "fill_chip g = g\<lparr>gc := (gc g)\<lparr>label := ''dummy_gpio'', parent := dev_ptr g, chip_base := - 1,
     chip_ngpio := ngpio g, can_sleep := True, set_fn := Some Dummy_gpio_set,
     get_fn := Some Dummy_gpio_get, request_fn := Some Dummy_gpio_request,
     free_fn := Some Dummy_gpio_free, get_direction_fn := Some Dummy_gpio_get_direction,
     direction_input_fn := Some Dummy_gpio_direction_input,
     direction_output_fn := Some Dummy_gpio_direction_output\<rparr>\<rparr>"

text \<open>
  The answer of \<open>devm_gpiochip_add_data\<close> is dropped: the test after it reads the \<open>ret\<close> of
  \<open>alloc_chrdev_region\<close>, which is 0 there.
\<close>

definition dummy_gpio_register :: "gpio_call kcall kernel \<Rightarrow> c_int gpio_prog" where
  "dummy_gpio_register K = do {
     r \<leftarrow> sys K (Base (Alloc_chrdev_region ''dummy_gpio''));
     upd (dev_num_update (\<lambda>_. ucast (r_out r)));
     let ret = r_int r;
     if ret \<noteq> 0 then State_Monad.return ret
     else do {
       c \<leftarrow> sys K (Base (Class_create ''dummy_gpio_class''));
       upd (class_ptr_update (\<lambda>_. r_ptr c));
       if IS_ERR (r_ptr c) then do {
         printk K ''failed to create class'' [];
         out_dev_num K;
         State_Monad.return (- ENODEV)
       } else do {
         t \<leftarrow> self;
         p \<leftarrow> sys K (Base (Device_create (class_ptr t) (dev_num t) ''dummy_gpio''));
         upd (dev_ptr_update (\<lambda>_. r_ptr p));
         if IS_ERR (r_ptr p) then do {
           out_class K;
           State_Monad.return (- ENODEV)
         } else do {
           upd fill_chip;
           _ \<leftarrow> sys K (Sub (Dev_set_drvdata_gpio (r_ptr p)));
           g \<leftarrow> self;
           _ \<leftarrow> sys K (Sub (Devm_gpiochip_add_data (r_ptr p) (gc g)));
           if is_neg ret then do {
             printk K ''failed to add gpio chip'' [sint ret];
             out_dev K;
             State_Monad.return (- ENODEV)
           } else State_Monad.return 0
         }
       }
     }
   }"

definition dummy_gpio_unregister :: "gpio_call kcall kernel \<Rightarrow> c_int gpio_prog" where
  "dummy_gpio_unregister K = do { out_dev K; State_Monad.return 0 }"

lemmas gpio_handler_defs =
  dummy_gpio_get_def dummy_gpio_set_def dummy_gpio_request_def dummy_gpio_free_def
  dummy_gpio_get_direction_def dummy_gpio_direction_input_def dummy_gpio_direction_output_def

lemmas gpio_defs = dummy_gpio_register_def dummy_gpio_unregister_def fill_chip_def

section \<open>The contract\<close>

text \<open>
  Adding a chip with a device-managed call leaves nothing for the driver to release, so the
  account sees the three resources of the frame only. The contract holds for every kernel whose
  \<open>alloc_chrdev_region\<close> answers 0 or a negative number, as it documents.
\<close>

fun gpio_effect :: "gpio_call \<Rightarrow> kresp \<Rightarrow> unit resource effect" where
  "gpio_effect (Dev_set_drvdata_gpio p) r = Neutral"
| "gpio_effect (Devm_gpiochip_add_data p g) r = Neutral"

abbreviation gpio_acct :: "(gpio_call kcall \<times> kresp) list \<Rightarrow> unit resource list option" where
  "gpio_acct \<equiv> lifo (kcall_effect gpio_effect)"

interpretation gpio_module: module_driver
  gpio_acct dummy_gpio0 dummy_gpio_register dummy_gpio_unregister frame_resources alloc_documented
  by unfold_locales
    (auto simp: gpio_defs dummy_gpio0_def frame_simps Let_def split: if_splits)

text \<open>
  The GPIO core calls a handler through its slot of the chip, with a line and, for two of them, a
  value. An empty slot is not called.
\<close>

datatype gpio_slot =
    Set_slot | Get_slot | Request_slot | Free_slot
  | Get_direction_slot | Direction_input_slot | Direction_output_slot

fun slot_fn :: "gpio_slot \<Rightarrow> gpio_chip \<Rightarrow> gpio_handler option" where
  "slot_fn Set_slot c = set_fn c"
| "slot_fn Get_slot c = get_fn c"
| "slot_fn Request_slot c = request_fn c"
| "slot_fn Free_slot c = free_fn c"
| "slot_fn Get_direction_slot c = get_direction_fn c"
| "slot_fn Direction_input_slot c = direction_input_fn c"
| "slot_fn Direction_output_slot c = direction_output_fn c"

fun run_handler ::
    "gpio_call kcall kernel \<Rightarrow> gpio_handler \<Rightarrow> u32 \<Rightarrow> c_int \<Rightarrow> unit gpio_prog" where
  "run_handler K Dummy_gpio_set off v = dummy_gpio_set K off v"
| "run_handler K Dummy_gpio_get off v = do { _ \<leftarrow> dummy_gpio_get K off; State_Monad.return () }"
| "run_handler K Dummy_gpio_request off v =
     do { _ \<leftarrow> dummy_gpio_request K off; State_Monad.return () }"
| "run_handler K Dummy_gpio_free off v = dummy_gpio_free K off"
| "run_handler K Dummy_gpio_get_direction off v =
     do { _ \<leftarrow> dummy_gpio_get_direction K off; State_Monad.return () }"
| "run_handler K Dummy_gpio_direction_input off v =
     do { _ \<leftarrow> dummy_gpio_direction_input K off; State_Monad.return () }"
| "run_handler K Dummy_gpio_direction_output off v =
     do { _ \<leftarrow> dummy_gpio_direction_output K off v; State_Monad.return () }"

fun gpio_entry :: "gpio_slot \<times> u32 \<times> c_int \<Rightarrow> dummy_gpio \<Rightarrow> gpio_handler option" where
  "gpio_entry (s, off, v) d = slot_fn s (gc d)"

fun gpio_run ::
    "gpio_call kcall kernel \<Rightarrow> gpio_handler \<Rightarrow> gpio_slot \<times> u32 \<times> c_int \<Rightarrow> unit gpio_prog" where
  "gpio_run K h (s, off, v) = run_handler K h off v"

definition gpio_serve :: "gpio_call kcall kernel \<Rightarrow> gpio_slot \<times> u32 \<times> c_int \<Rightarrow> unit gpio_prog" where
  "gpio_serve K = via_table gpio_entry (gpio_run K)"

interpretation gpio_table: table_driver
  gpio_acct dummy_gpio0 dummy_gpio_register dummy_gpio_unregister frame_resources alloc_documented
  gpio_entry gpio_run
proof (unfold_locales, goal_cases)
  case (1 w rs K h x u w')
  then show ?case by (cases x; cases h) (auto simp: gpio_handler_defs)
qed

interpretation gpio_served: served_driver
  gpio_acct dummy_gpio0 dummy_gpio_register dummy_gpio_unregister frame_resources alloc_documented
  gpio_serve
  unfolding gpio_serve_def [abs_def] by unfold_locales

section \<open>What the driver does not notice\<close>

text \<open>A loaded chip has all its slots filled and 16 lines.\<close>

lemma gpio_register_chip:
  assumes "dv w = dummy_gpio0" and "run_state (dummy_gpio_register K) w = (0, w')"
  shows "gc (dv w') =
     \<lparr>label = ''dummy_gpio'', parent = dev_ptr (dv w'), chip_base = - 1, chip_ngpio = 16,
      can_sleep = True, set_fn = Some Dummy_gpio_set, get_fn = Some Dummy_gpio_get,
      request_fn = Some Dummy_gpio_request, free_fn = Some Dummy_gpio_free,
      get_direction_fn = Some Dummy_gpio_get_direction,
      direction_input_fn = Some Dummy_gpio_direction_input,
      direction_output_fn = Some Dummy_gpio_direction_output\<rparr>"
  using assms
  by (auto simp: gpio_defs dummy_gpio0_def empty_chip_def frame_simps Let_def split: if_splits)

text \<open>The value of the last call before the return, adding the chip, does not change the result.\<close>

lemma gpio_register_ignores_add:
  assumes "\<And>n c. (\<forall>p g. c \<noteq> Sub (Devm_gpiochip_add_data p g)) \<Longrightarrow> K' n c = K n c"
  shows "fst (run_state (dummy_gpio_register K') w) = fst (run_state (dummy_gpio_register K) w)"
  by (simp add: gpio_defs Let_def assms out_defs)

end
