(* ===== verification/Regulator.thy ===== *)
theory Regulator
  imports Template
begin

text \<open>
  \<open>regulator/regulator.c\<close>, one software regulator and its operations, and
  \<open>regulator/consumer.c\<close>, a device that asks for its supply. Both are template drivers whose
  last step may fail without undoing the steps before it.
\<close>

section \<open>The regulator's data\<close>

datatype dummy_regulator_id = DUMMY_REGULATOR_ID_LDO1 | DUMMY_REGULATOR_ID_LDO2

record dummy_regulator = chrdev +
  enabled :: bool
  voltage :: c_int
  mode :: u32
  num_regulators :: c_int

definition regulator0 :: dummy_regulator where
  "regulator0 = \<lparr>dev_num = 0, class_ptr = 0, dev_ptr = 0, enabled = False, voltage = 0, mode = 0,
     num_regulators = 0\<rparr>"

definition dummy_regulator_ldo_vtbl :: "u32 list" where
  "dummy_regulator_ldo_vtbl = [
     1200000, 1250000, 1300000, 1350000, 1400000, 1450000, 1500000, 1550000,
     1600000, 1650000, 1700000, 1750000, 1800000, 1850000, 1900000, 2000000,
     2100000, 2200000, 2300000, 2400000, 2500000, 2600000, 2650000, 2700000,
     2750000, 2800000, 2850000, 2900000, 2950000, 3000000, 3100000, 3300000]"

text \<open>
  The table of operations; the entry for \<open>list_voltage\<close> is commented out in the source, and there is
  none that disables.
\<close>

datatype reg_handler =
    Dummy_regulator_enable | Dummy_regulator_is_enabled
  | Dummy_regulator_set_voltage | Dummy_regulator_get_voltage

record regulator_ops =
  enable_fn :: "reg_handler option"
  is_enabled_fn :: "reg_handler option"
  set_voltage_fn :: "reg_handler option"
  get_voltage_fn :: "reg_handler option"

definition dummy_regulator_ldo_ops :: regulator_ops where
  "dummy_regulator_ldo_ops =
     \<lparr>enable_fn = Some Dummy_regulator_enable, is_enabled_fn = Some Dummy_regulator_is_enabled,
      set_voltage_fn = Some Dummy_regulator_set_voltage,
      get_voltage_fn = Some Dummy_regulator_get_voltage\<rparr>"

datatype regulator_type = REGULATOR_VOLTAGE | REGULATOR_CURRENT

record regulator_desc =
  desc_name :: string
  desc_ops :: regulator_ops
  desc_type :: regulator_type
  desc_id :: dummy_regulator_id
  n_voltages :: u32
  volt_table :: "u32 list"
  vsel_reg :: u32
  vsel_mask :: u32
  enable_reg :: u32
  enable_mask :: u32

text \<open>The masks and registers are the macros at the top of the file.\<close>

definition dummy_regulator_desc :: regulator_desc where
  "dummy_regulator_desc =
     \<lparr>desc_name = ''dummy-ldo1'', desc_ops = dummy_regulator_ldo_ops,
      desc_type = REGULATOR_VOLTAGE, desc_id = DUMMY_REGULATOR_ID_LDO1,
      n_voltages = of_nat (length dummy_regulator_ldo_vtbl), volt_table = dummy_regulator_ldo_vtbl,
      vsel_reg = 0x01, vsel_mask = 0x1F, enable_reg = 0x08, enable_mask = push_bit 0 1\<rparr>"

record regulator_constraints =
  constraint_min_uV :: c_int
  constraint_max_uV :: c_int
  consumer_supplies :: "(string \<times> string) list"

definition dummy_regulator_init_data :: regulator_constraints where
  "dummy_regulator_init_data =
     \<lparr>constraint_min_uV = 1200000, constraint_max_uV = 3300000, consumer_supplies = [(''dummy-dev'', ''vdd'')]\<rparr>"

text \<open>
  The configuration handed to the kernel is a local variable of which the driver sets three fields;
  the others are those of the interface that the kernel reads too. \<open>This_regulator\<close> is the address
  of the driver's structure.
\<close>

datatype data_ptr = This_regulator | Data_at u64

record regulator_config =
  cfg_dev :: u64
  cfg_init_data :: regulator_constraints
  cfg_driver_data :: data_ptr
  cfg_of_node :: u64
  cfg_regmap :: u64
  cfg_ena_gpiod :: u64

section \<open>Operations of the regulator\<close>

datatype reg_call =
    Devm_regulator_register u64 regulator_desc regulator_config
  | Devm_regulator_get u64 string

type_synonym 'a reg_prog = "(reg_call kcall, dummy_regulator, 'a) prog"

definition dummy_regulator_enable :: "reg_call kcall kernel \<Rightarrow> c_int reg_prog" where
  "dummy_regulator_enable K = do {
     upd (enabled_update (\<lambda>_. True));
     printk K ''enable'' [];
     State_Monad.return 0
   }"

definition dummy_regulator_is_enabled :: "c_int reg_prog" where
  "dummy_regulator_is_enabled = do {
     t \<leftarrow> self;
     State_Monad.return (if enabled t then 1 else 0)
   }"

definition dummy_regulator_set_voltage ::
    "reg_call kcall kernel \<Rightarrow> c_int \<Rightarrow> c_int \<Rightarrow> c_int reg_prog" where
  "dummy_regulator_set_voltage K min_uV max_uV = do {
     upd (voltage_update (\<lambda>_. min_uV));
     printk K ''set voltage'' [sint min_uV];
     State_Monad.return 0
   }"

definition dummy_regulator_get_voltage :: "c_int reg_prog" where
  "dummy_regulator_get_voltage = do { t \<leftarrow> self; State_Monad.return (voltage t) }"

lemmas regulator_op_defs =
  dummy_regulator_enable_def dummy_regulator_is_enabled_def dummy_regulator_set_voltage_def
  dummy_regulator_get_voltage_def

section \<open>Register and unregister\<close>

definition dummy_regulator_hw_enable :: "reg_call kcall kernel \<Rightarrow> c_int reg_prog" where
  "dummy_regulator_hw_enable K = do {
     printk K ''dummy_regulator_hw_enable'' [];
     State_Monad.return 0
   }"

text \<open>\<open>cfg0\<close> is what the stack holds where \<open>cfg\<close> lies: the variable is not initialised.\<close>

definition dummy_regulator_register ::
    "regulator_config \<Rightarrow> reg_call kcall kernel \<Rightarrow> c_int reg_prog" where
  "dummy_regulator_register cfg0 K = do {
     t \<leftarrow> self;
     let cfg = cfg0\<lparr>cfg_dev := dev_ptr t, cfg_init_data := dummy_regulator_init_data,
                    cfg_driver_data := This_regulator\<rparr>;
     rdev \<leftarrow> sys K (Sub (Devm_regulator_register (dev_ptr t) dummy_regulator_desc cfg));
     if IS_ERR (r_ptr rdev) then do {
       printk K ''regulator register err'' [];
       State_Monad.return (PTR_ERR (r_ptr rdev))
     } else State_Monad.return 0
   }"

definition dummy_regulator_drv_register ::
    "regulator_config \<Rightarrow> reg_call kcall kernel \<Rightarrow> c_int reg_prog" where
  "dummy_regulator_drv_register cfg0 K = do {
     printk K ''dummy_regulator_drv_register'' [];
     r \<leftarrow> sys K (Base (Alloc_chrdev_region ''dummy-regulator''));
     upd (dev_num_update (\<lambda>_. ucast (r_out r)));
     c \<leftarrow> sys K (Base (Class_create ''dummy-regulator-class''));
     upd (class_ptr_update (\<lambda>_. r_ptr c));
     if IS_ERR (r_ptr c) then do {
       printk K ''failed to create class'' [];
       out_dev_num K;
       State_Monad.return (- ENODEV)
     } else do {
       t \<leftarrow> self;
       p \<leftarrow> sys K (Base (Device_create (class_ptr t) (dev_num t) ''dummy-regulator-dev''));
       upd (dev_ptr_update (\<lambda>_. r_ptr p));
       if IS_ERR (r_ptr p) then do {
         printk K ''failed to create device'' [];
         out_class K;
         State_Monad.return (- ENODEV)
       } else do {
         upd (num_regulators_update (\<lambda>_. 4));
         _ \<leftarrow> dummy_regulator_hw_enable K;
         dummy_regulator_register cfg0 K
       }
     }
   }"

definition dummy_regulator_drv_unregister :: "reg_call kcall kernel \<Rightarrow> unit reg_prog" where
  "dummy_regulator_drv_unregister K = do {
     out_dev K;
     printk K ''dummy_regulator_drv_unregister, Goodbye.'' []
   }"

section \<open>The consumer\<close>

record dummy_consumer = chrdev +
  vdd :: u64

definition consumer0 :: dummy_consumer where
  "consumer0 = \<lparr>dev_num = 0, class_ptr = 0, dev_ptr = 0, vdd = 0\<rparr>"

text \<open>\<open>dev_err_probe\<close> logs and returns the error it is given.\<close>

definition dummy_consumer_drv_register ::
    "reg_call kcall kernel \<Rightarrow> (reg_call kcall, dummy_consumer, c_int) prog" where
  "dummy_consumer_drv_register K = do {
     printk K ''dummy_consumer_drv_register'' [];
     r \<leftarrow> sys K (Base (Alloc_chrdev_region ''dummy-consumer''));
     upd (dev_num_update (\<lambda>_. ucast (r_out r)));
     c \<leftarrow> sys K (Base (Class_create ''dummy-consumer-class''));
     upd (class_ptr_update (\<lambda>_. r_ptr c));
     if IS_ERR (r_ptr c) then do {
       printk K ''failed to create class'' [];
       out_dev_num K;
       State_Monad.return (- ENODEV)
     } else do {
       t \<leftarrow> self;
       p \<leftarrow> sys K (Base (Device_create (class_ptr t) (dev_num t) ''dummy-consumer-dev''));
       upd (dev_ptr_update (\<lambda>_. r_ptr p));
       if IS_ERR (r_ptr p) then do {
         printk K ''failed to create device'' [];
         out_class K;
         State_Monad.return (- ENODEV)
       } else do {
         printk K ''dummy-consumer-dev'' [];
         v \<leftarrow> sys K (Sub (Devm_regulator_get (r_ptr p) ''vdd''));
         upd (vdd_update (\<lambda>_. r_ptr v));
         if IS_ERR (r_ptr v) then do {
           printk K ''failed to get regulator'' [sint (PTR_ERR (r_ptr v))];
           State_Monad.return (PTR_ERR (r_ptr v))
         } else State_Monad.return 0
       }
     }
   }"

definition dummy_consumer_drv_unregister ::
    "reg_call kcall kernel \<Rightarrow> (reg_call kcall, dummy_consumer, unit) prog" where
  "dummy_consumer_drv_unregister K = do {
     out_dev K;
     printk K ''dummy_consumer_drv_unregister, Goodbye.'' []
   }"

lemmas regulator_defs =
  dummy_regulator_drv_register_def dummy_regulator_drv_unregister_def
  dummy_regulator_hw_enable_def dummy_regulator_register_def

lemmas consumer_defs = dummy_consumer_drv_register_def dummy_consumer_drv_unregister_def

section \<open>The contract\<close>

text \<open>Device-managed subsystem calls leave nothing for the driver to release.\<close>

fun reg_effect :: "reg_call \<Rightarrow> kresp \<Rightarrow> unit resource effect" where
  "reg_effect (Devm_regulator_register d s i) r = Neutral"
| "reg_effect (Devm_regulator_get d n) r = Neutral"

abbreviation reg_acct :: "(reg_call kcall \<times> kresp) list \<Rightarrow> unit resource list option" where
  "reg_acct \<equiv> lifo (kcall_effect reg_effect)"

text \<open>The kernels for which the contract holds: the last step of loading does not fail.\<close>

definition regulator_registers :: "reg_call kcall kernel \<Rightarrow> bool" where
  "regulator_registers K \<longleftrightarrow> alloc_succeeds K \<and>
     (\<forall>n d s i. \<not> IS_ERR (r_ptr (K n (Sub (Devm_regulator_register d s i)))))"

definition supply_found :: "reg_call kcall kernel \<Rightarrow> bool" where
  "supply_found K \<longleftrightarrow> alloc_succeeds K \<and>
     (\<forall>n d s. \<not> IS_ERR (r_ptr (K n (Sub (Devm_regulator_get d s)))))"

interpretation regulator_module: module_driver
  reg_acct regulator0 "dummy_regulator_drv_register cfg0" dummy_regulator_drv_unregister
  frame_resources regulator_registers
  for cfg0
  by unfold_locales
    (auto simp: regulator_defs regulator0_def regulator_registers_def frame_simps Let_def
      split: if_splits)

interpretation consumer_module: module_driver
  reg_acct consumer0 dummy_consumer_drv_register dummy_consumer_drv_unregister
  frame_resources supply_found
  by unfold_locales
    (auto simp: consumer_defs consumer0_def supply_found_def frame_simps split: if_splits)

section \<open>When the last step fails\<close>

text \<open>
  Both drivers return the error of their last step without going through the labels: the module
  is not loaded, and the device, the class and the device number stay held.
\<close>

lemma regulator_register_leak:
  assumes "alloc_succeeds K" and "reg_acct (hist w) = Some rs"
    and "\<And>n s. \<not> IS_ERR (r_ptr (K n (Base (Class_create s))))"
    and "\<And>n c d s. \<not> IS_ERR (r_ptr (K n (Base (Device_create c d s))))"
    and "\<And>n d s i. IS_ERR (r_ptr (K n (Sub (Devm_regulator_register d s i))))"
    and "run_state (dummy_regulator_drv_register cfg0 K) w = (r, w')"
  shows "is_neg r \<and> reg_acct (hist w') = Some (frame_resources (dv w') @ rs)"
  using assms by (auto simp: regulator_defs frame_simps is_neg_PTR_ERR Let_def)

text \<open>What the kernel reads of the fields the driver does not set is what the stack held.\<close>

lemma regulator_config_garbage:
  assumes "run_state (dummy_regulator_register cfg0 K) w = (0, w')"
  shows "\<exists>cfg. fst (hd (hist w')) = Sub (Devm_regulator_register (dev_ptr (dv w)) dummy_regulator_desc cfg) \<and>
    cfg_of_node cfg = cfg_of_node cfg0 \<and> cfg_regmap cfg = cfg_regmap cfg0 \<and>
    cfg_ena_gpiod cfg = cfg_ena_gpiod cfg0"
proof -
  from assms have "\<not> IS_ERR (r_ptr (K (length (hist w)) (Sub (Devm_regulator_register (dev_ptr (dv w))
      dummy_regulator_desc (cfg0\<lparr>cfg_dev := dev_ptr (dv w), cfg_init_data := dummy_regulator_init_data,
        cfg_driver_data := This_regulator\<rparr>)))))"
    by (auto simp: dummy_regulator_register_def Let_def dest: is_neg_PTR_ERR split: if_splits)
  with assms show ?thesis
    by (auto simp: dummy_regulator_register_def Let_def)
qed

lemma consumer_register_leak:
  assumes "alloc_succeeds K" and "reg_acct (hist w) = Some rs"
    and "\<And>n s. \<not> IS_ERR (r_ptr (K n (Base (Class_create s))))"
    and "\<And>n c d s. \<not> IS_ERR (r_ptr (K n (Base (Device_create c d s))))"
    and "\<And>n d s. IS_ERR (r_ptr (K n (Sub (Devm_regulator_get d s))))"
    and "run_state (dummy_consumer_drv_register K) w = (r, w')"
  shows "is_neg r \<and> reg_acct (hist w') = Some (frame_resources (dv w') @ rs)"
  using assms by (auto simp: consumer_defs frame_simps is_neg_PTR_ERR)

section \<open>Functional behaviour of the operations\<close>

text \<open>
  The operations behind the table. Setting a voltage stores the lower bound of the request;
  what is read back is the last value set, whatever was set before and however often the regulator
  was enabled.
\<close>

datatype reg_op = Enable | Is_enabled | Set_voltage c_int c_int | Get_voltage

fun reg_op_prog :: "reg_call kcall kernel \<Rightarrow> reg_op \<Rightarrow> c_int reg_prog" where
  "reg_op_prog K Enable = dummy_regulator_enable K"
| "reg_op_prog K Is_enabled = dummy_regulator_is_enabled"
| "reg_op_prog K (Set_voltage lo hi) = dummy_regulator_set_voltage K lo hi"
| "reg_op_prog K Get_voltage = dummy_regulator_get_voltage"

text \<open>A sequence of operations, with the answers in their order.\<close>

fun reg_run :: "reg_call kcall kernel \<Rightarrow> reg_op list \<Rightarrow> c_int list reg_prog" where
  "reg_run K [] = State_Monad.return []"
| "reg_run K (x # xs) = do {
     r \<leftarrow> reg_op_prog K x;
     rs \<leftarrow> reg_run K xs;
     State_Monad.return (r # rs)
   }"

text \<open>The abstract device: the switch and the last voltage set.\<close>

fun abs_op :: "reg_op \<Rightarrow> bool \<times> c_int \<Rightarrow> c_int \<times> bool \<times> c_int" where
  "abs_op Enable (e, v) = (0, True, v)"
| "abs_op Is_enabled (e, v) = (if e then 1 else 0, e, v)"
| "abs_op (Set_voltage lo hi) (e, v) = (0, e, lo)"
| "abs_op Get_voltage (e, v) = (v, e, v)"

fun abs_run :: "reg_op list \<Rightarrow> bool \<times> c_int \<Rightarrow> c_int list \<times> bool \<times> c_int" where
  "abs_run [] s = ([], s)"
| "abs_run (x # xs) s =
     (let (r, s') = abs_op x s; (rs, s'') = abs_run xs s' in (r # rs, s''))"

definition reg_abs :: "dummy_regulator \<Rightarrow> bool \<times> c_int" where
  "reg_abs d = (enabled d, voltage d)"

lemma reg_op_refines:
  "run_state (reg_op_prog K x) w = (r, w') \<Longrightarrow> (r, reg_abs (dv w')) = abs_op x (reg_abs (dv w))"
  by (cases x) (auto simp: regulator_op_defs reg_abs_def)

lemma reg_run_refines:
  "run_state (reg_run K xs) w = (rs, w') \<Longrightarrow> (rs, reg_abs (dv w')) = abs_run xs (reg_abs (dv w))"
proof (induction xs arbitrary: w w' rs)
  case Nil
  then show ?case by simp
next
  case (Cons x xs)
  obtain r w1 where x: "run_state (reg_op_prog K x) w = (r, w1)" by fastforce
  obtain rs' w2 where xs: "run_state (reg_run K xs) w1 = (rs', w2)" by fastforce
  with Cons.prems x have "rs = r # rs'" "w' = w2" by simp_all
  with Cons.IH [OF xs, symmetric] reg_op_refines [OF x, symmetric] show ?case by simp
qed

text \<open>There is no operation that switches the regulator off: once enabled, it stays enabled.\<close>

lemma abs_run_append:
  "snd (abs_run (xs @ ys) s) = snd (abs_run ys (snd (abs_run xs s)))"
  by (induction xs arbitrary: s) (simp_all add: split_beta Let_def)

lemma enabled_stays: "fst s \<Longrightarrow> fst (snd (abs_run xs s))"
proof (induction xs arbitrary: s)
  case Nil
  then show ?case by simp
next
  case (Cons x xs)
  obtain r e v where "abs_op x s = (r, e, v)" by (cases "abs_op x s")
  moreover from this Cons.prems have "e" by (cases x; cases s) auto
  ultimately show ?case using Cons.IH [of "(e, v)"] by (simp add: split_beta Let_def)
qed

lemma enable_enables: "Enable \<in> set xs \<Longrightarrow> fst (snd (abs_run xs s))"
proof -
  assume "Enable \<in> set xs"
  then obtain ys zs where xs: "xs = ys @ Enable # zs" by (meson split_list)
  obtain e v where "snd (abs_run ys s) = (e, v)" by (cases "snd (abs_run ys s)")
  with xs enabled_stays [of "(True, v)" zs] show ?thesis
    by (simp add: abs_run_append split_beta Let_def)
qed

text \<open>
  A regulator that is loaded serves these operations through the table of its description; an empty
  entry is not called.
\<close>

fun reg_slot :: "reg_op \<Rightarrow> dummy_regulator \<Rightarrow> reg_handler option" where
  "reg_slot Enable d = enable_fn (desc_ops dummy_regulator_desc)"
| "reg_slot Is_enabled d = is_enabled_fn (desc_ops dummy_regulator_desc)"
| "reg_slot (Set_voltage lo hi) d = set_voltage_fn (desc_ops dummy_regulator_desc)"
| "reg_slot Get_voltage d = get_voltage_fn (desc_ops dummy_regulator_desc)"

fun request_range :: "reg_op \<Rightarrow> c_int \<times> c_int" where
  "request_range (Set_voltage lo hi) = (lo, hi)"
| "request_range _ = (0, 0)"

fun run_reg_handler :: "reg_call kcall kernel \<Rightarrow> reg_handler \<Rightarrow> reg_op \<Rightarrow> unit reg_prog" where
  "run_reg_handler K Dummy_regulator_enable x =
     do { _ \<leftarrow> dummy_regulator_enable K; State_Monad.return () }"
| "run_reg_handler K Dummy_regulator_is_enabled x =
     do { _ \<leftarrow> dummy_regulator_is_enabled; State_Monad.return () }"
| "run_reg_handler K Dummy_regulator_set_voltage x =
     do { _ \<leftarrow> case_prod (dummy_regulator_set_voltage K) (request_range x); State_Monad.return () }"
| "run_reg_handler K Dummy_regulator_get_voltage x =
     do { _ \<leftarrow> dummy_regulator_get_voltage; State_Monad.return () }"

definition reg_serve :: "reg_call kcall kernel \<Rightarrow> reg_op \<Rightarrow> unit reg_prog" where
  "reg_serve K = via_table reg_slot (run_reg_handler K)"

text \<open>Every entry of the table leads to its operation.\<close>

lemma reg_serve_op:
  "run_state (reg_serve K x) w = run_state (do { _ \<leftarrow> reg_op_prog K x; State_Monad.return () }) w"
  by (cases x)
    (simp_all add: reg_serve_def via_table_def dummy_regulator_desc_def dummy_regulator_ldo_ops_def)

interpretation regulator_table: table_driver
  reg_acct regulator0 "dummy_regulator_drv_register cfg0" dummy_regulator_drv_unregister
  frame_resources regulator_registers reg_slot run_reg_handler
  for cfg0
proof (unfold_locales, goal_cases)
  case (1 w rs K h x u w')
  then show ?case
    by (cases h; cases "request_range x") (auto simp: regulator_op_defs frame_resources_def)
qed

interpretation regulator_served: served_driver
  reg_acct regulator0 "dummy_regulator_drv_register cfg0" dummy_regulator_drv_unregister
  frame_resources regulator_registers reg_serve
  for cfg0
  unfolding reg_serve_def [abs_def] by unfold_locales

section \<open>The voltage table\<close>

text \<open>
  The table fills the selector field (32 entries, mask \<open>0x1f\<close>), is strictly increasing and spans
  exactly the constraints. The operations do not consult it.
\<close>

lemma vtbl_length: "length dummy_regulator_ldo_vtbl = unat (vsel_mask dummy_regulator_desc) + 1"
  by (simp add: dummy_regulator_ldo_vtbl_def dummy_regulator_desc_def)

lemma vtbl_sorted: "sorted_wrt (<) dummy_regulator_ldo_vtbl"
  by (simp add: dummy_regulator_ldo_vtbl_def)

lemma vtbl_range:
  "hd dummy_regulator_ldo_vtbl = constraint_min_uV dummy_regulator_init_data
   \<and> last dummy_regulator_ldo_vtbl = constraint_max_uV dummy_regulator_init_data"
  by (simp add: dummy_regulator_ldo_vtbl_def dummy_regulator_init_data_def)

end
