(* ===== verification/Spi.thy ===== *)
theory Spi
  imports Template
begin

text \<open>
  \<open>spi/spi.c\<close>: a dummy SPI host. Loading it goes through nine calls that may fail; the variable
  \<open>ret\<close> that the labels return is only set by two of them, so several failures are reported as
  success.
\<close>

section \<open>Calls and state\<close>

text \<open>The fields of the host that the driver fills in, two of them functions.\<close>

datatype spi_handler = Dummy_spi_prepare_message | Dummy_spi_transfer_one

record spi_host =
  bus_num :: c_int
  mode_bits :: u32
  bits_per_word_mask :: u32
  max_speed_hz :: u32
  min_speed_hz :: u32
  num_chipselect :: u16
  prepare_message :: "spi_handler option"
  transfer_one :: "spi_handler option"
  auto_runtime_pm :: bool

record spi_board_info =
  modalias :: string
  board_max_speed_hz :: u32
  chip_select :: u16
  board_mode :: u32

datatype spi_call =
    Devm_spi_alloc_host u64 nat
  | Device_set_node u64
  | Dev_set_drvdata_spi u64 u64
  | Spi_controller_get_devdata u64
  | Devm_kmalloc u64 nat
  | Devm_spi_register_controller u64 u64 spi_host
  | Spi_new_device u64 spi_board_info
  | Print_hex_dump_spi "u8 list"

record dummy_spi = chrdev +
  host :: u64
  host_conf :: spi_host
  buf :: u64
  bpw :: u8
  speed :: u32
  spi_mode :: u16
  cs :: u8

definition dummy_spi0 :: dummy_spi where
  "dummy_spi0 =
     \<lparr>dev_num = 0, class_ptr = 0, dev_ptr = 0, host = 0,
      host_conf = \<lparr>bus_num = 0, mode_bits = 0, bits_per_word_mask = 0, max_speed_hz = 0,
        min_speed_hz = 0, num_chipselect = 0, prepare_message = None, transfer_one = None,
        auto_runtime_pm = False\<rparr>,
      buf = 0, bpw = 0, speed = 0, spi_mode = 0, cs = 0\<rparr>"

definition DUMMY_SPI_MAX_XFER_SIZE :: nat where "DUMMY_SPI_MAX_XFER_SIZE = 256"
definition DUMMY_SPI_BUF_SIZE :: nat where "DUMMY_SPI_BUF_SIZE = DUMMY_SPI_MAX_XFER_SIZE + 16"

text \<open>
  \<open>SPI_CPHA\<close>, \<open>SPI_CPOL\<close>, \<open>SPI_MODE_0\<close> and \<open>SPI_BPW_MASK\<close> are those of the SPI interface;
  the size of the structure is a parameter of the register function (it depends on the platform).
\<close>

abbreviation SPI_CPHA :: u32 where "SPI_CPHA \<equiv> 1"
abbreviation SPI_CPOL :: u32 where "SPI_CPOL \<equiv> 2"
abbreviation SPI_MODE_0 :: u32 where "SPI_MODE_0 \<equiv> 0"

definition SPI_BPW_MASK :: "nat \<Rightarrow> u32" where
  "SPI_BPW_MASK bits = push_bit (bits - 1) 1"

type_synonym 'a spi_prog = "(spi_call kcall, dummy_spi, 'a) prog"

section \<open>Hardware stubs and transfer handlers\<close>

definition dummy_spi_read :: "u32 \<Rightarrow> u32" where
  "dummy_spi_read reg = 0"

definition dummy_spi_write :: "u32 \<Rightarrow> u32 \<Rightarrow> unit spi_prog" where
  "dummy_spi_write reg v = State_Monad.return ()"

definition dummy_spi_soft_reset :: "unit spi_prog" where
  "dummy_spi_soft_reset = State_Monad.return ()"

definition dummy_spi_set_bus_freq :: "spi_call kcall kernel \<Rightarrow> u32 \<Rightarrow> unit spi_prog" where
  "dummy_spi_set_bus_freq K bus_freq = printk K ''given freq not supported!'' []"

definition dummy_spi_hw_init :: "spi_call kcall kernel \<Rightarrow> unit spi_prog" where
  "dummy_spi_hw_init K = do {
     printk K ''dummy_spi_hw_init'' [];
     dummy_spi_soft_reset;
     dummy_spi_set_bus_freq K 1000000
   }"

definition dummy_spi_prepare_message :: "spi_call kcall kernel \<Rightarrow> c_int spi_prog" where
  "dummy_spi_prepare_message K = do {
     printk K ''dummy_spi_prepare_message'' [];
     State_Monad.return 0
   }"

text \<open>A transfer is its \<open>tx_buf\<close>, of \<open>len\<close> bytes; it is printed and nothing is received.\<close>

definition dummy_spi_transfer_one :: "spi_call kcall kernel \<Rightarrow> u8 list \<Rightarrow> c_int spi_prog" where
  "dummy_spi_transfer_one K tx_buf = do {
     printk K ''dummy_spi_transfer_one'' [];
     _ \<leftarrow> sys K (Sub (Print_hex_dump_spi tx_buf));
     State_Monad.return 0
   }"

section \<open>Register and unregister\<close>

definition spi_info :: spi_board_info where
  "spi_info = \<lparr>modalias = ''spidev'', board_max_speed_hz = 10000000, chip_select = 0,
     board_mode = SPI_MODE_0\<rparr>"

definition fill_host :: "dummy_spi \<Rightarrow> dummy_spi" where
  "fill_host s = s\<lparr>host_conf := (host_conf s)\<lparr>bus_num := - 1, mode_bits := SPI_CPOL OR SPI_CPHA,
     bits_per_word_mask := SPI_BPW_MASK 8, max_speed_hz := 10000000, min_speed_hz := 1000,
     num_chipselect := 1, prepare_message := Some Dummy_spi_prepare_message,
     transfer_one := Some Dummy_spi_transfer_one, auto_runtime_pm := False\<rparr>\<rparr>"

text \<open>The part of the function after the host has been allocated.\<close>

definition dummy_spi_setup_host ::
    "spi_call kcall kernel \<Rightarrow> c_int \<Rightarrow> u64 \<Rightarrow> u64 \<Rightarrow> c_int spi_prog" where
  "dummy_spi_setup_host K ret dev h = do {
     _ \<leftarrow> sys K (Sub (Device_set_node h));
     _ \<leftarrow> sys K (Sub (Dev_set_drvdata_spi dev h));
     _ \<leftarrow> sys K (Sub (Spi_controller_get_devdata h));
     b \<leftarrow> sys K (Sub (Devm_kmalloc dev DUMMY_SPI_BUF_SIZE));
     upd (buf_update (\<lambda>_. r_ptr b));
     if r_ptr b = 0 then State_Monad.return (- ENOMEM)
     else do {
       upd (host_update (\<lambda>_. h));
       upd (cs_update (\<lambda>_. 0xff));
       upd (spi_mode_update (\<lambda>_. 0xff));
       dummy_spi_hw_init K;
       upd fill_host;
       s \<leftarrow> self;
       reg \<leftarrow> sys K (Sub (Devm_spi_register_controller dev h (host_conf s)));
       let ret = r_int reg;
       if is_neg ret then do {
         printk K ''Failed to register host'' [];
         out_dev K;
         State_Monad.return ret
       } else do {
         printk K ''new host - ready'' [sint (bus_num (host_conf s))];
         sd \<leftarrow> sys K (Sub (Spi_new_device h spi_info));
         if r_ptr sd = 0 then do {
           printk K ''Failed to create spidev!'' [];
           out_dev K;
           State_Monad.return ret
         } else do {
           printk K ''spidev created!'' [];
           State_Monad.return 0
         }
       }
     }
   }"

definition dummy_spi_register ::
    "nat \<Rightarrow> spi_call kcall kernel \<Rightarrow> c_int spi_prog" where
  "dummy_spi_register spi_size K = do {
     r \<leftarrow> sys K (Base (Alloc_chrdev_region ''dummy_spi''));
     upd (dev_num_update (\<lambda>_. ucast (r_out r)));
     let ret = r_int r;
     if ret \<noteq> 0 then do {
       printk K ''failed to allocate device number'' [];
       State_Monad.return ret
     } else do {
       c \<leftarrow> sys K (Base (Class_create ''dummy_spi_class''));
       upd (class_ptr_update (\<lambda>_. r_ptr c));
       if IS_ERR (r_ptr c) then do {
         printk K ''failed to create class'' [];
         out_dev_num K;
         State_Monad.return ret
       } else do {
         t \<leftarrow> self;
         p \<leftarrow> sys K (Base (Device_create (class_ptr t) (dev_num t) ''dummy_spi''));
         upd (dev_ptr_update (\<lambda>_. r_ptr p));
         if IS_ERR (r_ptr p) then do {
           printk K ''failed to create device'' [];
           out_class K;
           State_Monad.return ret
         } else do {
           h \<leftarrow> sys K (Sub (Devm_spi_alloc_host (r_ptr p) spi_size));
           if r_ptr h = 0 then do {
             out_dev K;
             State_Monad.return ret
           } else dummy_spi_setup_host K ret (r_ptr p) (r_ptr h)
         }
       }
     }
   }"

definition dummy_spi_unregister :: "spi_call kcall kernel \<Rightarrow> c_int spi_prog" where
  "dummy_spi_unregister K = do { out_dev K; State_Monad.return 0 }"

lemmas spi_defs =
  dummy_spi_register_def dummy_spi_setup_host_def dummy_spi_unregister_def
  dummy_spi_hw_init_def dummy_spi_soft_reset_def dummy_spi_set_bus_freq_def fill_host_def

section \<open>The contract, where it holds\<close>

text \<open>
  Device-managed allocations and registrations, and the child device of the host, leave nothing
  for the driver to release.
\<close>

definition spi_effect :: "spi_call \<Rightarrow> kresp \<Rightarrow> unit resource effect" where
  "spi_effect c r = Neutral"

abbreviation spi_acct :: "(spi_call kcall \<times> kresp) list \<Rightarrow> unit resource list option" where
  "spi_acct \<equiv> lifo (kcall_effect spi_effect)"

text \<open>The steps whose failure the driver reports wrongly or does not undo.\<close>

definition spi_steps_succeed :: "spi_call kcall kernel \<Rightarrow> bool" where
  "spi_steps_succeed K \<longleftrightarrow> alloc_documented K \<and>
     (\<forall>n s. \<not> IS_ERR (r_ptr (K n (Base (Class_create s))))) \<and>
     (\<forall>n c d s. \<not> IS_ERR (r_ptr (K n (Base (Device_create c d s))))) \<and>
     (\<forall>n d s. r_ptr (K n (Sub (Devm_spi_alloc_host d s))) \<noteq> 0) \<and>
     (\<forall>n d s. r_ptr (K n (Sub (Devm_kmalloc d s))) \<noteq> 0) \<and>
     (\<forall>n h i. r_ptr (K n (Sub (Spi_new_device h i))) \<noteq> 0)"

lemma spi_steps_ret [simp]:
  assumes "spi_steps_succeed K"
  shows "alloc_documented K"
    and "\<not> IS_ERR (r_ptr (K n (Base (Class_create s))))"
    and "\<not> IS_ERR (r_ptr (K n (Base (Device_create c d s))))"
    and "r_ptr (K n (Sub (Devm_spi_alloc_host p m))) \<noteq> 0"
    and "r_ptr (K n (Sub (Devm_kmalloc p m))) \<noteq> 0"
    and "r_ptr (K n (Sub (Spi_new_device h i))) \<noteq> 0"
  using assms by (auto simp: spi_steps_succeed_def)

text \<open>
  The proof runs the program first, with its tests unsplit, and reads the account of each
  outcome afterwards.
\<close>

interpretation spi_module: module_driver
  spi_acct dummy_spi0 "dummy_spi_register spi_size" dummy_spi_unregister
  frame_resources spi_steps_succeed
  for spi_size
  by (unfold_locales;
      simp add: spi_defs Let_def out_defs cong: if_cong split del: if_split;
      auto simp: dummy_spi0_def spi_effect_def frame_resources_def split: if_splits)

text \<open>
  The SPI core calls the two functions through the host; an empty entry is not called. A message is
  prepared, then its transfers are made one by one.
\<close>

datatype spi_op = Prepare_message | Transfer_one "u8 list"

fun spi_slot :: "spi_op \<Rightarrow> dummy_spi \<Rightarrow> spi_handler option" where
  "spi_slot Prepare_message d = prepare_message (host_conf d)"
| "spi_slot (Transfer_one tx_buf) d = transfer_one (host_conf d)"

fun tx_of :: "spi_op \<Rightarrow> u8 list" where
  "tx_of Prepare_message = []"
| "tx_of (Transfer_one tx_buf) = tx_buf"

fun run_spi_handler :: "spi_call kcall kernel \<Rightarrow> spi_handler \<Rightarrow> spi_op \<Rightarrow> unit spi_prog" where
  "run_spi_handler K Dummy_spi_prepare_message x =
     do { _ \<leftarrow> dummy_spi_prepare_message K; State_Monad.return () }"
| "run_spi_handler K Dummy_spi_transfer_one x =
     do { _ \<leftarrow> dummy_spi_transfer_one K (tx_of x); State_Monad.return () }"

definition spi_serve :: "spi_call kcall kernel \<Rightarrow> spi_op \<Rightarrow> unit spi_prog" where
  "spi_serve K = via_table spi_slot (run_spi_handler K)"

interpretation spi_table: table_driver
  spi_acct dummy_spi0 "dummy_spi_register spi_size" dummy_spi_unregister
  frame_resources spi_steps_succeed spi_slot run_spi_handler
  for spi_size
proof (unfold_locales, goal_cases)
  case (1 w rs K h x u w')
  then show ?case
    by (cases h) (auto simp: dummy_spi_prepare_message_def dummy_spi_transfer_one_def spi_effect_def)
qed

interpretation spi_served: served_driver
  spi_acct dummy_spi0 "dummy_spi_register spi_size" dummy_spi_unregister
  frame_resources spi_steps_succeed spi_serve
  for spi_size
  unfolding spi_serve_def [abs_def] by unfold_locales

section \<open>Where it does not\<close>

text \<open>
  After a successful \<open>alloc_chrdev_region\<close> the failures of \<open>class_create\<close>, of
  \<open>device_create\<close> and of \<open>devm_spi_alloc_host\<close> undo everything and then return 0, so the
  module counts as loaded with nothing held; unloading it releases what is not there.
\<close>

lemma spi_class_failure_reported_as_success:
  assumes "alloc_succeeds K" and "spi_acct (hist w) = Some rs"
    and "\<And>n s. IS_ERR (r_ptr (K n (Base (Class_create s))))"
    and "run_state (dummy_spi_register sz K) w = (r, w')"
  shows "r = 0 \<and> spi_acct (hist w') = Some rs"
  using assms by (simp add: spi_defs out_defs Let_def split del: if_split)
    (auto simp: frame_resources_def spi_effect_def)

text \<open>Unloading such a module releases a device, a class and a number that it does not hold.\<close>

lemma spi_false_load:
  assumes "alloc_succeeds K" and "spi_acct (hist w) = Some []"
    and "\<And>n s. IS_ERR (r_ptr (K n (Base (Class_create s))))"
  shows "case mod_session (dummy_spi_register sz K) (dummy_spi_unregister K) d0 [Insmod] (False, w)
      of (l, w') \<Rightarrow> l \<and> spi_acct (hist w') = Some []"
    and "case mod_session (dummy_spi_register sz K) (dummy_spi_unregister K) d0 [Insmod, Rmmod]
      (False, w) of (l, w') \<Rightarrow> \<not> l \<and> spi_acct (hist w') = None"
proof -
  obtain r w1 where reg: "run_state (dummy_spi_register sz K) (w\<lparr>dv := d0\<rparr>) = (r, w1)"
    by fastforce
  have "spi_acct (hist (w\<lparr>dv := d0\<rparr>)) = Some []" using assms(2) by simp
  from spi_class_failure_reported_as_success [OF assms(1) this assms(3) reg]
  have r: "r = 0" "spi_acct (hist w1) = Some []" by simp_all
  then show "case mod_session (dummy_spi_register sz K) (dummy_spi_unregister K) d0 [Insmod] (False, w)
      of (l, w') \<Rightarrow> l \<and> spi_acct (hist w') = Some []"
    by (simp add: reg)
  show "case mod_session (dummy_spi_register sz K) (dummy_spi_unregister K) d0 [Insmod, Rmmod]
      (False, w) of (l, w') \<Rightarrow> \<not> l \<and> spi_acct (hist w') = None"
    using r by (simp add: reg dummy_spi_unregister_def out_defs spi_effect_def)
qed

text \<open>A failing \<open>devm_kmalloc\<close> returns at once, with device, class and number still held.\<close>

lemma spi_kmalloc_failure_leaks:
  assumes "alloc_succeeds K" and "spi_acct (hist w) = Some rs"
    and "\<And>n s. \<not> IS_ERR (r_ptr (K n (Base (Class_create s))))"
    and "\<And>n c d s. \<not> IS_ERR (r_ptr (K n (Base (Device_create c d s))))"
    and "\<And>n d s. r_ptr (K n (Sub (Devm_spi_alloc_host d s))) \<noteq> 0"
    and "\<And>n d s. r_ptr (K n (Sub (Devm_kmalloc d s))) = 0"
    and "run_state (dummy_spi_register sz K) w = (r, w')"
  shows "r = - ENOMEM \<and> spi_acct (hist w') = Some (frame_resources (dv w') @ rs)"
  using assms by (simp add: spi_defs out_defs Let_def split del: if_split)
    (auto simp: frame_resources_def spi_effect_def)

section \<open>Handlers\<close>

lemma spi_transfer_only_logs:
  "run_state (dummy_spi_transfer_one K tx) w = (r, w') \<Longrightarrow>
     r = 0 \<and> dv w' = dv w \<and> fst (hd (hist w')) = Sub (Print_hex_dump_spi tx)"
  by (auto simp: dummy_spi_transfer_one_def)

end
