(* ===== verification/I2c.thy ===== *)
theory I2c
  imports Template
begin

text \<open>
  \<open>i2c/i2c.c\<close>: a bus adapter without hardware. The register accesses are empty, the interrupt
  handler is called by the function that starts a message, and read messages are filled with random
  bytes. The memory the message buffers live in is part of the state, so overlapping buffers are
  modelled as they are.
\<close>

section \<open>Macros\<close>

definition DUMMY_I2C_ADDR :: "u16 \<Rightarrow> u32" where
  "DUMMY_I2C_ADDR addr = push_bit 1 (0xff AND ucast addr)"

definition DUMMY_I2C_REG_CLOCK_M :: "u32 \<Rightarrow> u32" where
  "DUMMY_I2C_REG_CLOCK_M clkm = push_bit 3 (0xf AND clkm)"

definition DUMMY_I2C_REG_CLOCK_N :: "u32 \<Rightarrow> u32" where
  "DUMMY_I2C_REG_CLOCK_N clkn = 0x7 AND clkn"

definition DUMMY_I2C_SPEED_100K :: u32 where
  "DUMMY_I2C_SPEED_100K = DUMMY_I2C_REG_CLOCK_M 2 OR DUMMY_I2C_REG_CLOCK_N 11"

definition BIT :: "nat \<Rightarrow> u32" where
  "BIT n = push_bit n 1"

abbreviation DUMMY_I2C_BUS_CLOCK_NORMAL :: u32 where "DUMMY_I2C_BUS_CLOCK_NORMAL \<equiv> 100000"
abbreviation DUMMY_I2C_BUS_CLOCK_FAST :: u32 where "DUMMY_I2C_BUS_CLOCK_FAST \<equiv> 400000"

definition DUMMY_I2C_REG_CONTROL_BUS_EN :: u32 where "DUMMY_I2C_REG_CONTROL_BUS_EN = BIT 6"
definition DUMMY_I2C_REG_CONTROL_M_STA :: u32 where "DUMMY_I2C_REG_CONTROL_M_STA = BIT 5"
definition DUMMY_I2C_REG_CONTROL_M_STP :: u32 where "DUMMY_I2C_REG_CONTROL_M_STP = BIT 4"
definition DUMMY_I2C_REG_CONTROL_INT_FLAG :: u32 where "DUMMY_I2C_REG_CONTROL_INT_FLAG = BIT 3"
definition DUMMY_I2C_REG_SRST_SOFT_RESET :: u32 where "DUMMY_I2C_REG_SRST_SOFT_RESET = BIT 0"

abbreviation DUMMY_I2C_BUS_DIR_WR :: u32 where "DUMMY_I2C_BUS_DIR_WR \<equiv> 0"
abbreviation DUMMY_I2C_BUS_DIR_RD :: u32 where "DUMMY_I2C_BUS_DIR_RD \<equiv> 1"

text \<open>Message flags of the I2C interface.\<close>

abbreviation I2C_M_RD :: u16 where "I2C_M_RD \<equiv> 0x0001"
abbreviation I2C_M_TEN :: u16 where "I2C_M_TEN \<equiv> 0x0010"

section \<open>State\<close>

record dummy_i2c_regs =
  reg_addr :: u8
  reg_xaddr :: u8
  reg_data :: u8
  reg_cntr :: u8
  reg_stat :: u8
  reg_ccr :: u8
  reg_srst :: u8
  reg_efr :: u8
  reg_lcr :: u8

definition dummy_i2c_regs_variant0 :: dummy_i2c_regs where
  "dummy_i2c_regs_variant0 =
     \<lparr>reg_addr = 0x00, reg_xaddr = 0x04, reg_data = 0x08, reg_cntr = 0x0c, reg_stat = 0x10,
      reg_ccr = 0x14, reg_srst = 0x18, reg_efr = 0x1c, reg_lcr = 0x20\<rparr>"

record i2c_msg =
  msg_addr :: u16
  msg_flags :: u16
  msg_len :: u16
  msg_buf :: u64

record i2c_adapter =
  adapter_algo_set :: bool
  adapter_retries :: c_int
  adapter_timeout :: c_int
  adapter_nr :: c_int
  adapter_name :: string

record dummy_i2c = chrdev +
  irq :: c_int
  dir :: u32
  addr :: u32
  xaddr :: u32
  cntr_bits :: u32
  byte_left :: u32
  byte_pos :: u32
  bus_freq :: u32
  reg_offsets :: dummy_i2c_regs
  adapter :: i2c_adapter
  curr_msg :: "i2c_msg option"
  msgs :: "i2c_msg list"
  mum_msgs :: c_int
  i2c_mem :: "u64 \<Rightarrow> u8"

text \<open>
  The static structure is zero: \<open>dummy_i2c_regs_variant0\<close> is defined in the source but never
  assigned to \<open>reg_offsets\<close>.
\<close>

definition dummy_i2c0 :: "(u64 \<Rightarrow> u8) \<Rightarrow> dummy_i2c" where
  "dummy_i2c0 m =
     \<lparr>dev_num = 0, class_ptr = 0, dev_ptr = 0, irq = 0, dir = 0, addr = 0, xaddr = 0,
      cntr_bits = 0, byte_left = 0, byte_pos = 0, bus_freq = 0,
      reg_offsets = \<lparr>reg_addr = 0, reg_xaddr = 0, reg_data = 0, reg_cntr = 0, reg_stat = 0,
        reg_ccr = 0, reg_srst = 0, reg_efr = 0, reg_lcr = 0\<rparr>,
      adapter = \<lparr>adapter_algo_set = False, adapter_retries = 0, adapter_timeout = 0,
        adapter_nr = 0, adapter_name = []\<rparr>,
      curr_msg = None, msgs = [], mum_msgs = 0, i2c_mem = m\<rparr>"

datatype i2c_call =
    Get_random_u8
  | Complete
  | Init_completion
  | Reinit_completion
  | Wait_for_completion_timeout c_int
  | Msecs_to_jiffies nat
  | I2c_set_adapdata
  | Dev_set_drvdata_i2c u64
  | I2c_add_adapter i2c_adapter
  | I2c_del_adapter

type_synonym 'a i2c_prog = "(i2c_call kcall, dummy_i2c, 'a) prog"

section \<open>Register access and initialisation\<close>

definition dummy_i2c_read :: "u8 \<Rightarrow> u32 i2c_prog" where
  "dummy_i2c_read reg = State_Monad.return 0"

definition dummy_i2c_write :: "u8 \<Rightarrow> u32 \<Rightarrow> unit i2c_prog" where
  "dummy_i2c_write reg v = State_Monad.return ()"

definition dummy_i2c_soft_reset :: "unit i2c_prog" where
  "dummy_i2c_soft_reset = do {
     t \<leftarrow> self;
     dummy_i2c_write (reg_srst (reg_offsets t)) DUMMY_I2C_REG_SRST_SOFT_RESET
   }"

definition dummy_i2c_set_bus_freq :: "i2c_call kcall kernel \<Rightarrow> u32 \<Rightarrow> unit i2c_prog" where
  "dummy_i2c_set_bus_freq K freq = do {
     (if freq = DUMMY_I2C_BUS_CLOCK_NORMAL
      then upd (bus_freq_update (\<lambda>_. DUMMY_I2C_SPEED_100K))
      else printk K ''given freq not supported!'' []);
     t \<leftarrow> self;
     dummy_i2c_write (reg_ccr (reg_offsets t)) (bus_freq t)
   }"

definition dummy_i2c_hw_init :: "i2c_call kcall kernel \<Rightarrow> unit i2c_prog" where
  "dummy_i2c_hw_init K = do {
     printk K ''dummy_i2c_hw_init'' [];
     dummy_i2c_soft_reset;
     dummy_i2c_set_bus_freq K DUMMY_I2C_BUS_CLOCK_NORMAL;
     t \<leftarrow> self;
     dummy_i2c_write (reg_addr (reg_offsets t)) 0;
     dummy_i2c_write (reg_xaddr (reg_offsets t)) 0;
     dummy_i2c_write (reg_cntr (reg_offsets t)) 0;
     upd (cntr_bits_update (\<lambda>b. b OR DUMMY_I2C_REG_CONTROL_BUS_EN));
     t \<leftarrow> self;
     dummy_i2c_write (reg_cntr (reg_offsets t)) (cntr_bits t OR DUMMY_I2C_REG_CONTROL_M_STP)
   }"

definition dummy_i2c_send_stop :: "i2c_call kcall kernel \<Rightarrow> unit i2c_prog" where
  "dummy_i2c_send_stop K = do {
     t \<leftarrow> self;
     dummy_i2c_write (reg_cntr (reg_offsets t)) (cntr_bits t OR DUMMY_I2C_REG_CONTROL_M_STP);
     _ \<leftarrow> sys K (Sub Complete);
     State_Monad.return ()
   }"

definition dummy_i2c_clear_irq :: "unit i2c_prog" where
  "dummy_i2c_clear_irq = do {
     upd (cntr_bits_update (\<lambda>b. b AND NOT DUMMY_I2C_REG_CONTROL_INT_FLAG));
     t \<leftarrow> self;
     dummy_i2c_write (reg_cntr (reg_offsets t)) (cntr_bits t)
   }"

section \<open>The interrupt handler\<close>

text \<open>One round of the loop, on the message buffer at address \<open>mbuf\<close>.\<close>

definition dummy_i2c_isr_body :: "i2c_call kcall kernel \<Rightarrow> u64 \<Rightarrow> unit i2c_prog" where
  "dummy_i2c_isr_body K mbuf = do {
     t \<leftarrow> self;
     let a = mbuf + ucast (byte_pos t);
     (if dir t = DUMMY_I2C_BUS_DIR_WR
      then dummy_i2c_write (reg_data (reg_offsets t)) (ucast (i2c_mem t a))
      else do {
        r \<leftarrow> sys K (Sub Get_random_u8);
        upd (i2c_mem_update (\<lambda>m. m(a := ucast (r_int r))))
      });
     t \<leftarrow> self;
     printk K (if dir t \<noteq> 0 then ''rd'' else ''wr'') [uint (i2c_mem t a)]
   }"

lemma isr_body_frame:
  "byte_left (dv (snd (run_state (dummy_i2c_isr_body K b) w))) = byte_left (dv w)"
  by (simp add: dummy_i2c_isr_body_def dummy_i2c_write_def Let_def)

text \<open>
  \<open>for (; i2c->byte_left--; i2c->byte_pos++)\<close>: the test reads \<open>byte_left\<close> and decrements it, also
  the last time.
\<close>

function dummy_i2c_isr_loop ::
    "i2c_call kcall kernel \<Rightarrow> u64 \<Rightarrow> (i2c_call kcall, dummy_i2c) world
      \<Rightarrow> (i2c_call kcall, dummy_i2c) world" where
  "dummy_i2c_isr_loop K mbuf w =
     (let left = byte_left (dv w);
          w1 = w\<lparr>dv := (dv w)\<lparr>byte_left := left - 1\<rparr>\<rparr>
      in if left = 0 then w1
         else dummy_i2c_isr_loop K mbuf
           (snd (run_state (do {
              dummy_i2c_isr_body K mbuf;
              upd (byte_pos_update (\<lambda>p. p + 1))
            }) w1)))"
  by pat_completeness auto
termination
proof (relation "measure (\<lambda>(K, b, w). unat (byte_left (dv w)))", goal_cases)
  case 1
  then show ?case by simp
next
  case (2 K b w left w1)
  then show ?case
    by (simp add: isr_body_frame split_beta unat_minus_one word_greater_zero_iff unat_gt_0)
qed

declare dummy_i2c_isr_loop.simps [simp del]

definition dummy_i2c_isr :: "i2c_call kcall kernel \<Rightarrow> unit i2c_prog" where
  "dummy_i2c_isr K = do {
     t \<leftarrow> self;
     State (\<lambda>w. ((), dummy_i2c_isr_loop K (case curr_msg t of Some m \<Rightarrow> msg_buf m | None \<Rightarrow> 0) w));
     dummy_i2c_send_stop K;
     dummy_i2c_clear_irq
   }"

section \<open>Transfers\<close>

definition dummy_i2c_send_start :: "i2c_call kcall kernel \<Rightarrow> i2c_msg \<Rightarrow> unit i2c_prog" where
  "dummy_i2c_send_start K m = do {
     upd (byte_left_update (\<lambda>_. ucast (msg_len m)));
     upd (curr_msg_update (\<lambda>_. Some m));
     upd (byte_pos_update (\<lambda>_. 0));
     printk K ''dummy_i2c_send_start, addr'' [uint (msg_addr m)];
     upd (dir_update (\<lambda>_. if msg_flags m AND I2C_M_RD \<noteq> 0 then DUMMY_I2C_BUS_DIR_RD
                          else DUMMY_I2C_BUS_DIR_WR));
     upd (\<lambda>t. if msg_flags m AND I2C_M_TEN \<noteq> 0
              then t\<lparr>addr := DUMMY_I2C_ADDR (msg_addr m) OR dir t,
                     xaddr := ucast (msg_addr m) AND 0xff\<rparr>
              else t\<lparr>addr := DUMMY_I2C_ADDR (msg_addr m) OR dir t, xaddr := 0\<rparr>);
     t \<leftarrow> self;
     dummy_i2c_write (reg_cntr (reg_offsets t)) (cntr_bits t OR DUMMY_I2C_REG_CONTROL_M_STA);
     dummy_i2c_isr K
   }"

text \<open>One round of \<open>dummy_i2c_do_msgs\<close>, and the loop over the messages.\<close>

definition dummy_i2c_do_msg :: "i2c_call kcall kernel \<Rightarrow> i2c_msg \<Rightarrow> unit i2c_prog" where
  "dummy_i2c_do_msg K m = do {
     _ \<leftarrow> sys K (Sub Reinit_completion);
     dummy_i2c_send_start K m;
     t \<leftarrow> self;
     time_left \<leftarrow> sys K (Sub (Wait_for_completion_timeout (adapter_timeout (adapter t))));
     (if r_ptr time_left = 0 then dummy_i2c_hw_init K else State_Monad.return ())
   }"

fun dummy_i2c_do_msgs_from ::
    "i2c_call kcall kernel \<Rightarrow> i2c_msg list \<Rightarrow> unit i2c_prog" where
  "dummy_i2c_do_msgs_from K [] = State_Monad.return ()"
| "dummy_i2c_do_msgs_from K (m # ms) = do {
     dummy_i2c_do_msg K m;
     dummy_i2c_do_msgs_from K ms
   }"

definition dummy_i2c_do_msgs :: "i2c_call kcall kernel \<Rightarrow> c_int i2c_prog" where
  "dummy_i2c_do_msgs K = do {
     t \<leftarrow> self;
     dummy_i2c_do_msgs_from K (msgs t);
     State_Monad.return 0
   }"

text \<open>The I2C core passes an array and its length; here the length is that of the list.\<close>

definition dummy_i2c_xfer :: "i2c_call kcall kernel \<Rightarrow> i2c_msg list \<Rightarrow> c_int i2c_prog" where
  "dummy_i2c_xfer K ms = do {
     let num = of_nat (length ms);
     printk K ''dummy_i2c_xfer, msg len'' [sint num];
     upd (mum_msgs_update (\<lambda>_. num));
     upd (msgs_update (\<lambda>_. ms));
     _ \<leftarrow> dummy_i2c_do_msgs K;
     State_Monad.return num
   }"

text \<open>The two flag words are constants of the I2C interface.\<close>

definition dummy_i2c_functionality :: "u32 \<Rightarrow> u32 \<Rightarrow> u32" where
  "dummy_i2c_functionality I2C_FUNC_I2C I2C_FUNC_SMBUS_EMUL = I2C_FUNC_I2C OR I2C_FUNC_SMBUS_EMUL"

lemmas i2c_hw_defs =
  dummy_i2c_read_def dummy_i2c_write_def dummy_i2c_soft_reset_def dummy_i2c_set_bus_freq_def
  dummy_i2c_hw_init_def dummy_i2c_send_stop_def dummy_i2c_clear_irq_def

end
