(* ===== verification/I2c_Transfer.thy ===== *)
theory I2c_Transfer
  imports I2c
begin

text \<open>
  What a transfer of \<^theory_text>\<open>I2c\<close> does: the interrupt loop in closed form, the memory it writes,
  the address registers, and the order of completion and wait.
\<close>

section \<open>The interrupt loop in closed form\<close>

definition random_byte :: "i2c_call kcall kernel \<Rightarrow> nat \<Rightarrow> u8" where
  "random_byte K n = ucast (r_int (K n (Sub Get_random_u8)))"

text \<open>
  The memory after \<open>n\<close> rounds of a read from position \<open>p\<close>: the \<open>k\<close>-th byte is the answer to call
  \<open>i + 2 * k\<close>, because each round asks for a byte and prints it.
\<close>

fun fill :: "i2c_call kcall kernel \<Rightarrow> nat \<Rightarrow> u64 \<Rightarrow> u32 \<Rightarrow> nat \<Rightarrow> (u64 \<Rightarrow> u8) \<Rightarrow> u64 \<Rightarrow> u8" where
  "fill K i b p 0 m = m"
| "fill K i b p (Suc n) m = fill K (i + 2) b (p + 1) n (m(b + ucast p := random_byte K i))"

lemma isr_loop_state:
  "unat (byte_left (dv w)) = n \<Longrightarrow>
   dv (dummy_i2c_isr_loop K b w) =
     (dv w)\<lparr>byte_left := - 1, byte_pos := byte_pos (dv w) + of_nat n,
       i2c_mem := (if dir (dv w) = 0 then i2c_mem (dv w)
                   else fill K (length (hist w)) b (byte_pos (dv w)) n (i2c_mem (dv w)))\<rparr>"
proof (induction n arbitrary: w)
  case 0
  then have "byte_left (dv w) = 0" by (simp add: unat_eq_0)
  then show ?case
    by (subst dummy_i2c_isr_loop.simps) simp
next
  case (Suc n)
  then have nz: "byte_left (dv w) \<noteq> 0" by auto
  define w2 where "w2 = snd (run_state (do {
      dummy_i2c_isr_body K b;
      upd (byte_pos_update (\<lambda>p. p + 1))
    }) (w\<lparr>dv := (dv w)\<lparr>byte_left := byte_left (dv w) - 1\<rparr>\<rparr>))"
  from Suc.prems nz have "unat (byte_left (dv w2)) = n"
    by (simp add: w2_def dummy_i2c_isr_body_def dummy_i2c_write_def Let_def unat_minus_one)
  note IH = Suc.IH [OF this]
  from nz have "dummy_i2c_isr_loop K b w = dummy_i2c_isr_loop K b w2"
    by (subst dummy_i2c_isr_loop.simps) (simp add: w2_def Let_def)
  with IH show ?case
    by (simp add: w2_def dummy_i2c_isr_body_def dummy_i2c_write_def Let_def random_byte_def
        algebra_simps)
qed

text \<open>The loop calls only the random generator and the log.\<close>

definition isr_event :: "i2c_call kcall \<Rightarrow> bool" where
  "isr_event c \<longleftrightarrow> (case c of Sub Get_random_u8 \<Rightarrow> True | Base (Printk s ns) \<Rightarrow> True | _ \<Rightarrow> False)"

lemma isr_loop_hist:
  "\<exists>es. hist (dummy_i2c_isr_loop K b w) = es @ hist w \<and> (\<forall>e\<in>set es. isr_event (fst e))"
proof (induction K b w rule: dummy_i2c_isr_loop.induct)
  case (1 K b w)
  show ?case
  proof (cases "byte_left (dv w) = 0")
    case True
    then show ?thesis by (subst dummy_i2c_isr_loop.simps) simp
  next
    case False
    define w1 where "w1 = w\<lparr>dv := (dv w)\<lparr>byte_left := byte_left (dv w) - 1\<rparr>\<rparr>"
    define w2 where "w2 = snd (run_state (do {
        dummy_i2c_isr_body K b;
        upd (byte_pos_update (\<lambda>p. p + 1))
      }) w1)"
    from False "1" [OF refl w1_def] obtain es where
      "hist (dummy_i2c_isr_loop K b w2) = es @ hist w2" "\<forall>e\<in>set es. isr_event (fst e)"
      unfolding w2_def by blast
    moreover have "\<exists>es. hist w2 = es @ hist w \<and> (\<forall>e\<in>set es. isr_event (fst e))"
      by (simp add: w2_def w1_def dummy_i2c_isr_body_def dummy_i2c_write_def Let_def isr_event_def)
    moreover from False have "dummy_i2c_isr_loop K b w = dummy_i2c_isr_loop K b w2"
      by (subst dummy_i2c_isr_loop.simps) (simp add: w2_def w1_def Let_def)
    ultimately show ?thesis by auto
  qed
qed

section \<open>Memory\<close>

lemma ucast_of_nat_32_64 [simp]:
  "k < 2 ^ 32 \<Longrightarrow> ucast (of_nat k :: u32) = (of_nat k :: u64)"
  by (simp add: unsigned_of_nat take_bit_nat_eq_self)

text \<open>The addresses a message's buffer occupies.\<close>

definition msg_range :: "i2c_msg \<Rightarrow> u64 set" where
  "msg_range m = (\<lambda>k. msg_buf m + of_nat k) ` {..<unat (msg_len m)}"

definition is_read :: "i2c_msg \<Rightarrow> bool" where
  "is_read m \<longleftrightarrow> msg_flags m AND I2C_M_RD \<noteq> 0"

lemma fill_frame:
  "p + n < 2 ^ 32 \<Longrightarrow> a \<notin> (\<lambda>k. b + of_nat k) ` {p..<p + n} \<Longrightarrow>
     fill K i b (of_nat p) n m a = m a"
proof (induction n arbitrary: i p m)
  case 0
  then show ?case by simp
next
  case (Suc n)
  have p1: "of_nat p + 1 = (of_nat (Suc p) :: u32)" by simp
  from Suc.prems have "a \<notin> (\<lambda>k. b + of_nat k) ` {Suc p..<Suc p + n}" and "a \<noteq> b + of_nat p"
    by auto
  with Suc.IH [of "Suc p"] Suc.prems(1) show ?case
    by (simp only: fill.simps p1) simp
qed

lemma fill_content:
  "p + n < 2 ^ 32 \<Longrightarrow> k < n \<Longrightarrow>
     fill K i b (of_nat p) n m (b + of_nat (p + k)) = random_byte K (i + 2 * k)"
proof (induction n arbitrary: i p m k)
  case 0
  then show ?case by simp
next
  case (Suc n)
  have p1: "of_nat p + 1 = (of_nat (Suc p) :: u32)" by simp
  show ?case
  proof (cases k)
    case 0
    have "b + of_nat p \<notin> (\<lambda>k. b + of_nat k) ` {Suc p..<Suc p + n}"
    proof
      assume "b + of_nat p \<in> (\<lambda>k. b + of_nat k) ` {Suc p..<Suc p + n}"
      then obtain j where "j \<in> {Suc p..<Suc p + n}" and "(of_nat p :: u64) = of_nat j" by auto
      moreover from this Suc.prems(1) have "p = j"
        by (auto dest!: arg_cong [where f = unat] simp: unsigned_of_nat take_bit_nat_eq_self)
      ultimately show False by simp
    qed
    with fill_frame [of "Suc p" n] Suc.prems(1) 0 show ?thesis
      by (simp only: fill.simps p1) simp
  next
    case (Suc k')
    with Suc.IH [of "Suc p" k'] Suc.prems show ?thesis
      by (simp only: fill.simps p1) (simp add: algebra_simps)
  qed
qed

section \<open>One message\<close>

lemmas isr_loop_run = isr_loop_state [OF refl]
lemma unat_msg_len [simp]: "unat (ucast (l :: u16) :: u32) = unat l"
  by (simp add: unsigned_ucast_eq take_bit_nat_eq_self less_le_trans [OF unsigned_less])

definition dir_of :: "i2c_msg \<Rightarrow> u32" where
  "dir_of m = (if is_read m then DUMMY_I2C_BUS_DIR_RD else DUMMY_I2C_BUS_DIR_WR)"

lemma isr_dv:
  "dv (snd (run_state (dummy_i2c_isr K) w)) =
     (dv (dummy_i2c_isr_loop K (case curr_msg (dv w) of Some m \<Rightarrow> msg_buf m | None \<Rightarrow> 0) w))
     \<lparr>cntr_bits := cntr_bits (dv w) AND NOT DUMMY_I2C_REG_CONTROL_INT_FLAG\<rparr>"
  by (simp add: dummy_i2c_isr_def i2c_hw_defs) (simp add: isr_loop_run)

lemma hw_init_dv:
  "dv (snd (run_state (dummy_i2c_hw_init K) w)) =
     (dv w)\<lparr>bus_freq := DUMMY_I2C_SPEED_100K,
       cntr_bits := cntr_bits (dv w) OR DUMMY_I2C_REG_CONTROL_BUS_EN\<rparr>"
  by (simp add: i2c_hw_defs)

text \<open>The registers a message selects its device with.\<close>

definition select :: "i2c_msg \<Rightarrow> dummy_i2c \<Rightarrow> dummy_i2c" where
  "select m t = t\<lparr>byte_left := ucast (msg_len m), curr_msg := Some m, byte_pos := 0,
     dir := dir_of m, addr := DUMMY_I2C_ADDR (msg_addr m) OR dir_of m,
     xaddr := (if msg_flags m AND I2C_M_TEN \<noteq> 0 then ucast (msg_addr m) AND 0xff else 0)\<rparr>"

abbreviation start_log :: "i2c_msg \<Rightarrow> i2c_call kcall" where
  "start_log m \<equiv> Base (Printk ''dummy_i2c_send_start, addr'' [uint (msg_addr m)])"

lemma send_start_isr:
  "run_state (dummy_i2c_send_start K m) w =
     run_state (dummy_i2c_isr K)
       (w\<lparr>hist := (start_log m, K (length (hist w)) (start_log m)) # hist w,
          dv := select m (dv w)\<rparr>)"
  by (simp add: dummy_i2c_send_start_def dummy_i2c_write_def select_def is_read_def dir_of_def)

lemma send_start_dv:
  "dv (snd (run_state (dummy_i2c_send_start K m) w)) =
     (select m (dv w))\<lparr>byte_left := - 1, byte_pos := ucast (msg_len m),
       cntr_bits := cntr_bits (dv w) AND NOT DUMMY_I2C_REG_CONTROL_INT_FLAG,
       i2c_mem := (if is_read m
         then fill K (Suc (length (hist w))) (msg_buf m) 0 (unat (msg_len m)) (i2c_mem (dv w))
         else i2c_mem (dv w))\<rparr>"
  by (simp only: send_start_isr isr_dv isr_loop_run) (simp add: select_def dir_of_def)

text \<open>The effect of one message on the adapter; the two fields left open are reset by a timeout.\<close>

lemma do_msg_dv:
  fixes K m w
  defines "t' \<equiv> dv (snd (run_state (dummy_i2c_do_msg K m) w))"
  shows "t' = (select m (dv w))\<lparr>byte_left := - 1, byte_pos := ucast (msg_len m),
       cntr_bits := cntr_bits t', bus_freq := bus_freq t',
       i2c_mem := (if is_read m
         then fill K (length (hist w) + 2) (msg_buf m) 0 (unat (msg_len m)) (i2c_mem (dv w))
         else i2c_mem (dv w))\<rparr>"
  by (simp add: t'_def dummy_i2c_do_msg_def split_beta) (simp add: hw_init_dv send_start_dv select_def)

lemma do_msg_mem:
  "i2c_mem (dv (snd (run_state (dummy_i2c_do_msg K m) w))) =
     (if is_read m then fill K (length (hist w) + 2) (msg_buf m) 0 (unat (msg_len m)) (i2c_mem (dv w))
      else i2c_mem (dv w))"
  by (subst do_msg_dv) simp

lemma msg_len_bound: "unat (msg_len m) < 2 ^ 32"
  using unsigned_less [of "msg_len m", where ?'a = nat] by simp

lemma do_msg_frame:
  "is_read m \<longrightarrow> a \<notin> msg_range m \<Longrightarrow>
     i2c_mem (dv (snd (run_state (dummy_i2c_do_msg K m) w))) a = i2c_mem (dv w) a"
  using fill_frame [of 0 "unat (msg_len m)" a "msg_buf m"] msg_len_bound [of m]
  by (simp add: do_msg_mem msg_range_def lessThan_atLeast0)

lemma do_msg_read:
  "is_read m \<Longrightarrow> k < unat (msg_len m) \<Longrightarrow>
     i2c_mem (dv (snd (run_state (dummy_i2c_do_msg K m) w))) (msg_buf m + of_nat k) =
       random_byte K (length (hist w) + 2 + 2 * k)"
  using fill_content [of 0 "unat (msg_len m)" k] msg_len_bound [of m]
  by (simp add: do_msg_mem)

section \<open>Address registers\<close>

lemma mask8: "(0xff :: u32) = mask 8" "(0xff :: u16) = mask 8"
  by (simp_all add: mask_eq_exp_minus_1)

lemma bit_DUMMY_I2C_ADDR: "bit (DUMMY_I2C_ADDR a) n \<longleftrightarrow> 0 < n \<and> n \<le> 8 \<and> bit a (n - 1)"
proof -
  have "bit (DUMMY_I2C_ADDR a) n \<longleftrightarrow> 1 \<le> n \<and> n < 32 \<and> bit (mask 8 AND ucast a :: u32) (n - 1)"
    by (simp only: DUMMY_I2C_ADDR_def mask8 bit_push_bit_iff) simp
  also have "\<dots> \<longleftrightarrow> 0 < n \<and> n \<le> 8 \<and> bit a (n - 1)"
    by (cases n) (auto simp: bit_and_iff bit_mask_iff bit_ucast_iff)
  finally show ?thesis .
qed

text \<open>A 7-bit address and the direction can be read back from the address register.\<close>

lemma addr_register_7bit:
  assumes "unat a < 128" and "d = DUMMY_I2C_BUS_DIR_RD \<or> d = DUMMY_I2C_BUS_DIR_WR"
  shows "drop_bit 1 (DUMMY_I2C_ADDR a OR d) = ucast a \<and> (DUMMY_I2C_ADDR a OR d) AND 1 = d"
proof -
  have hi: "\<not> bit a n" if "7 \<le> n" for n
  proof -
    have "unat a < 2 ^ n" using assms(1) power_increasing [of 7 n "2::nat"] that by simp
    then have "\<not> bit (unat a) n" by (simp add: bit_iff_odd)
    then show ?thesis by (simp add: bit_unsigned_iff)
  qed
  have d: "bit d n \<longleftrightarrow> d = 1 \<and> n = 0" for n using assms(2) by (auto simp: bit_1_iff)
  have "drop_bit 1 (DUMMY_I2C_ADDR a OR d) = ucast a"
  proof (rule bit_word_eqI)
    fix n :: nat
    assume "n < LENGTH(32)"
    with hi [of n] show "bit (drop_bit 1 (DUMMY_I2C_ADDR a OR d)) n = bit (ucast a :: u32) n"
      by (cases "7 \<le> n") (auto simp: bit_drop_bit_eq bit_or_iff bit_DUMMY_I2C_ADDR d bit_ucast_iff)
  qed
  moreover have "(DUMMY_I2C_ADDR a OR d) AND 1 = d"
    by (rule bit_word_eqI) (auto simp: bit_and_iff bit_or_iff bit_1_iff bit_DUMMY_I2C_ADDR d)
  ultimately show ?thesis ..
qed

text \<open>The register keeps the low 8 bits of an address only.\<close>

lemma addr_register_low8: "DUMMY_I2C_ADDR a = DUMMY_I2C_ADDR (a AND 0xff)"
  by (rule bit_word_eqI) (auto simp: bit_DUMMY_I2C_ADDR mask8 bit_and_iff bit_mask_iff)
section \<open>Transfers\<close>

lemma do_msgs_from_frame:
  "\<forall>m\<in>set ms. is_read m \<longrightarrow> a \<notin> msg_range m \<Longrightarrow>
     i2c_mem (dv (snd (run_state (dummy_i2c_do_msgs_from K ms) w))) a = i2c_mem (dv w) a"
proof (induction ms arbitrary: w)
  case Nil
  then show ?case by simp
next
  case (Cons m ms)
  from Cons.prems have "is_read m \<longrightarrow> a \<notin> msg_range m" by simp
  from do_msg_frame [OF this] Cons.prems Cons.IH show ?case
    by (simp add: split_beta)
qed

lemma xfer_frame:
  "\<forall>m\<in>set ms. is_read m \<longrightarrow> a \<notin> msg_range m \<Longrightarrow>
   run_state (dummy_i2c_xfer K ms) w = (r, w') \<Longrightarrow>
     r = of_nat (length ms) \<and> i2c_mem (dv w') a = i2c_mem (dv w) a"
  using do_msgs_from_frame [of ms a K]
  by (auto simp: dummy_i2c_xfer_def dummy_i2c_do_msgs_def Let_def split_beta)

section \<open>Completion before wait\<close>

text \<open>
  What the kernel documents of a completion: \<open>reinit_completion\<close> clears it, \<open>complete\<close> adds a
  token, a wait that is not to time out takes one. \<open>tokens\<close> counts them over a history (latest
  call first); \<open>waits_ok\<close> says that every wait of the history found one.
\<close>

fun tokens :: "(i2c_call kcall \<times> kresp) list \<Rightarrow> nat" where
  "tokens [] = 0"
| "tokens ((c, r) # h) = (case c of
     Sub Init_completion \<Rightarrow> 0
   | Sub Reinit_completion \<Rightarrow> 0
   | Sub Complete \<Rightarrow> Suc (tokens h)
   | Sub (Wait_for_completion_timeout t) \<Rightarrow> tokens h - 1
   | _ \<Rightarrow> tokens h)"

fun waits_ok :: "(i2c_call kcall \<times> kresp) list \<Rightarrow> bool" where
  "waits_ok [] = True"
| "waits_ok ((c, r) # h) = ((case c of
     Sub (Wait_for_completion_timeout t) \<Rightarrow> 0 < tokens h
   | _ \<Rightarrow> True) \<and> waits_ok h)"

lemma isr_events_neutral:
  "\<forall>e\<in>set es. isr_event (fst e) \<Longrightarrow> tokens (es @ h) = tokens h \<and> waits_ok (es @ h) = waits_ok h"
  by (induction es) (auto simp: isr_event_def split: kcall.splits base_call.splits i2c_call.splits)

lemma isr_loop_neutral [simp]:
  "tokens (hist (dummy_i2c_isr_loop K b w)) = tokens (hist w)"
  "waits_ok (hist (dummy_i2c_isr_loop K b w)) = waits_ok (hist w)"
  using isr_loop_hist [of K b w] isr_events_neutral by auto

lemma do_msg_waits_ok:
  "waits_ok (hist w) \<Longrightarrow> waits_ok (hist (snd (run_state (dummy_i2c_do_msg K m) w)))"
  by (simp add: dummy_i2c_do_msg_def send_start_isr dummy_i2c_isr_def i2c_hw_defs split_beta)

lemma do_msgs_from_waits_ok:
  "waits_ok (hist w) \<Longrightarrow> waits_ok (hist (snd (run_state (dummy_i2c_do_msgs_from K ms) w)))"
proof (induction ms arbitrary: w)
  case Nil
  then show ?case by simp
next
  case (Cons m ms)
  with do_msg_waits_ok [of w K m] show ?case by (simp add: split_beta)
qed

lemma xfer_waits_ok:
  "waits_ok (hist w) \<Longrightarrow> run_state (dummy_i2c_xfer K ms) w = (r, w') \<Longrightarrow> waits_ok (hist w')"
  using do_msgs_from_waits_ok [of _ K ms]
  by (auto simp: dummy_i2c_xfer_def dummy_i2c_do_msgs_def Let_def split_beta)

end
