(* ===== verification/I2c_Module.thy ===== *)
theory I2c_Module
  imports I2c_Transfer
begin

text \<open>
  Loading and unloading the adapter of \<open>i2c/i2c.c\<close>. The error path of \<open>i2c_add_adapter\<close>
  deletes the adapter that has just failed to be added.
\<close>

section \<open>Register and unregister\<close>

definition fill_adapter :: "dummy_i2c \<Rightarrow> dummy_i2c" where
  "fill_adapter t = t\<lparr>adapter := (adapter t)\<lparr>adapter_algo_set := True, adapter_retries := 3\<rparr>\<rparr>"

definition dummy_i2c_register :: "i2c_call kcall kernel \<Rightarrow> c_int i2c_prog" where
  "dummy_i2c_register K = do {
     r \<leftarrow> sys K (Base (Alloc_chrdev_region ''dummy_i2c''));
     upd (dev_num_update (\<lambda>_. ucast (r_out r)));
     let ret = r_int r;
     if ret \<noteq> 0 then do {
       printk K ''failed to allocate device number'' [];
       State_Monad.return ret
     } else do {
       c \<leftarrow> sys K (Base (Class_create ''dummy_i2c_class''));
       upd (class_ptr_update (\<lambda>_. r_ptr c));
       if IS_ERR (r_ptr c) then do {
         printk K ''failed to create class'' [];
         out_dev_num K;
         State_Monad.return (- ENODEV)
       } else do {
         t \<leftarrow> self;
         p \<leftarrow> sys K (Base (Device_create (class_ptr t) (dev_num t) ''dummy_i2c''));
         upd (dev_ptr_update (\<lambda>_. r_ptr p));
         if IS_ERR (r_ptr p) then do {
           printk K ''failed to create device'' [];
           out_class K;
           State_Monad.return (- ENODEV)
         } else do {
           upd fill_adapter;
           j \<leftarrow> sys K (Sub (Msecs_to_jiffies 50));
           upd (adapter_update (adapter_timeout_update (\<lambda>_. r_int j)));
           upd (adapter_update (adapter_name_update (\<lambda>_. ''dummy_i2c bus'')));
           _ \<leftarrow> sys K (Sub I2c_set_adapdata);
           _ \<leftarrow> sys K (Sub (Dev_set_drvdata_i2c (r_ptr p)));
           _ \<leftarrow> sys K (Sub Init_completion);
           dummy_i2c_hw_init K;
           t \<leftarrow> self;
           a \<leftarrow> sys K (Sub (I2c_add_adapter (adapter t)));
           upd (adapter_update (adapter_nr_update (\<lambda>_. ucast (r_out a))));
           if r_int a \<noteq> 0 then do {
             printk K ''failed to add adapter'' [];
             _ \<leftarrow> sys K (Sub I2c_del_adapter);
             out_dev K;
             State_Monad.return (- ENODEV)
           } else do {
             upd (adapter_update (\<lambda>a. a\<lparr>adapter_name :=
                    ''dummy_i2c bus '' @ dec_int (sint (adapter_nr a))\<rparr>));
             t \<leftarrow> self;
             printk K ''new adapter - ready'' [sint (adapter_nr (adapter t))];
             State_Monad.return 0
           }
         }
       }
     }
   }"

definition dummy_i2c_unregister :: "i2c_call kcall kernel \<Rightarrow> c_int i2c_prog" where
  "dummy_i2c_unregister K = do {
     _ \<leftarrow> sys K (Sub I2c_del_adapter);
     out_dev K;
     State_Monad.return 0
   }"

text \<open>The initialisation in one step.\<close>

lemma run_hw_init:
  "run_state (dummy_i2c_hw_init K) w =
     ((), w\<lparr>hist := (Base (Printk ''dummy_i2c_hw_init'' []),
                      K (length (hist w)) (Base (Printk ''dummy_i2c_hw_init'' []))) # hist w,
            dv := (dv w)\<lparr>bus_freq := DUMMY_I2C_SPEED_100K,
              cntr_bits := cntr_bits (dv w) OR DUMMY_I2C_REG_CONTROL_BUS_EN\<rparr>\<rparr>)"
  by (simp add: i2c_hw_defs)

lemmas i2c_register_defs =
  dummy_i2c_register_def dummy_i2c_unregister_def fill_adapter_def run_hw_init

section \<open>The contract\<close>

datatype i2c_res = Adapter

fun i2c_effect :: "i2c_call \<Rightarrow> kresp \<Rightarrow> i2c_res resource effect" where
  "i2c_effect (I2c_add_adapter a) r = (if r_int r = 0 then Acquire (Owned Adapter) else Neutral)"
| "i2c_effect I2c_del_adapter r = Release (Owned Adapter)"
| "i2c_effect _ r = Neutral"

abbreviation i2c_acct :: "(i2c_call kcall \<times> kresp) list \<Rightarrow> i2c_res resource list option" where
  "i2c_acct \<equiv> lifo (kcall_effect i2c_effect)"

definition i2c_resources :: "dummy_i2c \<Rightarrow> i2c_res resource list" where
  "i2c_resources t = Owned Adapter # frame_resources t"

definition adapter_added :: "i2c_call kcall kernel \<Rightarrow> bool" where
  "adapter_added K \<longleftrightarrow> alloc_documented K \<and>
     (\<forall>n a. r_int (K n (Sub (I2c_add_adapter a))) = 0)"

lemma adapter_added_ret [simp]:
  assumes "adapter_added K"
  shows "alloc_documented K" and "r_int (K n (Sub (I2c_add_adapter a))) = 0"
  using assms by (simp_all add: adapter_added_def)

interpretation i2c_module: module_driver
  i2c_acct "dummy_i2c0 m" dummy_i2c_register dummy_i2c_unregister i2c_resources adapter_added
  for m
  by (unfold_locales;
      simp add: i2c_register_defs Let_def out_defs cong: if_cong split del: if_split;
      auto simp: i2c_resources_def frame_resources_def split: if_splits)

section \<open>Transfers of a loaded adapter\<close>

text \<open>
  The algorithm \<open>dummy_i2c_algo\<close>. A transfer changes no resource: the interrupt loop prints and draws
  random bytes, and the calls around it signal and await a completion.
\<close>

datatype i2c_op = Master_xfer "i2c_msg list" | Functionality

fun i2c_serve :: "i2c_call kcall kernel \<Rightarrow> i2c_op \<Rightarrow> unit i2c_prog" where
  "i2c_serve K (Master_xfer ms) = do { _ \<leftarrow> dummy_i2c_xfer K ms; State_Monad.return () }"
| "i2c_serve K Functionality = State_Monad.return ()"

lemma isr_events_acct:
  "\<forall>e\<in>set es. isr_event (fst e) \<Longrightarrow> i2c_acct (es @ h) = i2c_acct h"
  by (induction es)
    (auto simp: isr_event_def split: kcall.splits base_call.splits i2c_call.splits option.splits)

lemma isr_loop_acct [simp]: "i2c_acct (hist (dummy_i2c_isr_loop K b w)) = i2c_acct (hist w)"
  using isr_loop_hist [of K b w] isr_events_acct by auto

lemma do_msg_acct:
  "i2c_acct (hist w) = Some rs \<Longrightarrow>
     i2c_acct (hist (snd (run_state (dummy_i2c_do_msg K m) w))) = Some rs"
  by (simp add: dummy_i2c_do_msg_def send_start_isr dummy_i2c_isr_def i2c_hw_defs split_beta)

lemma do_msg_resources:
  "i2c_resources (dv (snd (run_state (dummy_i2c_do_msg K m) w))) = i2c_resources (dv w)"
  by (subst do_msg_dv) (simp add: i2c_resources_def frame_resources_def select_def)

lemma do_msgs_from_acct:
  "i2c_acct (hist w) = Some rs \<Longrightarrow>
     i2c_acct (hist (snd (run_state (dummy_i2c_do_msgs_from K ms) w))) = Some rs \<and>
     i2c_resources (dv (snd (run_state (dummy_i2c_do_msgs_from K ms) w))) = i2c_resources (dv w)"
proof (induction ms arbitrary: w)
  case Nil
  then show ?case by simp
next
  case (Cons m ms)
  from Cons.IH [OF do_msg_acct [OF Cons.prems, of K m]] do_msg_resources [of K m w]
  show ?case by (simp add: split_beta)
qed

interpretation i2c_served: served_driver
  i2c_acct "dummy_i2c0 m" dummy_i2c_register dummy_i2c_unregister i2c_resources adapter_added
  i2c_serve
  for m
proof (unfold_locales, goal_cases)
  case (1 w rs K x u w')
  show ?case
  proof (cases x)
    case (Master_xfer ms)
    define w1 where "w1 = snd (run_state (do {
        printk K ''dummy_i2c_xfer, msg len'' [sint (of_nat (length ms) :: c_int)];
        upd (mum_msgs_update (\<lambda>_. of_nat (length ms)));
        upd (msgs_update (\<lambda>_. ms)) }) w)"
    have "i2c_acct (hist w1) = Some rs" "i2c_resources (dv w1) = i2c_resources (dv w)" "msgs (dv w1) = ms"
      using 1(1) by (simp_all add: w1_def i2c_resources_def frame_resources_def)
    moreover have "w' = snd (run_state (dummy_i2c_do_msgs_from K ms) w1)"
      using 1(2) Master_xfer
      by (simp add: w1_def dummy_i2c_xfer_def dummy_i2c_do_msgs_def Let_def split_beta)
    ultimately show ?thesis using do_msgs_from_acct [of w1 rs K ms] by simp
  qed (use 1 in simp)
qed

section \<open>Outside the contract\<close>

text \<open>
  When the adapter cannot be added, the error path releases an adapter that is not held: from a
  clean account the account is lost.
\<close>

lemma i2c_add_failure:
  assumes "alloc_succeeds K" and "i2c_acct (hist w) = Some []"
    and "\<And>n s. \<not> IS_ERR (r_ptr (K n (Base (Class_create s))))"
    and "\<And>n c d s. \<not> IS_ERR (r_ptr (K n (Base (Device_create c d s))))"
    and "\<And>n a. r_int (K n (Sub (I2c_add_adapter a))) \<noteq> 0"
    and "run_state (dummy_i2c_register K) w = (r, w')"
  shows "r = - ENODEV \<and> i2c_acct (hist w') = None"
proof -
  note ret = alloc_succeeds_ret [OF assms(1)] assms(3-5)
  from assms(6) show ?thesis
    by (simp add: i2c_register_defs out_defs Let_def ret cong: if_cong split del: if_split)
      (auto simp: assms(2) ret)
qed

text \<open>A loaded adapter: its name carries its number, its bus is enabled.\<close>

lemma i2c_loaded_state:
  assumes "run_state (dummy_i2c_register K) (w\<lparr>dv := dummy_i2c0 m\<rparr>) = (0, w')"
  shows "adapter_name (adapter (dv w')) =
           ''dummy_i2c bus '' @ dec_int (sint (adapter_nr (adapter (dv w'))))
         \<and> cntr_bits (dv w') = DUMMY_I2C_REG_CONTROL_BUS_EN
         \<and> bus_freq (dv w') = DUMMY_I2C_SPEED_100K
         \<and> reg_offsets (dv w') = reg_offsets (dummy_i2c0 m)"
  using assms
  by (simp add: i2c_register_defs out_defs Let_def cong: if_cong split del: if_split)
    (auto simp: dummy_i2c0_def split: if_splits)

end
