(* ===== verification/Video.thy ===== *)
theory Video
  imports Kernel
begin

text \<open>
  The streaming part of \<open>v4l2/video.c\<close>: the queue of buffers, the timer that fills one buffer with
  the next frame of the animation every 40 ms, and the operations the videobuf2 core calls. The
  buffers' memory and the times of the clock come from the kernel; the bytes of the frames are a
  parameter whose lengths are those of \<open>v4l2/frames.h\<close>.
\<close>

section \<open>Frames\<close>

definition DUMMY_VIDEO_WIDTH :: nat where "DUMMY_VIDEO_WIDTH = 600"
definition DUMMY_VIDEO_HEIGHT :: nat where "DUMMY_VIDEO_HEIGHT = 350"

definition DUMMY_VIDEO_PLANE_SIZE :: nat where
  "DUMMY_VIDEO_PLANE_SIZE = DUMMY_VIDEO_WIDTH * DUMMY_VIDEO_HEIGHT * 2"

record dummy_frame =
  frame_data :: "u8 list"
  frame_len :: nat

text \<open>The sizes of the 25 arrays of \<open>frames.h\<close>.\<close>

definition frame_lens :: "nat list" where
  "frame_lens = [70279, 70728, 52343, 52849, 50648, 51379, 51528, 51653, 52226, 53878, 53488,
     53518, 51932, 53417, 53784, 53782, 54295, 54325, 103854, 103844, 103188, 103547, 102728,
     102728, 102249]"

definition FRAME_COUNT :: nat where "FRAME_COUNT = 25"

text \<open>\<open>fr i\<close> are the bytes of the array \<open>frame_(i+1)_jpg\<close>.\<close>

definition frames :: "(nat \<Rightarrow> u8 list) \<Rightarrow> dummy_frame list" where
  "frames fr = map (\<lambda>i. \<lparr>frame_data = fr i, frame_len = frame_lens ! i\<rparr>) [0..<FRAME_COUNT]"

definition frames_ok :: "(nat \<Rightarrow> u8 list) \<Rightarrow> bool" where
  "frames_ok fr \<longleftrightarrow> (\<forall>i < FRAME_COUNT. length (fr i) = frame_lens ! i)"

text \<open>
  \<open>dv->sequence % FRAME_COUNT\<close>: the count is an \<open>unsigned long\<close>, so the signed sequence number is
  widened and read as unsigned.
\<close>

definition frame_index :: "c_int \<Rightarrow> nat" where
  "frame_index s = unat ((scast s :: u64) mod of_nat FRAME_COUNT)"

lemma frame_lens_length [simp]: "length frame_lens = FRAME_COUNT"
  by (simp add: frame_lens_def FRAME_COUNT_def)

lemma frame_lens_fit: "i < FRAME_COUNT \<Longrightarrow> frame_lens ! i \<le> DUMMY_VIDEO_PLANE_SIZE"
proof -
  have "\<forall>l\<in>set frame_lens. l \<le> DUMMY_VIDEO_PLANE_SIZE"
    by (simp add: frame_lens_def DUMMY_VIDEO_PLANE_SIZE_def DUMMY_VIDEO_WIDTH_def
        DUMMY_VIDEO_HEIGHT_def)
  then show "i < FRAME_COUNT \<Longrightarrow> frame_lens ! i \<le> DUMMY_VIDEO_PLANE_SIZE" by simp
qed

lemma frame_index_less [simp]: "frame_index s < FRAME_COUNT"
  by (simp add: frame_index_def FRAME_COUNT_def unat_mod)

lemma frame_index_of_nat: "n < 2 ^ 31 \<Longrightarrow> frame_index (of_nat n) = n mod FRAME_COUNT"
proof -
  assume n: "n < 2 ^ 31"
  then have "sint (of_nat n :: 32 word) = int n"
    by (simp add: signed_of_nat signed_take_bit_int_eq_self)
  then have "(scast (of_nat n :: 32 word) :: u64) = of_nat n"
    by (simp add: scast_eq)
  with n show ?thesis
    by (simp add: frame_index_def FRAME_COUNT_def unat_mod unsigned_of_nat take_bit_nat_eq_self)
qed

lemma frames_nth [simp]:
  "i < FRAME_COUNT \<Longrightarrow> frames fr ! i = \<lparr>frame_data = fr i, frame_len = frame_lens ! i\<rparr>"
  by (simp add: frames_def)

text \<open>
  The sequence number is a signed 32-bit counter: at its largest value the frame is number 22, and
  the increment wraps to the most negative value, whose frame is 18 and not 23.
\<close>

lemma frame_index_wrap:
  "frame_index (2 ^ 31 - 1) = 22" "frame_index ((2 ^ 31 - 1) + 1) = 18"
proof -
  have "frame_index (of_nat (2 ^ 31 - 1)) = 22"
    by (subst frame_index_of_nat) (simp_all add: FRAME_COUNT_def)
  then show "frame_index (2 ^ 31 - 1) = 22" by simp
  show "frame_index ((2 ^ 31 - 1) + 1) = 18"
    by (simp add: frame_index_def FRAME_COUNT_def)
qed

section \<open>State\<close>

datatype vb2_state = VB2_BUF_STATE_DONE | VB2_BUF_STATE_ERROR

text \<open>
  A buffer as the driver sees it: the size of its plane, the memory behind
  \<open>vb2_plane_vaddr\<close> (\<open>None\<close> is a null pointer), and the fields the driver writes.
\<close>

record frame_buf =
  plane_size :: nat
  plane_mem :: "u8 list option"
  payload :: nat
  vb_sequence :: u32
  timestamp :: u64

text \<open>
  \<open>queued_bufs\<close> is the driver's list, \<open>done_log\<close> the calls of \<open>vb2_buffer_done\<close>, the latest
  first. Buffers are named by their index in the videobuf2 queue.
\<close>

record dummy_video =
  queued_bufs :: "nat list"
  timer_armed :: bool
  sequence :: c_int
  bufs :: "nat \<Rightarrow> frame_buf"
  done_log :: "(nat \<times> vb2_state) list"

text \<open>\<open>memcpy\<close>, with an access outside one of the two objects as \<open>None\<close>.\<close>

definition memcpy :: "u8 list \<Rightarrow> u8 list \<Rightarrow> nat \<Rightarrow> u8 list option" where
  "memcpy dst src n =
     (if n \<le> length dst \<and> n \<le> length src then Some (take n src @ drop n dst) else None)"

section \<open>The timer\<close>

text \<open>The part under the spin lock: take the first buffer off the list.\<close>

definition timer_take :: "dummy_video \<Rightarrow> nat option \<times> dummy_video" where
  "timer_take d = (case queued_bufs d of
     [] \<Rightarrow> (None, d)
   | b # bs \<Rightarrow> (Some b, d\<lparr>queued_bufs := bs\<rparr>))"

text \<open>Filling a buffer with the frame of the current sequence number.\<close>

definition fill_buf :: "(nat \<Rightarrow> u8 list) \<Rightarrow> c_int \<Rightarrow> frame_buf \<Rightarrow> frame_buf option" where
  "fill_buf fr s buf = (case plane_mem buf of
     None \<Rightarrow> Some buf
   | Some vaddr \<Rightarrow>
       let df = frames fr ! frame_index s
       in map_option (\<lambda>m. buf\<lparr>plane_mem := Some m, payload := frame_len df\<rparr>)
            (memcpy vaddr (frame_data df) (frame_len df)))"

text \<open>The rest of the handler: fill the buffer, stamp it, complete it, restart the timer.\<close>

definition timer_finish ::
    "(nat \<Rightarrow> u8 list) \<Rightarrow> u64 \<Rightarrow> nat \<Rightarrow> dummy_video \<Rightarrow> dummy_video option" where
  "timer_finish fr now b d = (case fill_buf fr (sequence d) (bufs d b) of
     None \<Rightarrow> None
   | Some buf \<Rightarrow> Some (d\<lparr>
       bufs := (bufs d)(b := buf\<lparr>vb_sequence := sequence d, timestamp := now\<rparr>),
       sequence := sequence d + 1,
       done_log := (b, VB2_BUF_STATE_DONE) # done_log d,
       timer_armed := True\<rparr>))"

definition dummy_video_timer_func ::
    "(nat \<Rightarrow> u8 list) \<Rightarrow> u64 \<Rightarrow> dummy_video \<Rightarrow> dummy_video option" where
  "dummy_video_timer_func fr now d = (case timer_take d of
     (None, d') \<Rightarrow> Some (d'\<lparr>timer_armed := True\<rparr>)
   | (Some b, d') \<Rightarrow> timer_finish fr now b d')"

section \<open>Operations called by videobuf2\<close>

text \<open>
  \<open>queue_setup\<close> answers an error or the number of planes and their sizes; a request that names its
  planes is checked, one that does not is filled in.
\<close>

definition dummy_video_queue_setup :: "nat \<Rightarrow> nat list \<Rightarrow> c_int \<times> nat \<times> nat list" where
  "dummy_video_queue_setup nplanes sizes =
     (if nplanes \<noteq> 0
      then (if sizes ! 0 < DUMMY_VIDEO_PLANE_SIZE then - EINVAL else 0, nplanes, sizes)
      else (0, 1, sizes[0 := DUMMY_VIDEO_PLANE_SIZE]))"

definition dummy_video_buf_prepare :: "frame_buf \<Rightarrow> c_int" where
  "dummy_video_buf_prepare buf =
     (if plane_size buf < DUMMY_VIDEO_PLANE_SIZE then - EINVAL else 0)"

definition dummy_video_buf_queue :: "nat \<Rightarrow> dummy_video \<Rightarrow> dummy_video" where
  "dummy_video_buf_queue b d = d\<lparr>queued_bufs := queued_bufs d @ [b]\<rparr>"

definition dummy_video_start_streaming :: "dummy_video \<Rightarrow> c_int \<times> dummy_video" where
  "dummy_video_start_streaming d = (0, d\<lparr>sequence := 0, timer_armed := True\<rparr>)"

text \<open>The loop that hands every queued buffer back with an error.\<close>

fun return_all :: "nat list \<Rightarrow> dummy_video \<Rightarrow> dummy_video" where
  "return_all [] d = d\<lparr>queued_bufs := []\<rparr>"
| "return_all (b # bs) d =
     return_all bs (d\<lparr>queued_bufs := bs, done_log := (b, VB2_BUF_STATE_ERROR) # done_log d\<rparr>)"

definition dummy_video_stop_streaming :: "dummy_video \<Rightarrow> dummy_video" where
  "dummy_video_stop_streaming d = return_all (queued_bufs d) (d\<lparr>timer_armed := False\<rparr>)"

lemma return_all_eq:
  "return_all bs d = d\<lparr>queued_bufs := [],
     done_log := rev (map (\<lambda>b. (b, VB2_BUF_STATE_ERROR)) bs) @ done_log d\<rparr>"
  by (induction bs arbitrary: d) simp_all

lemmas video_defs =
  dummy_video_buf_queue_def dummy_video_start_streaming_def dummy_video_stop_streaming_def
  return_all_eq timer_take_def timer_finish_def dummy_video_timer_func_def

section \<open>Memory safety of the copy\<close>

text \<open>
  videobuf2 maps a plane with at least the size it reports; a buffer whose plane passed
  \<open>buf_prepare\<close> then holds every frame.
\<close>

definition plane_ok :: "frame_buf \<Rightarrow> bool" where
  "plane_ok buf \<longleftrightarrow> dummy_video_buf_prepare buf = 0 \<and>
     (case plane_mem buf of None \<Rightarrow> True | Some m \<Rightarrow> plane_size buf \<le> length m)"

lemma plane_ok_mem:
  "plane_ok buf \<Longrightarrow> plane_mem buf = Some m \<Longrightarrow> DUMMY_VIDEO_PLANE_SIZE \<le> length m"
  by (simp add: plane_ok_def dummy_video_buf_prepare_def split: if_splits)

lemma fill_buf_safe:
  assumes "frames_ok fr" and "plane_ok buf"
  shows "\<exists>buf'. fill_buf fr s buf = Some buf' \<and> plane_ok buf' \<and> plane_size buf' = plane_size buf"
proof (cases "plane_mem buf")
  case None
  with assms show ?thesis by (simp add: fill_buf_def)
next
  case (Some m)
  have "frame_lens ! frame_index s \<le> length m"
    using frame_lens_fit [OF frame_index_less, of s] plane_ok_mem [OF assms(2) Some] by simp
  with Some assms show ?thesis
    by (auto simp: fill_buf_def memcpy_def frames_ok_def plane_ok_def dummy_video_buf_prepare_def
        split: if_splits)
qed

text \<open>What a filled buffer shows.\<close>

lemma fill_buf_content:
  assumes "frames_ok fr" and "plane_mem buf = Some m" and "fill_buf fr s buf = Some buf'"
  shows "payload buf' = frame_lens ! frame_index s
    \<and> (\<exists>m'. plane_mem buf' = Some m' \<and> length m' = length m
         \<and> take (payload buf') m' = fr (frame_index s)
         \<and> drop (payload buf') m' = drop (payload buf') m)"
  using assms by (auto simp: fill_buf_def memcpy_def frames_ok_def Let_def split: if_splits)

end
