(* ===== verification/Video_Tables.thy ===== *)
theory Video_Tables
  imports Prelude
begin

text \<open>
  The tables of \<open>v4l2/video.c\<close> through which the kernel reaches the driver: the videobuf2 operations,
  the ioctls and the file operations. A function pointer is the name of a function; the functions
  that belong to the kernel are names only.
\<close>

section \<open>Functions of the kernel\<close>

datatype core_fn =
    Vb2_ops_wait_prepare | Vb2_ops_wait_finish
  | Vb2_ioctl_reqbufs | Vb2_ioctl_create_bufs | Vb2_ioctl_prepare_buf | Vb2_ioctl_querybuf
  | Vb2_ioctl_qbuf | Vb2_ioctl_dqbuf | Vb2_ioctl_streamon | Vb2_ioctl_streamoff
  | V4l2_ctrl_subscribe_event | V4l2_event_unsubscribe | V4l2_ctrl_log_status
  | V4l2_fh_open | Vb2_fop_release | Vb2_fop_read | Vb2_fop_poll | Vb2_fop_mmap | Video_ioctl2

section \<open>Operations of a videobuf2 queue\<close>

datatype vb2_slot =
    Queue_setup | Buf_prepare | Buf_queue | Start_streaming | Stop_streaming
  | Wait_prepare | Wait_finish

datatype vb2_fn =
    Dummy_video_queue_setup | Dummy_video_buf_prepare | Dummy_video_buf_queue
  | Dummy_video_start_streaming | Dummy_video_stop_streaming
  | Vb2_core core_fn

fun dummy_video_vb2_ops :: "vb2_slot \<Rightarrow> vb2_fn" where
  "dummy_video_vb2_ops Queue_setup = Dummy_video_queue_setup"
| "dummy_video_vb2_ops Buf_prepare = Dummy_video_buf_prepare"
| "dummy_video_vb2_ops Buf_queue = Dummy_video_buf_queue"
| "dummy_video_vb2_ops Start_streaming = Dummy_video_start_streaming"
| "dummy_video_vb2_ops Stop_streaming = Dummy_video_stop_streaming"
| "dummy_video_vb2_ops Wait_prepare = Vb2_core Vb2_ops_wait_prepare"
| "dummy_video_vb2_ops Wait_finish = Vb2_core Vb2_ops_wait_finish"

section \<open>Ioctls\<close>

text \<open>The slots that the driver fills; every other slot of the kernel's structure stays empty.\<close>

datatype ioctl_slot =
    Vidioc_querycap
  | Vidioc_enum_fmt_vid_cap | Vidioc_enum_framesizes | Vidioc_enum_frameintervals
  | Vidioc_g_fmt_vid_cap | Vidioc_try_fmt_vid_cap | Vidioc_s_fmt_vid_cap
  | Vidioc_g_parm | Vidioc_s_parm
  | Vidioc_reqbufs | Vidioc_create_bufs | Vidioc_prepare_buf | Vidioc_querybuf
  | Vidioc_qbuf | Vidioc_dqbuf | Vidioc_streamon | Vidioc_streamoff
  | Vidioc_subscribe_event | Vidioc_unsubscribe_event | Vidioc_log_status
  | Vidioc_other nat

datatype ioctl_fn =
    Dummy_video_querycap
  | Dummy_video_enum_fmt_vid_cap | Dummy_video_enum_framesizes | Dummy_video_enum_frameintervals
  | Dummy_video_g_fmt_vid_cap | Dummy_video_try_fmt_vid_cap | Dummy_video_s_fmt_vid_cap
  | Dummy_video_g_parm | Dummy_video_s_parm
  | Ioctl_core core_fn

fun dummy_video_ioctl_ops :: "ioctl_slot \<Rightarrow> ioctl_fn option" where
  "dummy_video_ioctl_ops Vidioc_querycap = Some Dummy_video_querycap"
| "dummy_video_ioctl_ops Vidioc_enum_fmt_vid_cap = Some Dummy_video_enum_fmt_vid_cap"
| "dummy_video_ioctl_ops Vidioc_enum_framesizes = Some Dummy_video_enum_framesizes"
| "dummy_video_ioctl_ops Vidioc_enum_frameintervals = Some Dummy_video_enum_frameintervals"
| "dummy_video_ioctl_ops Vidioc_g_fmt_vid_cap = Some Dummy_video_g_fmt_vid_cap"
| "dummy_video_ioctl_ops Vidioc_try_fmt_vid_cap = Some Dummy_video_try_fmt_vid_cap"
| "dummy_video_ioctl_ops Vidioc_s_fmt_vid_cap = Some Dummy_video_s_fmt_vid_cap"
| "dummy_video_ioctl_ops Vidioc_g_parm = Some Dummy_video_g_parm"
| "dummy_video_ioctl_ops Vidioc_s_parm = Some Dummy_video_s_parm"
| "dummy_video_ioctl_ops Vidioc_reqbufs = Some (Ioctl_core Vb2_ioctl_reqbufs)"
| "dummy_video_ioctl_ops Vidioc_create_bufs = Some (Ioctl_core Vb2_ioctl_create_bufs)"
| "dummy_video_ioctl_ops Vidioc_prepare_buf = Some (Ioctl_core Vb2_ioctl_prepare_buf)"
| "dummy_video_ioctl_ops Vidioc_querybuf = Some (Ioctl_core Vb2_ioctl_querybuf)"
| "dummy_video_ioctl_ops Vidioc_qbuf = Some (Ioctl_core Vb2_ioctl_qbuf)"
| "dummy_video_ioctl_ops Vidioc_dqbuf = Some (Ioctl_core Vb2_ioctl_dqbuf)"
| "dummy_video_ioctl_ops Vidioc_streamon = Some (Ioctl_core Vb2_ioctl_streamon)"
| "dummy_video_ioctl_ops Vidioc_streamoff = Some (Ioctl_core Vb2_ioctl_streamoff)"
| "dummy_video_ioctl_ops Vidioc_subscribe_event = Some (Ioctl_core V4l2_ctrl_subscribe_event)"
| "dummy_video_ioctl_ops Vidioc_unsubscribe_event = Some (Ioctl_core V4l2_event_unsubscribe)"
| "dummy_video_ioctl_ops Vidioc_log_status = Some (Ioctl_core V4l2_ctrl_log_status)"
| "dummy_video_ioctl_ops (Vidioc_other n) = None"

section \<open>File operations\<close>

datatype fop_slot = Fop_open | Fop_release | Fop_read | Fop_poll | Fop_mmap | Fop_unlocked_ioctl

fun dummy_video_fops :: "fop_slot \<Rightarrow> core_fn" where
  "dummy_video_fops Fop_open = V4l2_fh_open"
| "dummy_video_fops Fop_release = Vb2_fop_release"
| "dummy_video_fops Fop_read = Vb2_fop_read"
| "dummy_video_fops Fop_poll = Vb2_fop_poll"
| "dummy_video_fops Fop_mmap = Vb2_fop_mmap"
| "dummy_video_fops Fop_unlocked_ioctl = Video_ioctl2"

end
