(* ===== verification/Video_Module.thy ===== *)
theory Video_Module
  imports Video Video_Tables Template
begin

text \<open>
  The rest of \<open>v4l2/video.c\<close>: the ioctls that describe the device and its only format, and loading
  and unloading. Registration reports the errors of the kernel but does not act on them; the
  contract of a module holds for it only when every step succeeds.
\<close>

section \<open>Ioctls\<close>

text \<open>The constants of the V4L2 user interface the driver answers with.\<close>

abbreviation V4L2_CAP_VIDEO_CAPTURE :: u32 where "V4L2_CAP_VIDEO_CAPTURE \<equiv> 0x00000001"
abbreviation V4L2_CAP_READWRITE :: u32 where "V4L2_CAP_READWRITE \<equiv> 0x01000000"
abbreviation V4L2_CAP_STREAMING :: u32 where "V4L2_CAP_STREAMING \<equiv> 0x04000000"
abbreviation V4L2_CAP_DEVICE_CAPS :: u32 where "V4L2_CAP_DEVICE_CAPS \<equiv> 0x80000000"
abbreviation V4L2_PIX_FMT_MJPEG :: u32 where "V4L2_PIX_FMT_MJPEG \<equiv> 0x47504a4d"
abbreviation V4L2_FIELD_NONE :: u32 where "V4L2_FIELD_NONE \<equiv> 1"
abbreviation V4L2_COLORSPACE_SRGB :: u32 where "V4L2_COLORSPACE_SRGB \<equiv> 8"
abbreviation V4L2_FRMSIZE_TYPE_DISCRETE :: u32 where "V4L2_FRMSIZE_TYPE_DISCRETE \<equiv> 1"
abbreviation V4L2_FRMIVAL_TYPE_DISCRETE :: u32 where "V4L2_FRMIVAL_TYPE_DISCRETE \<equiv> 1"
abbreviation V4L2_BUF_TYPE_VIDEO_CAPTURE :: u32 where "V4L2_BUF_TYPE_VIDEO_CAPTURE \<equiv> 1"
abbreviation V4L2_BUF_FLAG_TIMESTAMP_MONOTONIC :: u32 where
  "V4L2_BUF_FLAG_TIMESTAMP_MONOTONIC \<equiv> 0x2000"

text \<open>\<open>strscpy\<close> into an array of \<open>n\<close> bytes: the text that can be read back.\<close>

definition strscpy :: "string \<Rightarrow> nat \<Rightarrow> string" where
  "strscpy s n = take (n - 1) s"

record v4l2_capability =
  cap_driver :: string
  cap_card :: string
  capabilities :: u32
  cap_device_caps :: u32

text \<open>A pointer to a table is \<open>None\<close> while it is null.\<close>

record video_device =
  vdev_name :: string
  vdev_fops :: "(fop_slot \<Rightarrow> core_fn) option"
  ioctl_ops :: "(ioctl_slot \<Rightarrow> ioctl_fn option) option"
  device_caps :: u32

definition dummy_video_template :: video_device where
  "dummy_video_template = \<lparr>vdev_name = ''dummy-video'', vdev_fops = Some dummy_video_fops,
     ioctl_ops = Some dummy_video_ioctl_ops,
     device_caps = V4L2_CAP_VIDEO_CAPTURE OR V4L2_CAP_STREAMING OR V4L2_CAP_READWRITE\<rparr>"

text \<open>\<open>modname\<close> is \<open>KBUILD_MODNAME\<close>, which the build gives.\<close>

definition dummy_video_querycap ::
    "string \<Rightarrow> video_device \<Rightarrow> v4l2_capability \<Rightarrow> c_int \<times> v4l2_capability" where
  "dummy_video_querycap modname vdev cap =
     (let cap = cap\<lparr>cap_driver := strscpy modname 16, cap_card := strscpy (vdev_name vdev) 32,
                   cap_device_caps := device_caps vdev\<rparr>
      in (0, cap\<lparr>capabilities := cap_device_caps cap OR V4L2_CAP_DEVICE_CAPS\<rparr>))"

record v4l2_fmtdesc =
  fmt_index :: u32
  description :: string
  fmt_pixelformat :: u32

definition dummy_video_enum_fmt_vid_cap :: "v4l2_fmtdesc \<Rightarrow> c_int \<times> v4l2_fmtdesc" where
  "dummy_video_enum_fmt_vid_cap f =
     (if fmt_index f > 0 then (- EINVAL, f)
      else (0, f\<lparr>description := strscpy ''motion jpeg'' 32,
                 fmt_pixelformat := V4L2_PIX_FMT_MJPEG\<rparr>))"

record v4l2_frmsizeenum =
  fsize_index :: u32
  fsize_type :: u32
  fsize_width :: u32
  fsize_height :: u32

definition dummy_video_enum_framesizes :: "v4l2_frmsizeenum \<Rightarrow> c_int \<times> v4l2_frmsizeenum" where
  "dummy_video_enum_framesizes f =
     (if fsize_index f > 0 then (- EINVAL, f)
      else (0, f\<lparr>fsize_type := V4L2_FRMSIZE_TYPE_DISCRETE,
                 fsize_width := of_nat DUMMY_VIDEO_WIDTH,
                 fsize_height := of_nat DUMMY_VIDEO_HEIGHT\<rparr>))"

record v4l2_frmivalenum =
  fival_index :: u32
  fival_type :: u32
  numerator :: u32
  denominator :: u32

definition dummy_video_enum_frameintervals :: "v4l2_frmivalenum \<Rightarrow> c_int \<times> v4l2_frmivalenum" where
  "dummy_video_enum_frameintervals f =
     (if fival_index f > 0 then (- EINVAL, f)
      else (0, f\<lparr>fival_type := V4L2_FRMIVAL_TYPE_DISCRETE, numerator := 1, denominator := 25\<rparr>))"

record v4l2_pix_format =
  width :: u32
  height :: u32
  pixelformat :: u32
  field :: u32
  bytesperline :: u32
  sizeimage :: u32
  colorspace :: u32

definition dummy_video_g_fmt_vid_cap :: "v4l2_pix_format \<Rightarrow> c_int \<times> v4l2_pix_format" where
  "dummy_video_g_fmt_vid_cap pix = (0, pix\<lparr>
     width := of_nat DUMMY_VIDEO_WIDTH, height := of_nat DUMMY_VIDEO_HEIGHT,
     pixelformat := V4L2_PIX_FMT_MJPEG, field := V4L2_FIELD_NONE,
     bytesperline := of_nat (DUMMY_VIDEO_WIDTH * 2),
     sizeimage := of_nat (DUMMY_VIDEO_WIDTH * DUMMY_VIDEO_HEIGHT * 2),
     colorspace := V4L2_COLORSPACE_SRGB\<rparr>)"

definition dummy_video_try_fmt_vid_cap :: "v4l2_pix_format \<Rightarrow> c_int \<times> v4l2_pix_format" where
  "dummy_video_try_fmt_vid_cap pix = dummy_video_g_fmt_vid_cap pix"

definition dummy_video_s_fmt_vid_cap :: "v4l2_pix_format \<Rightarrow> c_int \<times> v4l2_pix_format" where
  "dummy_video_s_fmt_vid_cap pix = dummy_video_g_fmt_vid_cap pix"

definition dummy_video_g_parm :: "'a \<Rightarrow> c_int \<times> 'a" where
  "dummy_video_g_parm a = (0, a)"

definition dummy_video_s_parm :: "'a \<Rightarrow> c_int \<times> 'a" where
  "dummy_video_s_parm a = (0, a)"

lemmas format_defs =
  dummy_video_g_fmt_vid_cap_def dummy_video_try_fmt_vid_cap_def dummy_video_s_fmt_vid_cap_def
  DUMMY_VIDEO_WIDTH_def DUMMY_VIDEO_HEIGHT_def DUMMY_VIDEO_PLANE_SIZE_def

text \<open>
  Negotiation has one outcome: whatever an application asks for, it is told the same format, trying
  and setting agree, and asking again with the answer changes nothing.
\<close>

lemma s_fmt_idempotent:
  "dummy_video_s_fmt_vid_cap (snd (dummy_video_s_fmt_vid_cap pix)) = dummy_video_s_fmt_vid_cap pix"
  by (simp add: format_defs)

lemma s_fmt_sizeimage:
  "unat (sizeimage (snd (dummy_video_s_fmt_vid_cap pix))) = DUMMY_VIDEO_PLANE_SIZE"
  by (simp add: format_defs)

text \<open>The image size that is announced is the one the queue accepts.\<close>

lemma negotiated_plane_accepted:
  assumes "sz = unat (sizeimage (snd (dummy_video_s_fmt_vid_cap pix)))"
  shows "dummy_video_queue_setup 1 [sz] = (0, 1, [sz]) \<and>
    (plane_size buf = sz \<longrightarrow> dummy_video_buf_prepare buf = 0)"
  using assms
  by (simp add: s_fmt_sizeimage dummy_video_queue_setup_def dummy_video_buf_prepare_def)

section \<open>Loading and unloading\<close>

datatype video_call =
    Mutex_init string
  | Spin_lock_init string
  | Timer_setup
  | Vb2_queue_init
  | V4l2_device_register string
  | V4l2_device_unregister
  | V4l2_device_put
  | Video_register_device
  | Video_unregister_device
  | Video_device_node_name
  | Timer_delete_sync
  | Mutex_lock string
  | Mutex_unlock string
  | Kfree_dv

text \<open>
  The driver's structure: the streaming part, the queue's description, the video device. The two
  locks the kernel takes around the driver's operations are named by the field they point to.
\<close>

datatype release_fn = Dummy_video_release

record video_dev =
  strm :: dummy_video
  vq_type :: u32
  vq_io_modes :: u32
  vq_ops :: "(vb2_slot \<Rightarrow> vb2_fn) option"
  vq_timestamp_flags :: u32
  vq_lock :: string
  vdev :: video_device
  vdev_lock :: string
  release :: "release_fn option"
  v4l2_name :: string

abbreviation VB2_MMAP :: u32 where "VB2_MMAP \<equiv> 1"
abbreviation VB2_USERPTR :: u32 where "VB2_USERPTR \<equiv> 2"
abbreviation VB2_READ :: u32 where "VB2_READ \<equiv> 4"

type_synonym video_kernel = "video_call kcall kernel"
type_synonym 'a video_prog = "(video_call kcall, video_dev, 'a) prog"

text \<open>The release callback of the V4L2 device: \<open>Kfree_dv\<close> frees the driver's structure.\<close>

definition dummy_video_release :: "video_kernel \<Rightarrow> unit video_prog" where
  "dummy_video_release K = do {
     _ \<leftarrow> sys K (Sub V4l2_device_unregister);
     _ \<leftarrow> sys K (Sub Kfree_dv);
     State_Monad.return ()
   }"

text \<open>An error of a registration step is printed, and nothing else.\<close>

definition warn :: "video_kernel \<Rightarrow> string \<Rightarrow> kresp \<Rightarrow> unit video_prog" where
  "warn K t r =
     (if r_int r \<noteq> 0 then printk K t [sint (r_int r)] else State_Monad.return ())"

definition init_queue :: "video_kernel \<Rightarrow> unit video_prog" where
  "init_queue K = do {
     upd (\<lambda>d. d\<lparr>vq_type := V4L2_BUF_TYPE_VIDEO_CAPTURE,
                vq_io_modes := VB2_MMAP OR VB2_USERPTR OR VB2_READ,
                vq_ops := Some dummy_video_vb2_ops,
                vq_timestamp_flags := V4L2_BUF_FLAG_TIMESTAMP_MONOTONIC\<rparr>);
     r \<leftarrow> sys K (Sub Vb2_queue_init);
     if r_int r \<noteq> 0 then printk K ''Could not initialize vb2 queue'' []
     else State_Monad.return ()
   }"

definition dummy_video_drv_register :: "string \<Rightarrow> video_kernel \<Rightarrow> c_int video_prog" where
  "dummy_video_drv_register modname K = do {
     _ \<leftarrow> sys K (Sub (Mutex_init ''v4l2_mlock''));
     _ \<leftarrow> sys K (Sub (Mutex_init ''vb_queue_mlock''));
     _ \<leftarrow> sys K (Sub (Spin_lock_init ''queued_bufs_slock''));
     upd (strm_update (queued_bufs_update (\<lambda>_. [])));
     _ \<leftarrow> sys K (Sub Timer_setup);
     upd (strm_update (timer_armed_update (\<lambda>_. False)));
     init_queue K;
     upd (\<lambda>d. d\<lparr>vdev := dummy_video_template, vq_lock := ''vb_queue_mlock''\<rparr>);
     upd (\<lambda>d. d\<lparr>release := Some Dummy_video_release, v4l2_name := strscpy modname 36\<rparr>);
     d \<leftarrow> self;
     r \<leftarrow> sys K (Sub (V4l2_device_register (v4l2_name d)));
     warn K ''Failed to register v4l2-device'' r;
     upd (vdev_lock_update (\<lambda>_. ''v4l2_mlock''));
     r \<leftarrow> sys K (Sub Video_register_device);
     warn K ''Failed to register as video device'' r;
     n \<leftarrow> sys K (Sub Video_device_node_name);
     printk K ''Registered as'' [uint (r_ptr n)];
     State_Monad.return 0
   }"

definition dummy_video_drv_unregister :: "video_kernel \<Rightarrow> unit video_prog" where
  "dummy_video_drv_unregister K = do {
     _ \<leftarrow> sys K (Sub Timer_delete_sync);
     upd (strm_update (timer_armed_update (\<lambda>_. False)));
     _ \<leftarrow> sys K (Sub (Mutex_lock ''vb_queue_mlock''));
     _ \<leftarrow> sys K (Sub (Mutex_lock ''v4l2_mlock''));
     _ \<leftarrow> sys K (Sub V4l2_device_unregister);
     _ \<leftarrow> sys K (Sub Video_unregister_device);
     _ \<leftarrow> sys K (Sub (Mutex_unlock ''v4l2_mlock''));
     _ \<leftarrow> sys K (Sub (Mutex_unlock ''vb_queue_mlock''));
     _ \<leftarrow> sys K (Sub V4l2_device_put);
     State_Monad.return ()
   }"

lemmas video_module_defs =
  dummy_video_drv_register_def dummy_video_drv_unregister_def dummy_video_release_def

section \<open>The contract\<close>

text \<open>
  A registered V4L2 device is attached until \<open>v4l2_device_unregister\<close>, which leaves the reference
  that \<open>v4l2_device_put\<close> drops; a lock is held until it is released. The driver's structure is a
  static object: nothing the driver calls hands out memory for it.
\<close>

datatype video_resource = V4l2_attached | V4l2_ref | Video_node | Locked string | Dv_memory

text \<open>A call with two effects on the account is given one entry for each resource.\<close>

fun video_effects :: "video_call kcall \<Rightarrow> kresp \<Rightarrow> video_resource resource effect list" where
  "video_effects (Sub (V4l2_device_register n)) r =
     (if r_int r = 0 then [Acquire (Owned V4l2_ref), Acquire (Owned V4l2_attached)] else [])"
| "video_effects (Sub V4l2_device_unregister) r = [Release (Owned V4l2_attached)]"
| "video_effects (Sub V4l2_device_put) r = [Release (Owned V4l2_ref)]"
| "video_effects (Sub Video_register_device) r =
     (if r_int r = 0 then [Acquire (Owned Video_node)] else [])"
| "video_effects (Sub Video_unregister_device) r = [Release (Owned Video_node)]"
| "video_effects (Sub (Mutex_lock m)) r = [Acquire (Owned (Locked m))]"
| "video_effects (Sub (Mutex_unlock m)) r = [Release (Owned (Locked m))]"
| "video_effects (Sub Kfree_dv) r = [Release (Owned Dv_memory)]"
| "video_effects (Sub c) r = []"
| "video_effects (Base b) r = [base_effect b r]"

fun settle_all :: "'r effect list \<Rightarrow> 'r list \<Rightarrow> 'r list option" where
  "settle_all [] rs = Some rs"
| "settle_all (e # es) rs = (case settle e rs of None \<Rightarrow> None | Some rs' \<Rightarrow> settle_all es rs')"

fun video_acct :: "(video_call kcall \<times> kresp) list \<Rightarrow> video_resource resource list option" where
  "video_acct [] = Some []"
| "video_acct ((c, r) # h) =
     (case video_acct h of None \<Rightarrow> None | Some rs \<Rightarrow> settle_all (video_effects c r) rs)"

definition video_holds :: "video_dev \<Rightarrow> video_resource resource list" where
  "video_holds d = [Owned Video_node, Owned V4l2_attached, Owned V4l2_ref]"

definition video_steps_succeed :: "video_kernel \<Rightarrow> bool" where
  "video_steps_succeed K \<longleftrightarrow> (\<forall>n s. r_int (K n (Sub (V4l2_device_register s))) = 0) \<and>
     (\<forall>n. r_int (K n (Sub Video_register_device)) = 0)"

lemma video_steps_ret [simp]:
  "video_steps_succeed K \<Longrightarrow> r_int (K n (Sub (V4l2_device_register s))) = 0"
  "video_steps_succeed K \<Longrightarrow> r_int (K n (Sub Video_register_device)) = 0"
  by (simp_all add: video_steps_succeed_def)

text \<open>The parts that only print keep the account.\<close>

definition warned :: "video_kernel \<Rightarrow> string \<Rightarrow> kresp \<Rightarrow> (video_call kcall, video_dev) world
    \<Rightarrow> (video_call kcall, video_dev) world" where
  "warned K t r w = snd (run_state (warn K t r) w)"

definition queue_inited :: "video_kernel \<Rightarrow> (video_call kcall, video_dev) world
    \<Rightarrow> (video_call kcall, video_dev) world" where
  "queue_inited K w = snd (run_state (init_queue K) w)"

lemma run_warn [simp]: "run_state (warn K t r) w = ((), warned K t r w)"
  by (simp add: warned_def prod_eq_iff)

lemma warned_acct [simp]:
  "video_acct (hist (warned K t r w)) = video_acct (hist w)" "dv (warned K t r w) = dv w"
  by (simp_all add: warned_def warn_def split: option.splits)

lemma run_init_queue [simp]: "run_state (init_queue K) w = ((), queue_inited K w)"
  by (simp add: queue_inited_def prod_eq_iff)

lemma queue_inited_acct [simp]:
  "video_acct (hist (queue_inited K w)) = video_acct (hist w)"
  "dv (queue_inited K w) = (dv w)\<lparr>vq_type := V4L2_BUF_TYPE_VIDEO_CAPTURE,
     vq_io_modes := VB2_MMAP OR VB2_USERPTR OR VB2_READ, vq_ops := Some dummy_video_vb2_ops,
     vq_timestamp_flags := V4L2_BUF_FLAG_TIMESTAMP_MONOTONIC\<rparr>"
  by (simp_all add: queue_inited_def init_queue_def split: option.splits)

lemma warn_bindE:
  assumes "run_state (State_Monad.bind (warn K t r) f) w = (x, w')"
  obtains w1 where "video_acct (hist w1) = video_acct (hist w)" and "dv w1 = dv w"
    and "run_state (f ()) w1 = (x, w')"
  by (rule that [of "warned K t r w"]) (use assms in simp_all)

lemma init_queue_bindE:
  assumes "run_state (State_Monad.bind (init_queue K) f) w = (x, w')"
  obtains w1 where "video_acct (hist w1) = video_acct (hist w)"
    and "run_state (f ()) w1 = (x, w')"
  by (rule that [of "queue_inited K w"]) (use assms in simp_all)

definition video_d0 :: video_dev where
  "video_d0 = \<lparr>strm = \<lparr>queued_bufs = [], timer_armed = False, sequence = 0,
       bufs = (\<lambda>_. \<lparr>plane_size = 0, plane_mem = None, payload = 0, vb_sequence = 0,
                     timestamp = 0\<rparr>), done_log = []\<rparr>,
     vq_type = 0, vq_io_modes = 0, vq_ops = None, vq_timestamp_flags = 0, vq_lock = [],
     vdev = \<lparr>vdev_name = [], vdev_fops = None, ioctl_ops = None, device_caps = 0\<rparr>,
     vdev_lock = [], release = None, v4l2_name = []\<rparr>"

interpretation video_module: module_driver
  video_acct video_d0 "dummy_video_drv_register m" dummy_video_drv_unregister
  video_holds video_steps_succeed
  for m
  by unfold_locales (auto simp: video_module_defs video_holds_def Let_def split: if_splits)

text \<open>Loading always answers success, whatever the kernel answered.\<close>

lemma video_register_returns_0:
  "fst (run_state (dummy_video_drv_register m K) w) = 0"
  by (simp add: video_module_defs)

text \<open>
  When the V4L2 device was refused, the module stays loaded, and unloading it unregisters a device
  that was never registered.
\<close>

lemma video_register_refused:
  assumes "video_acct (hist w) = Some rs"
    and "\<And>n s r. answers K n (Sub (V4l2_device_register s)) r \<Longrightarrow> r_int r \<noteq> 0"
    and "run_state (dummy_video_drv_register m K) w = (r, w')"
  shows "video_acct (hist w') \<in> {Some rs, Some (Owned Video_node # rs)}"
  using assms(3) unfolding dummy_video_drv_register_def
  by (elim run_elims warn_bindE init_queue_bindE) (auto simp: assms(1) dest: assms(2))

lemma video_unregister_refused:
  assumes "video_acct (hist w) = Some rs" and "Owned V4l2_attached \<notin> set rs"
    and "run_state (dummy_video_drv_unregister K) w = (u, w')"
  shows "video_acct (hist w') = None"
  using assms by (auto simp: dummy_video_drv_unregister_def)

lemma video_failure_ignored:
  assumes "video_acct (hist w) = Some []"
    and "\<And>n s r. answers K n (Sub (V4l2_device_register s)) r \<Longrightarrow> r_int r \<noteq> 0"
    and "mod_session (dummy_video_drv_register m K) (dummy_video_drv_unregister K) d0
           [Insmod, Rmmod] (False, w) = (l, w')"
  shows "video_acct (hist w') = None"
proof -
  obtain r w1 where reg: "run_state (dummy_video_drv_register m K) (w\<lparr>dv := d0\<rparr>) = (r, w1)"
    by fastforce
  with video_register_returns_0 [of m K "w\<lparr>dv := d0\<rparr>"] have r: "r = 0" by simp
  obtain u w2 where unreg: "run_state (dummy_video_drv_unregister K) w1 = (u, w2)"
    by (metis surj_pair)
  from assms(3) reg r unreg have "w' = w2" by simp
  moreover from assms(1) have "video_acct (hist (w\<lparr>dv := d0\<rparr>)) = Some []" by simp
  from video_register_refused [OF this assms(2) reg]
  have "video_acct (hist w2) = None"
    using video_unregister_refused [OF _ _ unreg] by fastforce
  ultimately show ?thesis by simp
qed

text \<open>
  The release callback runs when the last reference is dropped. It unregisters the device a second
  time and frees a structure that was never allocated.
\<close>

lemma release_frees_static:
  assumes "video_acct (hist w) = Some rs" and "Owned Dv_memory \<notin> set rs"
  shows "video_acct (hist (snd (run_state (dummy_video_release K) w))) = None"
  using assms by (auto simp: video_module_defs split: option.splits if_splits dest: notin_set_remove1)

text \<open>So every unload that drops the last reference ends in the callback freeing the static structure.\<close>

lemma unload_then_release:
  assumes "video_steps_succeed K" and "video_acct (hist w) = Some []"
  shows "case mod_session (dummy_video_drv_register m K) (dummy_video_drv_unregister K) video_d0
      (cmds @ [Rmmod]) (False, w) of (l, w') \<Rightarrow>
    \<not> l \<and> video_acct (hist w') = Some [] \<and>
    video_acct (hist (snd (run_state (dummy_video_release K) w'))) = None"
  using video_module.session_clean [OF assms, of m cmds] release_frees_static
  by (auto split: prod.splits)

end
