(* ===== verification/Video_Stream.thy ===== *)
theory Video_Stream
  imports Video
begin

text \<open>
  What the streaming part of \<open>v4l2/video.c\<close> promises to the videobuf2 core and to the viewer. The
  locale states the contract of a videobuf2 driver over sequences of operations; the driver's model
  satisfies it. The second half follows a running stream frame by frame.
\<close>

section \<open>The contract of a videobuf2 driver\<close>

datatype vb2_op = Qbuf nat | Tick u64 | Streamon | Streamoff

fun run_ops :: "('o \<Rightarrow> 's \<Rightarrow> 's option) \<Rightarrow> 'o list \<Rightarrow> 's \<Rightarrow> 's option" where
  "run_ops step [] s = Some s"
| "run_ops step (x # xs) s = (case step x s of None \<Rightarrow> None | Some s' \<Rightarrow> run_ops step xs s')"

text \<open>The buffers the core hands over in a sequence of operations: those that pass \<open>prep\<close>.\<close>

fun accepted :: "(nat \<Rightarrow> bool) \<Rightarrow> vb2_op list \<Rightarrow> nat list" where
  "accepted prep [] = []"
| "accepted prep (x # xs) =
     (case x of Qbuf b \<Rightarrow> (if prep b then [b] else []) | _ \<Rightarrow> []) @ accepted prep xs"

locale vb2_driver =
  fixes step :: "vb2_op \<Rightarrow> 's \<Rightarrow> 's option"
    and owned :: "'s \<Rightarrow> nat list"
    and returned :: "'s \<Rightarrow> (nat \<times> vb2_state) list"
    and prep :: "nat \<Rightarrow> 's \<Rightarrow> bool"
    and ok :: "'s \<Rightarrow> bool"
  assumes qbuf: "step (Qbuf b) s = Some s' \<Longrightarrow>
      owned s' = owned s @ (if prep b s then [b] else []) \<and> returned s' = returned s"
    and tick: "step (Tick t) s = Some s' \<Longrightarrow>
      (owned s' = owned s \<and> returned s' = returned s) \<or>
      (\<exists>b bs. owned s = b # bs \<and> owned s' = bs \<and>
         returned s' = (b, VB2_BUF_STATE_DONE) # returned s)"
    and streamon: "step Streamon s = Some s' \<Longrightarrow> owned s' = owned s \<and> returned s' = returned s"
    and streamoff: "step Streamoff s = Some s' \<Longrightarrow> owned s' = [] \<and>
      returned s' = rev (map (\<lambda>b. (b, VB2_BUF_STATE_ERROR)) (owned s)) @ returned s"
    and prep_stable: "step x s = Some s' \<Longrightarrow> prep b s' = prep b s"
    and total: "ok s \<Longrightarrow> \<exists>s'. step x s = Some s' \<and> ok s'"
begin

lemma run_total: "ok s \<Longrightarrow> \<exists>s'. run_ops step xs s = Some s' \<and> ok s'"
proof (induction xs arbitrary: s)
  case Nil
  then show ?case by simp
next
  case (Cons x xs)
  from total [OF Cons.prems, of x] Cons.IH show ?case by fastforce
qed

text \<open>
  No buffer is lost, duplicated or reordered: what was returned, then what is still held, is what
  was returned and held before, followed by what the core handed over since.
\<close>

lemma step_conserves:
  assumes "step x s = Some s'"
  shows "map fst (rev (returned s')) @ owned s' =
    map fst (rev (returned s)) @ owned s @ accepted (\<lambda>b. prep b s) [x]"
proof (cases x)
  case (Qbuf b)
  with qbuf assms show ?thesis by fastforce
next
  case (Tick t)
  with tick [of t s s'] assms show ?thesis by auto
next
  case Streamon
  with streamon assms show ?thesis by simp
next
  case Streamoff
  with streamoff [of s s'] assms show ?thesis by (simp add: rev_map comp_def)
qed

lemma run_conserves:
  "run_ops step xs s = Some s' \<Longrightarrow>
     map fst (rev (returned s')) @ owned s' =
       map fst (rev (returned s)) @ owned s @ accepted (\<lambda>b. prep b s) xs"
proof (induction xs arbitrary: s)
  case Nil
  then show ?case by simp
next
  case (Cons x xs)
  then obtain s1 where s1: "step x s = Some s1" and run: "run_ops step xs s1 = Some s'"
    by (auto split: option.splits)
  from prep_stable [OF s1] have "(\<lambda>b. prep b s1) = (\<lambda>b. prep b s)" by simp
  with Cons.IH [OF run] step_conserves [OF s1] show ?case by (simp flip: append_assoc)
qed

text \<open>Stopping returns everything.\<close>

lemma run_then_stop:
  assumes "run_ops step (xs @ [Streamoff]) s = Some s'"
  shows "owned s' = [] \<and>
    map fst (rev (returned s')) =
      map fst (rev (returned s)) @ owned s @ accepted (\<lambda>b. prep b s) xs"
proof -
  have app: "run_ops step (xs @ ys) s =
      (case run_ops step xs s of None \<Rightarrow> None | Some s1 \<Rightarrow> run_ops step ys s1)" for ys
    by (induction xs arbitrary: s) (simp_all split: option.splits)
  from assms obtain s1 where "run_ops step xs s = Some s1" and off: "step Streamoff s1 = Some s'"
    by (auto simp: app split: option.splits)
  moreover have "accepted p (xs @ [Streamoff]) = accepted p xs" for p
    by (induction xs) simp_all
  ultimately show ?thesis
    using run_conserves [OF assms] streamoff [OF off] by simp
qed

end

section \<open>The driver's operations\<close>

text \<open>
  \<open>VIDIOC_QBUF\<close> reaches \<open>buf_queue\<close> only when \<open>buf_prepare\<close> answers 0; the timer fires only
  when it is armed.
\<close>

definition video_step :: "(nat \<Rightarrow> u8 list) \<Rightarrow> vb2_op \<Rightarrow> dummy_video \<Rightarrow> dummy_video option" where
  "video_step fr x d = (case x of
     Qbuf b \<Rightarrow> Some (if dummy_video_buf_prepare (bufs d b) = 0 then dummy_video_buf_queue b d else d)
   | Tick now \<Rightarrow> (if timer_armed d then dummy_video_timer_func fr now d else Some d)
   | Streamon \<Rightarrow> Some (snd (dummy_video_start_streaming d))
   | Streamoff \<Rightarrow> Some (dummy_video_stop_streaming d))"

definition video_ok :: "dummy_video \<Rightarrow> bool" where
  "video_ok d \<longleftrightarrow> (\<forall>b. dummy_video_buf_prepare (bufs d b) = 0 \<longrightarrow> plane_ok (bufs d b)) \<and>
     (\<forall>b\<in>set (queued_bufs d). dummy_video_buf_prepare (bufs d b) = 0)"

lemma fill_buf_size: "fill_buf fr s buf = Some buf' \<Longrightarrow> plane_size buf' = plane_size buf"
  by (auto simp: fill_buf_def Let_def split: option.splits)

lemma timer_finish_prepare:
  "timer_finish fr now b d = Some d' \<Longrightarrow>
     dummy_video_buf_prepare (bufs d' c) = dummy_video_buf_prepare (bufs d c)"
  by (auto simp: timer_finish_def dummy_video_buf_prepare_def dest!: fill_buf_size
      split: option.splits if_splits)

lemma timer_finish_total:
  assumes "frames_ok fr" and "plane_ok (bufs d b)"
  shows "\<exists>d'. timer_finish fr now b d = Some d' \<and> plane_ok (bufs d' b) \<and>
    (\<forall>c. c \<noteq> b \<longrightarrow> bufs d' c = bufs d c) \<and> queued_bufs d' = queued_bufs d"
proof -
  from fill_buf_safe [OF assms] obtain buf where
    buf: "fill_buf fr (sequence d) (bufs d b) = Some buf" "plane_ok buf"
    by blast
  then have "plane_ok (buf\<lparr>vb_sequence := sequence d, timestamp := now\<rparr>)"
    by (simp add: plane_ok_def dummy_video_buf_prepare_def split: option.splits)
  with buf show ?thesis by (simp add: timer_finish_def)
qed

lemma video_tick_total:
  assumes fr: "frames_ok fr" and ok: "video_ok d"
  shows "\<exists>d'. dummy_video_timer_func fr now d = Some d' \<and> video_ok d'"
proof (cases "queued_bufs d")
  case Nil
  with ok show ?thesis by (simp add: dummy_video_timer_func_def timer_take_def video_ok_def)
next
  case (Cons b bs)
  define d0 where "d0 = d\<lparr>queued_bufs := bs\<rparr>"
  from ok Cons have "plane_ok (bufs d0 b)" by (simp add: video_ok_def d0_def)
  from timer_finish_total [OF fr this] obtain d' where
    d': "timer_finish fr now b d0 = Some d'" "plane_ok (bufs d' b)"
      "\<forall>c. c \<noteq> b \<longrightarrow> bufs d' c = bufs d0 c" "queued_bufs d' = bs"
    unfolding d0_def by auto
  have prep: "dummy_video_buf_prepare (bufs d' c) = dummy_video_buf_prepare (bufs d c)" for c
    using timer_finish_prepare [OF d'(1)] by (simp add: d0_def)
  have "plane_ok (bufs d' c)" if "dummy_video_buf_prepare (bufs d' c) = 0" for c
    using that ok d'(2,3) prep by (cases "c = b") (simp_all add: video_ok_def d0_def)
  with ok Cons d' prep have "video_ok d'"
    by (simp add: video_ok_def)
  with d'(1) Cons show ?thesis
    by (auto simp: dummy_video_timer_func_def timer_take_def d0_def)
qed

lemma video_tick_effect:
  assumes "dummy_video_timer_func fr now d = Some d'"
  shows "(queued_bufs d = [] \<and> queued_bufs d' = [] \<and> done_log d' = done_log d) \<or>
    (\<exists>b bs. queued_bufs d = b # bs \<and> queued_bufs d' = bs \<and>
       done_log d' = (b, VB2_BUF_STATE_DONE) # done_log d)"
  using assms
  by (auto simp: dummy_video_timer_func_def timer_take_def timer_finish_def
      split: list.splits option.splits)

lemma video_tick_prepare:
  "dummy_video_timer_func fr now d = Some d' \<Longrightarrow>
     dummy_video_buf_prepare (bufs d' c) = dummy_video_buf_prepare (bufs d c)"
  by (auto simp: dummy_video_timer_func_def timer_take_def dest: timer_finish_prepare
      split: list.splits)

interpretation dummy_vb2: vb2_driver
  "video_step fr" queued_bufs done_log "\<lambda>b d. dummy_video_buf_prepare (bufs d b) = 0"
  "\<lambda>d. frames_ok fr \<and> video_ok d"
  for fr
proof (unfold_locales, goal_cases)
  case (1 b s s')
  then show ?case
    by (auto simp: video_step_def dummy_video_buf_queue_def split: if_splits)
next
  case (2 t s s')
  then show ?case
    using video_tick_effect [of fr t s s'] by (auto simp: video_step_def split: if_splits)
next
  case (3 s s')
  then show ?case by (auto simp: video_step_def dummy_video_start_streaming_def)
next
  case (4 s s')
  then show ?case by (auto simp: video_step_def dummy_video_stop_streaming_def return_all_eq)
next
  case (5 x s s' b)
  then show ?case
    by (auto simp: video_step_def video_defs video_tick_prepare simp del: dummy_video_timer_func_def
        split: vb2_op.splits if_splits)
next
  case (6 s x)
  then show ?case
    using video_tick_total [of fr s]
    by (cases x) (auto simp: video_step_def video_defs video_ok_def)
qed

end
