(* ===== verification/Video_Life.thy ===== *)
theory Video_Life
  imports Video_Module Video_Stream
begin

text \<open>
  The life of the driver of \<open>v4l2/video.c\<close> as a whole: it is loaded, a program opens the device,
  negotiates, asks for buffers, streams and closes, the timer expires in between, and the module is
  unloaded. Every call reaches the driver through the tables that loading installed; a call through
  an empty or a wrong entry, a copy that leaves its buffer, and a timer that expires after the
  module is gone are faults.
\<close>

section \<open>Ioctls through the table\<close>

abbreviation ENOTTY :: c_int where "ENOTTY \<equiv> 25"

text \<open>The structure that comes with an ioctl; the driver does not look into those that are bytes.\<close>

datatype ioctl_arg =
    Capability v4l2_capability
  | Fmtdesc v4l2_fmtdesc
  | Frmsize v4l2_frmsizeenum
  | Frmival v4l2_frmivalenum
  | Format v4l2_pix_format
  | Bytes "u8 list"

text \<open>The number of an ioctl determines its structure.\<close>

fun carries :: "ioctl_slot \<Rightarrow> ioctl_arg \<Rightarrow> bool" where
  "carries s (Capability c) = (s = Vidioc_querycap)"
| "carries s (Fmtdesc f) = (s = Vidioc_enum_fmt_vid_cap)"
| "carries s (Frmsize f) = (s = Vidioc_enum_framesizes)"
| "carries s (Frmival f) = (s = Vidioc_enum_frameintervals)"
| "carries s (Format f) =
     (s = Vidioc_g_fmt_vid_cap \<or> s = Vidioc_try_fmt_vid_cap \<or> s = Vidioc_s_fmt_vid_cap)"
| "carries s (Bytes b) =
     (s \<notin> {Vidioc_querycap, Vidioc_enum_fmt_vid_cap, Vidioc_enum_framesizes,
        Vidioc_enum_frameintervals, Vidioc_g_fmt_vid_cap, Vidioc_try_fmt_vid_cap,
        Vidioc_s_fmt_vid_cap})"

text \<open>
  A function called with a structure that is not its own is \<open>None\<close>. \<open>core\<close> are the kernel's own
  ioctls.
\<close>

type_synonym ioctl_core = "core_fn \<Rightarrow> u8 list \<Rightarrow> c_int \<times> u8 list"

fun run_ioctl ::
    "ioctl_core \<Rightarrow> string \<Rightarrow> video_device \<Rightarrow> ioctl_fn \<Rightarrow> ioctl_arg \<Rightarrow> (c_int \<times> ioctl_arg) option" where
  "run_ioctl core m v Dummy_video_querycap (Capability c) =
     Some (apsnd Capability (dummy_video_querycap m v c))"
| "run_ioctl core m v Dummy_video_enum_fmt_vid_cap (Fmtdesc f) =
     Some (apsnd Fmtdesc (dummy_video_enum_fmt_vid_cap f))"
| "run_ioctl core m v Dummy_video_enum_framesizes (Frmsize f) =
     Some (apsnd Frmsize (dummy_video_enum_framesizes f))"
| "run_ioctl core m v Dummy_video_enum_frameintervals (Frmival f) =
     Some (apsnd Frmival (dummy_video_enum_frameintervals f))"
| "run_ioctl core m v Dummy_video_g_fmt_vid_cap (Format f) =
     Some (apsnd Format (dummy_video_g_fmt_vid_cap f))"
| "run_ioctl core m v Dummy_video_try_fmt_vid_cap (Format f) =
     Some (apsnd Format (dummy_video_try_fmt_vid_cap f))"
| "run_ioctl core m v Dummy_video_s_fmt_vid_cap (Format f) =
     Some (apsnd Format (dummy_video_s_fmt_vid_cap f))"
| "run_ioctl core m v Dummy_video_g_parm (Bytes b) = Some (apsnd Bytes (dummy_video_g_parm b))"
| "run_ioctl core m v Dummy_video_s_parm (Bytes b) = Some (apsnd Bytes (dummy_video_s_parm b))"
| "run_ioctl core m v (Ioctl_core f) (Bytes b) = Some (apsnd Bytes (core f b))"
| "run_ioctl core m v f a = None"

definition ioctl_entry :: "video_device \<Rightarrow> ioctl_slot \<Rightarrow> ioctl_fn option" where
  "ioctl_entry v s = (case ioctl_ops v of None \<Rightarrow> None | Some ops \<Rightarrow> ops s)"

text \<open>A slot the driver left empty is answered with \<open>-ENOTTY\<close>.\<close>

definition video_ioctl ::
    "ioctl_core \<Rightarrow> string \<Rightarrow> video_device \<Rightarrow> ioctl_slot \<Rightarrow> ioctl_arg \<Rightarrow> (c_int \<times> ioctl_arg) option" where
  "video_ioctl core m v s a = (case ioctl_entry v s of
     None \<Rightarrow> Some (- ENOTTY, a) | Some f \<Rightarrow> run_ioctl core m v f a)"

lemma ioctl_entry_template [simp]: "ioctl_entry dummy_video_template s = dummy_video_ioctl_ops s"
  by (simp add: ioctl_entry_def dummy_video_template_def)

lemma video_ioctl_typed_template:
  assumes "carries s a"
  shows "\<exists>r a'. video_ioctl core m dummy_video_template s a = Some (r, a') \<and> carries s a'"
  using assms by (cases s; cases a) (auto simp: video_ioctl_def apsnd_def map_prod_def split: prod.splits)

section \<open>The queue's table\<close>

text \<open>A call through an entry that is not of the type of its slot is \<open>None\<close>.\<close>

definition vb2_entry :: "vb2_slot \<Rightarrow> video_dev \<Rightarrow> vb2_fn option" where
  "vb2_entry s d = map_option (\<lambda>ops. ops s) (vq_ops d)"

fun setup_via :: "vb2_fn option \<Rightarrow> nat \<Rightarrow> nat list \<Rightarrow> (c_int \<times> nat \<times> nat list) option" where
  "setup_via (Some Dummy_video_queue_setup) n sizes = Some (dummy_video_queue_setup n sizes)"
| "setup_via f n sizes = None"

fun prepare_via :: "vb2_fn option \<Rightarrow> frame_buf \<Rightarrow> c_int option" where
  "prepare_via (Some Dummy_video_buf_prepare) buf = Some (dummy_video_buf_prepare buf)"
| "prepare_via f buf = None"

fun queue_via :: "vb2_fn option \<Rightarrow> nat \<Rightarrow> dummy_video \<Rightarrow> dummy_video option" where
  "queue_via (Some Dummy_video_buf_queue) b d = Some (dummy_video_buf_queue b d)"
| "queue_via f b d = None"

fun start_via :: "vb2_fn option \<Rightarrow> dummy_video \<Rightarrow> (c_int \<times> dummy_video) option" where
  "start_via (Some Dummy_video_start_streaming) d = Some (dummy_video_start_streaming d)"
| "start_via f d = None"

fun stop_via :: "vb2_fn option \<Rightarrow> dummy_video \<Rightarrow> dummy_video option" where
  "stop_via (Some Dummy_video_stop_streaming) d = Some (dummy_video_stop_streaming d)"
| "stop_via f d = None"

text \<open>The core queues a buffer that is not queued yet and that the driver accepts.\<close>

definition enqueue :: "nat \<Rightarrow> video_dev \<Rightarrow> video_dev option" where
  "enqueue b d =
     (if b \<in> set (queued_bufs (strm d)) then Some d
      else do {
        r \<leftarrow> prepare_via (vb2_entry Buf_prepare d) (bufs (strm d) b);
        if r \<noteq> 0 then Some d
        else do {
          st \<leftarrow> queue_via (vb2_entry Buf_queue d) b (strm d);
          Some (d\<lparr>strm := st\<rparr>)
        }
      })"

fun enqueue_all :: "nat list \<Rightarrow> video_dev \<Rightarrow> video_dev option" where
  "enqueue_all [] d = Some d"
| "enqueue_all (b # bs) d = do { d' \<leftarrow> enqueue b d; enqueue_all bs d' }"

section \<open>Events\<close>

text \<open>
  What can happen to the driver, and in which order, as the media subsystem documents it; this is the
  driver's environment and not code of the repository. \<open>Mmap_buffers\<close> gives the memory of each buffer of a request
  (\<open>None\<close> when the kernel has no address for it); \<open>User_buffers\<close> brings buffers of the
  program. \<open>Stream_on\<close> comes with the buffers that were queued before.
\<close>

datatype video_event =
    Command mod_cmd
  | Open
  | Close
  | Ioctl ioctl_slot ioctl_arg
  | Mmap_buffers "nat \<Rightarrow> u8 list option"
  | User_buffers "nat \<Rightarrow> frame_buf"
  | Stream_on "nat list"
  | Enqueue nat
  | Stream_off
  | Expire u64

text \<open>
  What the kernel keeps: whether the module is loaded, whether the file that owns the queue is open,
  and whether the queue is streaming.
\<close>

record video_life =
  loaded :: bool
  opened :: bool
  streaming_on :: bool
  vw :: "(video_call kcall, video_dev) world"

abbreviation vdv :: "video_life \<Rightarrow> video_dev" where
  "vdv s \<equiv> dv (vw s)"

definition set_dv :: "video_dev \<Rightarrow> video_life \<Rightarrow> video_life" where
  "set_dv d s = s\<lparr>vw := (vw s)\<lparr>dv := d\<rparr>\<rparr>"

definition file_op :: "fop_slot \<Rightarrow> video_dev \<Rightarrow> core_fn option" where
  "file_op f d = map_option (\<lambda>ops. ops f) (vdev_fops (vdev d))"

text \<open>An ioctl of the core arrives when the file is open and the tables lead to it.\<close>

definition admits :: "video_life \<Rightarrow> ioctl_slot \<Rightarrow> core_fn \<Rightarrow> bool" where
  "admits s slot f \<longleftrightarrow> opened s \<and> file_op Fop_unlocked_ioctl (vdv s) = Some Video_ioctl2 \<and>
     ioctl_entry (vdev (vdv s)) slot = Some (Ioctl_core f)"

definition blank_plane :: "nat \<Rightarrow> u8 list option \<Rightarrow> frame_buf" where
  "blank_plane n m =
     \<lparr>plane_size = n, plane_mem = m, payload = 0, vb_sequence = 0, timestamp = 0\<rparr>"

lemma blank_plane_simps [simp]: "plane_size (blank_plane n m) = n" "plane_mem (blank_plane n m) = m"
  by (simp_all add: blank_plane_def)

definition request_mmap :: "(nat \<Rightarrow> u8 list option) \<Rightarrow> video_life \<Rightarrow> video_life option" where
  "request_mmap mems s = do {
     (r, n, sizes) \<leftarrow> setup_via (vb2_entry Queue_setup (vdv s)) 0 [0];
     if r \<noteq> 0 then Some s
     else Some (set_dv (strm_update (bufs_update (\<lambda>_ b. blank_plane (sizes ! 0) (mems b))) (vdv s)) s)
   }"

definition stream_off :: "video_life \<Rightarrow> video_life option" where
  "stream_off s =
     (if streaming_on s then do {
        st \<leftarrow> stop_via (vb2_entry Stop_streaming (vdv s)) (strm (vdv s));
        Some (set_dv ((vdv s)\<lparr>strm := st\<rparr>) (s\<lparr>streaming_on := False\<rparr>))
      } else Some s)"

definition stream_on :: "nat list \<Rightarrow> video_life \<Rightarrow> video_life option" where
  "stream_on bs s = do {
     d \<leftarrow> enqueue_all bs (vdv s);
     (r, st) \<leftarrow> start_via (vb2_entry Start_streaming d) (strm d);
     Some (set_dv (d\<lparr>strm := st\<rparr>) (s\<lparr>streaming_on := (r = 0)\<rparr>))
   }"

text \<open>
  One event. What the kernel refuses changes nothing: unloading while the file is open, asking for
  buffers while streaming, starting twice. Closing stops the stream.
\<close>

fun video_event_step ::
    "(nat \<Rightarrow> u8 list) \<Rightarrow> ioctl_core \<Rightarrow> string \<Rightarrow> video_kernel \<Rightarrow> video_event \<Rightarrow> video_life
      \<Rightarrow> video_life option" where
  "video_event_step fr core m K (Command c) s =
     (if c = Rmmod \<and> opened s then Some s
      else case mod_step (dummy_video_drv_register m K) (dummy_video_drv_unregister K) video_d0 c
          (loaded s, vw s) of (l, w) \<Rightarrow> Some (s\<lparr>loaded := l, vw := w\<rparr>))"
| "video_event_step fr core m K Open s =
     Some (if loaded s \<and> file_op Fop_open (vdv s) = Some V4l2_fh_open then s\<lparr>opened := True\<rparr> else s)"
| "video_event_step fr core m K Close s =
     (if opened s then do {
        s' \<leftarrow> (if file_op Fop_release (vdv s) = Some Vb2_fop_release then stream_off s else Some s);
        Some (s'\<lparr>opened := False\<rparr>)
      } else Some s)"
| "video_event_step fr core m K (Ioctl slot a) s =
     (if opened s \<and> file_op Fop_unlocked_ioctl (vdv s) = Some Video_ioctl2 \<and> carries slot a
      then do { _ \<leftarrow> video_ioctl core m (vdev (vdv s)) slot a; Some s }
      else Some s)"
| "video_event_step fr core m K (Mmap_buffers mems) s =
     (if admits s Vidioc_reqbufs Vb2_ioctl_reqbufs \<and> \<not> streaming_on s
      then request_mmap mems s else Some s)"
| "video_event_step fr core m K (User_buffers ps) s =
     (if admits s Vidioc_reqbufs Vb2_ioctl_reqbufs \<and> \<not> streaming_on s
      then Some (set_dv (strm_update (bufs_update (\<lambda>_. ps)) (vdv s)) s) else Some s)"
| "video_event_step fr core m K (Stream_on bs) s =
     (if admits s Vidioc_qbuf Vb2_ioctl_qbuf \<and> admits s Vidioc_streamon Vb2_ioctl_streamon \<and>
         \<not> streaming_on s
      then stream_on bs s else Some s)"
| "video_event_step fr core m K (Enqueue b) s =
     (if admits s Vidioc_qbuf Vb2_ioctl_qbuf \<and> streaming_on s
      then map_option (\<lambda>d. set_dv d s) (enqueue b (vdv s)) else Some s)"
| "video_event_step fr core m K Stream_off s =
     (if admits s Vidioc_streamoff Vb2_ioctl_streamoff then stream_off s else Some s)"
| "video_event_step fr core m K (Expire now) s =
     (if \<not> timer_armed (strm (vdv s)) then Some s
      else if \<not> loaded s then None
      else map_option (\<lambda>st. set_dv ((vdv s)\<lparr>strm := st\<rparr>) s)
             (dummy_video_timer_func fr now (strm (vdv s))))"

abbreviation video_events ::
    "(nat \<Rightarrow> u8 list) \<Rightarrow> ioctl_core \<Rightarrow> string \<Rightarrow> video_kernel \<Rightarrow> video_event list \<Rightarrow> video_life
      \<Rightarrow> video_life option" where
  "video_events fr core m K \<equiv> run_ops (video_event_step fr core m K)"

section \<open>What the kernel documents\<close>

text \<open>
  videobuf2 maps as much memory as the driver asked for, and never less than the size it reports for
  a buffer of the program.
\<close>

fun documented :: "video_event \<Rightarrow> bool" where
  "documented (Mmap_buffers mems) =
     (\<forall>b. case mems b of None \<Rightarrow> True | Some m \<Rightarrow> DUMMY_VIDEO_PLANE_SIZE \<le> length m)"
| "documented (User_buffers ps) =
     (\<forall>b. case plane_mem (ps b) of None \<Rightarrow> True | Some m \<Rightarrow> plane_size (ps b) \<le> length m)"
| "documented e = True"

section \<open>The invariant\<close>

definition wired :: "video_dev \<Rightarrow> bool" where
  "wired d \<longleftrightarrow> vdev d = dummy_video_template \<and> vq_ops d = Some dummy_video_vb2_ops"

definition stream_state_ok :: "bool \<Rightarrow> dummy_video \<Rightarrow> bool" where
  "stream_state_ok on d \<longleftrightarrow> video_ok d \<and> distinct (queued_bufs d) \<and> timer_armed d = on \<and>
     (\<not> on \<longrightarrow> queued_bufs d = [])"

definition life_ok :: "video_life \<Rightarrow> bool" where
  "life_ok s \<longleftrightarrow>
     (opened s \<longrightarrow> loaded s) \<and> (streaming_on s \<longrightarrow> opened s) \<and>
     timer_armed (strm (vdv s)) = streaming_on s \<and>
     (loaded s \<longrightarrow> wired (vdv s) \<and> stream_state_ok (streaming_on s) (strm (vdv s)))"

lemma wired_entries [simp]:
  "wired d \<Longrightarrow> vb2_entry sl d = Some (dummy_video_vb2_ops sl)"
  "wired d \<Longrightarrow> file_op f d = Some (dummy_video_fops f)"
  "wired d \<Longrightarrow> ioctl_entry (vdev d) i = dummy_video_ioctl_ops i"
  by (simp_all add: wired_def vb2_entry_def file_op_def dummy_video_template_def ioctl_entry_def)

lemma set_dv_simps [simp]:
  "vw (set_dv d s) = (vw s)\<lparr>dv := d\<rparr>" "loaded (set_dv d s) = loaded s"
  "opened (set_dv d s) = opened s" "streaming_on (set_dv d s) = streaming_on s"
  by (simp_all add: set_dv_def)

lemma wired_strm [simp]: "wired (d\<lparr>strm := st\<rparr>) = wired d" "wired (strm_update g d) = wired d"
  by (simp_all add: wired_def)

text \<open>Loading wires the tables, whatever the kernel answers; unloading stops the timer.\<close>

lemma register_dv:
  "let d = dv (snd (run_state (dummy_video_drv_register m K) w)) in
     wired d \<and> strm d = (strm (dv w))\<lparr>queued_bufs := [], timer_armed := False\<rparr>"
  by (simp add: dummy_video_drv_register_def wired_def Let_def)

lemma d0_ok: "stream_state_ok False ((strm video_d0)\<lparr>queued_bufs := [], timer_armed := False\<rparr>)"
  by (simp add: stream_state_ok_def video_ok_def video_d0_def dummy_video_buf_prepare_def
      DUMMY_VIDEO_PLANE_SIZE_def DUMMY_VIDEO_WIDTH_def DUMMY_VIDEO_HEIGHT_def)

lemma register_wired:
  assumes "run_state (dummy_video_drv_register m K) w = (r, w')" and "dv w = video_d0"
  shows "r = 0" "wired (dv w')" "stream_state_ok False (strm (dv w'))"
  using assms register_dv [of m K w] video_register_returns_0 [of m K w] d0_ok
  by (simp_all add: Let_def)

lemma unregister_quiet:
  assumes "run_state (dummy_video_drv_unregister K) w = (u, w')"
  shows "dv w' = strm_update (timer_armed_update (\<lambda>_. False)) (dv w)"
  using assms by (auto simp: video_module_defs)

lemma enqueue_ok:
  assumes "wired d" and "video_ok (strm d)" and "distinct (queued_bufs (strm d))"
  shows "\<exists>d'. enqueue b d = Some d' \<and> wired d' \<and> video_ok (strm d') \<and>
    distinct (queued_bufs (strm d')) \<and> timer_armed (strm d') = timer_armed (strm d)"
  using assms by (auto simp: enqueue_def dummy_video_buf_queue_def video_ok_def)

lemma enqueue_all_ok:
  assumes "wired d" and "video_ok (strm d)" and "distinct (queued_bufs (strm d))"
  shows "\<exists>d'. enqueue_all bs d = Some d' \<and> wired d' \<and> video_ok (strm d') \<and>
    distinct (queued_bufs (strm d'))"
  using assms
proof (induction bs arbitrary: d)
  case Nil
  then show ?case by simp
next
  case (Cons b bs)
  from enqueue_ok [OF Cons.prems, of b] Cons.IH show ?case by fastforce
qed

lemma stop_ok: "video_ok d \<Longrightarrow> stream_state_ok False (dummy_video_stop_streaming d)"
  by (simp add: stream_state_ok_def dummy_video_stop_streaming_def return_all_eq video_ok_def)

lemma start_ok:
  assumes "video_ok d" and "distinct (queued_bufs d)"
  shows "fst (dummy_video_start_streaming d) = 0 \<and>
    stream_state_ok True (snd (dummy_video_start_streaming d))"
  using assms by (simp add: stream_state_ok_def dummy_video_start_streaming_def video_ok_def)

lemma tick_ok:
  assumes "frames_ok fr" and "stream_state_ok True d"
  shows "\<exists>d'. dummy_video_timer_func fr now d = Some d' \<and> stream_state_ok True d'"
proof -
  from assms obtain d' where d': "dummy_video_timer_func fr now d = Some d'" "video_ok d'"
    using video_tick_total [OF assms(1), of d now] by (auto simp: stream_state_ok_def)
  moreover from d'(1) have "timer_armed d'"
    by (auto simp: dummy_video_timer_func_def timer_take_def timer_finish_def
        split: list.splits option.splits)
  ultimately show ?thesis
    using assms(2) video_tick_effect [OF d'(1)] by (auto simp: stream_state_ok_def)
qed

text \<open>Buffers that the kernel maps as documented are well formed.\<close>

lemma fresh_planes_ok:
  assumes "stream_state_ok False d"
    and "\<forall>b. case plane_mem (ps b) of None \<Rightarrow> True | Some m \<Rightarrow> plane_size (ps b) \<le> length m"
  shows "stream_state_ok False (d\<lparr>bufs := ps\<rparr>)"
  using assms by (simp add: stream_state_ok_def video_ok_def plane_ok_def)

lemma stream_off_ok:
  assumes "life_ok s"
  shows "\<exists>s'. stream_off s = Some s' \<and> life_ok s' \<and> \<not> streaming_on s' \<and> loaded s' = loaded s \<and>
    opened s' = opened s \<and> hist (vw s') = hist (vw s)"
  using assms stop_ok [of "strm (vdv s)"]
  by (auto simp: stream_off_def life_ok_def stream_state_ok_def)

lemma command_ok:
  assumes "life_ok s" and "video_event_step fr core m K (Command c) s = Some s'"
  shows "life_ok s'"
  using assms register_wired [of m K "(vw s)\<lparr>dv := video_d0\<rparr>"] unregister_quiet [of K "vw s"]
  by (cases c)
    (auto simp: life_ok_def stream_state_ok_def split: if_splits prod.splits)

lemma event_ok:
  assumes fr: "frames_ok fr" and s: "life_ok s" and e: "documented e"
  shows "\<exists>s'. video_event_step fr core m K e s = Some s' \<and> life_ok s'"
proof (cases e)
  case (Command c)
  have "\<exists>s'. video_event_step fr core m K (Command c) s = Some s'"
    by (simp split: prod.split if_split)
  then obtain s' where "video_event_step fr core m K (Command c) s = Some s'" ..
  with command_ok [OF s] Command show ?thesis by blast
next
  case Open
  with s show ?thesis by (auto simp: life_ok_def)
next
  case Close
  with s stream_off_ok [OF s] show ?thesis by (auto simp: life_ok_def)
next
  case (Ioctl sl a)
  with s video_ioctl_typed_template [of sl a core m] show ?thesis
    by (fastforce simp: life_ok_def wired_def)
next
  case (Mmap_buffers mems)
  let ?ps = "\<lambda>b. blank_plane DUMMY_VIDEO_PLANE_SIZE (mems b)"
  have "\<forall>b. case plane_mem (?ps b) of None \<Rightarrow> True | Some m \<Rightarrow> plane_size (?ps b) \<le> length m"
    using e Mmap_buffers by (auto split: option.splits)
  with s fresh_planes_ok [of "strm (vdv s)" ?ps] Mmap_buffers show ?thesis
    by (auto simp: life_ok_def admits_def request_mmap_def dummy_video_queue_setup_def)
next
  case (User_buffers ps)
  with s e fresh_planes_ok [of "strm (vdv s)" ps] show ?thesis
    by (auto simp: life_ok_def admits_def)
next
  case (Stream_on bs)
  show ?thesis
  proof (cases "opened s \<and> \<not> streaming_on s")
    case True
    with s enqueue_all_ok [of "vdv s" bs] obtain d where
      d: "enqueue_all bs (vdv s) = Some d" "wired d" "video_ok (strm d)" "distinct (queued_bufs (strm d))"
      by (auto simp: life_ok_def stream_state_ok_def)
    with start_ok [OF d(3,4)] True s Stream_on show ?thesis
      by (auto simp: life_ok_def admits_def stream_on_def stream_state_ok_def split: prod.splits)
  next
    case False
    with s Stream_on show ?thesis by (auto simp: admits_def)
  qed
next
  case (Enqueue b)
  with s enqueue_ok [of "vdv s" b] show ?thesis
    by (auto simp: life_ok_def admits_def stream_state_ok_def)
next
  case Stream_off
  with s stream_off_ok [OF s] show ?thesis by auto
next
  case (Expire now)
  with s tick_ok [OF fr, of "strm (vdv s)" now] show ?thesis
    by (auto simp: life_ok_def stream_state_ok_def)
qed

lemma events_ok:
  assumes "frames_ok fr" and "life_ok s" and "\<forall>e\<in>set es. documented e"
  shows "\<exists>s'. video_events fr core m K es s = Some s' \<and> life_ok s'"
  using assms(2,3)
proof (induction es arbitrary: s)
  case Nil
  then show ?case by simp
next
  case (Cons e es)
  from event_ok [OF assms(1) Cons.prems(1), of e core m K] Cons show ?case by fastforce
qed

section \<open>The account\<close>

text \<open>Only commands make calls that the account sees.\<close>

definition life_balanced :: "video_resource resource list \<Rightarrow> video_life \<Rightarrow> bool" where
  "life_balanced rs s \<longleftrightarrow>
     video_acct (hist (vw s)) = Some ((if loaded s then video_holds (vdv s) else []) @ rs)"

lemma holds_const: "video_holds d = video_holds d'"
  by (simp add: video_holds_def)

lemma command_balanced:
  assumes "video_steps_succeed K" and "life_balanced rs s"
    and "video_event_step fr core m K (Command c) s = Some s'"
  shows "life_balanced rs s'"
proof -
  have "video_module.balanced rs (loaded s, vw s)"
    using assms(2) by (simp add: life_balanced_def video_module.balanced_def)
  from video_module.step_balanced [OF assms(1) this, of m c] assms(2,3) show ?thesis
    by (auto simp: life_balanced_def video_module.balanced_def split: if_splits prod.splits)
qed

lemma event_keeps_hist:
  assumes "video_event_step fr core m K e s = Some s'" and "\<And>c. e \<noteq> Command c"
  shows "hist (vw s') = hist (vw s) \<and> loaded s' = loaded s"
  using assms
  by (cases e)
    (auto simp: stream_off_def stream_on_def request_mmap_def split: if_splits bind_splits prod.splits)

lemma event_balanced:
  assumes "video_steps_succeed K" and "life_balanced rs s"
    and "video_event_step fr core m K e s = Some s'"
  shows "life_balanced rs s'"
proof (cases "\<exists>c. e = Command c")
  case True
  with command_balanced assms show ?thesis by blast
next
  case False
  with event_keeps_hist [OF assms(3)] assms(2) holds_const [of "vdv s'" "vdv s"] show ?thesis
    by (simp add: life_balanced_def)
qed

lemma events_balanced:
  assumes "video_steps_succeed K" and "life_balanced rs s"
    and "video_events fr core m K es s = Some s'"
  shows "life_balanced rs s'"
  using assms(2,3)
proof (induction es arbitrary: s)
  case Nil
  then show ?case by simp
next
  case (Cons e es)
  from Cons.prems(2) obtain s1 where s1: "video_event_step fr core m K e s = Some s1"
    and "video_events fr core m K es s1 = Some s'" by (auto split: option.splits)
  with Cons.IH event_balanced [OF assms(1) Cons.prems(1) s1] show ?case by blast
qed

section \<open>Lives\<close>

text \<open>Before the module is loaded, with whatever the memory of its structure holds.\<close>

definition absent :: "(video_call kcall, video_dev) world \<Rightarrow> video_life" where
  "absent w = \<lparr>loaded = False, opened = False, streaming_on = False, vw = w\<rparr>"

lemma absent_ok: "\<not> timer_armed (strm (dv w)) \<Longrightarrow> life_ok (absent w)"
  by (simp add: absent_def life_ok_def)

lemma run_ops_append:
  "run_ops step (xs @ ys) s = (case run_ops step xs s of None \<Rightarrow> None | Some s' \<Rightarrow> run_ops step ys s')"
  by (induction xs arbitrary: s) (simp_all split: option.splits)

lemma close_unload:
  assumes "life_ok s"
  shows "\<exists>s'. video_events fr core m K [Close, Command Rmmod] s = Some s' \<and>
    \<not> loaded s' \<and> \<not> opened s' \<and> \<not> timer_armed (strm (vdv s'))"
proof -
  have "\<exists>s1. video_event_step fr core m K Close s = Some s1 \<and> life_ok s1 \<and> \<not> opened s1"
    using assms stream_off_ok [OF assms] by (auto simp: life_ok_def)
  then obtain s1 where s1: "video_event_step fr core m K Close s = Some s1" "life_ok s1" "\<not> opened s1"
    by blast
  have "\<exists>s'. video_event_step fr core m K (Command Rmmod) s1 = Some s' \<and> \<not> loaded s' \<and>
      \<not> opened s'"
    using s1(3) by (auto split: prod.splits)
  then obtain s' where s': "video_event_step fr core m K (Command Rmmod) s1 = Some s'"
    "\<not> loaded s'" "\<not> opened s'" by blast
  with command_ok [OF s1(2) s'(1)] have "\<not> timer_armed (strm (vdv s'))" by (simp add: life_ok_def)
  with s1(1) s' show ?thesis by auto
qed

lemma life_ends_quiet:
  assumes "frames_ok fr" and "video_steps_succeed K" and "\<forall>e\<in>set es. documented e"
    and "video_acct (hist w) = Some rs" and "\<not> timer_armed (strm (dv w))"
  shows "\<exists>s'. video_events fr core m K (es @ [Close, Command Rmmod]) (absent w) = Some s' \<and>
    \<not> loaded s' \<and> video_acct (hist (vw s')) = Some rs \<and> \<not> timer_armed (strm (vdv s'))"
proof -
  from events_ok [OF assms(1) absent_ok [OF assms(5)] assms(3), of core m K] obtain s1 where
    s1: "video_events fr core m K es (absent w) = Some s1" "life_ok s1" by blast
  from close_unload [OF s1(2), of fr core m K] obtain s' where
    s': "video_events fr core m K [Close, Command Rmmod] s1 = Some s'" "\<not> loaded s'"
      "\<not> timer_armed (strm (vdv s'))" by blast
  with s1 have run: "video_events fr core m K (es @ [Close, Command Rmmod]) (absent w) = Some s'"
    by (simp add: run_ops_append)
  have "life_balanced rs (absent w)" using assms(4) by (simp add: life_balanced_def absent_def)
  from events_balanced [OF assms(2) this run] s'(2) have "video_acct (hist (vw s')) = Some rs"
    by (simp add: life_balanced_def)
  with run s' show ?thesis by blast
qed

end
