(* ===== verification/Video_Steps.thy ===== *)
theory Video_Steps
  imports Video_Stream
begin

text \<open>
  Two views of a running stream of \<open>v4l2/video.c\<close>: which frame each completed buffer shows, and the
  interleaving of the timer handler with the operations of the core, where the handler's locked and
  unlocked parts are separate steps.
\<close>

section \<open>Frame by frame\<close>

text \<open>Successive expirations of the timer, at the given times.\<close>

fun ticks :: "(nat \<Rightarrow> u8 list) \<Rightarrow> u64 list \<Rightarrow> dummy_video \<Rightarrow> dummy_video option" where
  "ticks fr [] d = Some d"
| "ticks fr (now # ts) d =
     (case dummy_video_timer_func fr now d of None \<Rightarrow> None | Some d' \<Rightarrow> ticks fr ts d')"

text \<open>Buffer \<open>buf\<close> shows frame number \<open>s\<close> of the stream, stamped \<open>now\<close>.\<close>

definition shows_frame :: "(nat \<Rightarrow> u8 list) \<Rightarrow> nat \<Rightarrow> u64 \<Rightarrow> frame_buf \<Rightarrow> bool" where
  "shows_frame fr s now buf \<longleftrightarrow>
     vb_sequence buf = of_nat s \<and> timestamp buf = now \<and>
     payload buf = frame_lens ! (s mod FRAME_COUNT) \<and>
     (\<exists>m. plane_mem buf = Some m \<and> take (payload buf) m = fr (s mod FRAME_COUNT))"

lemma timer_func_Cons:
  assumes fr: "frames_ok fr" and q: "queued_bufs d = b # bs"
    and pl: "plane_ok (bufs d b)" and mem: "plane_mem (bufs d b) \<noteq> None"
    and s: "sequence d = of_nat s" "s < 2 ^ 31"
  shows "\<exists>d'. dummy_video_timer_func fr now d = Some d' \<and> queued_bufs d' = bs \<and>
    sequence d' = of_nat (Suc s) \<and> shows_frame fr s now (bufs d' b) \<and>
    (\<forall>c. c \<noteq> b \<longrightarrow> bufs d' c = bufs d c) \<and>
    done_log d' = (b, VB2_BUF_STATE_DONE) # done_log d \<and> timer_armed d'"
proof -
  from fill_buf_safe [OF fr pl] obtain buf where
    buf: "fill_buf fr (sequence d) (bufs d b) = Some buf" by blast
  from mem obtain m where m: "plane_mem (bufs d b) = Some m" by blast
  from fill_buf_content [OF fr m buf] s have
    "payload buf = frame_lens ! (s mod FRAME_COUNT)"
    "\<exists>m'. plane_mem buf = Some m' \<and> take (payload buf) m' = fr (s mod FRAME_COUNT)"
    by (auto simp: frame_index_of_nat)
  then have "shows_frame fr s now (buf\<lparr>vb_sequence := sequence d, timestamp := now\<rparr>)"
    by (auto simp: shows_frame_def s)
  with buf q s(1) show ?thesis
    by (simp add: dummy_video_timer_func_def timer_take_def timer_finish_def)
qed

lemma ticks_frames:
  assumes "frames_ok fr"
    and "\<forall>b\<in>set (queued_bufs d). plane_ok (bufs d b) \<and> plane_mem (bufs d b) \<noteq> None"
    and "distinct (queued_bufs d)" and "sequence d = of_nat s"
    and "length ts \<le> length (queued_bufs d)" and "s + length ts \<le> 2 ^ 31"
  shows "\<exists>d'. ticks fr ts d = Some d' \<and>
    queued_bufs d' = drop (length ts) (queued_bufs d) \<and>
    done_log d' = rev (map (\<lambda>b. (b, VB2_BUF_STATE_DONE)) (take (length ts) (queued_bufs d)))
      @ done_log d \<and>
    (\<forall>k < length ts. shows_frame fr (s + k) (ts ! k) (bufs d' (queued_bufs d ! k))) \<and>
    (\<forall>c. c \<notin> set (take (length ts) (queued_bufs d)) \<longrightarrow> bufs d' c = bufs d c)"
  using assms(2-)
proof (induction ts arbitrary: d s)
  case Nil
  then show ?case by simp
next
  case (Cons now ts)
  then obtain b bs where q: "queued_bufs d = b # bs"
    by (cases "queued_bufs d") auto
  have b: "plane_ok (bufs d b)" "plane_mem (bufs d b) \<noteq> None" "s < 2 ^ 31"
    using Cons.prems q by auto
  from timer_func_Cons [OF assms(1) q b(1,2) Cons.prems(3) b(3), of now] obtain d1 where
    d1: "dummy_video_timer_func fr now d = Some d1" "queued_bufs d1 = bs"
      "sequence d1 = of_nat (Suc s)" "shows_frame fr s now (bufs d1 b)"
      "\<forall>c. c \<noteq> b \<longrightarrow> bufs d1 c = bufs d c"
      "done_log d1 = (b, VB2_BUF_STATE_DONE) # done_log d"
    by blast
  have ne: "c \<noteq> b" if "c \<in> set bs" for c using that Cons.prems(2) q by auto
  have "\<exists>d'. ticks fr ts d1 = Some d' \<and>
    queued_bufs d' = drop (length ts) (queued_bufs d1) \<and>
    done_log d' = rev (map (\<lambda>b. (b, VB2_BUF_STATE_DONE)) (take (length ts) (queued_bufs d1)))
      @ done_log d1 \<and>
    (\<forall>k < length ts. shows_frame fr (Suc s + k) (ts ! k) (bufs d' (queued_bufs d1 ! k))) \<and>
    (\<forall>c. c \<notin> set (take (length ts) (queued_bufs d1)) \<longrightarrow> bufs d' c = bufs d1 c)"
    using Cons.prems d1 q ne by (intro Cons.IH) auto
  then obtain d' where d': "ticks fr ts d1 = Some d'" "queued_bufs d' = drop (length ts) bs"
    "done_log d' = rev (map (\<lambda>b. (b, VB2_BUF_STATE_DONE)) (take (length ts) bs)) @ done_log d1"
    "\<forall>k < length ts. shows_frame fr (Suc s + k) (ts ! k) (bufs d' (bs ! k))"
    "\<forall>c. c \<notin> set (take (length ts) bs) \<longrightarrow> bufs d' c = bufs d1 c"
    using d1(2) by auto
  have "b \<notin> set (take (length ts) bs)" using ne in_set_takeD [of b "length ts" bs] by auto
  with d' d1(4) have "bufs d' b = bufs d1 b" by blast
  with d' d1 q have
    "\<forall>k < Suc (length ts). shows_frame fr (s + k) ((now # ts) ! k) (bufs d' ((b # bs) ! k))"
    by (auto simp: less_Suc_eq_0_disj)
  with d' d1 q show ?case by auto
qed

section \<open>Interleaving\<close>

text \<open>
  \<open>inflight\<close> is the buffer a running timer handler has taken off the list and not completed yet;
  \<open>qlog\<close> records the calls of \<open>buf_queue\<close>, the latest first.
\<close>

record vsys =
  vd :: dummy_video
  inflight :: "nat option"
  streaming :: bool
  qlog :: "nat list"

definition vowned :: "vsys \<Rightarrow> nat list" where
  "vowned s = (case inflight s of None \<Rightarrow> [] | Some b \<Rightarrow> [b]) @ queued_bufs (vd s)"

text \<open>
  The core hands over a prepared buffer the driver does not own, starts a stopped queue and stops a
  started one. While the handler runs its unlocked part the timer is not armed; stopping waits
  for the handler (\<open>timer_delete_sync\<close>).
\<close>

inductive vstep :: "(nat \<Rightarrow> u8 list) \<Rightarrow> vsys \<Rightarrow> vsys \<Rightarrow> bool" for fr where
  queue: "dummy_video_buf_prepare (bufs (vd s) b) = 0 \<Longrightarrow> b \<notin> set (vowned s) \<Longrightarrow>
    vstep fr s (s\<lparr>vd := dummy_video_buf_queue b (vd s), qlog := b # qlog s\<rparr>)"
| expire_empty: "timer_armed (vd s) \<Longrightarrow> inflight s = None \<Longrightarrow> timer_take (vd s) = (None, d) \<Longrightarrow>
    vstep fr s (s\<lparr>vd := d\<lparr>timer_armed := True\<rparr>\<rparr>)"
| expire: "timer_armed (vd s) \<Longrightarrow> inflight s = None \<Longrightarrow> timer_take (vd s) = (Some b, d) \<Longrightarrow>
    vstep fr s (s\<lparr>vd := d\<lparr>timer_armed := False\<rparr>, inflight := Some b\<rparr>)"
| finish: "inflight s = Some b \<Longrightarrow> timer_finish fr now b (vd s) = Some d \<Longrightarrow>
    vstep fr s (s\<lparr>vd := d, inflight := None\<rparr>)"
| start: "\<not> streaming s \<Longrightarrow>
    vstep fr s (s\<lparr>vd := snd (dummy_video_start_streaming (vd s)), streaming := True\<rparr>)"
| stop: "streaming s \<Longrightarrow> inflight s = None \<Longrightarrow>
    vstep fr s (s\<lparr>vd := dummy_video_stop_streaming (vd s), streaming := False\<rparr>)"

inductive_cases vstepE: "vstep fr s t"

text \<open>At the start nothing is queued; the planes are mapped with at least their reported size.\<close>

definition vinit :: "(nat \<Rightarrow> frame_buf) \<Rightarrow> vsys" where
  "vinit bs = \<lparr>vd = \<lparr>queued_bufs = [], timer_armed = False, sequence = 0, bufs = bs, done_log = []\<rparr>,
     inflight = None, streaming = False, qlog = []\<rparr>"

definition planes_mapped :: "(nat \<Rightarrow> frame_buf) \<Rightarrow> bool" where
  "planes_mapped bs \<longleftrightarrow>
     (\<forall>b. case plane_mem (bs b) of None \<Rightarrow> True | Some m \<Rightarrow> plane_size (bs b) \<le> length m)"

inductive vreach :: "(nat \<Rightarrow> u8 list) \<Rightarrow> vsys \<Rightarrow> bool" for fr where
  init: "planes_mapped bs \<Longrightarrow> vreach fr (vinit bs)"
| step: "vreach fr s \<Longrightarrow> vstep fr s t \<Longrightarrow> vreach fr t"

text \<open>
  The invariant: the history of completions followed by the buffers still owned is the history of
  calls of \<open>buf_queue\<close>; owned buffers are distinct and large enough; the timer is armed exactly
  while streaming with no handler running.
\<close>

definition vinv :: "vsys \<Rightarrow> bool" where
  "vinv s \<longleftrightarrow>
     map fst (rev (done_log (vd s))) @ vowned s = rev (qlog s) \<and>
     distinct (vowned s) \<and>
     video_ok (vd s) \<and>
     (\<forall>b. inflight s = Some b \<longrightarrow> dummy_video_buf_prepare (bufs (vd s) b) = 0) \<and>
     timer_armed (vd s) = (streaming s \<and> inflight s = None) \<and>
     (inflight s \<noteq> None \<longrightarrow> streaming s)"

lemma vinv_init: "planes_mapped bs \<Longrightarrow> vinv (vinit bs)"
  by (simp add: vinv_def vinit_def vowned_def video_ok_def plane_ok_def planes_mapped_def)

lemma timer_finish_ok:
  assumes fin: "timer_finish fr now b d = Some d'" and fr: "frames_ok fr" and ok: "video_ok d"
    and b: "dummy_video_buf_prepare (bufs d b) = 0"
  shows "video_ok d'"
proof -
  from ok b have "plane_ok (bufs d b)" by (simp add: video_ok_def)
  from timer_finish_total [OF fr this, of now] fin have
    d': "plane_ok (bufs d' b)" "\<forall>c. c \<noteq> b \<longrightarrow> bufs d' c = bufs d c" "queued_bufs d' = queued_bufs d"
    by auto
  have "plane_ok (bufs d' c)" if "dummy_video_buf_prepare (bufs d' c) = 0" for c
    using that ok d' timer_finish_prepare [OF fin] by (cases "c = b") (simp_all add: video_ok_def)
  then show ?thesis
    using ok d'(3) timer_finish_prepare [OF fin] by (simp add: video_ok_def)
qed

lemma vstep_vinv:
  assumes "vstep fr s t" and "frames_ok fr" and "vinv s"
  shows "vinv t"
  using assms
proof (induction rule: vstep.induct)
  case (queue s b)
  then show ?case
    by (auto simp: vinv_def vowned_def dummy_video_buf_queue_def video_ok_def)
next
  case (expire_empty s d)
  then show ?case
    by (auto simp: vinv_def vowned_def timer_take_def video_ok_def split: list.splits)
next
  case (expire s b d)
  then show ?case
    by (auto simp: vinv_def vowned_def timer_take_def video_ok_def split: list.splits)
next
  case (finish s b now d)
  then have "video_ok d" by (auto simp: vinv_def intro: timer_finish_ok)
  with finish show ?case
    by (auto simp: vinv_def vowned_def timer_finish_def split: option.splits)
next
  case (start s)
  then show ?case
    by (auto simp: vinv_def vowned_def dummy_video_start_streaming_def video_ok_def)
next
  case (stop s)
  then show ?case
    by (auto simp: vinv_def vowned_def dummy_video_stop_streaming_def return_all_eq video_ok_def
        rev_map comp_def)
qed

lemma vreach_vinv: "vreach fr s \<Longrightarrow> frames_ok fr \<Longrightarrow> vinv s"
  by (induction rule: vreach.induct) (auto intro: vinv_init vstep_vinv)

text \<open>In a reachable state the unlocked part of the handler can always finish.\<close>

lemma vreach_finish:
  assumes "vreach fr s" and "frames_ok fr" and "inflight s = Some b"
  shows "\<exists>d. timer_finish fr now b (vd s) = Some d"
proof -
  from vreach_vinv [OF assms(1,2)] assms(3) have "plane_ok (bufs (vd s) b)"
    by (simp add: vinv_def video_ok_def)
  from timer_finish_total [OF assms(2) this] show ?thesis by blast
qed

text \<open>Completions are never taken back, and only one step completes more than one buffer.\<close>

lemma timer_take_done: "timer_take d = (x, d') \<Longrightarrow> done_log d' = done_log d"
  by (auto simp: timer_take_def split: list.splits)

lemma vstep_done_grows:
  assumes "vstep fr s t"
  shows "\<exists>es. done_log (vd t) = es @ done_log (vd s) \<and> (length es \<le> 1 \<or> \<not> streaming t)"
  using assms
  by (rule vstepE)
    (auto simp: dummy_video_buf_queue_def dummy_video_start_streaming_def timer_finish_def
      dummy_video_stop_streaming_def return_all_eq dest: timer_take_done split: option.splits)

end
