(* ===== verification/Video_Show.thy ===== *)
theory Video_Show
  imports Video_Life Video_Steps
begin

text \<open>
  From loading \<open>v4l2/video.c\<close> to the picture: what a program finds in its buffers after it opened the
  device, asked for buffers, queued some of them and let the timer expire.
\<close>

section \<open>Expirations of a running stream\<close>

lemma set_dv_same [simp]: "set_dv ((vdv s)\<lparr>strm := strm (vdv s)\<rparr>) s = s"
  by (simp add: set_dv_def)

lemma set_dv_set_dv [simp]: "set_dv d (set_dv d' s) = set_dv d s"
  by (simp add: set_dv_def)

lemma timer_func_armed: "dummy_video_timer_func fr now d = Some d' \<Longrightarrow> timer_armed d'"
  by (auto simp: dummy_video_timer_func_def timer_take_def timer_finish_def
      split: list.splits option.splits)

lemma expire_ticks:
  assumes "loaded s" and "timer_armed (strm (vdv s))"
  shows "video_events fr core m K (map Expire ts) s =
    map_option (\<lambda>st. set_dv ((vdv s)\<lparr>strm := st\<rparr>) s) (ticks fr ts (strm (vdv s)))"
  using assms
proof (induction ts arbitrary: s)
  case Nil
  then show ?case by simp
next
  case (Cons now ts)
  show ?case
  proof (cases "dummy_video_timer_func fr now (strm (vdv s))")
    case None
    with Cons.prems show ?thesis by simp
  next
    case (Some d)
    with Cons.IH [of "set_dv ((vdv s)\<lparr>strm := d\<rparr>) s"] Cons.prems timer_func_armed [OF Some]
    show ?thesis by simp
  qed
qed

section \<open>Queueing\<close>

lemma enqueue_all_eq:
  assumes "wired d" and "distinct (queued_bufs (strm d) @ bs)"
    and "\<forall>b\<in>set bs. dummy_video_buf_prepare (bufs (strm d) b) = 0"
  shows "enqueue_all bs d = Some (strm_update (queued_bufs_update (\<lambda>q. q @ bs)) d)"
  using assms
proof (induction bs arbitrary: d)
  case Nil
  then show ?case by simp
next
  case (Cons b bs)
  let ?d = "d\<lparr>strm := dummy_video_buf_queue b (strm d)\<rparr>"
  have "enqueue b d = Some ?d" using Cons.prems by (simp add: enqueue_def)
  moreover have "enqueue_all bs ?d = Some (strm_update (queued_bufs_update (\<lambda>q. q @ bs)) ?d)"
    using Cons.prems by (intro Cons.IH) (auto simp: dummy_video_buf_queue_def)
  ultimately show ?case by (simp add: dummy_video_buf_queue_def)
qed

section \<open>The whole way\<close>

text \<open>A program that queues the buffers \<open>bs\<close> of a request and waits for the times \<open>ts\<close>.\<close>

definition viewer :: "(nat \<Rightarrow> u8 list option) \<Rightarrow> nat list \<Rightarrow> u64 list \<Rightarrow> video_event list" where
  "viewer mems bs ts =
     [Command Insmod, Open, Mmap_buffers mems, Stream_on bs] @ map Expire ts"

text \<open>What holds once the stream is on.\<close>

lemma viewer_streams:
  assumes "distinct bs"
  shows "\<exists>s. video_events fr core m K [Command Insmod, Open, Mmap_buffers mems, Stream_on bs] (absent w) =
      Some s \<and> loaded s \<and>
    strm (vdv s) = (strm video_d0)\<lparr>queued_bufs := bs, timer_armed := True,
      bufs := (\<lambda>b. blank_plane DUMMY_VIDEO_PLANE_SIZE (mems b))\<rparr>"
proof -
  obtain r w1 where reg: "run_state (dummy_video_drv_register m K) (w\<lparr>dv := video_d0\<rparr>) = (r, w1)"
    by (metis surj_pair)
  from register_wired [OF reg] register_dv [of m K "w\<lparr>dv := video_d0\<rparr>"] reg have
    r: "r = 0" "wired (dv w1)" "strm (dv w1) = (strm video_d0)\<lparr>queued_bufs := [], timer_armed := False\<rparr>"
    by (simp_all add: Let_def)
  define d where "d = strm_update (bufs_update (\<lambda>_ b. blank_plane DUMMY_VIDEO_PLANE_SIZE (mems b))) (dv w1)"
  from r have d: "wired d" "strm d = (strm video_d0)\<lparr>queued_bufs := [], timer_armed := False,
      bufs := (\<lambda>b. blank_plane DUMMY_VIDEO_PLANE_SIZE (mems b))\<rparr>"
    by (simp_all add: d_def)
  then have "enqueue_all bs d = Some (strm_update (queued_bufs_update (\<lambda>q. q @ bs)) d)"
    using assms by (intro enqueue_all_eq) (simp_all add: dummy_video_buf_prepare_def)
  with reg r d show ?thesis
    by (auto simp: absent_def admits_def request_mmap_def dummy_video_queue_setup_def stream_on_def
        dummy_video_start_streaming_def video_d0_def simp flip: d_def)
qed

lemma viewer_shows:
  assumes fr: "frames_ok fr" and bs: "distinct bs" "length bs \<le> 2 ^ 31"
    and mems: "\<forall>b\<in>set bs. \<exists>mem. mems b = Some mem \<and> DUMMY_VIDEO_PLANE_SIZE \<le> length mem"
    and ts: "length ts \<le> length bs"
  shows "\<exists>s. video_events fr core m K (viewer mems bs ts) (absent w) = Some s \<and>
    done_log (strm (vdv s)) = rev (map (\<lambda>b. (b, VB2_BUF_STATE_DONE)) (take (length ts) bs)) \<and>
    (\<forall>k < length ts. shows_frame fr k (ts ! k) (bufs (strm (vdv s)) (bs ! k)))"
proof -
  from viewer_streams [OF bs(1), of fr core m K mems w] obtain s where
    s: "video_events fr core m K [Command Insmod, Open, Mmap_buffers mems, Stream_on bs] (absent w) = Some s"
      "loaded s" and st: "strm (vdv s) = (strm video_d0)\<lparr>queued_bufs := bs, timer_armed := True,
      bufs := (\<lambda>b. blank_plane DUMMY_VIDEO_PLANE_SIZE (mems b))\<rparr>" by blast
  let ?d = "strm (vdv s)"
  have "\<exists>d'. ticks fr ts ?d = Some d' \<and>
    queued_bufs d' = drop (length ts) (queued_bufs ?d) \<and>
    done_log d' = rev (map (\<lambda>b. (b, VB2_BUF_STATE_DONE)) (take (length ts) (queued_bufs ?d)))
      @ done_log ?d \<and>
    (\<forall>k < length ts. shows_frame fr (0 + k) (ts ! k) (bufs d' (queued_bufs ?d ! k))) \<and>
    (\<forall>c. c \<notin> set (take (length ts) (queued_bufs ?d)) \<longrightarrow> bufs d' c = bufs ?d c)"
    using mems bs ts
    by (intro ticks_frames fr)
      (auto simp: st plane_ok_def dummy_video_buf_prepare_def video_d0_def dest!: bspec)
  then obtain d' where d': "ticks fr ts ?d = Some d'"
    "done_log d' = rev (map (\<lambda>b. (b, VB2_BUF_STATE_DONE)) (take (length ts) bs))"
    "\<forall>k < length ts. shows_frame fr k (ts ! k) (bufs d' (bs ! k))"
    by (auto simp: st video_d0_def)
  have "video_events fr core m K (viewer mems bs ts) (absent w) =
      Some (set_dv ((vdv s)\<lparr>strm := d'\<rparr>) s)"
    using s d'(1) st by (simp only: viewer_def run_ops_append) (simp add: expire_ticks)
  with d'(2,3) show ?thesis by auto
qed

end
