(* ===== verification/Fbdev.thy ===== *)
theory Fbdev
  imports Template
begin

text \<open>
  \<open>fbdev/dummy-fb.c\<close>: a framebuffer of 480 by 320 pixels of 16 bits in vmalloc'd memory. The
  colour registers, the dirty area computed from the touched pages, the wrappers around the
  kernel's software drawing, and the allocation with its chain of error labels.
\<close>

section \<open>Structures\<close>

record fb_bitfield =
  offset :: u32
  bf_length :: u32

record fb_var =
  rotate :: u32
  xres :: u32
  yres :: u32
  xres_virtual :: u32
  yres_virtual :: u32
  bits_per_pixel :: u32
  nonstd :: u32
  grayscale :: u32
  red :: fb_bitfield
  green :: fb_bitfield
  blue :: fb_bitfield
  transp :: fb_bitfield

record fb_fix =
  fix_id :: string
  fix_type :: u32
  visual :: u32
  xpanstep :: u16
  ypanstep :: u16
  ywrapstep :: u16
  line_length :: u32
  accel :: u32
  smem_len :: u32

text \<open>
  The operation tables hold the names of the functions they point to; a table fresh from \<open>kzalloc\<close>
  holds null pointers. Only \<open>fb_deferred_io_mmap\<close> belongs to the kernel.
\<close>

datatype fb_fn =
    Dummy_fb_read | Dummy_fb_write | Fb_deferred_io_mmap | Dummy_fb_fillrect | Dummy_fb_copyarea
  | Dummy_fb_imageblit | Dummy_fb_setcolreg | Dummy_fb_blank | Dummy_fb_deferred_io

record fb_ops =
  fb_read :: "fb_fn option"
  fb_write :: "fb_fn option"
  fb_mmap :: "fb_fn option"
  fb_fillrect :: "fb_fn option"
  fb_copyarea :: "fb_fn option"
  fb_imageblit :: "fb_fn option"
  fb_setcolreg :: "fb_fn option"
  fb_blank :: "fb_fn option"

record fb_deferred_io =
  delay :: u64
  sort_pagereflist :: bool
  deferred_io :: "fb_fn option"

text \<open>
  What the driver keeps: the pointer to the \<open>fb_info\<close> the kernel allocated, the fields of it that
  the driver writes, the two tables, and the palette.
\<close>

record dummy_fb = chrdev +
  info :: u64
  screen_buffer :: u64
  fbops_ptr :: u64
  fbdefio_ptr :: u64
  fix_info :: fb_fix
  var_info :: fb_var
  flags :: u32
  fbops :: fb_ops
  fbdefio :: fb_deferred_io
  pseudo_palette :: "u32 list"

record dirty_area =
  x1 :: u32
  y1 :: u32
  x2 :: u32
  y2 :: u32

record dummy_display =
  disp_xres :: u32
  disp_yres :: u32
  disp_bpp :: u32
  disp_fps :: u32
  disp_rotate :: u32

definition display :: dummy_display where
  "display = \<lparr>disp_xres = 480, disp_yres = 320, disp_bpp = 16, disp_fps = 24, disp_rotate = 0\<rparr>"

abbreviation BITS_PER_BYTE :: u32 where "BITS_PER_BYTE \<equiv> 8"
abbreviation FB_TYPE_PACKED_PIXELS :: u32 where "FB_TYPE_PACKED_PIXELS \<equiv> 0"
abbreviation FB_VISUAL_TRUECOLOR :: u32 where "FB_VISUAL_TRUECOLOR \<equiv> 2"
abbreviation FB_ACCEL_NONE :: u32 where "FB_ACCEL_NONE \<equiv> 0"
abbreviation FBINFO_VIRTFB :: u32 where "FBINFO_VIRTFB \<equiv> 4"
abbreviation FB_BLANK_UNBLANK :: c_int where "FB_BLANK_UNBLANK \<equiv> 0"
abbreviation FB_BLANK_NORMAL :: c_int where "FB_BLANK_NORMAL \<equiv> 1"
abbreviation FB_BLANK_VSYNC_SUSPEND :: c_int where "FB_BLANK_VSYNC_SUSPEND \<equiv> 2"
abbreviation FB_BLANK_HSYNC_SUSPEND :: c_int where "FB_BLANK_HSYNC_SUSPEND \<equiv> 3"
abbreviation FB_BLANK_POWERDOWN :: c_int where "FB_BLANK_POWERDOWN \<equiv> 4"

datatype fb_call =
    Fb_sys_read u64 nat
  | Fb_sys_write u64 nat
  | Schedule_delayed_work u64
  | Sys_fillrect
  | Sys_copyarea
  | Sys_imageblit
  | Vzalloc u32
  | Kzalloc string
  | Framebuffer_alloc u64
  | Fb_deferred_io_init u64
  | Register_framebuffer u64
  | Kfree u64
  | Vfree u64
  | Fb_deferred_io_cleanup u64
  | Unregister_framebuffer u64
  | Framebuffer_release u64

type_synonym fb_kernel = "fb_call kcall kernel"
type_synonym 'a fb_prog = "(fb_call kcall, dummy_fb, 'a) prog"

section \<open>Drawing operations\<close>

text \<open>The answer of a read or write is a 64-bit \<open>ssize_t\<close>, in the output field.\<close>

definition dummy_fb_read :: "fb_kernel \<Rightarrow> nat \<Rightarrow> u64 \<Rightarrow> u64 fb_prog" where
  "dummy_fb_read K count ppos = do {
     printk K ''dummy_fb_read'' [];
     r \<leftarrow> sys K (Sub (Fb_sys_read ppos count));
     State_Monad.return (r_out r)
   }"

definition dummy_fb_write :: "fb_kernel \<Rightarrow> nat \<Rightarrow> u64 \<Rightarrow> u64 fb_prog" where
  "dummy_fb_write K count ppos = do {
     printk K ''dummy_fb_write'' [int count, uint ppos];
     r \<leftarrow> sys K (Sub (Fb_sys_write ppos count));
     d \<leftarrow> self;
     _ \<leftarrow> sys K (Sub (Schedule_delayed_work (delay (fbdefio d))));
     State_Monad.return (r_out r)
   }"

definition dummy_fb_fillrect :: "fb_kernel \<Rightarrow> unit fb_prog" where
  "dummy_fb_fillrect K = do {
     printk K ''dummy_fb_fillrect'' [];
     _ \<leftarrow> sys K (Sub Sys_fillrect);
     State_Monad.return ()
   }"

definition dummy_fb_copyarea :: "fb_kernel \<Rightarrow> unit fb_prog" where
  "dummy_fb_copyarea K = do {
     printk K ''dummy_fb_copyarea'' [];
     _ \<leftarrow> sys K (Sub Sys_copyarea);
     State_Monad.return ()
   }"

definition dummy_fb_imageblit :: "fb_kernel \<Rightarrow> unit fb_prog" where
  "dummy_fb_imageblit K = do {
     printk K ''dummy_fb_imageblit'' [];
     _ \<leftarrow> sys K (Sub Sys_imageblit);
     State_Monad.return ()
   }"

section \<open>Colour registers\<close>

text \<open>
  A 16-bit channel cut to the width of its bit field. The shift count is an unsigned difference; a
  field wider than 16 bits would make it larger than the word, which C leaves undefined.
\<close>

definition chan_to_field :: "u32 \<Rightarrow> fb_bitfield \<Rightarrow> u32" where
  "chan_to_field chan bf =
     (let chan = chan AND 0xffff;
          chan = drop_bit (unat (16 - bf_length bf)) chan
      in push_bit (unat (offset bf)) chan)"

definition pack_colour :: "fb_var \<Rightarrow> u32 \<Rightarrow> u32 \<Rightarrow> u32 \<Rightarrow> u32" where
  "pack_colour v r g b =
     chan_to_field r (red v) OR chan_to_field g (green v) OR chan_to_field b (blue v)"

definition dummy_fb_setcolreg ::
    "fb_kernel \<Rightarrow> u32 \<Rightarrow> u32 \<Rightarrow> u32 \<Rightarrow> u32 \<Rightarrow> u32 \<Rightarrow> c_int fb_prog" where
  "dummy_fb_setcolreg K regno r g b t = do {
     printk K ''dummy_fb_setcolreg'' (map uint [regno, r, g, b, t]);
     if regno \<ge> 256 then State_Monad.return 1
     else do {
       d \<leftarrow> self;
       if visual (fix_info d) = FB_VISUAL_TRUECOLOR \<and> regno < 16 then do {
         upd (pseudo_palette_update (\<lambda>p. p[unat regno := pack_colour (var_info d) r g b]));
         State_Monad.return 0
       } else State_Monad.return 1
     }
   }"

definition dummy_fb_blank :: "fb_kernel \<Rightarrow> c_int \<Rightarrow> c_int fb_prog" where
  "dummy_fb_blank K blank = do {
     (if blank \<in> {FB_BLANK_POWERDOWN, FB_BLANK_VSYNC_SUSPEND, FB_BLANK_HSYNC_SUSPEND,
                  FB_BLANK_NORMAL}
      then printk K ''dummy_fb_blank, blank'' []
      else if blank = FB_BLANK_UNBLANK then printk K ''dummy_fb_blank, unblank'' []
      else State_Monad.return ());
     State_Monad.return (- EINVAL)
   }"

section \<open>The dirty area\<close>

text \<open>
  One page of the list: its first and last line, clipped to the screen. The divisions are done on
  \<open>unsigned long\<close> and cut to \<open>unsigned int\<close>. The state of the loop is the area and the variable
  \<open>y_end\<close>, which the function does not initialise.
\<close>

definition page_lines :: "u64 \<Rightarrow> u32 \<Rightarrow> u32 \<Rightarrow> u64 \<Rightarrow> u32 \<times> u32" where
  "page_lines page_size ll yr off =
     (let y_cur = ucast (off div ucast ll);
          y_end = ucast ((off + page_size) div ucast ll)
      in (y_cur, if y_end > yr - 1 then yr - 1 else y_end))"

fun dirty_loop :: "u64 \<Rightarrow> u32 \<Rightarrow> u32 \<Rightarrow> u64 list \<Rightarrow> dirty_area \<times> u32 \<Rightarrow> dirty_area \<times> u32" where
  "dirty_loop page_size ll yr [] s = s"
| "dirty_loop page_size ll yr (off # offs) (area, y_end) =
     (case page_lines page_size ll yr off of (y_cur, y_end') \<Rightarrow>
        let area = (if y_cur < y1 area then area\<lparr>y1 := y_cur\<rparr> else area);
            area = (if y_end' > y2 area then area\<lparr>y2 := y_end'\<rparr> else area)
        in dirty_loop page_size ll yr offs (area, y_end'))"

definition dirty_of :: "u64 \<Rightarrow> u32 \<Rightarrow> fb_var \<Rightarrow> fb_fix \<Rightarrow> u64 list \<Rightarrow> dirty_area" where
  "dirty_of page_size garbage v f offs =
     (let area = \<lparr>x1 = 0, y1 = yres v - 1, x2 = 0, y2 = 0\<rparr>
      in case dirty_loop page_size (line_length f) (yres v) offs (area, garbage) of
        (area, y_end) \<Rightarrow> if y_end > 1 then area\<lparr>x2 := xres v - 1\<rparr> else area)"

definition dummy_fb_deferred_io :: "u64 \<Rightarrow> u32 \<Rightarrow> fb_kernel \<Rightarrow> u64 list \<Rightarrow> unit fb_prog" where
  "dummy_fb_deferred_io page_size garbage K pagereflist = do {
     d \<leftarrow> self;
     let area = dirty_of page_size garbage (var_info d) (fix_info d) pagereflist;
     printk K ''dummy_fb_deferred_io, dirty area''
       [sint (x1 area), sint (y1 area), sint (x2 area), sint (y2 area)]
   }"

end
