(* ===== verification/Fbdev_Module.thy ===== *)
theory Fbdev_Module
  imports Fbdev
begin

text \<open>
  Allocating, loading and unloading the framebuffer of \<open>fbdev/dummy-fb.c\<close>. The three error labels
  of \<open>dummy_fb_alloc\<close> undo what came before them; a refused \<open>register_framebuffer\<close> undoes
  nothing, and unloading never frees the two operation tables.
\<close>

section \<open>Allocation\<close>

text \<open>The labels, each falling through to the next.\<close>

definition err_free_vmem :: "fb_kernel \<Rightarrow> u64 \<Rightarrow> c_int fb_prog" where
  "err_free_vmem K vmem = do {
     _ \<leftarrow> sys K (Sub (Vfree vmem));
     State_Monad.return (- ENOMEM)
   }"

definition err_free_fbops :: "fb_kernel \<Rightarrow> u64 \<Rightarrow> u64 \<Rightarrow> c_int fb_prog" where
  "err_free_fbops K ops vmem = do {
     _ \<leftarrow> sys K (Sub (Kfree ops));
     err_free_vmem K vmem
   }"

definition err_free_fbdefio :: "fb_kernel \<Rightarrow> u64 \<Rightarrow> u64 \<Rightarrow> u64 \<Rightarrow> c_int fb_prog" where
  "err_free_fbdefio K defio ops vmem = do {
     _ \<leftarrow> sys K (Sub (Kfree defio));
     err_free_fbops K ops vmem
   }"

definition vmem_size :: u32 where
  "vmem_size = disp_xres display * disp_yres display * disp_bpp display div BITS_PER_BYTE"

text \<open>Filling the tables and the descriptions of the framebuffer; \<open>hz\<close> is the kernel's \<open>HZ\<close>.\<close>

definition fill_fbops :: fb_ops where
  "fill_fbops = \<lparr>fb_read = Some Dummy_fb_read, fb_write = Some Dummy_fb_write,
     fb_mmap = Some Fb_deferred_io_mmap, fb_fillrect = Some Dummy_fb_fillrect,
     fb_copyarea = Some Dummy_fb_copyarea, fb_imageblit = Some Dummy_fb_imageblit,
     fb_setcolreg = Some Dummy_fb_setcolreg, fb_blank = Some Dummy_fb_blank\<rparr>"

definition fill_fix :: fb_fix where
  "fill_fix = \<lparr>fix_id = ''dummy-fb'', fix_type = FB_TYPE_PACKED_PIXELS,
     visual = FB_VISUAL_TRUECOLOR, xpanstep = 0, ypanstep = 0, ywrapstep = 0,
     line_length = disp_xres display * disp_bpp display div BITS_PER_BYTE,
     accel = FB_ACCEL_NONE, smem_len = vmem_size\<rparr>"

definition fill_var :: fb_var where
  "fill_var = \<lparr>rotate = disp_rotate display, xres = disp_xres display,
     yres = disp_yres display, xres_virtual = disp_xres display,
     yres_virtual = disp_yres display, bits_per_pixel = disp_bpp display, nonstd = 1,
     grayscale = 0, red = \<lparr>offset = 11, bf_length = 5\<rparr>,
     green = \<lparr>offset = 5, bf_length = 6\<rparr>, blue = \<lparr>offset = 0, bf_length = 5\<rparr>,
     transp = \<lparr>offset = 0, bf_length = 0\<rparr>\<rparr>"

definition fill_defio :: "u32 \<Rightarrow> fb_deferred_io" where
  "fill_defio hz = \<lparr>delay = ucast (hz div disp_fps display), sort_pagereflist = True,
     deferred_io = Some Dummy_fb_deferred_io\<rparr>"

definition dummy_fb_alloc :: "u32 \<Rightarrow> fb_kernel \<Rightarrow> c_int fb_prog" where
  "dummy_fb_alloc hz K = do {
     printk K ''dummy_fb_alloc'' [];
     printk K ''vmem_size'' [sint vmem_size];
     v \<leftarrow> sys K (Sub (Vzalloc vmem_size));
     if r_ptr v = 0 then do {
       printk K ''failed to allocate vmem'' [];
       State_Monad.return (- ENOMEM)
     } else do {
       ops \<leftarrow> sys K (Sub (Kzalloc ''fbops''));
       if r_ptr ops = 0 then do {
         printk K ''failed to allocate fbops'' [];
         err_free_vmem K (r_ptr v)
       } else do {
         defio \<leftarrow> sys K (Sub (Kzalloc ''fbdefio''));
         if r_ptr defio = 0 then do {
           printk K ''failed to allocate fbdefio'' [];
           err_free_fbops K (r_ptr ops) (r_ptr v)
         } else do {
           d \<leftarrow> self;
           i \<leftarrow> sys K (Sub (Framebuffer_alloc (dev_ptr d)));
           if r_ptr i = 0 then do {
             printk K ''failed to allocate info'' [];
             err_free_fbdefio K (r_ptr defio) (r_ptr ops) (r_ptr v)
           } else do {
             upd (\<lambda>d. d\<lparr>info := r_ptr i, screen_buffer := r_ptr v, fbops_ptr := r_ptr ops,
               fbdefio_ptr := r_ptr defio, fbops := fill_fbops, fix_info := fill_fix,
               var_info := fill_var, flags := FBINFO_VIRTFB, fbdefio := fill_defio hz\<rparr>);
             _ \<leftarrow> sys K (Sub (Fb_deferred_io_init (r_ptr i)));
             rc \<leftarrow> sys K (Sub (Register_framebuffer (r_ptr i)));
             if is_neg (r_int rc) then do {
               printk K ''framebuffer register failed'' [sint (r_int rc)];
               State_Monad.return (- 1)
             } else do {
               printk K ''KB video memory'' [uint (drop_bit 10 (smem_len fill_fix))];
               State_Monad.return 0
             }
           }
         }
       }
     }
   }"

section \<open>Register and unregister\<close>

definition dummy_fb_drv_register :: "u32 \<Rightarrow> fb_kernel \<Rightarrow> c_int fb_prog" where
  "dummy_fb_drv_register hz K = do {
     r \<leftarrow> sys K (Base (Alloc_chrdev_region ''dummy-fb''));
     upd (dev_num_update (\<lambda>_. ucast (r_out r)));
     if is_neg (r_int r) then do {
       printk K ''failed to allocate chrdev region'' [];
       State_Monad.return (r_int r)
     } else do {
       c \<leftarrow> sys K (Base (Class_create ''dummy-fbclass''));
       upd (class_ptr_update (\<lambda>_. r_ptr c));
       if IS_ERR (r_ptr c) then do {
         printk K ''failed to create class'' [];
         out_dev_num K;
         State_Monad.return (- ENODEV)
       } else do {
         t \<leftarrow> self;
         p \<leftarrow> sys K (Base (Device_create (class_ptr t) (dev_num t) ''dummy-fbdev''));
         upd (dev_ptr_update (\<lambda>_. r_ptr p));
         if IS_ERR (r_ptr p) then do {
           printk K ''failed to create device'' [];
           out_class K;
           State_Monad.return (- ENODEV)
         } else do {
           rc \<leftarrow> dummy_fb_alloc hz K;
           if is_neg rc then do {
             printk K ''failed to alloc dummy fb'' [];
             out_dev K;
             State_Monad.return (- ENODEV)
           } else State_Monad.return 0
         }
       }
     }
   }"

definition dummy_fb_teardown :: "fb_kernel \<Rightarrow> unit fb_prog" where
  "dummy_fb_teardown K = do {
     d \<leftarrow> self;
     if info d \<noteq> 0 then do {
       _ \<leftarrow> sys K (Sub (Fb_deferred_io_cleanup (info d)));
       _ \<leftarrow> sys K (Sub (Unregister_framebuffer (info d)));
       _ \<leftarrow> sys K (Sub (Vfree (screen_buffer d)));
       _ \<leftarrow> sys K (Sub (Framebuffer_release (info d)));
       State_Monad.return ()
     } else State_Monad.return ()
   }"

definition dummy_fb_drv_unregister :: "fb_kernel \<Rightarrow> unit fb_prog" where
  "dummy_fb_drv_unregister K = do {
     printk K ''dummy_fb_drv_unregister'' [];
     dummy_fb_teardown K;
     printk K ''dummy_fb_drv_unregister, Goodbye.'' [];
     out_dev K
   }"

lemmas fb_alloc_defs =
  dummy_fb_alloc_def err_free_fbdefio_def err_free_fbops_def err_free_vmem_def

section \<open>The account\<close>

datatype fb_resource = Vmem u64 | Table u64 | Info u64 | Defio u64 | Framebuffer u64

text \<open>
  The flag \<open>t\<close> says whether the two operation tables are counted: with them the account shows what
  the driver forgets, without them it is exact.
\<close>

fun fb_effect :: "bool \<Rightarrow> fb_call \<Rightarrow> kresp \<Rightarrow> fb_resource resource effect" where
  "fb_effect t (Vzalloc n) r = (if r_ptr r = 0 then Neutral else Acquire (Owned (Vmem (r_ptr r))))"
| "fb_effect t (Kzalloc n) r =
     (if r_ptr r = 0 \<or> \<not> t then Neutral else Acquire (Owned (Table (r_ptr r))))"
| "fb_effect t (Framebuffer_alloc d) r =
     (if r_ptr r = 0 then Neutral else Acquire (Owned (Info (r_ptr r))))"
| "fb_effect t (Fb_deferred_io_init i) r = Acquire (Owned (Defio i))"
| "fb_effect t (Register_framebuffer i) r =
     (if is_neg (r_int r) then Neutral else Acquire (Owned (Framebuffer i)))"
| "fb_effect t (Kfree p) r = (if t then Release (Owned (Table p)) else Neutral)"
| "fb_effect t (Vfree p) r = Release (Owned (Vmem p))"
| "fb_effect t (Fb_deferred_io_cleanup i) r = Release (Owned (Defio i))"
| "fb_effect t (Unregister_framebuffer i) r = Release (Owned (Framebuffer i))"
| "fb_effect t (Framebuffer_release i) r = Release (Owned (Info i))"
| "fb_effect t c r = Neutral"

abbreviation fb_acct :: "bool \<Rightarrow> (fb_call kcall \<times> kresp) list \<Rightarrow> fb_resource resource list option"
  where "fb_acct t \<equiv> ledger (kcall_effect (fb_effect t))"

text \<open>What a loaded driver holds; \<open>fb_tables\<close> is the part it forgets.\<close>

definition fb_owned :: "dummy_fb \<Rightarrow> fb_resource resource list" where
  "fb_owned d = map Owned [Framebuffer (info d), Defio (info d), Info (info d)]"

definition fb_tables :: "bool \<Rightarrow> dummy_fb \<Rightarrow> fb_resource resource list" where
  "fb_tables t d = (if t then map Owned [Table (fbdefio_ptr d), Table (fbops_ptr d)] else [])"

definition fb_holds :: "bool \<Rightarrow> dummy_fb \<Rightarrow> fb_resource resource list" where
  "fb_holds t d = fb_owned d @ fb_tables t d @ [Owned (Vmem (screen_buffer d))] @ frame_resources d"

lemmas fb_hold_defs = fb_holds_def fb_owned_def fb_tables_def frame_resources_def

text \<open>Kernels where the last step of the allocation succeeds.\<close>

definition fb_registers :: "fb_kernel \<Rightarrow> bool" where
  "fb_registers K \<longleftrightarrow> alloc_documented K \<and>
     (\<forall>n i. \<not> is_neg (r_int (K n (Sub (Register_framebuffer i)))))"

lemma fb_registers_answer:
  "fb_registers K \<Longrightarrow> answers K n (Sub (Register_framebuffer i)) r \<Longrightarrow> \<not> is_neg (r_int r)"
  "fb_registers K \<Longrightarrow> answers K n (Base (Alloc_chrdev_region s)) r \<Longrightarrow> \<not> is_neg (r_int r) \<Longrightarrow>
     r_int r = 0"
  by (auto simp: fb_registers_def alloc_documented_def answers_def)

text \<open>Allocation either fails and leaves nothing, or succeeds and holds the six resources.\<close>

lemma fb_alloc_acct:
  assumes good: "fb_registers K" and "fb_acct t (hist w) = Some rs"
    and "run_state (dummy_fb_alloc hz K) w = (r, w')"
  shows "(r = - ENOMEM \<and> fb_acct t (hist w') = Some rs) \<or>
    (r = 0 \<and> fb_acct t (hist w') = Some (fb_owned (dv w') @ fb_tables t (dv w') @
         Owned (Vmem (screen_buffer (dv w'))) # rs))"
  using assms(3) unfolding fb_alloc_defs
  by (elim run_elims)
    (auto simp: assms(2) fb_owned_def fb_tables_def
      dest: fb_registers_answer(1) [OF good])

lemma fb_alloc_dv:
  assumes good: "fb_registers K" and "run_state (dummy_fb_alloc hz K) w = (r, w')"
  shows "(r = - ENOMEM \<and> dv w' = dv w) \<or>
    (r = 0 \<and> info (dv w') \<noteq> 0 \<and> dev_num (dv w') = dev_num (dv w) \<and>
       class_ptr (dv w') = class_ptr (dv w))"
  using assms(2) unfolding fb_alloc_defs
  by (elim run_elims) (auto dest: fb_registers_answer(1) [OF good])

definition dfb :: dummy_fb where
  "dfb = \<lparr>dev_num = 0, class_ptr = 0, dev_ptr = 0, info = 0, screen_buffer = 0, fbops_ptr = 0,
     fbdefio_ptr = 0,
     fix_info = \<lparr>fix_id = [], fix_type = 0, visual = 0, xpanstep = 0, ypanstep = 0,
       ywrapstep = 0, line_length = 0, accel = 0, smem_len = 0\<rparr>,
     var_info = \<lparr>rotate = 0, xres = 0, yres = 0, xres_virtual = 0, yres_virtual = 0,
       bits_per_pixel = 0, nonstd = 0, grayscale = 0, red = \<lparr>offset = 0, bf_length = 0\<rparr>,
       green = \<lparr>offset = 0, bf_length = 0\<rparr>, blue = \<lparr>offset = 0, bf_length = 0\<rparr>,
       transp = \<lparr>offset = 0, bf_length = 0\<rparr>\<rparr>,
     flags = 0,
     fbops = \<lparr>fb_read = None, fb_write = None, fb_mmap = None, fb_fillrect = None,
       fb_copyarea = None, fb_imageblit = None, fb_setcolreg = None, fb_blank = None\<rparr>,
     fbdefio = \<lparr>delay = 0, sort_pagereflist = False, deferred_io = None\<rparr>,
     pseudo_palette = replicate 16 0\<rparr>"

lemma alloc_bindE:
  assumes "fb_registers K" and "run_state (State_Monad.bind (dummy_fb_alloc hz K) f) w = (x, w')"
  obtains w1 where "run_state (f (- ENOMEM)) w1 = (x, w')" and "dv w1 = dv w"
      and "\<forall>rs. fb_acct t (hist w) = Some rs \<longrightarrow> fb_acct t (hist w1) = Some rs"
  | w1 where "run_state (f 0) w1 = (x, w')" and "info (dv w1) \<noteq> 0"
      and "dev_num (dv w1) = dev_num (dv w)" and "class_ptr (dv w1) = class_ptr (dv w)"
      and "\<forall>rs. fb_acct t (hist w) = Some rs \<longrightarrow> fb_acct t (hist w1) =
        Some (fb_owned (dv w1) @ fb_tables t (dv w1) @ Owned (Vmem (screen_buffer (dv w1))) # rs)"
proof -
  obtain r w1 where run: "run_state (dummy_fb_alloc hz K) w = (r, w1)"
    by (metis surj_pair)
  show thesis
    using run assms(2) fb_alloc_acct [OF assms(1) _ run] fb_alloc_dv [OF assms(1) run]
    by (cases "r = 0") (auto intro: that)
qed

lemma fb_register_acct:
  assumes good: "fb_registers K" and acct: "fb_acct t (hist w) = Some rs"
    and run: "run_state (dummy_fb_drv_register hz K) w = (r, w')"
  shows "(is_neg r \<and> fb_acct t (hist w') = Some rs) \<or>
    (r = 0 \<and> info (dv w') \<noteq> 0 \<and> fb_acct t (hist w') = Some (fb_holds t (dv w') @ rs))"
  using run unfolding dummy_fb_drv_register_def
  by (elim run_elims alloc_bindE [OF good, where t = t])
    (auto simp: acct out_defs fb_holds_def frame_resources_def
      dest: fb_registers_answer(2) [OF good])

lemma fb_unregister_acct:
  assumes "fb_acct t (hist w) = Some (fb_holds t (dv w) @ rs)" and "info (dv w) \<noteq> 0"
    and "run_state (dummy_fb_drv_unregister K) w = (u, w')"
  shows "fb_acct t (hist w') = Some (fb_tables t (dv w) @ rs)"
  using assms
  by (auto simp: dummy_fb_drv_unregister_def dummy_fb_teardown_def out_defs fb_hold_defs)

section \<open>The contract\<close>

text \<open>
  Without the tables the account of every session is exact. The driver's structure of a loaded
  module has a framebuffer, which is what makes \<open>dummy_fb_drv_unregister\<close> release it.
\<close>

definition fb_good_holds :: "dummy_fb \<Rightarrow> fb_resource resource list" where
  "fb_good_holds d = (if info d = 0 then frame_resources d else fb_holds False d)"

lemma fb_unregister_empty:
  assumes "fb_acct t (hist w) = Some (frame_resources (dv w) @ rs)" and "info (dv w) = 0"
    and "run_state (dummy_fb_drv_unregister K) w = (u, w')"
  shows "fb_acct t (hist w') = Some rs"
  using assms
  by (auto simp: dummy_fb_drv_unregister_def dummy_fb_teardown_def out_defs frame_resources_def)

interpretation fb_module: module_driver
  "fb_acct False" dfb "dummy_fb_drv_register hz" dummy_fb_drv_unregister fb_good_holds fb_registers
  for hz
proof (unfold_locales, goal_cases)
  case (1 K w rs r w')
  from fb_register_acct [OF this(1,2,4)] this(5) show ?case by (auto simp: fb_good_holds_def)
next
  case (2 K w rs r w')
  from fb_register_acct [OF this(1,2,4)] this(5) show ?case by auto
next
  case (3 K w rs u w')
  then show ?case
    using fb_unregister_acct [of False w rs K u w'] fb_unregister_empty [of False w rs K u w']
    by (auto simp: fb_good_holds_def fb_tables_def split: if_splits)
qed

section \<open>Callbacks of a loaded framebuffer\<close>

text \<open>
  The framebuffer core calls the driver through the slots of \<open>fbops\<close> and the deferred io through its
  own structure. A request names the slot and brings everything that any of the functions takes.
  Mapping the memory is a function of the kernel.
\<close>

datatype fb_slot =
    Slot_read | Slot_write | Slot_mmap | Slot_fillrect | Slot_copyarea | Slot_imageblit
  | Slot_setcolreg | Slot_blank | Slot_deferred_io

record fb_args =
  arg_count :: nat
  arg_ppos :: u64
  arg_regno :: u32
  arg_red :: u32
  arg_green :: u32
  arg_blue :: u32
  arg_transp :: u32
  arg_blank :: c_int
  arg_pages :: "u64 list"

fun fb_entry :: "fb_slot \<times> fb_args \<Rightarrow> dummy_fb \<Rightarrow> fb_fn option" where
  "fb_entry (Slot_read, x) d = fb_read (fbops d)"
| "fb_entry (Slot_write, x) d = fb_write (fbops d)"
| "fb_entry (Slot_mmap, x) d = fb_mmap (fbops d)"
| "fb_entry (Slot_fillrect, x) d = fb_fillrect (fbops d)"
| "fb_entry (Slot_copyarea, x) d = fb_copyarea (fbops d)"
| "fb_entry (Slot_imageblit, x) d = fb_imageblit (fbops d)"
| "fb_entry (Slot_setcolreg, x) d = fb_setcolreg (fbops d)"
| "fb_entry (Slot_blank, x) d = fb_blank (fbops d)"
| "fb_entry (Slot_deferred_io, x) d = deferred_io (fbdefio d)"

fun run_fb_fn :: "u64 \<Rightarrow> u32 \<Rightarrow> fb_kernel \<Rightarrow> fb_fn \<Rightarrow> fb_args \<Rightarrow> unit fb_prog" where
  "run_fb_fn page_size garbage K Dummy_fb_read x =
     do { _ \<leftarrow> dummy_fb_read K (arg_count x) (arg_ppos x); State_Monad.return () }"
| "run_fb_fn page_size garbage K Dummy_fb_write x =
     do { _ \<leftarrow> dummy_fb_write K (arg_count x) (arg_ppos x); State_Monad.return () }"
| "run_fb_fn page_size garbage K Fb_deferred_io_mmap x = State_Monad.return ()"
| "run_fb_fn page_size garbage K Dummy_fb_fillrect x = dummy_fb_fillrect K"
| "run_fb_fn page_size garbage K Dummy_fb_copyarea x = dummy_fb_copyarea K"
| "run_fb_fn page_size garbage K Dummy_fb_imageblit x = dummy_fb_imageblit K"
| "run_fb_fn page_size garbage K Dummy_fb_setcolreg x = do {
     _ \<leftarrow> dummy_fb_setcolreg K (arg_regno x) (arg_red x) (arg_green x) (arg_blue x) (arg_transp x);
     State_Monad.return ()
   }"
| "run_fb_fn page_size garbage K Dummy_fb_blank x =
     do { _ \<leftarrow> dummy_fb_blank K (arg_blank x); State_Monad.return () }"
| "run_fb_fn page_size garbage K Dummy_fb_deferred_io x =
     dummy_fb_deferred_io page_size garbage K (arg_pages x)"

fun fb_run :: "u64 \<Rightarrow> u32 \<Rightarrow> fb_kernel \<Rightarrow> fb_fn \<Rightarrow> fb_slot \<times> fb_args \<Rightarrow> unit fb_prog" where
  "fb_run page_size garbage K h (s, x) = run_fb_fn page_size garbage K h x"

definition fb_serve :: "u64 \<Rightarrow> u32 \<Rightarrow> fb_kernel \<Rightarrow> fb_slot \<times> fb_args \<Rightarrow> unit fb_prog" where
  "fb_serve page_size garbage K = via_table fb_entry (fb_run page_size garbage K)"

lemma fb_run_neutral:
  assumes "fb_acct t (hist w) = Some rs" and "run_state (run_fb_fn ps ga K h x) w = (u, w')"
  shows "fb_acct t (hist w') = Some rs \<and> dv w' = dv w\<lparr>pseudo_palette := pseudo_palette (dv w')\<rparr>"
  using assms
  by (cases h) (auto simp: dummy_fb_read_def dummy_fb_write_def dummy_fb_fillrect_def
      dummy_fb_copyarea_def dummy_fb_imageblit_def dummy_fb_setcolreg_def dummy_fb_blank_def
      dummy_fb_deferred_io_def Let_def split: if_splits)

interpretation fb_table: table_driver
  "fb_acct False" dfb "dummy_fb_drv_register hz" dummy_fb_drv_unregister fb_good_holds fb_registers
  fb_entry "fb_run page_size garbage"
  for hz page_size garbage
proof (unfold_locales, goal_cases)
  case (1 w rs K h x u w')
  obtain s a where x: "x = (s, a)" by (cases x)
  from 1 x have "run_state (run_fb_fn page_size garbage K h a) w = (u, w')" by simp
  from fb_run_neutral [OF 1(1) this] have acct: "fb_acct False (hist w') = Some rs"
    and d: "dv w' = dv w\<lparr>pseudo_palette := pseudo_palette (dv w')\<rparr>" by simp_all
  show ?case by (subst d) (simp add: acct fb_good_holds_def fb_hold_defs)
qed

interpretation fb_served: served_driver
  "fb_acct False" dfb "dummy_fb_drv_register hz" dummy_fb_drv_unregister fb_good_holds fb_registers
  "fb_serve page_size garbage"
  for hz page_size garbage
  unfolding fb_serve_def [abs_def] by unfold_locales

section \<open>What is forgotten\<close>

text \<open>
  Counting the tables, every load and unload that succeeds leaves two allocations behind.
\<close>

lemma fb_cycle_leak:
  assumes good: "fb_registers K" and acct: "fb_acct True (hist w) = Some rs"
    and run: "mod_session (dummy_fb_drv_register hz K) (dummy_fb_drv_unregister K) d0
           [Insmod, Rmmod] (False, w) = (l, w')"
    and ok: "\<And>w. \<not> is_neg (fst (run_state (dummy_fb_drv_register hz K) w))"
  shows "\<not> l \<and> (\<exists>a b. fb_acct True (hist w') = Some (Owned (Table a) # Owned (Table b) # rs))"
proof -
  obtain r w1 where reg: "run_state (dummy_fb_drv_register hz K) (w\<lparr>dv := d0\<rparr>) = (r, w1)"
    by (metis surj_pair)
  obtain u w2 where unreg: "run_state (dummy_fb_drv_unregister K) w1 = (u, w2)"
    by (metis surj_pair)
  have r: "\<not> is_neg r" using ok [of "w\<lparr>dv := d0\<rparr>"] reg by simp
  with run reg unreg have w': "w' = w2" "\<not> l" by auto
  from fb_register_acct [OF good _ reg, of True rs] acct r
  have "info (dv w1) \<noteq> 0" "fb_acct True (hist w1) = Some (fb_holds True (dv w1) @ rs)"
    by auto
  from fb_unregister_acct [OF this(2,1) unreg] w' show ?thesis by (simp add: fb_tables_def)
qed

lemma fb_cycles_leak:
  assumes good: "fb_registers K" and acct: "fb_acct True (hist w) = Some rs"
    and run: "mod_session (dummy_fb_drv_register hz K) (dummy_fb_drv_unregister K) d0
           (concat (replicate n [Insmod, Rmmod])) (False, w) = (l, w')"
    and ok: "\<And>w. \<not> is_neg (fst (run_state (dummy_fb_drv_register hz K) w))"
  shows "\<exists>ts. fb_acct True (hist w') = Some (ts @ rs) \<and> length ts = 2 * n \<and>
    (\<forall>x\<in>set ts. \<exists>p. x = Owned (Table p))"
  using acct run
proof (induction n arbitrary: w rs)
  case 0
  then show ?case by simp
next
  case (Suc n)
  obtain l1 w1 where one: "mod_session (dummy_fb_drv_register hz K) (dummy_fb_drv_unregister K) d0
      [Insmod, Rmmod] (False, w) = (l1, w1)"
    by (metis surj_pair)
  from fb_cycle_leak [OF good Suc.prems(1) one ok] obtain a b where
    l1: "l1 = False" and a1: "fb_acct True (hist w1) = Some (Owned (Table a) # Owned (Table b) # rs)"
    by blast
  from Suc.prems(2) one [unfolded l1] have
    "mod_session (dummy_fb_drv_register hz K) (dummy_fb_drv_unregister K) d0
      (concat (replicate n [Insmod, Rmmod])) (False, w1) = (l, w')"
    by (simp only: replicate_Suc concat.simps mod_session_append simp_thms if_False)
  from Suc.IH [OF a1 this] obtain ts where
    "fb_acct True (hist w') = Some (ts @ Owned (Table a) # Owned (Table b) # rs)"
    "length ts = 2 * n" "\<forall>x\<in>set ts. \<exists>p. x = Owned (Table p)"
    by blast
  then show ?case
    by (intro exI [of _ "ts @ [Owned (Table a), Owned (Table b)]"]) auto
qed

text \<open>
  A refused \<open>register_framebuffer\<close> leaves memory, tables, description and deferred-io state
  behind, while the frame of the driver is undone.
\<close>

definition fb_refuses :: "fb_kernel \<Rightarrow> bool" where
  "fb_refuses K \<longleftrightarrow> alloc_documented K \<and>
     (\<forall>n i. is_neg (r_int (K n (Sub (Register_framebuffer i)))))"

lemma fb_refuses_answer:
  "fb_refuses K \<Longrightarrow> answers K n (Sub (Register_framebuffer i)) r \<Longrightarrow> is_neg (r_int r)"
  "fb_refuses K \<Longrightarrow> answers K n (Base (Alloc_chrdev_region s)) r \<Longrightarrow> \<not> is_neg (r_int r) \<Longrightarrow>
     r_int r = 0"
  by (auto simp: fb_refuses_def alloc_documented_def answers_def)

definition fb_leak :: "bool \<Rightarrow> dummy_fb \<Rightarrow> fb_resource resource list" where
  "fb_leak t d = map Owned [Defio (info d), Info (info d)] @ fb_tables t d @
     [Owned (Vmem (screen_buffer d))]"

lemma fb_alloc_refused:
  assumes bad: "fb_refuses K" and "fb_acct t (hist w) = Some rs"
    and "run_state (dummy_fb_alloc hz K) w = (r, w')"
  shows "(r = - ENOMEM \<and> fb_acct t (hist w') = Some rs) \<or>
    (r = - 1 \<and> fb_acct t (hist w') = Some (fb_leak t (dv w') @ rs))"
  using assms(3) unfolding fb_alloc_defs
  by (elim run_elims)
    (auto simp: assms(2) fb_leak_def fb_tables_def dest: fb_refuses_answer(1) [OF bad])

lemma fb_alloc_refused_dv:
  assumes "run_state (dummy_fb_alloc hz K) w = (r, w')"
  shows "dev_num (dv w') = dev_num (dv w) \<and> class_ptr (dv w') = class_ptr (dv w)"
  using assms unfolding fb_alloc_defs by (elim run_elims) auto

lemma alloc_refused_bindE:
  assumes "fb_refuses K" and "run_state (State_Monad.bind (dummy_fb_alloc hz K) f) w = (x, w')"
  obtains r w1 where "run_state (f r) w1 = (x, w')" and "is_neg r"
    and "dev_num (dv w1) = dev_num (dv w)" and "class_ptr (dv w1) = class_ptr (dv w)"
    and "\<forall>rs. fb_acct t (hist w) = Some rs \<longrightarrow> fb_acct t (hist w1) = Some rs \<or>
      (\<exists>d. fb_acct t (hist w1) = Some (fb_leak t d @ rs))"
proof -
  obtain r w1 where run: "run_state (dummy_fb_alloc hz K) w = (r, w1)"
    by (metis surj_pair)
  show thesis
  proof (rule that [of r w1])
    show "run_state (f r) w1 = (x, w')" using run assms(2) by simp
    show "is_neg r" using run assms(1) unfolding fb_alloc_defs
      by (elim run_elims) (auto dest: fb_refuses_answer(1) [OF assms(1)])
    show "dev_num (dv w1) = dev_num (dv w)" "class_ptr (dv w1) = class_ptr (dv w)"
      using fb_alloc_refused_dv [OF run] by simp_all
    show "\<forall>rs. fb_acct t (hist w) = Some rs \<longrightarrow> fb_acct t (hist w1) = Some rs \<or>
      (\<exists>d. fb_acct t (hist w1) = Some (fb_leak t d @ rs))"
      using fb_alloc_refused [OF assms(1) _ run] by blast
  qed
qed

lemma fb_leak_plain [simp]:
  "Device c d \<notin> set (fb_leak t x)" "Class c \<notin> set (fb_leak t x)" "Region d \<notin> set (fb_leak t x)"
  by (simp_all add: fb_leak_def fb_tables_def)

lemma fb_leak_ex [simp]: "(\<forall>d'. fb_leak t d \<noteq> fb_leak t d') = False" "\<exists>d'. fb_leak t d = fb_leak t d'"
  by blast+

lemma fb_register_refused:
  assumes bad: "fb_refuses K" and acct: "fb_acct t (hist w) = Some rs"
    and run: "run_state (dummy_fb_drv_register hz K) w = (r, w')"
  shows "is_neg r \<and> (fb_acct t (hist w') = Some rs \<or>
    (\<exists>d. fb_acct t (hist w') = Some (fb_leak t d @ rs)))"
  using run unfolding dummy_fb_drv_register_def
  by (elim run_elims alloc_refused_bindE [OF bad, where t = t])
    (auto simp: acct out_defs remove1_append dest!: fb_refuses_answer(2) [OF bad])

text \<open>When nothing but the registration fails, the leak is certain.\<close>

lemma fb_alloc_leaks:
  assumes bad: "fb_refuses K" and acct: "fb_acct t (hist w) = Some rs"
    and mem: "\<And>n c. r_ptr (K n (Sub c)) \<noteq> 0"
    and run: "run_state (dummy_fb_alloc hz K) w = (r, w')"
  shows "r = - 1 \<and> fb_acct t (hist w') = Some (fb_leak t (dv w') @ rs)"
proof -
  have "answers K n (Sub c) q \<Longrightarrow> r_ptr q \<noteq> 0" for n c q using mem by (auto simp: answers_def)
  then have "r \<noteq> - ENOMEM" using run unfolding fb_alloc_defs by (elim run_elims) auto
  with fb_alloc_refused [OF bad acct run] show ?thesis by simp
qed

end
