(* ===== verification/Fb_Dirty.thy ===== *)
theory Fb_Dirty
  imports Fbdev_Module
begin

text \<open>
  What \<open>dummy_fb_deferred_io\<close> of \<open>fbdev/dummy-fb.c\<close> reports for a list of touched pages: the
  smallest band of lines that covers every page, computed in 32 and 64 bits, equals the band
  computed with natural numbers on the screen the driver creates.
\<close>

section \<open>One page\<close>

definition first_line :: "u64 \<Rightarrow> nat" where
  "first_line off = unat off div 960"

definition last_line :: "u64 \<Rightarrow> u64 \<Rightarrow> nat" where
  "last_line page_size off = min 319 ((unat off + unat page_size) div 960)"

text \<open>Page sizes from two lines to 64 KiB, and offsets inside video memory.\<close>

definition page_ok :: "u64 \<Rightarrow> u64 \<Rightarrow> bool" where
  "page_ok page_size off \<longleftrightarrow>
     1920 \<le> unat page_size \<and> unat page_size \<le> 65536 \<and> unat off < 307200"

lemma ucast_64_32: "unat (v :: u64) < 2 ^ 32 \<Longrightarrow> unat (ucast v :: u32) = unat v"
  by (simp add: unsigned_ucast_eq take_bit_nat_eq_self)

lemma page_lines_nat:
  assumes "page_ok page_size off"
  shows "page_lines page_size 960 320 off =
    (of_nat (first_line off), of_nat (last_line page_size off))"
proof -
  have sum: "unat (off + page_size) = unat off + unat page_size"
    using assms by (simp add: page_ok_def unat_word_ariths take_bit_nat_eq_self)
  have f: "unat (ucast (off div 960) :: u32) = first_line off"
    using assms by (subst ucast_64_32) (auto simp: unat_div first_line_def page_ok_def)
  have l: "unat (ucast ((off + page_size) div 960) :: u32) = (unat off + unat page_size) div 960"
    using assms by (subst ucast_64_32) (auto simp: unat_div sum page_ok_def)
  have "(ucast ((off + page_size) div 960) :: u32) > 319 \<longleftrightarrow>
      319 < (unat off + unat page_size) div 960"
    by (simp only: word_less_nat_alt l) simp
  moreover have "(ucast (off div 960) :: u32) = of_nat (first_line off)"
    by (simp flip: f)
  moreover have "(ucast ((off + page_size) div 960) :: u32) =
      of_nat ((unat off + unat page_size) div 960)"
    by (simp flip: l)
  ultimately show ?thesis
    by (simp add: page_lines_def last_line_def min_def not_le)
qed

section \<open>The loop\<close>

lemma line_bounds:
  "page_ok page_size off \<Longrightarrow> first_line off \<le> 319"
  "last_line page_size off \<le> 319"
  "page_ok page_size off \<Longrightarrow> first_line off \<le> last_line page_size off"
  "page_ok page_size off \<Longrightarrow> 2 \<le> last_line page_size off"
proof -
  show "last_line page_size off \<le> 319" by (simp add: last_line_def)
  assume ok: "page_ok page_size off"
  then have "unat off < 320 * 960" by (simp add: page_ok_def)
  then have "unat off div 960 < 320" by (rule less_mult_imp_div_less)
  then show f: "first_line off \<le> 319" by (simp add: first_line_def)
  have "unat off div 960 \<le> (unat off + unat page_size) div 960" by (rule div_le_mono) simp
  with f show "first_line off \<le> last_line page_size off" by (simp add: first_line_def last_line_def)
  have "1920 div 960 \<le> (unat off + unat page_size) div 960"
    using ok by (intro div_le_mono) (simp add: page_ok_def)
  then show "2 \<le> last_line page_size off" by (simp add: last_line_def)
qed

lemma small_line: "n \<le> 319 \<Longrightarrow> unat (of_nat n :: u32) = n"
  by (simp add: unsigned_of_nat take_bit_nat_eq_self)

text \<open>The variables of the loop, as natural numbers.\<close>

lemma dirty_loop_nat:
  assumes "\<forall>off\<in>set offs. page_ok page_size off"
    and "dirty_loop page_size 960 320 offs (area, y_end) = (area', y_end')"
  shows "unat (y1 area') = fold (\<lambda>off. min (first_line off)) offs (unat (y1 area)) \<and>
    unat (y2 area') = fold (\<lambda>off. max (last_line page_size off)) offs (unat (y2 area)) \<and>
    x1 area' = x1 area \<and> x2 area' = x2 area \<and>
    y_end' = (if offs = [] then y_end else of_nat (last_line page_size (last offs)))"
  using assms
proof (induction offs arbitrary: area y_end)
  case Nil
  then show ?case by simp
next
  case (Cons off offs)
  define area1 where "area1 = (let a = (if of_nat (first_line off) < y1 area
      then area\<lparr>y1 := of_nat (first_line off)\<rparr> else area)
    in if of_nat (last_line page_size off) > y2 a
      then a\<lparr>y2 := of_nat (last_line page_size off)\<rparr> else a)"
  have ok: "page_ok page_size off" using Cons.prems(1) by simp
  have run: "dirty_loop page_size 960 320 offs (area1, of_nat (last_line page_size off)) =
      (area', y_end')"
    using Cons.prems(2) by (simp add: page_lines_nat [OF ok] area1_def Let_def split del: if_split)
  have nat: "unat (of_nat (first_line off) :: u32) = first_line off"
    "unat (of_nat (last_line page_size off) :: u32) = last_line page_size off"
    using line_bounds(1) [OF ok] line_bounds(2) by (simp_all only: small_line)
  have "unat (y1 area1) = min (first_line off) (unat (y1 area))"
    "unat (y2 area1) = max (last_line page_size off) (unat (y2 area))"
    "x1 area1 = x1 area" "x2 area1 = x2 area"
    by (auto simp: area1_def Let_def word_less_nat_alt nat)
  with Cons.IH [OF _ run] Cons.prems(1) show ?case by auto
qed

lemma fold_min_Min: "fold (\<lambda>x. min (f x)) xs (a :: nat) = Min (insert a (f ` set xs))"
proof (induction xs arbitrary: a)
  case Nil
  then show ?case by simp
next
  case (Cons x xs)
  have "insert (min (f x) a) (f ` set xs) \<noteq> {}" by simp
  with Cons show ?case by (cases "xs = []") (simp_all add: insert_commute min.assoc min.commute)
qed

lemma fold_max_Max: "fold (\<lambda>x. max (f x)) xs (a :: nat) = Max (insert a (f ` set xs))"
proof (induction xs arbitrary: a)
  case Nil
  then show ?case by simp
next
  case (Cons x xs)
  then show ?case by (cases "xs = []") (simp_all add: insert_commute max.assoc max.commute)
qed

section \<open>The area\<close>

lemma fill_simps [simp]:
  "line_length fill_fix = 960" "yres fill_var = 320" "xres fill_var = 480"
  by (simp_all add: fill_fix_def fill_var_def display_def)

lemma dirty_of_nonempty:
  fixes garbage :: u32
  assumes ne: "offs \<noteq> []" and ok: "\<forall>off\<in>set offs. page_ok page_size off"
  defines "a \<equiv> dirty_of page_size garbage fill_var fill_fix offs"
  shows "x1 a = 0" and "x2 a = 479"
    and "unat (y1 a) = Min (first_line ` set offs)"
    and "unat (y2 a) = Max (last_line page_size ` set offs)"
proof -
  obtain area' y_end' where run: "dirty_loop page_size 960 320 offs
      (\<lparr>x1 = 0, y1 = 319, x2 = 0, y2 = 0\<rparr>, garbage) = (area', y_end')"
    by fastforce
  note r = dirty_loop_nat [OF ok run]
  have "last offs \<in> set offs" using ne by simp
  then have two: "2 \<le> last_line page_size (last offs)" using ok line_bounds(4) by blast
  have "unat y_end' = last_line page_size (last offs)"
    using r ne small_line [OF line_bounds(2)] by simp
  with two have "y_end' > 1" by (simp add: word_less_nat_alt)
  with run have a: "a = area'\<lparr>x2 := 479\<rparr>" by (simp add: a_def dirty_of_def Let_def)
  show "x1 a = 0" "x2 a = 479" using r a by simp_all
  have fin: "first_line ` set offs \<noteq> {}" "last_line page_size ` set offs \<noteq> {}" using ne by simp_all
  have "first_line (last offs) \<le> 319" using ok ne line_bounds(1) last_in_set by blast
  moreover have "Min (first_line ` set offs) \<le> first_line (last offs)" using ne by simp
  ultimately have "Min (first_line ` set offs) \<le> 319" by (rule order_trans [rotated])
  then have "Min (insert 319 (first_line ` set offs)) = Min (first_line ` set offs)"
    using fin(1) by (subst Min_insert) (simp_all only: min_absorb2 finite_imageI List.finite_set simp_thms)
  then show "unat (y1 a) = Min (first_line ` set offs)"
    using r a by (simp add: fold_min_Min del: Min_insert)
  show "unat (y2 a) = Max (last_line page_size ` set offs)"
    using r a fin(2) by (simp add: fold_max_Max)
qed

text \<open>Every byte of a touched page that is on the screen lies inside the reported area.\<close>

lemma dirty_of_covers:
  fixes garbage :: u32
  assumes ok: "\<forall>off\<in>set offs. page_ok page_size off" and off: "off \<in> set offs"
    and b: "unat off \<le> b" "b < unat off + unat page_size" "b < 307200"
  defines "a \<equiv> dirty_of page_size garbage fill_var fill_fix offs"
  shows "unat (y1 a) \<le> b div 960 \<and> b div 960 \<le> unat (y2 a)"
proof -
  have ne: "offs \<noteq> []" using off by auto
  note area = dirty_of_nonempty [OF ne ok, of garbage, folded a_def]
  have "b < 320 * 960" using b(3) by simp
  then have "b div 960 < 320" by (rule less_mult_imp_div_less)
  then have "b div 960 \<le> last_line page_size off"
    using div_le_mono [of b "unat off + unat page_size" 960] b(2) by (simp add: last_line_def)
  also have "\<dots> \<le> Max (last_line page_size ` set offs)" using off by simp
  finally have "b div 960 \<le> unat (y2 a)" by (simp add: area)
  moreover have "Min (first_line ` set offs) \<le> first_line off" using off by simp
  moreover have "first_line off \<le> b div 960" using b(1) by (simp add: first_line_def div_le_mono)
  ultimately show ?thesis by (simp add: area)
qed

lemma dirty_of_order:
  fixes garbage :: u32
  assumes "offs \<noteq> []" and ok: "\<forall>off\<in>set offs. page_ok page_size off"
  defines "a \<equiv> dirty_of page_size garbage fill_var fill_fix offs"
  shows "y1 a \<le> y2 a \<and> y2 a \<le> 319"
proof -
  note area = dirty_of_nonempty [OF assms(1,2), of garbage, folded a_def]
  obtain off where off: "off \<in> set offs" using assms(1) by (cases offs) auto
  have "Min (first_line ` set offs) \<le> first_line off" "first_line off \<le> last_line page_size off"
    "last_line page_size off \<le> Max (last_line page_size ` set offs)"
    using off ok line_bounds(3) by auto
  moreover have "Max (last_line page_size ` set offs) \<le> 319"
    using assms(1) line_bounds(2) by (subst Max_le_iff) auto
  ultimately show ?thesis by (simp add: area word_le_nat_alt)
qed

text \<open>
  Without any page the area is upside down, and its right edge depends on the variable \<open>y_end\<close>
  that nothing has set.
\<close>

lemma dirty_of_empty:
  "dirty_of page_size garbage fill_var fill_fix [] =
     \<lparr>x1 = 0, y1 = 319, x2 = (if garbage > 1 then 479 else 0), y2 = 0\<rparr>"
  by (simp add: dirty_of_def)

end
