(* ===== verification/Drm_Tables.thy ===== *)
theory Drm_Tables
  imports Prelude
begin

text \<open>
  The tables of \<open>drm/drm_simple_display_pipe/drm.c\<close> that the DRM core gets: the functions of the
  display pipe, of the connector and of the mode configuration, and the description of the driver.
  A function pointer is the name of a function.
\<close>

section \<open>The display pipe\<close>

datatype pipe_slot =
    Pipe_mode_valid | Pipe_enable | Pipe_disable | Pipe_update | Pipe_begin_fb_access
  | Pipe_end_fb_access | Pipe_reset_plane | Pipe_duplicate_plane_state | Pipe_destroy_plane_state

datatype pipe_fn =
    Dummy_drm_pipe_mode_valid | Dummy_drm_pipe_enable | Dummy_drm_pipe_disable
  | Dummy_drm_pipe_update | Dummy_drm_pipe_begin_fb_access | Dummy_drm_pipe_end_fb_access
  | Dummy_drm_pipe_reset_plane | Dummy_drm_pipe_duplicate_plane_state
  | Dummy_drm_pipe_destroy_plane_state

fun dummy_display_pipe_funcs :: "pipe_slot \<Rightarrow> pipe_fn" where
  "dummy_display_pipe_funcs Pipe_mode_valid = Dummy_drm_pipe_mode_valid"
| "dummy_display_pipe_funcs Pipe_enable = Dummy_drm_pipe_enable"
| "dummy_display_pipe_funcs Pipe_disable = Dummy_drm_pipe_disable"
| "dummy_display_pipe_funcs Pipe_update = Dummy_drm_pipe_update"
| "dummy_display_pipe_funcs Pipe_begin_fb_access = Dummy_drm_pipe_begin_fb_access"
| "dummy_display_pipe_funcs Pipe_end_fb_access = Dummy_drm_pipe_end_fb_access"
| "dummy_display_pipe_funcs Pipe_reset_plane = Dummy_drm_pipe_reset_plane"
| "dummy_display_pipe_funcs Pipe_duplicate_plane_state = Dummy_drm_pipe_duplicate_plane_state"
| "dummy_display_pipe_funcs Pipe_destroy_plane_state = Dummy_drm_pipe_destroy_plane_state"

section \<open>The connector and the mode configuration\<close>

datatype connector_fn = Dummy_connector_get_modes

record connector_helper_funcs =
  get_modes :: connector_fn

definition dummy_connector_hfuncs :: connector_helper_funcs where
  "dummy_connector_hfuncs = \<lparr>get_modes = Dummy_connector_get_modes\<rparr>"

text \<open>The functions of the kernel that the remaining tables name.\<close>

datatype drm_core_fn =
    Drm_atomic_helper_connector_reset | Drm_helper_probe_single_connector_modes
  | Drm_connector_cleanup | Drm_atomic_helper_connector_duplicate_state
  | Drm_atomic_helper_connector_destroy_state
  | Drm_gem_fb_create_with_dirty | Drm_atomic_helper_check | Drm_atomic_helper_commit

record drm_connector_funcs =
  conn_reset :: drm_core_fn
  fill_modes :: drm_core_fn
  conn_destroy :: drm_core_fn
  atomic_duplicate_state :: drm_core_fn
  atomic_destroy_state :: drm_core_fn

definition dummy_connector_funcs :: drm_connector_funcs where
  "dummy_connector_funcs = \<lparr>
     conn_reset = Drm_atomic_helper_connector_reset,
     fill_modes = Drm_helper_probe_single_connector_modes,
     conn_destroy = Drm_connector_cleanup,
     atomic_duplicate_state = Drm_atomic_helper_connector_duplicate_state,
     atomic_destroy_state = Drm_atomic_helper_connector_destroy_state\<rparr>"

record drm_mode_config_funcs =
  fb_create :: drm_core_fn
  atomic_check :: drm_core_fn
  atomic_commit :: drm_core_fn

definition dummy_drm_mode_config_funcs :: drm_mode_config_funcs where
  "dummy_drm_mode_config_funcs = \<lparr>
     fb_create = Drm_gem_fb_create_with_dirty,
     atomic_check = Drm_atomic_helper_check,
     atomic_commit = Drm_atomic_helper_commit\<rparr>"

section \<open>The driver\<close>

abbreviation DRIVER_GEM :: u32 where "DRIVER_GEM \<equiv> 0x1"
abbreviation DRIVER_MODESET :: u32 where "DRIVER_MODESET \<equiv> 0x2"
abbreviation DRIVER_ATOMIC :: u32 where "DRIVER_ATOMIC \<equiv> 0x10"

record drm_driver =
  driver_features :: u32
  driver_name :: string
  driver_desc :: string
  driver_major :: nat
  driver_minor :: nat

definition dummy_drm_driver :: drm_driver where
  "dummy_drm_driver = \<lparr>driver_features = DRIVER_GEM OR DRIVER_MODESET OR DRIVER_ATOMIC,
     driver_name = ''dummy-drm'', driver_desc = ''Dummy DRM driver'',
     driver_major = 1, driver_minor = 0\<rparr>"

end
