(* ===== verification/Drm.thy ===== *)
theory Drm
  imports Template Drm_Tables
begin

text \<open>
  \<open>drm/drm_simple_display_pipe/drm.c\<close>: a DRM driver with one fixed mode. Most handlers pass their
  arguments to a helper of the kernel; the driver's own logic is the guards of the plane update,
  the construction of the device and its destruction in an order that keeps the DRM device alive
  while it is still used.
\<close>

section \<open>Structures\<close>

text \<open>The arguments of \<open>DRM_MODE_INIT\<close>: refresh rate, resolution, physical size.\<close>

record drm_display_mode =
  vrefresh :: u32
  hdisplay :: u16
  vdisplay :: u16
  width_mm :: u16
  height_mm :: u16

record drm_mode_config =
  preferred_depth :: u32
  min_width :: u32
  max_width :: u32
  min_height :: u32
  max_height :: u32
  config_funcs :: "drm_mode_config_funcs option"

record drm_rect =
  rect_x1 :: u32
  rect_y1 :: u32
  rect_x2 :: u32
  rect_y2 :: u32

text \<open>
  \<open>ddev\<close> is the address of the allocated device and of the \<open>drm_device\<close> it begins with; the
  fields after it are what the driver writes in it and in the parent device. The tables \<open>pipe_funcs\<close> and
  \<open>hfuncs\<close> belong to the display pipe and the connector inside the device; the kernel keeps the
  pointers that it is given.
\<close>

record dummy_drm = chrdev +
  dma_mask :: u64
  coherent_dma_mask :: u64
  drvdata :: u64
  ddev :: u64
  mode :: drm_display_mode
  mode_config :: drm_mode_config
  hfuncs :: "connector_helper_funcs option"
  pipe_funcs :: "(pipe_slot \<Rightarrow> pipe_fn) option"

definition dummy_disp_mode :: drm_display_mode where
  "dummy_disp_mode = \<lparr>vrefresh = 60, hdisplay = 480, vdisplay = 320, width_mm = 85, height_mm = 55\<rparr>"

text \<open>The four-character codes of the formats, \<open>RG16\<close> and \<open>XR24\<close>, and the modifiers.\<close>

abbreviation DRM_FORMAT_RGB565 :: u32 where "DRM_FORMAT_RGB565 \<equiv> 0x36314752"
abbreviation DRM_FORMAT_XRGB8888 :: u32 where "DRM_FORMAT_XRGB8888 \<equiv> 0x34325258"
abbreviation DRM_FORMAT_MOD_LINEAR :: u64 where "DRM_FORMAT_MOD_LINEAR \<equiv> 0"
abbreviation DRM_FORMAT_MOD_INVALID :: u64 where "DRM_FORMAT_MOD_INVALID \<equiv> 0x00ffffffffffffff"

definition dummy_drm_formats :: "u32 list" where
  "dummy_drm_formats = [DRM_FORMAT_RGB565, DRM_FORMAT_XRGB8888]"

datatype drm_call =
    Drm_crtc_helper_mode_valid_fixed drm_display_mode drm_display_mode
  | Drm_dev_enter u64
  | Drm_dev_exit c_int
  | Drm_atomic_helper_damage_merged
  | Drm_gem_begin_shadow_fb_access
  | Drm_gem_end_shadow_fb_access
  | Drm_gem_reset_shadow_plane
  | Drm_gem_duplicate_shadow_plane_state
  | Drm_gem_destroy_shadow_plane_state
  | Drm_connector_helper_get_modes_fixed drm_display_mode
  | Drm_mode_config_init u64
  | Drm_connector_helper_add u64
  | Drm_connector_init u64 drm_connector_funcs
  | Drm_simple_display_pipe_init u64 "u32 list" "u64 list"
  | Drm_plane_enable_fb_damage_clips u64
  | Devm_drm_dev_alloc u64 drm_driver
  | Drm_mode_config_reset u64
  | Drm_dev_register u64
  | Drm_client_setup u64
  | Drm_dev_put u64
  | Drm_dev_unplug u64
  | Drm_atomic_helper_shutdown u64
  | Warn_on

type_synonym drm_kernel = "drm_call kcall kernel"
type_synonym 'a drm_prog = "(drm_call kcall, dummy_drm, 'a) prog"

section \<open>Handlers of the display pipe and the connector\<close>

definition dummy_drm_pipe_mode_valid :: "drm_kernel \<Rightarrow> drm_display_mode \<Rightarrow> c_int drm_prog" where
  "dummy_drm_pipe_mode_valid K m = do {
     d \<leftarrow> self;
     r \<leftarrow> sys K (Sub (Drm_crtc_helper_mode_valid_fixed m (mode d)));
     printk K ''dummy_drm_pipe_mode_valid, rc'' [sint (r_int r)];
     State_Monad.return (r_int r)
   }"

definition dummy_drm_pipe_enable :: "drm_kernel \<Rightarrow> unit drm_prog" where
  "dummy_drm_pipe_enable K = printk K ''dummy_drm_pipe_enable'' []"

definition dummy_drm_pipe_disable :: "drm_kernel \<Rightarrow> unit drm_prog" where
  "dummy_drm_pipe_disable K = printk K ''dummy_drm_pipe_disable'' []"

text \<open>
  An update of the plane: \<open>active\<close> is the state of the CRTC, \<open>fb\<close> the framebuffer of the new state
  with its device, \<open>load_rect\<close> reads the rectangle the kernel stored for the caller.
\<close>

definition dummy_drm_pipe_update ::
    "(u64 \<Rightarrow> drm_rect) \<Rightarrow> drm_kernel \<Rightarrow> bool \<Rightarrow> u64 option \<Rightarrow> unit drm_prog" where
  "dummy_drm_pipe_update load_rect K active fb =
     (if \<not> active then State_Monad.return ()
      else case fb of
        None \<Rightarrow> do { _ \<leftarrow> sys K (Sub Warn_on); State_Monad.return () }
      | Some drm \<Rightarrow> do {
          e \<leftarrow> sys K (Sub (Drm_dev_enter drm));
          if r_int e = 0 then State_Monad.return ()
          else do {
            printk K ''dummy_drm_pipe_update'' [];
            m \<leftarrow> sys K (Sub Drm_atomic_helper_damage_merged);
            (if r_int m \<noteq> 0 then
               let rect = load_rect (r_out m)
               in printk K ''x1, y1, x2, y2''
                    [uint (rect_x1 rect), uint (rect_y1 rect), uint (rect_x2 rect),
                     uint (rect_y2 rect)]
             else State_Monad.return ());
            _ \<leftarrow> sys K (Sub (Drm_dev_exit (ucast (r_out e))));
            State_Monad.return ()
          }
        })"

definition dummy_drm_pipe_begin_fb_access :: "drm_kernel \<Rightarrow> c_int drm_prog" where
  "dummy_drm_pipe_begin_fb_access K = do {
     r \<leftarrow> sys K (Sub Drm_gem_begin_shadow_fb_access);
     State_Monad.return (r_int r)
   }"

definition dummy_drm_pipe_end_fb_access :: "drm_kernel \<Rightarrow> unit drm_prog" where
  "dummy_drm_pipe_end_fb_access K = do {
     _ \<leftarrow> sys K (Sub Drm_gem_end_shadow_fb_access);
     State_Monad.return ()
   }"

definition dummy_drm_pipe_reset_plane :: "drm_kernel \<Rightarrow> unit drm_prog" where
  "dummy_drm_pipe_reset_plane K = do {
     _ \<leftarrow> sys K (Sub Drm_gem_reset_shadow_plane);
     State_Monad.return ()
   }"

definition dummy_drm_pipe_duplicate_plane_state :: "drm_kernel \<Rightarrow> u64 drm_prog" where
  "dummy_drm_pipe_duplicate_plane_state K = do {
     r \<leftarrow> sys K (Sub Drm_gem_duplicate_shadow_plane_state);
     State_Monad.return (r_ptr r)
   }"

definition dummy_drm_pipe_destroy_plane_state :: "drm_kernel \<Rightarrow> unit drm_prog" where
  "dummy_drm_pipe_destroy_plane_state K = do {
     _ \<leftarrow> sys K (Sub Drm_gem_destroy_shadow_plane_state);
     State_Monad.return ()
   }"

definition dummy_connector_get_modes :: "drm_kernel \<Rightarrow> c_int drm_prog" where
  "dummy_connector_get_modes K = do {
     d \<leftarrow> self;
     r \<leftarrow> sys K (Sub (Drm_connector_helper_get_modes_fixed (mode d)));
     State_Monad.return (r_int r)
   }"

section \<open>Construction\<close>

definition set_mode_config :: "dummy_drm \<Rightarrow> dummy_drm" where
  "set_mode_config d = d\<lparr>mode_config := (mode_config d)\<lparr>
     config_funcs := Some dummy_drm_mode_config_funcs,
     min_width := ucast (hdisplay (mode d)), max_width := ucast (hdisplay (mode d)),
     min_height := ucast (vdisplay (mode d)), max_height := ucast (vdisplay (mode d))\<rparr>\<rparr>"

definition dummy_drm_dev_init_with_formats ::
    "drm_kernel \<Rightarrow> (pipe_slot \<Rightarrow> pipe_fn) \<Rightarrow> u32 list \<Rightarrow> drm_display_mode \<Rightarrow> c_int drm_prog" where
  "dummy_drm_dev_init_with_formats K funcs formats m = do {
     t \<leftarrow> self;
     let drm = ddev t;
     printk K ''dummy_drm_dev_init_with_formats'' [];
     rc \<leftarrow> sys K (Sub (Drm_mode_config_init drm));
     if r_int rc \<noteq> 0 then do {
       printk K ''failed to init mode config'' [];
       State_Monad.return (r_int rc)
     } else do {
       upd (mode_update (\<lambda>_. m));
       printk K ''mode'' [uint (hdisplay m), uint (vdisplay m)];
       _ \<leftarrow> sys K (Sub (Drm_connector_helper_add drm));
       upd (hfuncs_update (\<lambda>_. Some dummy_connector_hfuncs));
       rc \<leftarrow> sys K (Sub (Drm_connector_init drm dummy_connector_funcs));
       if r_int rc \<noteq> 0 then do {
         printk K ''failed to init connector'' [];
         State_Monad.return (r_int rc)
       } else do {
         rc \<leftarrow> sys K (Sub (Drm_simple_display_pipe_init drm formats
                 [DRM_FORMAT_MOD_LINEAR, DRM_FORMAT_MOD_INVALID]));
         if r_int rc \<noteq> 0 then do {
           printk K ''failed to init pipe'' [];
           State_Monad.return (r_int rc)
         } else do {
           upd (pipe_funcs_update (\<lambda>_. Some funcs));
           _ \<leftarrow> sys K (Sub (Drm_plane_enable_fb_damage_clips drm));
           upd set_mode_config;
           State_Monad.return 0
         }
       }
     }
   }"

definition dummy_drm_dev_init ::
    "drm_kernel \<Rightarrow> (pipe_slot \<Rightarrow> pipe_fn) \<Rightarrow> drm_display_mode \<Rightarrow> c_int drm_prog" where
  "dummy_drm_dev_init K funcs m = do {
     upd (mode_config_update (preferred_depth_update (\<lambda>_. 16)));
     printk K ''dummy_drm_dev_init'' [];
     dummy_drm_dev_init_with_formats K funcs dummy_drm_formats m
   }"

section \<open>Register and unregister\<close>

definition out_drm :: "drm_kernel \<Rightarrow> c_int drm_prog" where
  "out_drm K = do {
     d \<leftarrow> self;
     _ \<leftarrow> sys K (Sub (Drm_dev_put (ddev d)));
     out_dev K;
     State_Monad.return (- ENODEV)
   }"

text \<open>From the allocation of the device on.\<close>

definition dummy_drm_attach :: "drm_kernel \<Rightarrow> c_int drm_prog" where
  "dummy_drm_attach K = do {
     upd (\<lambda>d. d\<lparr>dma_mask := mask 32, coherent_dma_mask := mask 32\<rparr>);
     t \<leftarrow> self;
     a \<leftarrow> sys K (Sub (Devm_drm_dev_alloc (dev_ptr t) dummy_drm_driver));
     upd (ddev_update (\<lambda>_. r_ptr a));
     if IS_ERR (r_ptr a) then do {
       out_dev K;
       State_Monad.return (- ENODEV)
     } else do {
       ret \<leftarrow> dummy_drm_dev_init K dummy_display_pipe_funcs dummy_disp_mode;
       if ret \<noteq> 0 then do {
         printk K ''failed to init drm dev'' [];
         out_drm K
       } else do {
         _ \<leftarrow> sys K (Sub (Drm_mode_config_reset (r_ptr a)));
         ret \<leftarrow> sys K (Sub (Drm_dev_register (r_ptr a)));
         if r_int ret \<noteq> 0 then do {
           printk K ''failed to register drm dev'' [];
           out_drm K
         } else do {
           upd (drvdata_update (\<lambda>_. r_ptr a));
           _ \<leftarrow> sys K (Sub (Drm_client_setup (r_ptr a)));
           State_Monad.return 0
         }
       }
     }
   }"

definition dummy_drm_register :: "drm_kernel \<Rightarrow> c_int drm_prog" where
  "dummy_drm_register K = do {
     printk K ''dummy_drm_register'' [];
     r \<leftarrow> sys K (Base (Alloc_chrdev_region ''dummy-template''));
     upd (dev_num_update (\<lambda>_. ucast (r_out r)));
     c \<leftarrow> sys K (Base (Class_create ''dummy-template-class''));
     upd (class_ptr_update (\<lambda>_. r_ptr c));
     if IS_ERR (r_ptr c) then do {
       printk K ''dummy_drm_register, failed to create class'' [];
       out_dev_num K;
       State_Monad.return (- ENODEV)
     } else do {
       t \<leftarrow> self;
       p \<leftarrow> sys K (Base (Device_create (class_ptr t) (dev_num t) ''dummy-template-dev''));
       upd (dev_ptr_update (\<lambda>_. r_ptr p));
       if IS_ERR (r_ptr p) then do {
         printk K ''dummy_drm_register, failed to create device'' [];
         out_class K;
         State_Monad.return (- ENODEV)
       } else dummy_drm_attach K
     }
   }"

definition dummy_drm_unregister :: "drm_kernel \<Rightarrow> unit drm_prog" where
  "dummy_drm_unregister K = do {
     d \<leftarrow> self;
     let drm = drvdata d;
     printk K ''dummy_drm_unregister'' [];
     _ \<leftarrow> sys K (Sub (Drm_dev_unplug drm));
     _ \<leftarrow> sys K (Sub (Drm_atomic_helper_shutdown drm));
     out_dev K
   }"

lemmas drm_defs =
  dummy_drm_register_def dummy_drm_attach_def dummy_drm_dev_init_def
  dummy_drm_dev_init_with_formats_def out_drm_def dummy_drm_unregister_def

end
