(* ===== verification/Drm_Module.thy ===== *)
theory Drm_Module
  imports Drm
begin

text \<open>
  The lifetime of the DRM device of \<open>drm.c\<close>. \<open>devm_drm_dev_alloc\<close> ties the last reference to the
  parent device, as the comment in \<open>dummy_drm_unregister\<close> says: destroying the parent drops it. The
  account of this theory therefore knows that destroying a device runs what is tied to it, and
  that using a DRM device needs a live reference.
\<close>

section \<open>The account\<close>

text \<open>
  \<open>Drm_ref p\<close> is the reference to the DRM device at \<open>p\<close>, \<open>Devm p\<close> the duty of the parent device to
  drop it, \<open>Published p\<close> its registration, \<open>Srcu i\<close> an open critical section.
\<close>

datatype drm_resource = Drm_ref u64 | Devm u64 | Published u64 | Srcu c_int

type_synonym drm_held = "drm_resource resource list"

definition using_ref :: "u64 \<Rightarrow> drm_held \<Rightarrow> drm_held option" where
  "using_ref p rs = (if Owned (Drm_ref p) \<in> set rs then Some rs else None)"

fun is_devm :: "drm_resource resource \<Rightarrow> u64 option" where
  "is_devm (Owned (Devm p)) = Some p"
| "is_devm x = None"

fun drop_refs :: "u64 list \<Rightarrow> drm_held \<Rightarrow> drm_held option" where
  "drop_refs [] rs = Some rs"
| "drop_refs (p # ps) rs =
     (case settle (Release (Owned (Drm_ref p))) rs of None \<Rightarrow> None | Some rs' \<Rightarrow> drop_refs ps rs')"

text \<open>
  Destroying the parent device drops every reference tied to it. Such a duty is taken on after the
  device exists, so it stands before the device in the account.
\<close>

definition destroy_device :: "u64 \<Rightarrow> u32 \<Rightarrow> drm_held \<Rightarrow> drm_held option" where
  "destroy_device c d rs =
     (let above = takeWhile (\<lambda>x. x \<noteq> Device c d) rs
      in case dropWhile (\<lambda>x. x \<noteq> Device c d) rs of
        [] \<Rightarrow> None
      | _ # below \<Rightarrow> drop_refs (List.map_filter is_devm above)
          (filter (\<lambda>x. is_devm x = None) above @ below))"

fun drm_settle :: "drm_call kcall \<Rightarrow> kresp \<Rightarrow> drm_held \<Rightarrow> drm_held option" where
  "drm_settle (Base (Device_destroy c d)) r rs = destroy_device c d rs"
| "drm_settle (Base b) r rs = settle (base_effect b r) rs"
| "drm_settle (Sub (Devm_drm_dev_alloc dev drv)) r rs =
     (if IS_ERR (r_ptr r) then Some rs
      else Some (Owned (Drm_ref (r_ptr r)) # Owned (Devm (r_ptr r)) # rs))"
| "drm_settle (Sub (Drm_dev_put p)) r rs = settle (Release (Owned (Drm_ref p))) rs"
| "drm_settle (Sub (Drm_dev_register p)) r rs =
     (case using_ref p rs of None \<Rightarrow> None
      | Some rs \<Rightarrow> Some (if r_int r = 0 then Owned (Published p) # rs else rs))"
| "drm_settle (Sub (Drm_dev_unplug p)) r rs =
     (case using_ref p rs of None \<Rightarrow> None
      | Some rs \<Rightarrow> settle (Release (Owned (Published p))) rs)"
| "drm_settle (Sub (Drm_atomic_helper_shutdown p)) r rs = using_ref p rs"
| "drm_settle (Sub (Drm_client_setup p)) r rs = using_ref p rs"
| "drm_settle (Sub (Drm_mode_config_reset p)) r rs = using_ref p rs"
| "drm_settle (Sub (Drm_dev_enter p)) r rs =
     Some (if r_int r = 0 then rs else Owned (Srcu (ucast (r_out r))) # rs)"
| "drm_settle (Sub (Drm_dev_exit i)) r rs = settle (Release (Owned (Srcu i))) rs"
| "drm_settle (Sub c) r rs = Some rs"

fun drm_acct :: "(drm_call kcall \<times> kresp) list \<Rightarrow> drm_held option" where
  "drm_acct [] = Some []"
| "drm_acct ((c, r) # h) = (case drm_acct h of None \<Rightarrow> None | Some rs \<Rightarrow> drm_settle c r rs)"

definition drm_holds :: "dummy_drm \<Rightarrow> drm_held" where
  "drm_holds d = Owned (Published (drvdata d)) # Owned (Drm_ref (drvdata d)) #
     Owned (Devm (drvdata d)) # frame_resources d"

lemmas drm_acct_defs =
  using_ref_def destroy_device_def drm_holds_def frame_resources_def List.map_filter_def out_defs

section \<open>The display pipe\<close>

text \<open>
  An update of the plane leaves every critical section it entered, on every path, and enters none
  when the CRTC is off or there is no framebuffer.
\<close>

lemma pipe_update_balanced:
  assumes "drm_acct (hist w) = Some rs"
    and "run_state (dummy_drm_pipe_update lr K active fb) w = (u, w')"
  shows "drm_acct (hist w') = Some rs \<and> dv w' = dv w"
  using assms(2) unfolding dummy_drm_pipe_update_def
  by (cases fb) (elim run_elims; auto simp: assms(1) Let_def answers_def split: if_splits)+

lemma pipe_update_off:
  "run_state (dummy_drm_pipe_update lr K False fb) w = ((), w)"
  by (simp add: dummy_drm_pipe_update_def)

section \<open>The contract\<close>

definition drm_init_succeeds :: "drm_kernel \<Rightarrow> bool" where
  "drm_init_succeeds K \<longleftrightarrow> alloc_succeeds K \<and>
     (\<forall>n p. r_int (K n (Sub (Drm_mode_config_init p))) = 0) \<and>
     (\<forall>n p f. r_int (K n (Sub (Drm_connector_init p f))) = 0) \<and>
     (\<forall>n p f m. r_int (K n (Sub (Drm_simple_display_pipe_init p f m))) = 0)"

definition drm_steps_succeed :: "drm_kernel \<Rightarrow> bool" where
  "drm_steps_succeed K \<longleftrightarrow> drm_init_succeeds K \<and>
     (\<forall>n p. r_int (K n (Sub (Drm_dev_register p))) = 0)"

lemma drm_init_answers:
  assumes "drm_init_succeeds K"
  shows "answers K n (Base (Alloc_chrdev_region s)) r \<Longrightarrow> r_int r = 0"
    and "answers K n (Sub (Drm_mode_config_init p)) r \<Longrightarrow> r_int r = 0"
    and "answers K n (Sub (Drm_connector_init p cf)) r \<Longrightarrow> r_int r = 0"
    and "answers K n (Sub (Drm_simple_display_pipe_init p f m)) r \<Longrightarrow> r_int r = 0"
  using assms by (auto simp: drm_init_succeeds_def answers_def alloc_succeeds_def)

lemma drm_answers:
  assumes "drm_steps_succeed K"
  shows "drm_init_succeeds K"
    and "answers K n (Base (Alloc_chrdev_region s)) r \<Longrightarrow> r_int r = 0"
    and "answers K n (Sub (Drm_dev_register p)) r \<Longrightarrow> r_int r = 0"
  using assms by (auto simp: drm_steps_succeed_def answers_def dest: drm_init_answers)

definition drm_d0 :: dummy_drm where
  "drm_d0 = \<lparr>dev_num = 0, class_ptr = 0, dev_ptr = 0, dma_mask = 0, coherent_dma_mask = 0,
     drvdata = 0, ddev = 0,
     mode = \<lparr>vrefresh = 0, hdisplay = 0, vdisplay = 0, width_mm = 0, height_mm = 0\<rparr>,
     mode_config = \<lparr>preferred_depth = 0, min_width = 0, max_width = 0, min_height = 0,
       max_height = 0, config_funcs = None\<rparr>, hfuncs = None, pipe_funcs = None\<rparr>"

text \<open>When its steps succeed, the initialisation only describes the device.\<close>

definition inited ::
    "(pipe_slot \<Rightarrow> pipe_fn) \<Rightarrow> drm_display_mode \<Rightarrow> dummy_drm \<Rightarrow> dummy_drm" where
  "inited funcs m d = set_mode_config
     ((mode_config_update (preferred_depth_update (\<lambda>_. 16)) d)\<lparr>mode := m,
        hfuncs := Some dummy_connector_hfuncs, pipe_funcs := Some funcs\<rparr>)"

lemma inited_simps [simp]:
  "dev_num (inited fs m d) = dev_num d" "class_ptr (inited fs m d) = class_ptr d"
  "dev_ptr (inited fs m d) = dev_ptr d" "ddev (inited fs m d) = ddev d" "mode (inited fs m d) = m"
  "drvdata (inited fs m d) = drvdata d"
  "max_width (mode_config (inited fs m d)) = ucast (hdisplay m)"
  "min_width (mode_config (inited fs m d)) = ucast (hdisplay m)"
  "max_height (mode_config (inited fs m d)) = ucast (vdisplay m)"
  "min_height (mode_config (inited fs m d)) = ucast (vdisplay m)"
  "config_funcs (mode_config (inited fs m d)) = Some dummy_drm_mode_config_funcs"
  "hfuncs (inited fs m d) = Some dummy_connector_hfuncs" "pipe_funcs (inited fs m d) = Some fs"
  by (simp_all add: inited_def set_mode_config_def)

text \<open>Naming the world after a store keeps the goals of a long run small.\<close>

lemma upd_namedE:
  assumes "run_state (State_Monad.bind (upd g) f) w = (x, w')"
  obtains w1 where "hist w1 = hist w" and "dv w1 = g (dv w)" and "run_state (f ()) w1 = (x, w')"
  by (rule that [of "w\<lparr>dv := g (dv w)\<rparr>"]) (use assms in simp_all)

lemma drm_dev_init_run:
  assumes "drm_init_succeeds K" and "run_state (dummy_drm_dev_init K fs m) w = (r, w')"
  shows "r = 0 \<and> dv w' = inited fs m (dv w) \<and>
    (\<forall>rs. drm_acct (hist w) = Some rs \<longrightarrow> drm_acct (hist w') = Some rs)"
  using assms(2) unfolding dummy_drm_dev_init_def dummy_drm_dev_init_with_formats_def Let_def
  by (elim upd_namedE run_elims) (auto simp: inited_def dest: drm_init_answers(2-) [OF assms(1)])

lemma init_bindE:
  assumes "drm_init_succeeds K"
    and "run_state (State_Monad.bind (dummy_drm_dev_init K fs m) f) w = (x, w')"
  obtains w1 where "run_state (f 0) w1 = (x, w')" and "dv w1 = inited fs m (dv w)"
    and "\<forall>rs. drm_acct (hist w) = Some rs \<longrightarrow> drm_acct (hist w1) = Some rs"
proof -
  obtain r w1 where run: "run_state (dummy_drm_dev_init K fs m) w = (r, w1)" by (metis surj_pair)
  from drm_dev_init_run [OF assms(1) run] run assms(2) show thesis by (auto intro: that)
qed

text \<open>The only size a framebuffer may have is that of the mode.\<close>

definition fixed_size :: "dummy_drm \<Rightarrow> bool" where
  "fixed_size d \<longleftrightarrow> mode d = dummy_disp_mode \<and>
     min_width (mode_config d) = 480 \<and> max_width (mode_config d) = 480 \<and>
     min_height (mode_config d) = 320 \<and> max_height (mode_config d) = 320"

text \<open>The tables a loaded device has.\<close>

definition tables_installed :: "dummy_drm \<Rightarrow> bool" where
  "tables_installed d \<longleftrightarrow> pipe_funcs d = Some dummy_display_pipe_funcs \<and>
     hfuncs d = Some dummy_connector_hfuncs \<and>
     config_funcs (mode_config d) = Some dummy_drm_mode_config_funcs"

text \<open>The part that attaches a DRM device to a fresh parent.\<close>

lemma drm_attach_run:
  assumes good: "drm_steps_succeed K"
    and acct: "drm_acct (hist w) = Some (frame_resources (dv w) @ rs)"
    and run: "run_state (dummy_drm_attach K) w = (r, w')"
  shows "(r = - ENODEV \<and> drm_acct (hist w') = Some rs) \<or>
    (r = 0 \<and> drm_acct (hist w') = Some (drm_holds (dv w') @ rs) \<and>
     fixed_size (dv w') \<and> tables_installed (dv w'))"
  using run unfolding dummy_drm_attach_def out_drm_def
  by (elim run_elims init_bindE [OF drm_answers(1) [OF good]])
    (auto simp: acct drm_acct_defs fixed_size_def tables_installed_def dummy_disp_mode_def
      dest: drm_answers(2,3) [OF good])

lemma drm_register_acct:
  assumes good: "drm_steps_succeed K" and acct: "drm_acct (hist w) = Some rs"
    and run: "run_state (dummy_drm_register K) w = (r, w')"
  shows "(r = - ENODEV \<and> drm_acct (hist w') = Some rs) \<or>
    (r = 0 \<and> drm_acct (hist w') = Some (drm_holds (dv w') @ rs) \<and> fixed_size (dv w') \<and>
     tables_installed (dv w'))"
  using run unfolding dummy_drm_register_def
  by (elim run_elims)
    (auto simp: acct drm_acct_defs dest: drm_answers(2) [OF good] dest!: drm_attach_run [OF good, rotated])

lemma drm_unregister_acct:
  assumes "drm_acct (hist w) = Some (drm_holds (dv w) @ rs)"
    and "run_state (dummy_drm_unregister K) w = (u, w')"
  shows "drm_acct (hist w') = Some rs"
  using assms by (auto simp: dummy_drm_unregister_def drm_acct_defs Let_def)

interpretation drm_module: module_driver
  drm_acct drm_d0 dummy_drm_register dummy_drm_unregister drm_holds drm_steps_succeed
proof (unfold_locales, goal_cases)
  case (1 K w rs r w')
  from drm_register_acct [OF this(1,2,4)] this(5) show ?case by auto
next
  case (2 K w rs r w')
  from drm_register_acct [OF this(1,2,4)] this(5) show ?case by auto
next
  case (3 K w rs u w')
  from this(2,3) show ?case by (rule drm_unregister_acct)
qed

section \<open>Callbacks of a loaded device\<close>

text \<open>
  The DRM core calls the pipe and the connector through the tables the initialisation gave it. A
  request names the slot and brings what the handlers take: a mode, whether the CRTC is active, and the
  framebuffer of the new state. An update of the plane enters and leaves a critical section; no
  other callback touches a resource.
\<close>

datatype drm_slot = Pipe pipe_slot | Connector_get_modes
datatype drm_fn = Pipe_fn pipe_fn | Connector_fn connector_fn

type_synonym drm_request = "drm_slot \<times> drm_display_mode \<times> bool \<times> u64 option"

fun drm_entry :: "drm_request \<Rightarrow> dummy_drm \<Rightarrow> drm_fn option" where
  "drm_entry (Pipe s, m, active, fb) d = map_option (\<lambda>t. Pipe_fn (t s)) (pipe_funcs d)"
| "drm_entry (Connector_get_modes, m, active, fb) d = map_option (\<lambda>t. Connector_fn (get_modes t)) (hfuncs d)"

fun run_drm_fn ::
    "(u64 \<Rightarrow> drm_rect) \<Rightarrow> drm_kernel \<Rightarrow> drm_fn \<Rightarrow> drm_display_mode \<Rightarrow> bool \<Rightarrow> u64 option \<Rightarrow> unit drm_prog" where
  "run_drm_fn lr K (Pipe_fn Dummy_drm_pipe_mode_valid) m active fb =
     do { _ \<leftarrow> dummy_drm_pipe_mode_valid K m; State_Monad.return () }"
| "run_drm_fn lr K (Pipe_fn Dummy_drm_pipe_enable) m active fb = dummy_drm_pipe_enable K"
| "run_drm_fn lr K (Pipe_fn Dummy_drm_pipe_disable) m active fb = dummy_drm_pipe_disable K"
| "run_drm_fn lr K (Pipe_fn Dummy_drm_pipe_update) m active fb = dummy_drm_pipe_update lr K active fb"
| "run_drm_fn lr K (Pipe_fn Dummy_drm_pipe_begin_fb_access) m active fb =
     do { _ \<leftarrow> dummy_drm_pipe_begin_fb_access K; State_Monad.return () }"
| "run_drm_fn lr K (Pipe_fn Dummy_drm_pipe_end_fb_access) m active fb = dummy_drm_pipe_end_fb_access K"
| "run_drm_fn lr K (Pipe_fn Dummy_drm_pipe_reset_plane) m active fb = dummy_drm_pipe_reset_plane K"
| "run_drm_fn lr K (Pipe_fn Dummy_drm_pipe_duplicate_plane_state) m active fb =
     do { _ \<leftarrow> dummy_drm_pipe_duplicate_plane_state K; State_Monad.return () }"
| "run_drm_fn lr K (Pipe_fn Dummy_drm_pipe_destroy_plane_state) m active fb =
     dummy_drm_pipe_destroy_plane_state K"
| "run_drm_fn lr K (Connector_fn Dummy_connector_get_modes) m active fb =
     do { _ \<leftarrow> dummy_connector_get_modes K; State_Monad.return () }"

fun drm_run ::
    "(u64 \<Rightarrow> drm_rect) \<Rightarrow> drm_kernel \<Rightarrow> drm_fn \<Rightarrow> drm_request \<Rightarrow> unit drm_prog" where
  "drm_run lr K h (s, m, active, fb) = run_drm_fn lr K h m active fb"

definition drm_serve :: "(u64 \<Rightarrow> drm_rect) \<Rightarrow> drm_kernel \<Rightarrow> drm_request \<Rightarrow> unit drm_prog" where
  "drm_serve lr K = via_table drm_entry (drm_run lr K)"

lemmas drm_handler_defs =
  dummy_drm_pipe_mode_valid_def dummy_drm_pipe_enable_def dummy_drm_pipe_disable_def
  dummy_drm_pipe_begin_fb_access_def dummy_drm_pipe_end_fb_access_def
  dummy_drm_pipe_reset_plane_def dummy_drm_pipe_duplicate_plane_state_def
  dummy_drm_pipe_destroy_plane_state_def dummy_connector_get_modes_def

lemma run_drm_fn_neutral:
  assumes "drm_acct (hist w) = Some rs" and "run_state (run_drm_fn lr K h m active fb) w = (u, w')"
  shows "drm_acct (hist w') = Some rs \<and> dv w' = dv w"
proof (cases h)
  case (Pipe_fn f)
  show ?thesis
  proof (cases "f = Dummy_drm_pipe_update")
    case True
    with assms(2) Pipe_fn have "run_state (dummy_drm_pipe_update lr K active fb) w = (u, w')" by simp
    with assms(1) show ?thesis by (rule pipe_update_balanced)
  next
    case False
    with assms Pipe_fn show ?thesis by (cases f) (auto simp: drm_handler_defs)
  qed
next
  case (Connector_fn f)
  with assms show ?thesis by (cases f) (auto simp: drm_handler_defs)
qed

interpretation drm_table: table_driver
  drm_acct drm_d0 dummy_drm_register dummy_drm_unregister drm_holds drm_steps_succeed
  drm_entry "drm_run lr"
  for lr
proof (unfold_locales, goal_cases)
  case (1 w rs K h x u w')
  then show ?case by (cases x) (auto dest: run_drm_fn_neutral)
qed

interpretation drm_served: served_driver
  drm_acct drm_d0 dummy_drm_register dummy_drm_unregister drm_holds drm_steps_succeed "drm_serve lr"
  for lr
  unfolding drm_serve_def [abs_def] by unfold_locales

text \<open>On a loaded device every slot leads to the handler of its name.\<close>

lemma drm_served_by_name:
  assumes "tables_installed (dv w)"
  shows "run_state (drm_serve lr K (Pipe s, m, active, fb)) w =
      run_state (run_drm_fn lr K (Pipe_fn (dummy_display_pipe_funcs s)) m active fb) w"
    and "run_state (drm_serve lr K (Connector_get_modes, m, active, fb)) w =
      run_state (run_drm_fn lr K (Connector_fn Dummy_connector_get_modes) m active fb) w"
  using assms
  by (simp_all add: drm_serve_def via_table_def tables_installed_def dummy_connector_hfuncs_def)

section \<open>A failed registration\<close>

text \<open>
  The label \<open>out_drm\<close> drops the reference that the parent device will drop again when it is
  destroyed a moment later.
\<close>

lemma out_drm_double_put:
  assumes "drm_acct (hist w) = Some (Owned (Drm_ref (ddev (dv w))) # Owned (Devm (ddev (dv w))) #
      frame_resources (dv w) @ rs)"
    and "Owned (Drm_ref (ddev (dv w))) \<notin> set rs"
    and "run_state (out_drm K) w = (r, w')"
  shows "r = - ENODEV \<and> drm_acct (hist w') = None"
  using assms by (auto simp: out_drm_def drm_acct_defs)

text \<open>
  The whole path: everything succeeds but \<open>drm_dev_register\<close>. The function answers \<open>-ENODEV\<close>
  and the account is lost.
\<close>

definition drm_refused :: "drm_kernel \<Rightarrow> bool" where
  "drm_refused K \<longleftrightarrow> drm_init_succeeds K \<and>
     (\<forall>n s. \<not> IS_ERR (r_ptr (K n (Base (Class_create s))))) \<and>
     (\<forall>n c d s. \<not> IS_ERR (r_ptr (K n (Base (Device_create c d s))))) \<and>
     (\<forall>n p drv. \<not> IS_ERR (r_ptr (K n (Sub (Devm_drm_dev_alloc p drv))))) \<and>
     (\<forall>n p. r_int (K n (Sub (Drm_dev_register p))) \<noteq> 0)"

lemma drm_refused_answers:
  assumes "drm_refused K"
  shows "drm_init_succeeds K"
    and "answers K n (Base (Alloc_chrdev_region s)) r \<Longrightarrow> r_int r = 0"
    and "answers K n (Base (Class_create s)) r \<Longrightarrow> \<not> IS_ERR (r_ptr r)"
    and "answers K n (Base (Device_create c d s)) r \<Longrightarrow> \<not> IS_ERR (r_ptr r)"
    and "answers K n (Sub (Devm_drm_dev_alloc p drv)) r \<Longrightarrow> \<not> IS_ERR (r_ptr r)"
    and "answers K n (Sub (Drm_dev_register p)) r \<Longrightarrow> r_int r \<noteq> 0"
  using assms by (auto simp: drm_refused_def answers_def dest: drm_init_answers)

lemma drm_attach_refused:
  assumes bad: "drm_refused K"
    and acct: "drm_acct (hist w) = Some (frame_resources (dv w) @ rs)"
    and fresh: "\<forall>p. Owned (Drm_ref p) \<notin> set rs"
    and run: "run_state (dummy_drm_attach K) w = (r, w')"
  shows "r = - ENODEV \<and> drm_acct (hist w') = None"
  using run unfolding dummy_drm_attach_def out_drm_def
  by (elim run_elims init_bindE [OF drm_refused_answers(1) [OF bad]])
    (auto simp: acct fresh drm_acct_defs dest: drm_refused_answers(2-) [OF bad])

lemma drm_register_refused:
  assumes bad: "drm_refused K" and acct: "drm_acct (hist w) = Some rs"
    and fresh: "\<forall>p. Owned (Drm_ref p) \<notin> set rs"
    and run: "run_state (dummy_drm_register K) w = (r, w')"
  shows "r = - ENODEV \<and> drm_acct (hist w') = None"
  using run unfolding dummy_drm_register_def
  by (elim run_elims)
    (auto simp: acct fresh drm_acct_defs dest: drm_refused_answers(2-) [OF bad]
      dest!: drm_attach_refused [OF bad, rotated 2])

end
