(* ===== verification/Net.thy ===== *)
theory Net
  imports Template
begin

text \<open>
  \<open>net/net.c\<close>: a network device that counts and discards every packet, and the loading of as many
  such devices as the parameter \<open>numdummies\<close> asks for.
\<close>

section \<open>Structures\<close>

text \<open>The feature bits that the kernel's headers define, and may renumber between versions.\<close>

record net_consts =
  NETIF_F_SG :: u64
  NETIF_F_FRAGLIST :: u64
  NETIF_F_GSO_SOFTWARE :: u64
  NETIF_F_HW_CSUM :: u64
  NETIF_F_HIGHDMA :: u64
  NETIF_F_GSO_ENCAP_ALL :: u64
  IFF_LIVE_ADDR_CHANGE :: u64
  IFF_NO_QUEUE :: u64

abbreviation IFF_NOARP :: u32 where "IFF_NOARP \<equiv> 0x80"
abbreviation IFF_MULTICAST :: u32 where "IFF_MULTICAST \<equiv> 0x1000"
abbreviation NETDEV_TX_OK :: c_int where "NETDEV_TX_OK \<equiv> 0"
abbreviation NETDEV_PCPU_STAT_LSTATS :: nat where "NETDEV_PCPU_STAT_LSTATS \<equiv> 1"
abbreviation ETH_ALEN :: nat where "ETH_ALEN \<equiv> 6"

record net_device =
  netdev_ops :: string
  ethtool_ops :: string
  needs_free_netdev :: bool
  request_ops_lock :: bool
  nd_flags :: u32
  priv_flags :: u64
  lltx :: bool
  features :: u64
  hw_features :: u64
  hw_enc_features :: u64
  dev_addr :: "u8 list"
  min_mtu :: u32
  max_mtu :: u32
  pcpu_stat_type :: nat
  carrier :: bool

datatype net_call =
    Dev_lstats_read u64
  | Dev_lstats_add u64 nat
  | Skb_tx_timestamp u64
  | Dev_kfree_skb u64
  | Netdev_lockdep_set_classes u64
  | Netif_carrier_on u64
  | Netif_carrier_off u64
  | Alloc_netdev string
  | Register_netdevice u64 "string option"
  | Free_netdev u64
  | Cond_resched
  | Rtnl_link_register
  | Rtnl_link_unregister
  | Rtnl_net_lock
  | Rtnl_net_unlock

text \<open>
  The module keeps no structure of its own. What it leaves behind are its stores to the field
  \<open>rtnl_link_ops\<close> of the devices it allocated; \<open>link_ops\<close> holds them, the latest first, and the
  call that registers a device sees the field.
\<close>

record net_mod =
  link_ops :: "(u64 \<times> string) list"

type_synonym net_kernel = "net_call kcall kernel"
type_synonym 'a net_prog = "(net_call kcall, net_mod, 'a) prog"

section \<open>Device operations\<close>

definition set_multicast_list :: "u64 \<Rightarrow> unit net_prog" where
  "set_multicast_list dev = State_Monad.return ()"

text \<open>The two counters that the kernel reads: packets and bytes.\<close>

definition dummy_get_stats64 :: "(u64 \<Rightarrow> u64 \<times> u64) \<Rightarrow> net_kernel \<Rightarrow> u64 \<Rightarrow> (u64 \<times> u64) net_prog" where
  "dummy_get_stats64 load K dev = do {
     r \<leftarrow> sys K (Sub (Dev_lstats_read dev));
     State_Monad.return (load (r_out r))
   }"

definition dummy_xmit :: "net_kernel \<Rightarrow> u64 \<Rightarrow> nat \<Rightarrow> u64 \<Rightarrow> c_int net_prog" where
  "dummy_xmit K skb len dev = do {
     _ \<leftarrow> sys K (Sub (Dev_lstats_add dev len));
     _ \<leftarrow> sys K (Sub (Skb_tx_timestamp skb));
     _ \<leftarrow> sys K (Sub (Dev_kfree_skb skb));
     State_Monad.return NETDEV_TX_OK
   }"

text \<open>Operations that write the device they are given return it.\<close>

definition dummy_dev_init :: "net_kernel \<Rightarrow> u64 \<Rightarrow> net_device \<Rightarrow> (c_int \<times> net_device) net_prog" where
  "dummy_dev_init K p dev = do {
     let dev = dev\<lparr>pcpu_stat_type := NETDEV_PCPU_STAT_LSTATS\<rparr>;
     _ \<leftarrow> sys K (Sub (Netdev_lockdep_set_classes p));
     State_Monad.return (0, dev)
   }"

definition dummy_change_carrier :: "net_kernel \<Rightarrow> u64 \<Rightarrow> bool \<Rightarrow> c_int net_prog" where
  "dummy_change_carrier K p new_carrier = do {
     _ \<leftarrow> sys K (Sub (if new_carrier then Netif_carrier_on p else Netif_carrier_off p));
     State_Monad.return 0
   }"

text \<open>
  \<open>setup\<close> and \<open>random_addr\<close> are the kernel's \<open>ether_setup\<close> and \<open>eth_hw_addr_random\<close>.
\<close>

definition dummy_setup ::
    "net_consts \<Rightarrow> (net_device \<Rightarrow> net_device) \<Rightarrow> (net_device \<Rightarrow> net_device)
      \<Rightarrow> net_device \<Rightarrow> net_device" where
  "dummy_setup C setup random_addr dev =
     (let dev = setup dev;
          dev = dev\<lparr>netdev_ops := ''dummy_netdev_ops'', ethtool_ops := ''dummy_ethtool_ops'',
                    needs_free_netdev := True, request_ops_lock := True\<rparr>;
          dev = dev\<lparr>nd_flags := nd_flags dev OR IFF_NOARP\<rparr>;
          dev = dev\<lparr>nd_flags := nd_flags dev AND NOT IFF_MULTICAST\<rparr>;
          dev = dev\<lparr>priv_flags := priv_flags dev OR (IFF_LIVE_ADDR_CHANGE C OR IFF_NO_QUEUE C)\<rparr>;
          dev = dev\<lparr>lltx := True\<rparr>;
          dev = dev\<lparr>features := features dev OR (NETIF_F_SG C OR NETIF_F_FRAGLIST C)\<rparr>;
          dev = dev\<lparr>features := features dev OR NETIF_F_GSO_SOFTWARE C\<rparr>;
          dev = dev\<lparr>features := features dev OR (NETIF_F_HW_CSUM C OR NETIF_F_HIGHDMA C)\<rparr>;
          dev = dev\<lparr>features := features dev OR NETIF_F_GSO_ENCAP_ALL C\<rparr>;
          dev = dev\<lparr>hw_features := hw_features dev OR features dev\<rparr>;
          dev = dev\<lparr>hw_enc_features := hw_enc_features dev OR features dev\<rparr>;
          dev = random_addr dev
      in dev\<lparr>min_mtu := 0, max_mtu := 0\<rparr>)"

text \<open>
  The address attribute of a new link; \<open>valid\<close> is the kernel's \<open>is_valid_ether_addr\<close>.
\<close>

definition dummy_validate :: "(u8 list \<Rightarrow> bool) \<Rightarrow> u8 list option \<Rightarrow> c_int" where
  "dummy_validate valid tb = (case tb of
     None \<Rightarrow> 0
   | Some addr \<Rightarrow>
       if length addr \<noteq> ETH_ALEN then - EINVAL
       else if \<not> valid addr then - EADDRNOTAVAIL
       else 0)"

section \<open>Loading and unloading\<close>

definition dummy_init_one :: "net_kernel \<Rightarrow> c_int net_prog" where
  "dummy_init_one K = do {
     d \<leftarrow> sys K (Sub (Alloc_netdev ''dummy%d''));
     if r_ptr d = 0 then State_Monad.return (- ENOMEM)
     else do {
       upd (link_ops_update (Cons (r_ptr d, ''dummy_link_ops'')));
       m \<leftarrow> self;
       e \<leftarrow> sys K (Sub (Register_netdevice (r_ptr d) (map_of (link_ops m) (r_ptr d))));
       if is_neg (r_int e) then do {
         _ \<leftarrow> sys K (Sub (Free_netdev (r_ptr d)));
         State_Monad.return (r_int e)
       } else State_Monad.return 0
     }
   }"

text \<open>The loop over the devices; its argument counts those that are left.\<close>

fun init_loop :: "net_kernel \<Rightarrow> nat \<Rightarrow> c_int net_prog" where
  "init_loop K 0 = State_Monad.return 0"
| "init_loop K (Suc n) = do {
     err \<leftarrow> dummy_init_one K;
     _ \<leftarrow> sys K (Sub Cond_resched);
     if err \<noteq> 0 then State_Monad.return err else init_loop K n
   }"

definition dummy_init_module :: "c_int \<Rightarrow> net_kernel \<Rightarrow> c_int net_prog" where
  "dummy_init_module numdummies K = do {
     err \<leftarrow> sys K (Sub Rtnl_link_register);
     if is_neg (r_int err) then State_Monad.return (r_int err)
     else do {
       _ \<leftarrow> sys K (Sub Rtnl_net_lock);
       err \<leftarrow> (if numdummies = 0 \<or> is_neg numdummies \<or> r_int err \<noteq> 0
               then State_Monad.return (r_int err)
               else init_loop K (unat numdummies));
       _ \<leftarrow> sys K (Sub Rtnl_net_unlock);
       if is_neg err then do {
         _ \<leftarrow> sys K (Sub Rtnl_link_unregister);
         State_Monad.return err
       } else State_Monad.return err
     }
   }"

definition dummy_cleanup_module :: "net_kernel \<Rightarrow> unit net_prog" where
  "dummy_cleanup_module K = do {
     _ \<leftarrow> sys K (Sub Rtnl_link_unregister);
     State_Monad.return ()
   }"

section \<open>Setup and validation\<close>

lemma dummy_setup_flags:
  assumes "\<And>d. nd_flags (random_addr d) = nd_flags d"
  shows "bit (nd_flags (dummy_setup C setup random_addr d)) 7"
    and "\<not> bit (nd_flags (dummy_setup C setup random_addr d)) 12"
  using assms by (simp_all add: dummy_setup_def Let_def bit_simps)

lemma dummy_validate_ok_iff:
  "dummy_validate valid tb = 0 \<longleftrightarrow> (\<forall>a. tb = Some a \<longrightarrow> length a = ETH_ALEN \<and> valid a)"
  by (simp add: dummy_validate_def split: option.splits)

end
