(* ===== verification/Net_Module.thy ===== *)
theory Net_Module
  imports Net
begin

text \<open>
  The account of \<open>net/net.c\<close>: how many devices a load leaves behind, under which locks they are
  registered, and what unloading removes. It rests on what the kernel documents:
  \<open>register_netdevice\<close> wants the lock of the namespace, \<open>rtnl_link_unregister\<close> takes it itself and
  deletes the devices whose \<open>rtnl_link_ops\<close> are those it is given.
\<close>

section \<open>The account\<close>

datatype net_resource =
    Link
  | Net_lock
  | Allocated u64
  | Registered u64 "string option"

type_synonym net_held = "net_resource resource list"

abbreviation dummy_ops :: "string option" where "dummy_ops \<equiv> Some ''dummy_link_ops''"

fun our_device :: "u64 list \<Rightarrow> net_resource resource \<Rightarrow> bool" where
  "our_device ps (Owned (Allocated p)) = (p \<in> set ps)"
| "our_device ps (Owned (Registered p ops)) = (ops = dummy_ops)"
| "our_device ps x = False"

fun registered_with_ops :: "net_resource resource \<Rightarrow> u64 option" where
  "registered_with_ops (Owned (Registered p ops)) = (if ops = dummy_ops then Some p else None)"
| "registered_with_ops x = None"

text \<open>The devices of a link are registered after it, so they stand before it in the account.\<close>

definition unlink :: "net_held \<Rightarrow> net_held option" where
  "unlink rs =
     (let above = takeWhile (\<lambda>x. x \<noteq> Owned Link) rs;
          ps = List.map_filter registered_with_ops above
      in if Owned Net_lock \<in> set above then None
         else case dropWhile (\<lambda>x. x \<noteq> Owned Link) rs of
           [] \<Rightarrow> None
         | _ # below \<Rightarrow> Some (filter (\<lambda>x. \<not> our_device ps x) above @ below))"

fun net_settle :: "net_call kcall \<Rightarrow> kresp \<Rightarrow> net_held \<Rightarrow> net_held option" where
  "net_settle (Base b) r rs = settle (base_effect b r) rs"
| "net_settle (Sub Rtnl_link_register) r rs =
     Some (if is_neg (r_int r) then rs else Owned Link # rs)"
| "net_settle (Sub Rtnl_link_unregister) r rs = unlink rs"
| "net_settle (Sub Rtnl_net_lock) r rs = Some (Owned Net_lock # rs)"
| "net_settle (Sub Rtnl_net_unlock) r rs = settle (Release (Owned Net_lock)) rs"
| "net_settle (Sub (Alloc_netdev n)) r rs =
     Some (if r_ptr r = 0 then rs else Owned (Allocated (r_ptr r)) # rs)"
| "net_settle (Sub (Register_netdevice p ops)) r rs =
     (if Owned Net_lock \<notin> set rs \<or> Owned (Allocated p) \<notin> set rs then None
      else Some (if is_neg (r_int r) then rs else Owned (Registered p ops) # rs))"
| "net_settle (Sub (Free_netdev p)) r rs = settle (Release (Owned (Allocated p))) rs"
| "net_settle (Sub c) r rs = Some rs"

fun net_acct :: "(net_call kcall \<times> kresp) list \<Rightarrow> net_held option" where
  "net_acct [] = Some []"
| "net_acct ((c, r) # h) = (case net_acct h of None \<Rightarrow> None | Some rs \<Rightarrow> net_settle c r rs)"

fun dev_items :: "(u64 \<times> string) list \<Rightarrow> net_held" where
  "dev_items [] = []"
| "dev_items ((p, s) # ps) =
     Owned (Registered p (Some s)) # Owned (Allocated p) # dev_items ps"

definition ours :: "(u64 \<times> string) list \<Rightarrow> bool" where
  "ours ps \<longleftrightarrow> (\<forall>(p, s)\<in>set ps. s = ''dummy_link_ops'')"

lemma ours_simps [simp]:
  "ours []" "ours ((p, s) # ps) \<longleftrightarrow> s = ''dummy_link_ops'' \<and> ours ps"
  by (simp_all add: ours_def)

lemma dev_items_plain [simp]:
  "Owned Net_lock \<notin> set (dev_items ps)" "Owned Link \<notin> set (dev_items ps)"
  by (induction ps rule: dev_items.induct) simp_all

lemma takeWhile_dev_items [simp]:
  "takeWhile (\<lambda>x. x \<noteq> Owned Link) (dev_items ps @ Owned Link # rs) = dev_items ps"
  "dropWhile (\<lambda>x. x \<noteq> Owned Link) (dev_items ps @ Owned Link # rs) = Owned Link # rs"
  by (induction ps rule: dev_items.induct) simp_all

lemma map_filter_dev_items [simp]:
  "ours ps \<Longrightarrow> List.map_filter registered_with_ops (dev_items ps) = map fst ps"
  by (induction ps rule: dev_items.induct) (simp_all add: List.map_filter_def)

lemma our_device_mono: "our_device ps x \<Longrightarrow> our_device (p # ps) x"
  by (cases "(ps, x)" rule: our_device.cases) auto

lemma our_dev_items: "ours ps \<Longrightarrow> x \<in> set (dev_items ps) \<Longrightarrow> our_device (map fst ps) x"
proof (induction ps rule: dev_items.induct)
  case 1
  then show ?case by simp
next
  case (2 p s ps)
  then show ?case using our_device_mono by auto
qed

lemma unlink_dev_items [simp]:
  "ours ps \<Longrightarrow> unlink (dev_items ps @ Owned Link # rs) = Some rs"
  by (simp add: unlink_def our_dev_items)

section \<open>One device, and the loop\<close>

lemma init_one_run:
  assumes "net_acct (hist w) = Some (dev_items ps @ Owned Net_lock # rs)"
    and "run_state (dummy_init_one K) w = (r, w')"
  shows "(r = 0 \<and> (\<exists>p. link_ops (dv w') = (p, ''dummy_link_ops'') # link_ops (dv w) \<and>
            net_acct (hist w') =
              Some (dev_items ((p, ''dummy_link_ops'') # ps) @ Owned Net_lock # rs))) \<or>
    (is_neg r \<and> net_acct (hist w') = Some (dev_items ps @ Owned Net_lock # rs))"
  using assms(2) unfolding dummy_init_one_def
  by (elim run_elims) (auto simp: assms(1))

lemma init_one_bindE:
  assumes "run_state (State_Monad.bind (dummy_init_one K) f) w = (x, w')"
  obtains r w1 where "run_state (dummy_init_one K) w = (r, w1)"
    and "run_state (f r) w1 = (x, w')"
  using assms by (auto split: prod.splits)

text \<open>
  A loop of \<open>n\<close> rounds either registers exactly \<open>n\<close> devices or stops with the error of the
  first device that was refused, keeping those before it.
\<close>

lemma init_loop_run:
  assumes "net_acct (hist w) = Some (dev_items (link_ops (dv w)) @ Owned Net_lock # rs)"
    and "ours (link_ops (dv w))" and "run_state (init_loop K n) w = (r, w')"
  shows "(r = 0 \<and> ours (link_ops (dv w')) \<and> length (link_ops (dv w')) = length (link_ops (dv w)) + n \<and>
      net_acct (hist w') = Some (dev_items (link_ops (dv w')) @ Owned Net_lock # rs)) \<or>
    (is_neg r \<and> (\<exists>ps. ours ps \<and> length ps < length (link_ops (dv w)) + n \<and>
      net_acct (hist w') = Some (dev_items ps @ Owned Net_lock # rs)))"
  using assms
proof (induction n arbitrary: w)
  case 0
  then show ?case by simp
next
  case (Suc n)
  from Suc.prems(3) obtain e w1 where one: "run_state (dummy_init_one K) w = (e, w1)"
    and rest: "run_state (do { _ \<leftarrow> sys K (Sub Cond_resched);
      if e \<noteq> 0 then State_Monad.return e else init_loop K n }) w1 = (r, w')"
    unfolding init_loop.simps by (rule init_one_bindE)
  define w2 where "w2 = w1\<lparr>hist := (Sub Cond_resched, K (length (hist w1)) (Sub Cond_resched)) # hist w1\<rparr>"
  from init_one_run [OF Suc.prems(1) one] show ?case
  proof (elim disjE conjE exE)
    fix p
    assume e: "e = 0" and l: "link_ops (dv w1) = (p, ''dummy_link_ops'') # link_ops (dv w)"
      and a: "net_acct (hist w1) =
        Some (dev_items ((p, ''dummy_link_ops'') # link_ops (dv w)) @ Owned Net_lock # rs)"
    from e rest have "run_state (init_loop K n) w2 = (r, w')" by (simp add: w2_def)
    moreover have "net_acct (hist w2) = Some (dev_items (link_ops (dv w2)) @ Owned Net_lock # rs)"
      "ours (link_ops (dv w2))" "length (link_ops (dv w2)) = Suc (length (link_ops (dv w)))"
      using a l Suc.prems(2) by (simp_all add: w2_def)
    ultimately show ?thesis using Suc.IH [of w2] by simp
  next
    assume e: "is_neg e" and a: "net_acct (hist w1) = Some (dev_items (link_ops (dv w)) @ Owned Net_lock # rs)"
    from e have "e \<noteq> 0" by (rule is_neg_nonzero)
    with rest e a Suc.prems(2) show ?thesis by auto
  qed
qed

section \<open>The module\<close>

definition net_holds :: "net_mod \<Rightarrow> net_held" where
  "net_holds d = dev_items (link_ops d) @ [Owned Link]"

text \<open>\<open>rtnl_link_register\<close> is documented to answer 0 or an error.\<close>

definition link_documented :: "net_kernel \<Rightarrow> bool" where
  "link_documented K \<longleftrightarrow> (\<forall>n. r_int (K n (Sub Rtnl_link_register)) = 0 \<or>
     is_neg (r_int (K n (Sub Rtnl_link_register))))"

definition net_d0 :: net_mod where
  "net_d0 = \<lparr>link_ops = []\<rparr>"

text \<open>How many devices a load should make: a negative parameter asks for none.\<close>

definition wanted :: "c_int \<Rightarrow> nat" where
  "wanted n = nat (sint n)"

lemma wanted_neg: "n = 0 \<or> is_neg n \<Longrightarrow> wanted n = 0"
  by (auto simp: wanted_def is_neg_def)

lemma wanted_pos: "\<not> is_neg n \<Longrightarrow> wanted n = unat n"
  using unsigned_less [of n, where 'a = int]
  by (simp add: wanted_def is_neg_bit sint_uint signed_take_bit_eq_take_bit_minus bit_uint_iff
      take_bit_int_eq_self)

lemma remove1_dev_items [simp]:
  "remove1 (Owned Net_lock) (dev_items ps @ Owned Net_lock # rs) = dev_items ps @ rs"
  by (simp add: remove1_append)

lemma devices_run:
  assumes "net_acct (hist w) = Some (Owned Net_lock # rs)" and "link_ops (dv w) = []"
    and "run_state (if n = 0 \<or> is_neg n then State_Monad.return 0 else init_loop K (unat n)) w =
           (r, w')"
  shows "(r = 0 \<and> ours (link_ops (dv w')) \<and> length (link_ops (dv w')) = wanted n \<and>
      net_acct (hist w') = Some (dev_items (link_ops (dv w')) @ Owned Net_lock # rs)) \<or>
    (is_neg r \<and> (\<exists>ps. ours ps \<and> net_acct (hist w') = Some (dev_items ps @ Owned Net_lock # rs)))"
proof (cases "n = 0 \<or> is_neg n")
  case True
  with assms show ?thesis by (auto simp: wanted_neg)
next
  case False
  with assms init_loop_run [of w rs K "unat n" r w'] show ?thesis by (auto simp: wanted_pos)
qed

lemma init_module_run:
  assumes doc: "link_documented K" and acct: "net_acct (hist w) = Some rs" and d0: "dv w = net_d0"
    and run: "run_state (dummy_init_module numdummies K) w = (r, w')"
  shows "(r = 0 \<and> net_acct (hist w') = Some (net_holds (dv w') @ rs) \<and> ours (link_ops (dv w')) \<and>
      length (link_ops (dv w')) = wanted numdummies) \<or>
    (is_neg r \<and> net_acct (hist w') = Some rs)"
proof (cases "is_neg (r_int (K (length (hist w)) (Sub Rtnl_link_register)))")
  case True
  with run acct show ?thesis by (auto simp: dummy_init_module_def)
next
  case False
  define l where "l = K (length (hist w)) (Sub Rtnl_link_register)"
  have l0: "r_int l = 0" using doc False by (auto simp: link_documented_def l_def)
  define w1 where "w1 = w\<lparr>hist := (Sub Rtnl_net_lock, K (Suc (length (hist w))) (Sub Rtnl_net_lock)) #
    (Sub Rtnl_link_register, l) # hist w\<rparr>"
  have w1: "net_acct (hist w1) = Some (Owned Net_lock # Owned Link # rs)" "link_ops (dv w1) = []"
    using acct l0 d0 by (simp_all add: w1_def net_d0_def)
  obtain e w2 where mid: "run_state (if numdummies = 0 \<or> is_neg numdummies then State_Monad.return 0
      else init_loop K (unat numdummies)) w1 = (e, w2)"
    by (metis surj_pair)
  have rest: "run_state (do { _ \<leftarrow> sys K (Sub Rtnl_net_unlock);
      if is_neg e then do { _ \<leftarrow> sys K (Sub Rtnl_link_unregister); State_Monad.return e }
      else State_Monad.return e }) w2 = (r, w')"
    using run mid l0 False by (simp add: dummy_init_module_def w1_def l_def cong: if_cong split del: if_split)
  from devices_run [OF w1 mid] rest show ?thesis
    by (auto simp: net_holds_def)
qed

lemma cleanup_module_run:
  assumes "net_acct (hist w) = Some (net_holds (dv w) @ rs)" and "ours (link_ops (dv w))"
    and "run_state (dummy_cleanup_module K) w = (u, w')"
  shows "net_acct (hist w') = Some rs"
  using assms by (auto simp: dummy_cleanup_module_def net_holds_def)

text \<open>
  Holding devices with other operations is not a state the module can be in; the contract is about
  the states that loading produces.
\<close>

definition net_holds_ours :: "net_mod \<Rightarrow> net_held" where
  "net_holds_ours d = (if ours (link_ops d) then net_holds d else [Owned Link])"

interpretation net_module: module_driver
  net_acct net_d0 "dummy_init_module n" dummy_cleanup_module net_holds_ours link_documented
  for n
proof (unfold_locales, goal_cases)
  case (1 K w rs r w')
  from init_module_run [OF this(1-4)] this(5) show ?case by (auto simp: net_holds_ours_def)
next
  case (2 K w rs r w')
  from init_module_run [OF this(1-4)] this(5) show ?case by auto
next
  case (3 K w rs u w')
  then show ?case
    using cleanup_module_run [of w rs K u w']
    by (auto simp: net_holds_ours_def dummy_cleanup_module_def unlink_def split: if_splits)
qed

section \<open>Packets\<close>

text \<open>
  Every packet handed to the device is counted once with its length and then freed once. The buffers
  belong to the network stack until the driver is called, so they are counted apart from the
  account of the module.
\<close>

fun xmit_all :: "net_kernel \<Rightarrow> (u64 \<times> nat) list \<Rightarrow> u64 \<Rightarrow> unit net_prog" where
  "xmit_all K [] dev = State_Monad.return ()"
| "xmit_all K ((skb, len) # ps) dev = do { _ \<leftarrow> dummy_xmit K skb len dev; xmit_all K ps dev }"

text \<open>The packets and bytes counted for a device in a history, and how often a buffer was freed.\<close>

fun counted :: "u64 \<Rightarrow> (net_call kcall \<times> kresp) list \<Rightarrow> nat \<times> nat" where
  "counted dev [] = (0, 0)"
| "counted dev ((c, r) # h) = (case counted dev h of (n, b) \<Rightarrow>
     case c of Sub (Dev_lstats_add d len) \<Rightarrow> if d = dev then (n + 1, b + len) else (n, b)
     | _ \<Rightarrow> (n, b))"

fun freed :: "u64 \<Rightarrow> (net_call kcall \<times> kresp) list \<Rightarrow> nat" where
  "freed skb [] = 0"
| "freed skb ((c, r) # h) = (if c = Sub (Dev_kfree_skb skb) then 1 else 0) + freed skb h"

lemma xmit_run:
  "run_state (dummy_xmit K skb len dev) w = (r, w') \<Longrightarrow>
     r = NETDEV_TX_OK \<and> counted dev (hist w') =
       (fst (counted dev (hist w)) + 1, snd (counted dev (hist w)) + len) \<and>
     freed p (hist w') = freed p (hist w) + (if p = skb then 1 else 0) \<and>
     net_acct (hist w') = net_acct (hist w)"
  by (auto simp: dummy_xmit_def split: prod.splits option.splits)

lemma xmit_all_run:
  assumes "run_state (xmit_all K ps dev) w = (u, w')"
  shows "net_acct (hist w') = net_acct (hist w) \<and> counted dev (hist w') =
    (fst (counted dev (hist w)) + length ps, snd (counted dev (hist w)) + sum_list (map snd ps)) \<and>
    freed p (hist w') = freed p (hist w) + count_list (map fst ps) p"
  using assms
proof (induction ps arbitrary: w)
  case Nil
  then show ?case by simp
next
  case (Cons q ps)
  obtain skb len where q: "q = (skb, len)" by (cases q)
  obtain r w1 where one: "run_state (dummy_xmit K skb len dev) w = (r, w1)" by (metis surj_pair)
  from Cons.prems one q have rest: "run_state (xmit_all K ps dev) w1 = (u, w')" by simp
  from Cons.IH [OF rest] xmit_run [OF one, of p] q show ?case by simp
qed

section \<open>Callbacks of a loaded module\<close>

text \<open>
  The tables \<open>dummy_netdev_ops\<close> and \<open>dummy_link_ops\<close>, without the entries that are functions of the
  kernel. \<open>load\<close> reads the counters the kernel stored, \<open>valid\<close> is its test of an address.
\<close>

datatype net_op =
    Ndo_init u64 net_device | Ndo_start_xmit u64 nat u64 | Ndo_set_rx_mode u64
  | Ndo_get_stats64 u64 | Ndo_change_carrier u64 bool | Link_validate "u8 list option"

fun net_serve ::
    "(u64 \<Rightarrow> u64 \<times> u64) \<Rightarrow> (u8 list \<Rightarrow> bool) \<Rightarrow> net_kernel \<Rightarrow> net_op \<Rightarrow> unit net_prog" where
  "net_serve load valid K (Ndo_init p dev) = do { _ \<leftarrow> dummy_dev_init K p dev; State_Monad.return () }"
| "net_serve load valid K (Ndo_start_xmit skb len dev) =
     do { _ \<leftarrow> dummy_xmit K skb len dev; State_Monad.return () }"
| "net_serve load valid K (Ndo_set_rx_mode dev) = set_multicast_list dev"
| "net_serve load valid K (Ndo_get_stats64 dev) =
     do { _ \<leftarrow> dummy_get_stats64 load K dev; State_Monad.return () }"
| "net_serve load valid K (Ndo_change_carrier p c) =
     do { _ \<leftarrow> dummy_change_carrier K p c; State_Monad.return () }"
| "net_serve load valid K (Link_validate tb) =
     (let _ = dummy_validate valid tb in State_Monad.return ())"

interpretation net_served: served_driver
  net_acct net_d0 "dummy_init_module n" dummy_cleanup_module net_holds_ours link_documented
  "net_serve load valid"
  for n load valid
proof (unfold_locales, goal_cases)
  case (1 w rs K x u w')
  then show ?case
    by (cases x) (auto simp: dummy_dev_init_def dummy_xmit_def set_multicast_list_def
        dummy_get_stats64_def dummy_change_carrier_def Let_def)
qed

end
