(* ===== verification/Bus.thy ===== *)
theory Bus
  imports Template
begin

text \<open>
  The two example buses, \<open>bus/basic_bus\<close> (devices are matched with drivers by name) and
  \<open>bus/dummy_bus\<close> (a driver lists the names of the devices it serves). Each has a bus module, a
  device module and a driver module. A locale states what the driver core may expect of the
  matching function of a bus; both matching functions satisfy it.
\<close>

datatype bus_call =
    Bus_register string
  | Bus_unregister string
  | Device_register string string
  | Device_unregister string
  | Driver_register string string
  | Driver_unregister string

type_synonym bus_kernel = "bus_call kcall kernel"
type_synonym ('d, 'a) bus_prog = "(bus_call kcall, 'd, 'a) prog"

section \<open>basic\_bus\<close>

text \<open>A device or driver of this bus: its name and the bus it names.\<close>

record bus_member =
  member_name :: string
  member_bus :: string

definition basic_bus_match :: "bus_kernel \<Rightarrow> string \<Rightarrow> string \<Rightarrow> ('d, c_int) bus_prog" where
  "basic_bus_match K dev drv = do {
     printk K (''dummy-bus: match('' @ dev @ '' <-> '' @ drv @ '')'') [];
     State_Monad.return (if dev = drv then 1 else 0)
   }"

definition basic_bus_init :: "bus_kernel \<Rightarrow> ('d, c_int) bus_prog" where
  "basic_bus_init K = do {
     ret \<leftarrow> sys K (Sub (Bus_register ''dummy-bus''));
     if r_int ret \<noteq> 0 then State_Monad.return (r_int ret)
     else do {
       printk K ''dummy-bus, dummy_bus_init: bus registered'' [];
       State_Monad.return 0
     }
   }"

definition basic_bus_exit :: "bus_kernel \<Rightarrow> ('d, unit) bus_prog" where
  "basic_bus_exit K = do {
     _ \<leftarrow> sys K (Sub (Bus_unregister ''dummy-bus''));
     printk K ''dummy-bus, dummy_bus_exit: bus unregistered'' []
   }"

definition basic_device_release :: "bus_kernel \<Rightarrow> (bus_member, unit) bus_prog" where
  "basic_device_release K = do {
     d \<leftarrow> self;
     printk K (''dummy_device_release, '' @ member_name d) []
   }"

definition basic_device :: bus_member where
  "basic_device = \<lparr>member_name = ''dummy0'', member_bus = ''dummy-bus''\<rparr>"

definition basic_device_init :: "bus_kernel \<Rightarrow> (bus_member, c_int) bus_prog" where
  "basic_device_init K = do {
     d \<leftarrow> self;
     ret \<leftarrow> sys K (Sub (Device_register (member_name d) (member_bus d)));
     if r_int ret \<noteq> 0 then State_Monad.return (r_int ret)
     else do {
       printk K ''dummy_device_init, device registered'' [];
       State_Monad.return 0
     }
   }"

definition basic_device_exit :: "bus_kernel \<Rightarrow> (bus_member, unit) bus_prog" where
  "basic_device_exit K = do {
     d \<leftarrow> self;
     _ \<leftarrow> sys K (Sub (Device_unregister (member_name d)));
     printk K ''dummy_device_exit, device unregistered'' []
   }"

definition basic_driver_probe :: "bus_kernel \<Rightarrow> ('d, c_int) bus_prog" where
  "basic_driver_probe K = do {
     printk K ''dummy_driver_probe'' [];
     State_Monad.return 0
   }"

definition basic_driver_remove :: "bus_kernel \<Rightarrow> ('d, c_int) bus_prog" where
  "basic_driver_remove K = do {
     printk K ''dummy_driver_remove'' [];
     State_Monad.return 0
   }"

definition basic_driver :: bus_member where
  "basic_driver = \<lparr>member_name = ''dummy0'', member_bus = ''dummy-bus''\<rparr>"

definition basic_driver_init :: "bus_kernel \<Rightarrow> (bus_member, c_int) bus_prog" where
  "basic_driver_init K = do {
     d \<leftarrow> self;
     ret \<leftarrow> sys K (Sub (Driver_register (member_name d) (member_bus d)));
     if r_int ret \<noteq> 0 then State_Monad.return (r_int ret)
     else do {
       printk K ''dummy_driver_init, driver registered'' [];
       State_Monad.return 0
     }
   }"

definition basic_driver_exit :: "bus_kernel \<Rightarrow> (bus_member, unit) bus_prog" where
  "basic_driver_exit K = do {
     d \<leftarrow> self;
     _ \<leftarrow> sys K (Sub (Driver_unregister (member_name d)));
     printk K ''dummy_driver_exit, driver unregistered'' []
   }"

section \<open>dummy\_bus\<close>

record dummy_device =
  dev_id :: c_int
  dev_init_name :: string
  dev_bus :: string
  dev_release :: string

text \<open>
  The table of a driver is an array that ends with an empty name. The callbacks are programs; a
  null pointer is \<open>None\<close>.
\<close>

record 'p dummy_driver =
  drv_probe :: "(dummy_device \<Rightarrow> 'p) option"
  drv_remove :: "(dummy_device \<Rightarrow> 'p) option"
  id_table :: "string list option"
  drv_name :: string
  drv_owner :: string
  drv_bus :: string

text \<open>The loop; running past the end of a table without a sentinel is \<open>None\<close>.\<close>

fun match_loop :: "bus_kernel \<Rightarrow> string \<Rightarrow> string \<Rightarrow> string list \<Rightarrow> ('d, c_int option) bus_prog" where
  "match_loop K dev drv [] = State_Monad.return None"
| "match_loop K dev drv (name # ids) =
     (if name = [] then State_Monad.return (Some 0)
      else do {
        printk K (''dummy_bus_match, dev_name: '' @ dev @ '', drv->ids: '' @ name) [];
        if dev = name then do {
          printk K (''dummy_bus_match: match('' @ dev @ '' <-> '' @ drv @ '')'') [];
          State_Monad.return (Some 1)
        } else match_loop K dev drv ids
      })"

definition dummy_bus_match ::
    "bus_kernel \<Rightarrow> string \<Rightarrow> 'p dummy_driver \<Rightarrow> ('d, c_int option) bus_prog" where
  "dummy_bus_match K dev drv = (case id_table drv of
     None \<Rightarrow> State_Monad.return (Some 0)
   | Some ids \<Rightarrow> match_loop K dev (drv_name drv) ids)"

definition dummy_bus_probe ::
    "bus_kernel \<Rightarrow> dummy_device \<Rightarrow> (('d, c_int) bus_prog) dummy_driver \<Rightarrow> ('d, c_int) bus_prog" where
  "dummy_bus_probe K dev drv = (case drv_probe drv of
     None \<Rightarrow> State_Monad.return 0
   | Some f \<Rightarrow> do {
       printk K (''dummy_bus_probe, probe '' @ dev_init_name dev) [];
       f dev
     })"

definition dummy_bus_remove ::
    "bus_kernel \<Rightarrow> dummy_device \<Rightarrow> (('d, c_int) bus_prog) dummy_driver \<Rightarrow> ('d, unit) bus_prog" where
  "dummy_bus_remove K dev drv = (case drv_remove drv of
     None \<Rightarrow> State_Monad.return ()
   | Some f \<Rightarrow> do {
       printk K (''dummy_bus_remove, remove '' @ dev_init_name dev) [];
       _ \<leftarrow> f dev;
       State_Monad.return ()
     })"

definition dummy_bus_register_driver :: "string \<Rightarrow> bus_kernel \<Rightarrow> ('p dummy_driver, c_int) bus_prog" where
  "dummy_bus_register_driver owner K = do {
     upd (\<lambda>d. d\<lparr>drv_owner := owner, drv_bus := ''dummy-bus''\<rparr>);
     d \<leftarrow> self;
     ret \<leftarrow> sys K (Sub (Driver_register (drv_name d) (drv_bus d)));
     if r_int ret \<noteq> 0 then State_Monad.return (r_int ret)
     else do {
       printk K (''driver ['' @ drv_name d @ ''] registered'') [];
       State_Monad.return 0
     }
   }"

definition dummy_bus_del_driver :: "bus_kernel \<Rightarrow> ('p dummy_driver, unit) bus_prog" where
  "dummy_bus_del_driver K = do {
     d \<leftarrow> self;
     _ \<leftarrow> sys K (Sub (Driver_unregister (drv_name d)));
     printk K (''driver ['' @ drv_name d @ ''] unregistered'') []
   }"

definition dummy_bus_init :: "bus_kernel \<Rightarrow> ('d, c_int) bus_prog" where
  "dummy_bus_init K = do {
     ret \<leftarrow> sys K (Sub (Bus_register ''dummy-bus''));
     if r_int ret \<noteq> 0 then State_Monad.return (r_int ret)
     else do {
       printk K ''dummy_bus_init, bus registered'' [];
       State_Monad.return 0
     }
   }"

definition dummy_bus_exit :: "bus_kernel \<Rightarrow> ('d, unit) bus_prog" where
  "dummy_bus_exit K = do {
     _ \<leftarrow> sys K (Sub (Bus_unregister ''dummy-bus''));
     printk K ''dummy_bus_exit, bus unregistered'' []
   }"

section \<open>The device and the driver of dummy\_bus\<close>

definition dummy_device_release :: "bus_kernel \<Rightarrow> (dummy_device, unit) bus_prog" where
  "dummy_device_release K = do {
     d \<leftarrow> self;
     printk K (''dummy_device_release, '' @ dev_init_name d) []
   }"

definition ddev :: dummy_device where
  "ddev = \<lparr>dev_id = 0x12345678, dev_init_name = [], dev_bus = [], dev_release = []\<rparr>"

definition dummy_device_init :: "bus_kernel \<Rightarrow> (dummy_device, c_int) bus_prog" where
  "dummy_device_init K = do {
     upd (\<lambda>d. d\<lparr>dev_init_name := ''dummy-device'', dev_bus := ''dummy-bus'',
                dev_release := ''dummy_device_release''\<rparr>);
     d \<leftarrow> self;
     ret \<leftarrow> sys K (Sub (Device_register (dev_init_name d) (dev_bus d)));
     if r_int ret \<noteq> 0 then State_Monad.return (r_int ret)
     else do {
       printk K ''dummy_device_init, device registered'' [];
       State_Monad.return 0
     }
   }"

definition dummy_device_exit :: "bus_kernel \<Rightarrow> (dummy_device, unit) bus_prog" where
  "dummy_device_exit K = do {
     d \<leftarrow> self;
     _ \<leftarrow> sys K (Sub (Device_unregister (dev_init_name d)));
     printk K ''dummy_device_exit, device unregistered'' []
   }"

definition dummy_driver_probe :: "bus_kernel \<Rightarrow> dummy_device \<Rightarrow> ('d, c_int) bus_prog" where
  "dummy_driver_probe K d = do {
     printk K ''dummy_driver_probe, id'' [uint (dev_id d)];
     State_Monad.return 0
   }"

definition dummy_driver_remove :: "bus_kernel \<Rightarrow> dummy_device \<Rightarrow> ('d, c_int) bus_prog" where
  "dummy_driver_remove K d = do {
     printk K ''dummy_driver_remove, id'' [uint (dev_id d)];
     State_Monad.return 0
   }"

definition dummy_ids :: "string list" where
  "dummy_ids = [''dummy-device'', []]"

definition dummy_driver0 :: "bus_kernel \<Rightarrow> (('d, c_int) bus_prog) dummy_driver" where
  "dummy_driver0 K = \<lparr>drv_probe = Some (dummy_driver_probe K),
     drv_remove = Some (dummy_driver_remove K), id_table = Some dummy_ids,
     drv_name = ''dummy0'', drv_owner = [], drv_bus = []\<rparr>"

section \<open>Loading and unloading the six modules\<close>

fun bus_effect :: "bus_call \<Rightarrow> kresp \<Rightarrow> bus_call resource effect" where
  "bus_effect (Bus_register n) r = (if r_int r = 0 then Acquire (Owned (Bus_register n)) else Neutral)"
| "bus_effect (Bus_unregister n) r = Release (Owned (Bus_register n))"
| "bus_effect (Device_register n b) r =
     (if r_int r = 0 then Acquire (Owned (Device_unregister n)) else Neutral)"
| "bus_effect (Device_unregister n) r = Release (Owned (Device_unregister n))"
| "bus_effect (Driver_register n b) r =
     (if r_int r = 0 then Acquire (Owned (Driver_unregister n)) else Neutral)"
| "bus_effect (Driver_unregister n) r = Release (Owned (Driver_unregister n))"

abbreviation bus_acct :: "(bus_call kcall \<times> kresp) list \<Rightarrow> bus_call resource list option" where
  "bus_acct \<equiv> lifo (kcall_effect bus_effect)"

text \<open>Registration is documented to answer 0 or a negative error number.\<close>

definition bus_documented :: "bus_kernel \<Rightarrow> bool" where
  "bus_documented K \<longleftrightarrow>
     (\<forall>n s. let r = r_int (K n (Sub (Bus_register s))) in r = 0 \<or> is_neg r) \<and>
     (\<forall>n s b. let r = r_int (K n (Sub (Device_register s b))) in r = 0 \<or> is_neg r) \<and>
     (\<forall>n s b. let r = r_int (K n (Sub (Driver_register s b))) in r = 0 \<or> is_neg r)"

lemma bus_documented_ret:
  assumes "bus_documented K"
  shows "r_int (K n (Sub (Bus_register s))) \<noteq> 0 \<Longrightarrow> is_neg (r_int (K n (Sub (Bus_register s))))"
    and "r_int (K n (Sub (Device_register s b))) \<noteq> 0 \<Longrightarrow>
      is_neg (r_int (K n (Sub (Device_register s b))))"
    and "r_int (K n (Sub (Driver_register s b))) \<noteq> 0 \<Longrightarrow>
      is_neg (r_int (K n (Sub (Driver_register s b))))"
  using assms unfolding bus_documented_def Let_def by metis+

lemmas bus_module_defs =
  basic_bus_init_def basic_bus_exit_def basic_device_init_def basic_device_exit_def
  basic_driver_init_def basic_driver_exit_def dummy_bus_init_def dummy_bus_exit_def
  dummy_device_init_def dummy_device_exit_def dummy_bus_register_driver_def
  dummy_bus_del_driver_def

interpretation basic_bus_module: module_driver bus_acct "()" basic_bus_init basic_bus_exit
  "\<lambda>_. [Owned (Bus_register ''dummy-bus'')]" bus_documented
  by unfold_locales (auto simp: bus_module_defs bus_documented_ret split: if_splits)

interpretation basic_device_module: module_driver bus_acct basic_device basic_device_init
  basic_device_exit "\<lambda>d. [Owned (Device_unregister (member_name d))]" bus_documented
  by unfold_locales (auto simp: bus_module_defs bus_documented_ret split: if_splits)

interpretation basic_driver_module: module_driver bus_acct basic_driver basic_driver_init
  basic_driver_exit "\<lambda>d. [Owned (Driver_unregister (member_name d))]" bus_documented
  by unfold_locales (auto simp: bus_module_defs bus_documented_ret split: if_splits)

interpretation dummy_bus_module: module_driver bus_acct "()" dummy_bus_init dummy_bus_exit
  "\<lambda>_. [Owned (Bus_register ''dummy-bus'')]" bus_documented
  by unfold_locales (auto simp: bus_module_defs bus_documented_ret split: if_splits)

interpretation dummy_device_module: module_driver bus_acct ddev dummy_device_init
  dummy_device_exit "\<lambda>d. [Owned (Device_unregister (dev_init_name d))]" bus_documented
  by unfold_locales (auto simp: bus_module_defs bus_documented_ret split: if_splits)

interpretation dummy_driver_module: module_driver bus_acct d0 "dummy_bus_register_driver owner"
  dummy_bus_del_driver "\<lambda>d. [Owned (Driver_unregister (drv_name d))]" bus_documented
  for d0 :: "'p dummy_driver" and owner
  by unfold_locales (auto simp: bus_module_defs bus_documented_ret split: if_splits)

section \<open>What the matching functions promise\<close>

text \<open>
  A bus answers for a device and a driver whether they fit; the driver core binds a device to the
  first driver that does. The contract: the answer is decided by the names a driver serves. From it
  follows which driver a device gets.
\<close>

locale bus_match =
  fixes match :: "string \<Rightarrow> 'v \<Rightarrow> bool" and serves :: "'v \<Rightarrow> string set"
  assumes match_iff: "match dev drv \<longleftrightarrow> dev \<in> serves drv"
begin

definition bound_to :: "string \<Rightarrow> 'v list \<Rightarrow> 'v option" where
  "bound_to dev drvs = List.find (match dev) drvs"

lemma bound_iff: "bound_to dev drvs = None \<longleftrightarrow> dev \<notin> \<Union> (serves ` set drvs)"
  by (auto simp: bound_to_def find_None_iff match_iff)

lemma bound_serves: "bound_to dev drvs = Some v \<Longrightarrow> v \<in> set drvs \<and> dev \<in> serves v"
  by (auto simp: bound_to_def find_Some_iff match_iff)

text \<open>With drivers that serve different names, the order in which they are loaded is irrelevant.\<close>

lemma bound_order:
  assumes "set drvs = set drvs'"
    and "\<And>u v. u \<in> set drvs \<Longrightarrow> v \<in> set drvs \<Longrightarrow> u \<noteq> v \<Longrightarrow> serves u \<inter> serves v = {}"
  shows "bound_to dev drvs = bound_to dev drvs'"
proof (cases "bound_to dev drvs")
  case None
  with assms(1) show ?thesis by (metis bound_iff)
next
  case (Some v)
  with assms(1) have "bound_to dev drvs' \<noteq> None" by (metis bound_iff option.distinct(1))
  then obtain u where u: "bound_to dev drvs' = Some u" by blast
  from bound_serves [OF u] bound_serves [OF Some] assms(2) [of u v] assms(1) have "u = v" by auto
  with Some u show ?thesis by simp
qed

end

text \<open>What the two matching functions answer, apart from what they print.\<close>

definition basic_matches :: "bus_kernel \<Rightarrow> string \<Rightarrow> string \<Rightarrow> bool" where
  "basic_matches K dev drv =
     (fst (run_state (basic_bus_match K dev drv) \<lparr>hist = [], dv = ()\<rparr>) \<noteq> 0)"

definition dummy_matches :: "bus_kernel \<Rightarrow> string \<Rightarrow> 'p dummy_driver \<Rightarrow> bool" where
  "dummy_matches K dev drv =
     (fst (run_state (dummy_bus_match K dev drv) \<lparr>hist = [], dv = ()\<rparr>) = Some 1)"

definition served :: "'p dummy_driver \<Rightarrow> string set" where
  "served drv = (case id_table drv of None \<Rightarrow> {} | Some ids \<Rightarrow> set (takeWhile (\<lambda>n. n \<noteq> []) ids))"

lemma match_loop_answer:
  "fst (run_state (match_loop K dev drv ids) w) =
     (if dev \<in> set (takeWhile (\<lambda>n. n \<noteq> []) ids) then Some 1
      else if [] \<in> set ids then Some 0 else None)"
  by (induction ids arbitrary: w) auto

interpretation basic_names: bus_match "basic_matches K" "\<lambda>drv. {drv}" for K
  by unfold_locales (simp add: basic_matches_def basic_bus_match_def)

interpretation dummy_names: bus_match "dummy_matches K" served for K
  by unfold_locales
    (simp add: dummy_matches_def dummy_bus_match_def served_def match_loop_answer
      split: option.splits)

lemma match_keeps_state:
  "dv (snd (run_state (match_loop K dev drv ids) w)) = dv w"
  by (induction ids arbitrary: w) auto

end
