(* ===== verification/Fbcat.thy ===== *)
theory Fbcat
  imports Fbdev
begin

text \<open>
  \<open>drm/drm_simple_display_pipe/tests/fbcat.c\<close>: a program that writes the picture in a framebuffer
  as a PBM or PPM file. Video memory is a list of bytes; an access outside it is a crash. Files,
  the environment and the ioctls are the fields of a record of answers. The host is taken to be
  little-endian, so that \<open>le16toh\<close> and \<open>le32toh\<close> are the identity.
\<close>

section \<open>Outcomes\<close>

text \<open>\<open>Exit n\<close> is \<open>exit(n)\<close> with an error, \<open>Crash\<close> undefined behaviour.\<close>

datatype 'a outcome = Done 'a | Exit nat | Crash

fun and_then :: "'a outcome \<Rightarrow> ('a \<Rightarrow> 'b outcome) \<Rightarrow> 'b outcome" where
  "and_then (Done x) f = f x"
| "and_then (Exit n) f = Exit n"
| "and_then Crash f = Crash"

lemma and_then_Done_iff: "and_then m f = Done y \<longleftrightarrow> (\<exists>x. m = Done x \<and> f x = Done y)"
  by (cases m) simp_all

abbreviation posix_error :: "'a outcome" where "posix_error \<equiv> Exit 2"
abbreviation not_supported :: "'a outcome" where "not_supported \<equiv> Exit 3"

fun from_option :: "'a option \<Rightarrow> 'a outcome" where
  "from_option None = Crash"
| "from_option (Some x) = Done x"

section \<open>Bytes and colours\<close>

text \<open>The fields of the screen description that the driver does not set.\<close>

record var_screeninfo = fb_var +
  xoffset :: u32
  yoffset :: u32

definition load8 :: "u8 list \<Rightarrow> nat \<Rightarrow> u8 option" where
  "load8 mem a = (if a < length mem then Some (mem ! a) else None)"

text \<open>
  \<open>(pixel >> offset) & ((1 << length) - 1)\<close> selects the entry of the colour map. \<open>main\<close> admits no
  length above 8; an offset of 32 or more, for which C gives the shift no meaning, selects entry 0.
\<close>

definition colour_index :: "u32 \<Rightarrow> fb_bitfield \<Rightarrow> u32" where
  "colour_index pixel bf =
     drop_bit (unat (offset bf)) pixel AND (push_bit (unat (bf_length bf)) 1 - 1)"

definition get_color :: "u32 \<Rightarrow> fb_bitfield \<Rightarrow> u16 list \<Rightarrow> u8" where
  "get_color pixel bf colormap =
     ucast (drop_bit 8 (colormap ! unat (colour_index pixel bf)))"

definition reverse_bits :: "u8 \<Rightarrow> u8" where
  "reverse_bits b = ucast ((ucast b * 0x0202020202 AND 0x010884422010 :: u64) mod 1023)"

text \<open>The three shapes a pixel has in memory; \<open>None\<close> is a shift by 32 or more, or a bad access.\<close>

fun load_bytes :: "u8 list \<Rightarrow> nat \<Rightarrow> nat \<Rightarrow> nat \<Rightarrow> u32 \<Rightarrow> u32 option" where
  "load_bytes mem a i 0 pixel = Some pixel"
| "load_bytes mem a i (Suc n) pixel = (case load8 mem a of
     None \<Rightarrow> None
   | Some b \<Rightarrow> if i < 4 then load_bytes mem (a + 1) (i + 1) n (pixel OR push_bit (i * 8) (ucast b))
              else None)"

definition load_pixel :: "u8 list \<Rightarrow> nat \<Rightarrow> nat \<Rightarrow> u32 option" where
  "load_pixel mem bytes_per_pixel a = load_bytes mem a 0 bytes_per_pixel 0"

section \<open>Writing the picture\<close>

definition newline :: char where "newline = char_of (10 :: nat)"

definition text_bytes :: "string \<Rightarrow> u8 list" where
  "text_bytes s = map (\<lambda>c. of_nat (of_char c)) s"

text \<open>One row of the black and white picture.\<close>

fun mono_row :: "u8 list \<Rightarrow> bool \<Rightarrow> nat \<Rightarrow> nat \<Rightarrow> u8 list option" where
  "mono_row mem black_is_zero a 0 = Some []"
| "mono_row mem black_is_zero a (Suc n) = (case load8 mem a of
     None \<Rightarrow> None
   | Some b \<Rightarrow>
       let r = reverse_bits b; r = (if black_is_zero then NOT r else r)
       in map_option (Cons r) (mono_row mem black_is_zero (a + 1) n))"

text \<open>
  The rows from \<open>y\<close> on; \<open>row\<close> gives the bytes of a row from the address where it starts,
  \<open>written y\<close> says whether \<open>fwrite\<close> wrote the whole row.
\<close>

fun dump_rows ::
    "(nat \<Rightarrow> u8 list option) \<Rightarrow> (nat \<Rightarrow> nat) \<Rightarrow> (nat \<Rightarrow> bool) \<Rightarrow> nat \<Rightarrow> nat \<Rightarrow> u8 list outcome" where
  "dump_rows row start written y 0 = Done []"
| "dump_rows row start written y (Suc n) =
     and_then (from_option (row (start y))) (\<lambda>bs.
       if written y then and_then (dump_rows row start written (y + 1) n) (\<lambda>rest. Done (bs @ rest))
       else posix_error)"

definition dump_video_memory_mono ::
    "(nat \<Rightarrow> bool) \<Rightarrow> bool \<Rightarrow> u8 list \<Rightarrow> var_screeninfo \<Rightarrow> bool \<Rightarrow> u32 \<Rightarrow> u8 list outcome" where
  "dump_video_memory_mono written malloc_ok video_memory vi black_is_zero ll =
     (let bytes_per_row = (xres vi + 7) div 8
      in if \<not> malloc_ok then posix_error
         else if xoffset vi mod 8 \<noteq> 0 then not_supported
         else and_then
           (dump_rows (\<lambda>a. mono_row video_memory black_is_zero a (unat bytes_per_row))
             (\<lambda>y. unat ((of_nat y + yoffset vi) * ll) + unat (xoffset vi div 8))
             written 0 (unat (yres vi)))
           (\<lambda>bs. Done (text_bytes (''P4 '' @ dec_nat (unat (xres vi)) @ '' '' @
             dec_nat (unat (yres vi)) @ [newline]) @ bs)))"

record cmap =
  cm_red :: "u16 list"
  cm_green :: "u16 list"
  cm_blue :: "u16 list"

fun colour_row :: "u8 list \<Rightarrow> fb_var \<Rightarrow> cmap \<Rightarrow> nat \<Rightarrow> nat \<Rightarrow> nat \<Rightarrow> u8 list option" where
  "colour_row mem vi cm bpp a 0 = Some []"
| "colour_row mem vi cm bpp a (Suc n) = (case load_pixel mem bpp a of
     None \<Rightarrow> None
   | Some pixel \<Rightarrow> map_option
       (\<lambda>rest. [get_color pixel (red vi) (cm_red cm), get_color pixel (green vi) (cm_green cm),
                get_color pixel (blue vi) (cm_blue cm)] @ rest)
       (colour_row mem vi cm bpp (a + bpp) n))"

text \<open>
  The row buffer has \<open>xres * 3\<close> bytes, computed in 32 bits; a screen so wide that the product wraps
  makes the stores to the row leave the buffer.
\<close>

definition dump_video_memory ::
    "(nat \<Rightarrow> bool) \<Rightarrow> bool \<Rightarrow> u8 list \<Rightarrow> var_screeninfo \<Rightarrow> cmap \<Rightarrow> u32 \<Rightarrow> u8 list outcome" where
  "dump_video_memory written malloc_ok video_memory vi cm ll =
     (let bytes_per_pixel = (bits_per_pixel vi + 7) div 8
      in if \<not> malloc_ok then posix_error
         else and_then
           (dump_rows
             (\<lambda>a. if unat (xres vi) * 3 \<ge> 2 ^ 32 then None
                  else colour_row video_memory (fb_var.truncate vi) cm (unat bytes_per_pixel) a
                    (unat (xres vi)))
             (\<lambda>y. unat ((of_nat y + yoffset vi) * ll) + unat (xoffset vi * bytes_per_pixel))
             written 0 (unat (yres vi)))
           (\<lambda>bs. Done (text_bytes (''P6 '' @ dec_nat (unat (xres vi)) @ '' '' @
             dec_nat (unat (yres vi)) @ '' 255'' @ [newline]) @ bs)))"

section \<open>The main function\<close>

text \<open>
  The dummy colour map of a true-colour screen: \<open>i * 0xFFFF / ((1 << length) - 1)\<close> for each entry.
  A field without bits divides by zero; entries beyond the field keep what the array held.
\<close>

definition true_map :: "fb_bitfield \<Rightarrow> u16 list \<Rightarrow> u16 list option" where
  "true_map bf garbage =
     (let n = 2 ^ unat (bf_length bf)
      in if n = (1 :: nat) then None
         else Some (map (\<lambda>i. of_nat (i * 0xFFFF div (n - 1))) [0..<n] @ drop n garbage))"

definition true_cmap :: "fb_var \<Rightarrow> cmap \<Rightarrow> cmap option" where
  "true_cmap v garbage =
     (case true_map (red v) (cm_red garbage) of None \<Rightarrow> None | Some r \<Rightarrow>
      case true_map (green v) (cm_green garbage) of None \<Rightarrow> None | Some g \<Rightarrow>
      case true_map (blue v) (cm_blue garbage) of None \<Rightarrow> None | Some b \<Rightarrow>
      Some \<lparr>cm_red = r, cm_green = g, cm_blue = b\<rparr>)"

abbreviation FB_VISUAL_MONO01 :: u32 where "FB_VISUAL_MONO01 \<equiv> 0"
abbreviation FB_VISUAL_MONO10 :: u32 where "FB_VISUAL_MONO10 \<equiv> 1"
abbreviation FB_VISUAL_PSEUDOCOLOR :: u32 where "FB_VISUAL_PSEUDOCOLOR \<equiv> 3"
abbreviation FB_VISUAL_DIRECTCOLOR :: u32 where "FB_VISUAL_DIRECTCOLOR \<equiv> 4"
abbreviation FB_VISUAL_STATIC_PSEUDOCOLOR :: u32 where "FB_VISUAL_STATIC_PSEUDOCOLOR \<equiv> 5"

text \<open>
  What the program reads from outside: its terminal, arguments and environment, the device it
  opens with its ioctls (\<open>None\<close>: the call fails), its mapping of a length (\<open>None\<close>: it cannot be
  mapped), and the bytes read from an offset when it is not mapped.
\<close>

record fbcat_env =
  tty :: bool
  args :: "string list"
  env_framebuffer :: "string option"
  opens :: "string \<Rightarrow> bool"
  get_fscreeninfo :: "fb_fix option"
  get_vscreeninfo :: "var_screeninfo option"
  get_cmap :: "cmap option"
  stack_cmap :: cmap
  mapping :: "u32 \<Rightarrow> u8 list option"
  buffer_ok :: bool
  file_read :: "u32 \<Rightarrow> u8 list option option"
  malloc_ok :: bool
  written :: "nat \<Rightarrow> bool"
  close_ok :: bool

definition fbdev_name :: "fbcat_env \<Rightarrow> string" where
  "fbdev_name e = (case args e of
     [name] \<Rightarrow> name
   | _ \<Rightarrow> (case env_framebuffer e of
       None \<Rightarrow> ''/dev/fb0''
     | Some name \<Rightarrow> if name = [] then ''/dev/fb0'' else name))"

text \<open>The colour map and the two flags of a monochrome screen, by the kind of screen.\<close>

definition choose_map :: "fbcat_env \<Rightarrow> fb_fix \<Rightarrow> fb_var \<Rightarrow> (cmap \<times> bool \<times> bool) outcome" where
  "choose_map e f v =
     (if visual f = FB_VISUAL_TRUECOLOR
      then and_then (from_option (true_cmap v (stack_cmap e))) (\<lambda>cm. Done (cm, False, False))
      else if visual f \<in> {FB_VISUAL_DIRECTCOLOR, FB_VISUAL_PSEUDOCOLOR, FB_VISUAL_STATIC_PSEUDOCOLOR}
      then (case get_cmap e of None \<Rightarrow> posix_error | Some cm \<Rightarrow> Done (cm, False, False))
      else if visual f = FB_VISUAL_MONO01 then Done (stack_cmap e, True, False)
      else if visual f = FB_VISUAL_MONO10 then Done (stack_cmap e, True, True)
      else not_supported)"

text \<open>
  Video memory and the description to dump it with: mapped up to the last visible line, or read from
  the visible part, which then starts at line 0. The lengths are products of 32 bits.
\<close>

definition read_memory :: "fbcat_env \<Rightarrow> fb_fix \<Rightarrow> var_screeninfo \<Rightarrow> (u8 list \<times> var_screeninfo) outcome" where
  "read_memory e f v = (case mapping e (line_length f * (yres v + yoffset v)) of
     Some mem \<Rightarrow> Done (mem, v)
   | None \<Rightarrow>
       let buffer_size = line_length f * yres v
       in if \<not> buffer_ok e then posix_error
          else case file_read e (line_length f * yoffset v) of
            None \<Rightarrow> posix_error
          | Some None \<Rightarrow> posix_error
          | Some (Some bytes) \<Rightarrow>
              if length bytes \<noteq> unat buffer_size then posix_error
              else Done (bytes, v\<lparr>yoffset := 0\<rparr>))"

definition fbcat_dump :: "fbcat_env \<Rightarrow> u8 list outcome" where
  "fbcat_dump e = (case get_fscreeninfo e of None \<Rightarrow> posix_error | Some f \<Rightarrow>
     if fix_type f \<noteq> FB_TYPE_PACKED_PIXELS then not_supported
     else case get_vscreeninfo e of None \<Rightarrow> posix_error | Some v \<Rightarrow>
     if bf_length (red v) > 8 \<or> bf_length (green v) > 8 \<or> bf_length (blue v) > 8
     then not_supported
     else and_then (choose_map e f (fb_var.truncate v)) (\<lambda>(cm, is_mono, black_is_zero).
       if bits_per_pixel v < 8 \<and> \<not> is_mono then not_supported
       else if bits_per_pixel v \<noteq> 1 \<and> is_mono then not_supported
       else and_then (read_memory e f v) (\<lambda>(mem, v).
         if is_mono
         then dump_video_memory_mono (written e) (malloc_ok e) mem v black_is_zero (line_length f)
         else dump_video_memory (written e) (malloc_ok e) mem v cm (line_length f))))"

definition fbcat_main :: "fbcat_env \<Rightarrow> u8 list outcome" where
  "fbcat_main e =
     (if tty e \<or> length (args e) > 1 then Exit 1
      else if \<not> opens e (fbdev_name e) then posix_error
      else and_then (fbcat_dump e) (\<lambda>out. if close_ok e then Done out else posix_error))"

end
