(* ===== verification/Fbcat_Spec.thy ===== *)
theory Fbcat_Spec
  imports Fbcat
begin

text \<open>
  What \<open>fbcat.c\<close> writes: the trick that reverses a byte does reverse it, a dump that succeeds has
  the length and the pixels it should have, and on a mapping of the size the program asks for it
  never reads outside.
\<close>

section \<open>Reversing a byte\<close>

text \<open>What the comment in the source says: the bits in the opposite order.\<close>

definition rev_spec :: "int \<Rightarrow> u8" where
  "rev_spec n = horner_sum of_bool 2 (map (bit n) [7,6,5,4,3,2,1,0])"
abbreviation rev_ok :: "int \<Rightarrow> bool" where
  "rev_ok n \<equiv> reverse_bits (word_of_int n) = rev_spec n"

lemma rev_ok_0: "list_all rev_ok
     [0, 1, 2, 3, 4, 5, 6, 7, 8, 9, 10, 11, 12, 13, 14, 15, 16, 17, 18, 19, 20, 21, 22,
      23, 24, 25, 26, 27, 28, 29, 30, 31, 32, 33, 34, 35, 36, 37, 38, 39, 40, 41, 42, 43,
      44, 45, 46, 47, 48, 49, 50, 51, 52, 53, 54, 55, 56, 57, 58, 59, 60, 61, 62, 63]"
  by (simp add: reverse_bits_def rev_spec_def)

lemma rev_ok_1: "list_all rev_ok
     [64, 65, 66, 67, 68, 69, 70, 71, 72, 73, 74, 75, 76, 77, 78, 79, 80, 81, 82, 83, 84,
      85, 86, 87, 88, 89, 90, 91, 92, 93, 94, 95, 96, 97, 98, 99, 100, 101, 102, 103, 104,
      105, 106, 107, 108, 109, 110, 111, 112, 113, 114, 115, 116, 117, 118, 119, 120, 121,
      122, 123, 124, 125, 126, 127]"
  by (simp add: reverse_bits_def rev_spec_def)

lemma rev_ok_2: "list_all rev_ok
     [128, 129, 130, 131, 132, 133, 134, 135, 136, 137, 138, 139, 140, 141, 142, 143, 144,
      145, 146, 147, 148, 149, 150, 151, 152, 153, 154, 155, 156, 157, 158, 159, 160, 161,
      162, 163, 164, 165, 166, 167, 168, 169, 170, 171, 172, 173, 174, 175, 176, 177, 178,
      179, 180, 181, 182, 183, 184, 185, 186, 187, 188, 189, 190, 191]"
  by (simp add: reverse_bits_def rev_spec_def)

lemma rev_ok_3: "list_all rev_ok
     [192, 193, 194, 195, 196, 197, 198, 199, 200, 201, 202, 203, 204, 205, 206, 207, 208,
      209, 210, 211, 212, 213, 214, 215, 216, 217, 218, 219, 220, 221, 222, 223, 224, 225,
      226, 227, 228, 229, 230, 231, 232, 233, 234, 235, 236, 237, 238, 239, 240, 241, 242,
      243, 244, 245, 246, 247, 248, 249, 250, 251, 252, 253, 254, 255]"
  by (simp add: reverse_bits_def rev_spec_def)

lemma upto_64:
  "[0..63::int] =
     [0, 1, 2, 3, 4, 5, 6, 7, 8, 9, 10, 11, 12, 13, 14, 15, 16, 17, 18, 19, 20, 21, 22,
      23, 24, 25, 26, 27, 28, 29, 30, 31, 32, 33, 34, 35, 36, 37, 38, 39, 40, 41, 42, 43,
      44, 45, 46, 47, 48, 49, 50, 51, 52, 53, 54, 55, 56, 57, 58, 59, 60, 61, 62, 63]"
  "[64..127::int] =
     [64, 65, 66, 67, 68, 69, 70, 71, 72, 73, 74, 75, 76, 77, 78, 79, 80, 81, 82, 83, 84,
      85, 86, 87, 88, 89, 90, 91, 92, 93, 94, 95, 96, 97, 98, 99, 100, 101, 102, 103, 104,
      105, 106, 107, 108, 109, 110, 111, 112, 113, 114, 115, 116, 117, 118, 119, 120, 121,
      122, 123, 124, 125, 126, 127]"
  "[128..191::int] =
     [128, 129, 130, 131, 132, 133, 134, 135, 136, 137, 138, 139, 140, 141, 142, 143, 144,
      145, 146, 147, 148, 149, 150, 151, 152, 153, 154, 155, 156, 157, 158, 159, 160, 161,
      162, 163, 164, 165, 166, 167, 168, 169, 170, 171, 172, 173, 174, 175, 176, 177, 178,
      179, 180, 181, 182, 183, 184, 185, 186, 187, 188, 189, 190, 191]"
  "[192..255::int] =
     [192, 193, 194, 195, 196, 197, 198, 199, 200, 201, 202, 203, 204, 205, 206, 207, 208,
      209, 210, 211, 212, 213, 214, 215, 216, 217, 218, 219, 220, 221, 222, 223, 224, 225,
      226, 227, 228, 229, 230, 231, 232, 233, 234, 235, 236, 237, 238, 239, 240, 241, 242,
      243, 244, 245, 246, 247, 248, 249, 250, 251, 252, 253, 254, 255]"
  by code_simp+

lemma rev_ok_byte: "rev_ok (uint b)" for b :: u8
proof -
  have "uint b \<in> {0..63} \<union> {64..127} \<union> {128..191} \<union> {192..255}"
    using unsigned_less [of b, where 'a = int] by auto
  moreover have "list_all rev_ok [0..63]" "list_all rev_ok [64..127]" "list_all rev_ok [128..191]"
    "list_all rev_ok [192..255]"
    unfolding upto_64 by (fact rev_ok_0 rev_ok_1 rev_ok_2 rev_ok_3)+
  ultimately show ?thesis by (auto simp only: list_all_iff set_upto)
qed

lemma rev_spec_list: "[7, 6, 5, 4, 3, 2, 1, 0] = map (\<lambda>i. 7 - i) [0..<8::nat]"
  by code_simp

lemma bit_rev_spec: "bit (rev_spec n) i = (i < 8 \<and> bit n (7 - i))"
  unfolding rev_spec_def rev_spec_list
  by (cases "i < 8")
    (simp_all add: bit_horner_sum_bit_word_iff nth_map [of _ "[0..<8]"] del: upt.simps upt_rec_numeral
      map_map)

lemma bit_reverse_bits: "bit (reverse_bits b) i = (i < 8 \<and> bit b (7 - i))"
  using rev_ok_byte [of b] by (auto simp: bit_rev_spec bit_uint_iff)

lemma reverse_bits_involution: "reverse_bits (reverse_bits b) = b"
proof (rule bit_word_eqI)
  fix i assume "i < LENGTH(8)"
  then show "bit (reverse_bits (reverse_bits b)) i = bit b i" by (auto simp: bit_reverse_bits)
qed

section \<open>Rows\<close>

lemma mono_row_length: "mono_row mem bz a n = Some bs \<Longrightarrow> length bs = n"
  by (induction n arbitrary: a bs) (auto simp: Let_def split: option.splits)

lemma mono_row_nth:
  "mono_row mem bz a n = Some bs \<Longrightarrow> k < n \<Longrightarrow>
     bs ! k = (if bz then NOT (reverse_bits (mem ! (a + k))) else reverse_bits (mem ! (a + k)))"
proof (induction n arbitrary: a bs k)
  case 0
  then show ?case by simp
next
  case (Suc n)
  then show ?case
    by (cases k) (auto simp: Let_def load8_def split: option.splits if_splits)
qed

lemma mono_row_safe: "a + n \<le> length mem \<Longrightarrow> \<exists>bs. mono_row mem bz a n = Some bs"
  by (induction n arbitrary: a) (auto simp: load8_def Let_def)

lemma colour_row_length: "colour_row mem v cm bpp a n = Some bs \<Longrightarrow> length bs = n * 3"
  by (induction n arbitrary: a bs) (auto split: option.splits)

lemma colour_row_nth:
  "colour_row mem v cm bpp a n = Some bs \<Longrightarrow> k < n \<Longrightarrow>
     \<exists>p. load_pixel mem bpp (a + k * bpp) = Some p \<and>
       bs ! (k * 3) = get_color p (red v) (cm_red cm) \<and>
       bs ! (k * 3 + 1) = get_color p (green v) (cm_green cm) \<and>
       bs ! (k * 3 + 2) = get_color p (blue v) (cm_blue cm)"
proof (induction n arbitrary: a bs k)
  case 0
  then show ?case by simp
next
  case (Suc n)
  from Suc.prems(1) obtain p rest where p: "load_pixel mem bpp a = Some p"
    and r: "colour_row mem v cm bpp (a + bpp) n = Some rest"
    and bs: "bs = [get_color p (red v) (cm_red cm), get_color p (green v) (cm_green cm),
               get_color p (blue v) (cm_blue cm)] @ rest"
    by (auto split: option.splits)
  show ?case
  proof (cases k)
    case 0
    with p bs show ?thesis by simp
  next
    case (Suc j)
    with Suc.prems(2) have "j < n" by simp
    from Suc.IH [OF r this] bs Suc show ?thesis by (simp add: add.assoc)
  qed
qed

lemma load_bytes_safe:
  "a + n \<le> length mem \<Longrightarrow> i + n \<le> 4 \<Longrightarrow> \<exists>p. load_bytes mem a i n q = Some p"
  by (induction n arbitrary: a i q) (auto simp: load8_def)

lemma colour_row_safe:
  "a + n * bpp \<le> length mem \<Longrightarrow> bpp \<le> 4 \<Longrightarrow> \<exists>bs. colour_row mem v cm bpp a n = Some bs"
proof (induction n arbitrary: a)
  case 0
  then show ?case by simp
next
  case (Suc n)
  then have "a + bpp \<le> length mem" "a + bpp + n * bpp \<le> length mem" by simp_all
  with Suc.IH [of "a + bpp"] Suc.prems(2) load_bytes_safe [of a bpp mem 0 0] show ?case
    by (auto simp: load_pixel_def)
qed

section \<open>The picture\<close>

text \<open>A dump that succeeds wrote every row, one after the other.\<close>

lemma dump_rows_Done:
  assumes "dump_rows row start wr y n = Done bs"
    and len: "\<And>a r. row a = Some r \<Longrightarrow> length r = m"
  shows "length bs = n * m \<and>
    (\<forall>j < n. wr (y + j) \<and>
      (\<exists>r. row (start (y + j)) = Some r \<and> (\<forall>k < m. bs ! (j * m + k) = r ! k)))"
  using assms(1)
proof (induction n arbitrary: y bs)
  case 0
  then show ?case by simp
next
  case (Suc n)
  from Suc.prems obtain r rest where r: "row (start y) = Some r" "wr y"
    and rest: "dump_rows row start wr (y + 1) n = Done rest" and bs: "bs = r @ rest"
    by (auto simp: and_then_Done_iff split: if_splits elim: from_option.elims)
  note IH = Suc.IH [OF rest]
  have m: "length r = m" by (rule len [OF r(1)])
  have "wr (y + j) \<and> (\<exists>r'. row (start (y + j)) = Some r' \<and>
      (\<forall>k < m. bs ! (j * m + k) = r' ! k))" if j: "j < Suc n" for j
  proof (cases j)
    case 0
    with r bs m show ?thesis by (simp add: nth_append)
  next
    case (Suc i)
    with j IH have "wr (y + j)" and "\<exists>r'. row (start (y + j)) = Some r' \<and>
        (\<forall>k < m. rest ! (i * m + k) = r' ! k)" by auto
    moreover have "bs ! (j * m + k) = rest ! (i * m + k)" for k
      using Suc bs m by (simp add: nth_append)
    ultimately show ?thesis by simp
  qed
  with IH bs m show ?case by simp
qed

lemma dump_rows_safe:
  assumes "\<And>j. j < n \<Longrightarrow> \<exists>r. row (start (y + j)) = Some r"
  shows "\<exists>bs. dump_rows row start wr y n = (if \<forall>j < n. wr (y + j) then Done bs else Exit 2)"
  using assms
proof (induction n arbitrary: y)
  case 0
  then show ?case by simp
next
  case (Suc n)
  have "\<exists>r. row (start (y + 1 + j)) = Some r" if "j < n" for j
    using Suc.prems [of "Suc j"] that by simp
  from Suc.IH [OF this] obtain bs where
    bs: "dump_rows row start wr (y + 1) n = (if \<forall>j < n. wr (y + 1 + j) then Done bs else Exit 2)"
    by blast
  from Suc.prems [of 0] obtain r where r: "row (start y) = Some r" by auto
  have all: "(\<forall>j < Suc n. wr (y + j)) \<longleftrightarrow> wr y \<and> (\<forall>j < n. wr (y + 1 + j))"
    by (auto simp: less_Suc_eq_0_disj)
  show ?case
    unfolding all by (rule exI [of _ "r @ bs"]) (simp add: r bs del: One_nat_def)
qed

text \<open>The header and the picture of a colour dump; \<open>start\<close> is where a line begins in memory.\<close>

definition ppm_header :: "var_screeninfo \<Rightarrow> u8 list" where
  "ppm_header v = text_bytes (''P6 '' @ dec_nat (unat (xres v)) @ '' '' @
     dec_nat (unat (yres v)) @ '' 255'' @ [newline])"

definition pixel_bytes :: "var_screeninfo \<Rightarrow> nat" where
  "pixel_bytes v = unat ((bits_per_pixel v + 7) div 8)"

definition line_start :: "var_screeninfo \<Rightarrow> u32 \<Rightarrow> nat \<Rightarrow> nat" where
  "line_start v ll y = unat ((of_nat y + yoffset v) * ll) +
     unat (xoffset v * ((bits_per_pixel v + 7) div 8))"

lemma truncate_colours [simp]:
  "red (fb_var.truncate v) = red v" "green (fb_var.truncate v) = green v"
  "blue (fb_var.truncate v) = blue v"
  by (simp_all add: fb_var.truncate_def)

lemma dump_video_memory_Done:
  assumes "dump_video_memory wr mok mem v cm ll = Done out"
  shows "length out = length (ppm_header v) + unat (yres v) * (unat (xres v) * 3) \<and>
    take (length (ppm_header v)) out = ppm_header v \<and>
    (\<forall>y < unat (yres v). \<forall>x < unat (xres v). \<exists>p.
       load_pixel mem (pixel_bytes v) (line_start v ll y + x * pixel_bytes v) = Some p \<and>
       (let i = length (ppm_header v) + (y * (unat (xres v) * 3) + x * 3)
        in out ! i = get_color p (red v) (cm_red cm) \<and>
           out ! (i + 1) = get_color p (green v) (cm_green cm) \<and>
           out ! (i + 2) = get_color p (blue v) (cm_blue cm)))"
proof -
  let ?row = "\<lambda>a. if unat (xres v) * 3 \<ge> 2 ^ 32 then None
    else colour_row mem (fb_var.truncate v) cm (pixel_bytes v) a (unat (xres v))"
  let ?m = "unat (xres v) * 3"
  from assms obtain bs where out: "out = ppm_header v @ bs"
    and rows: "dump_rows ?row (line_start v ll) wr 0 (unat (yres v)) = Done bs"
    unfolding dump_video_memory_def Let_def ppm_header_def pixel_bytes_def line_start_def [abs_def]
    by (auto simp: and_then_Done_iff split: if_splits)
  have len: "?row a = Some r \<Longrightarrow> length r = ?m" for a r
    by (auto dest: colour_row_length split: if_splits)
  have D: "length bs = unat (yres v) * ?m \<and> (\<forall>j < unat (yres v). wr j \<and>
      (\<exists>r. ?row (line_start v ll j) = Some r \<and> (\<forall>k < ?m. bs ! (j * ?m + k) = r ! k)))"
    by (rule dump_rows_Done [OF rows, unfolded add_0]) (rule len)
  have "\<exists>p. load_pixel mem (pixel_bytes v) (line_start v ll y + x * pixel_bytes v) = Some p \<and>
      bs ! (y * ?m + x * 3) = get_color p (red v) (cm_red cm) \<and>
      bs ! (y * ?m + x * 3 + 1) = get_color p (green v) (cm_green cm) \<and>
      bs ! (y * ?m + x * 3 + 2) = get_color p (blue v) (cm_blue cm)"
    if y: "y < unat (yres v)" and x: "x < unat (xres v)" for y x
  proof -
    from D y obtain r where row: "?row (line_start v ll y) = Some r"
      and nth: "\<forall>k < ?m. bs ! (y * ?m + k) = r ! k" by auto
    from row have "colour_row mem (fb_var.truncate v) cm (pixel_bytes v) (line_start v ll y)
        (unat (xres v)) = Some r" by (simp split: if_splits)
    from colour_row_nth [OF this x] nth [rule_format, of "x * 3"] nth [rule_format, of "x * 3 + 1"]
      nth [rule_format, of "x * 3 + 2"] x
    show ?thesis by (auto simp: add.assoc)
  qed
  with D out show ?thesis by (simp add: Let_def nth_append add.assoc)
qed

section \<open>No access outside video memory\<close>

text \<open>
  When the arithmetic of the program does not wrap and every line has room for the pixels it is
  asked for, the mapping of \<open>line_length * (yres + yoffset)\<close> bytes is never left, whatever it holds:
  the dump succeeds, or reports that writing the file failed.
\<close>

definition geometry_ok :: "var_screeninfo \<Rightarrow> u32 \<Rightarrow> bool" where
  "geometry_ok v ll \<longleftrightarrow>
     (unat (yres v) + unat (yoffset v)) * unat ll < 2 ^ 32 \<and>
     (unat (xoffset v) + unat (xres v)) * pixel_bytes v \<le> unat ll \<and>
     unat (xres v) * 3 < 2 ^ 32 \<and> pixel_bytes v \<le> 4"

lemma unat_small: "(n :: nat) < 2 ^ 32 \<Longrightarrow> unat (of_nat n :: u32) = n"
  by (simp add: unat_of_nat take_bit_nat_eq_self unsigned_of_nat)

lemma line_start_eq:
  assumes g: "geometry_ok v ll" and y: "y < unat (yres v)"
  shows "line_start v ll y = (y + unat (yoffset v)) * unat ll + unat (xoffset v) * pixel_bytes v"
proof -
  have le: "(y + unat (yoffset v)) * unat ll \<le> (unat (yres v) + unat (yoffset v)) * unat ll"
    using y by simp
  have "(of_nat y + yoffset v) * ll = of_nat ((y + unat (yoffset v)) * unat ll)" by simp
  moreover have "(y + unat (yoffset v)) * unat ll < 2 ^ 32"
    by (rule le_less_trans [OF le]) (use g in \<open>simp add: geometry_ok_def\<close>)
  ultimately have "unat ((of_nat y + yoffset v) * ll) = (y + unat (yoffset v)) * unat ll"
    by (simp only: unat_small)
  moreover
  have "unat (xoffset v) * pixel_bytes v \<le> unat ll"
    using g by (simp add: geometry_ok_def distrib_right)
  then have "unat (xoffset v) * pixel_bytes v < 2 ^ 32"
    using unsigned_less [of ll, where 'a = nat] by simp
  moreover have "xoffset v * ((bits_per_pixel v + 7) div 8) =
      of_nat (unat (xoffset v) * pixel_bytes v)" by (simp add: pixel_bytes_def)
  ultimately show ?thesis
    using unat_small [of "unat (xoffset v) * pixel_bytes v"] by (simp add: line_start_def)
qed

lemma line_inside:
  assumes g: "geometry_ok v ll" and y: "y < unat (yres v)"
  shows "line_start v ll y + unat (xres v) * pixel_bytes v \<le>
    unat ll * (unat (yres v) + unat (yoffset v))"
proof -
  have "(y + unat (yoffset v)) * unat ll + unat ll \<le> (unat (yres v) + unat (yoffset v)) * unat ll"
    using mult_le_mono1 [of "y + unat (yoffset v) + 1" "unat (yres v) + unat (yoffset v)" "unat ll"] y
    by simp
  moreover have "(unat (xoffset v) + unat (xres v)) * pixel_bytes v \<le> unat ll"
    using g by (simp add: geometry_ok_def)
  ultimately show ?thesis
    by (simp add: line_start_eq [OF g y] algebra_simps)
qed

text \<open>
  Inside its geometry the dump ends with a picture, unless a write or the allocation of the row fails.
\<close>

lemma dump_video_memory_outcome:
  assumes g: "geometry_ok v ll"
    and mem: "unat ll * (unat (yres v) + unat (yoffset v)) \<le> length mem"
  shows "\<exists>out. dump_video_memory wr mok mem v cm ll =
    (if mok \<and> (\<forall>y < unat (yres v). wr y) then Done out else Exit 2)"
proof -
  let ?row = "\<lambda>a. if unat (xres v) * 3 \<ge> 2 ^ 32 then None
    else colour_row mem (fb_var.truncate v) cm (pixel_bytes v) a (unat (xres v))"
  have "\<exists>r. ?row (line_start v ll (0 + j)) = Some r" if "j < unat (yres v)" for j
    using colour_row_safe [of "line_start v ll j" "unat (xres v)" "pixel_bytes v" mem]
      line_inside [OF g that] mem g by (simp add: geometry_ok_def)
  from dump_rows_safe [of "unat (yres v)" ?row "line_start v ll" 0 wr, OF this]
  show ?thesis
    unfolding dump_video_memory_def Let_def pixel_bytes_def line_start_def [abs_def]
    by (auto split: if_splits)
qed

section \<open>The black and white picture\<close>

definition pbm_header :: "var_screeninfo \<Rightarrow> u8 list" where
  "pbm_header v = text_bytes (''P4 '' @ dec_nat (unat (xres v)) @ '' '' @
     dec_nat (unat (yres v)) @ [newline])"

text \<open>
  Bit \<open>7 - i\<close> of an output byte is bit \<open>i\<close> of the byte in video memory, inverted when black is zero.
\<close>

lemma dump_video_memory_mono_Done:
  assumes "dump_video_memory_mono wr mok mem v bz ll = Done out"
  defines "n \<equiv> unat ((xres v + 7) div 8)"
  shows "length out = length (pbm_header v) + unat (yres v) * n \<and>
    take (length (pbm_header v)) out = pbm_header v \<and>
    (\<forall>y < unat (yres v). \<forall>k < n. \<forall>i < 8.
       bit (out ! (length (pbm_header v) + (y * n + k))) i =
         (bit (mem ! (unat ((of_nat y + yoffset v) * ll) + unat (xoffset v div 8) + k)) (7 - i) \<noteq> bz))"
proof -
  let ?start = "\<lambda>y. unat ((of_nat y + yoffset v) * ll) + unat (xoffset v div 8)"
  from assms(1) obtain bs where out: "out = pbm_header v @ bs"
    and rows: "dump_rows (\<lambda>a. mono_row mem bz a n) ?start wr 0 (unat (yres v)) = Done bs"
    unfolding dump_video_memory_mono_def Let_def pbm_header_def n_def
    by (auto simp: and_then_Done_iff split: if_splits)
  from dump_rows_Done [OF rows, of n] mono_row_length
  have len: "length bs = unat (yres v) * n"
    and row: "\<forall>j < unat (yres v). \<exists>r. mono_row mem bz (?start j) n = Some r \<and>
      (\<forall>k < n. bs ! (j * n + k) = r ! k)"
    by auto
  have "bit (out ! (length (pbm_header v) + (y * n + k))) i = (bit (mem ! (?start y + k)) (7 - i) \<noteq> bz)"
    if y: "y < unat (yres v)" and k: "k < n" and i: "i < 8" for y k i
  proof -
    from row y obtain r where r: "mono_row mem bz (?start y) n = Some r" "bs ! (y * n + k) = r ! k"
      using k by blast
    from mono_row_nth [OF r(1) k] r(2) i show ?thesis
      by (auto simp: out nth_append bit_not_iff bit_reverse_bits)
  qed
  with out len show ?thesis by simp
qed

end
