(* ===== verification/Fbcat_Main.thy ===== *)
theory Fbcat_Main
  imports Fbcat_Spec
begin

text \<open>
  The whole of \<open>fbcat.c\<close>: which exit statuses it has, and that it does not leave video memory on any
  device whose description is consistent.
\<close>

section \<open>A black and white screen\<close>

definition mono_ok :: "var_screeninfo \<Rightarrow> u32 \<Rightarrow> bool" where
  "mono_ok v ll \<longleftrightarrow>
     (unat (yres v) + unat (yoffset v)) * unat ll < 2 ^ 32 \<and>
     unat (xoffset v div 8) + unat ((xres v + 7) div 8) \<le> unat ll"

lemma mono_line_inside:
  assumes g: "mono_ok v ll" and y: "y < unat (yres v)"
  shows "unat ((of_nat y + yoffset v) * ll) + unat (xoffset v div 8) + unat ((xres v + 7) div 8) \<le>
    unat ll * (unat (yres v) + unat (yoffset v))"
proof -
  have le: "(y + unat (yoffset v)) * unat ll + unat ll \<le> (unat (yres v) + unat (yoffset v)) * unat ll"
    using mult_le_mono1 [of "y + unat (yoffset v) + 1" "unat (yres v) + unat (yoffset v)" "unat ll"] y
    by simp
  have "(of_nat y + yoffset v) * ll = of_nat ((y + unat (yoffset v)) * unat ll)" by simp
  moreover have "(y + unat (yoffset v)) * unat ll < 2 ^ 32"
    using le g by (simp add: mono_ok_def)
  ultimately have "unat ((of_nat y + yoffset v) * ll) = (y + unat (yoffset v)) * unat ll"
    by (simp only: unat_small)
  with le g show ?thesis by (simp add: mono_ok_def algebra_simps)
qed

lemma dump_video_memory_mono_outcome:
  assumes g: "mono_ok v ll" and mem: "unat ll * (unat (yres v) + unat (yoffset v)) \<le> length mem"
  shows "\<exists>out. dump_video_memory_mono wr mok mem v bz ll =
    (if \<not> mok then Exit 2 else if xoffset v mod 8 \<noteq> 0 then Exit 3
     else if \<forall>y < unat (yres v). wr y then Done out else Exit 2)"
proof -
  let ?n = "unat ((xres v + 7) div 8)"
  let ?start = "\<lambda>y. unat ((of_nat y + yoffset v) * ll) + unat (xoffset v div 8)"
  have "\<exists>r. mono_row mem bz (?start (0 + j)) ?n = Some r" if "j < unat (yres v)" for j
    using mono_row_safe [of "?start j" ?n mem bz] mono_line_inside [OF g that] mem by simp
  from dump_rows_safe [of "unat (yres v)" "\<lambda>a. mono_row mem bz a ?n" ?start 0 wr, OF this]
  show ?thesis
    unfolding dump_video_memory_mono_def Let_def by (auto split: if_splits)
qed

section \<open>The main function\<close>

text \<open>
  What the program relies on: the products of the description do not wrap and its lines have room for
  the visible columns, a true-colour field has a bit, and a mapping has the length asked for.
\<close>

definition description_ok :: "fb_fix \<Rightarrow> var_screeninfo \<Rightarrow> bool" where
  "description_ok f v \<longleftrightarrow>
     (if visual f = FB_VISUAL_MONO01 \<or> visual f = FB_VISUAL_MONO10 then mono_ok v (line_length f)
      else geometry_ok v (line_length f)) \<and>
     (visual f = FB_VISUAL_TRUECOLOR \<longrightarrow>
        bf_length (red v) \<noteq> 0 \<and> bf_length (green v) \<noteq> 0 \<and> bf_length (blue v) \<noteq> 0)"

definition env_consistent :: "fbcat_env \<Rightarrow> bool" where
  "env_consistent e \<longleftrightarrow>
     (\<forall>f v. get_fscreeninfo e = Some f \<longrightarrow> get_vscreeninfo e = Some v \<longrightarrow> description_ok f v) \<and>
     (\<forall>n mem. mapping e n = Some mem \<longrightarrow> unat n \<le> length mem)"

lemma true_map_some: "bf_length bf \<noteq> 0 \<Longrightarrow> \<exists>m. true_map bf g = Some m"
  by (auto simp: true_map_def Let_def unat_eq_0)

lemma true_cmap_some:
  "bf_length (red v) \<noteq> 0 \<Longrightarrow> bf_length (green v) \<noteq> 0 \<Longrightarrow> bf_length (blue v) \<noteq> 0 \<Longrightarrow>
     \<exists>cm. true_cmap v g = Some cm"
  using true_map_some [of "red v" "cm_red g"] true_map_some [of "green v" "cm_green g"]
    true_map_some [of "blue v" "cm_blue g"] by (auto simp: true_cmap_def)

text \<open>An outcome that is a result or one of the statuses of errors.\<close>

definition orderly :: "'a outcome \<Rightarrow> bool" where
  "orderly m \<longleftrightarrow> m \<noteq> Crash \<and> (\<forall>n. m = Exit n \<longrightarrow> n \<in> {2, 3})"

lemma orderly_simps [simp]: "orderly (Done x)" "orderly (Exit 2)" "orderly (Exit 3)"
  by (simp_all add: orderly_def)

lemma orderly_and_then: "orderly m \<Longrightarrow> (\<And>x. m = Done x \<Longrightarrow> orderly (f x)) \<Longrightarrow> orderly (and_then m f)"
  by (cases m) (auto simp: orderly_def)

lemma choose_map_orderly:
  assumes "visual f = FB_VISUAL_TRUECOLOR \<Longrightarrow>
    bf_length (red v) \<noteq> 0 \<and> bf_length (green v) \<noteq> 0 \<and> bf_length (blue v) \<noteq> 0"
  shows "orderly (choose_map e f v)"
  using assms true_cmap_some [of v "stack_cmap e"]
  by (auto simp: choose_map_def split: option.split)

lemma choose_map_mono:
  "choose_map e f v = Done (cm, m, bz) \<Longrightarrow>
     m \<longleftrightarrow> visual f = FB_VISUAL_MONO01 \<or> visual f = FB_VISUAL_MONO10"
  by (auto simp: choose_map_def and_then_Done_iff split: if_splits option.splits)

lemma read_memory_orderly: "orderly (read_memory e f v)"
  by (auto simp: read_memory_def Let_def split: option.split)

text \<open>The memory that is dumped holds every visible line of the description it is dumped with.\<close>

lemma read_memory_fits:
  assumes read: "read_memory e f v = Done (mem, v')"
    and map: "\<forall>n mem. mapping e n = Some mem \<longrightarrow> unat n \<le> length mem"
    and g: "(unat (yres v) + unat (yoffset v)) * unat (line_length f) < 2 ^ 32"
  shows "unat (line_length f) * (unat (yres v') + unat (yoffset v')) \<le> length mem \<and>
    (v' = v \<or> v' = v\<lparr>yoffset := 0\<rparr>)"
proof (cases "mapping e (line_length f * (yres v + yoffset v))")
  case (Some m)
  have "line_length f * (yres v + yoffset v) =
      of_nat ((unat (yres v) + unat (yoffset v)) * unat (line_length f))" by (simp add: mult.commute)
  then have "unat (line_length f * (yres v + yoffset v)) =
      (unat (yres v) + unat (yoffset v)) * unat (line_length f)"
    using unat_small [OF g] by (simp only:)
  with Some read map [rule_format, OF Some] show ?thesis
    by (simp add: read_memory_def mult.commute)
next
  case None
  have "unat (yres v) * unat (line_length f) < 2 ^ 32"
    using g by (simp add: algebra_simps)
  then have "unat (line_length f * yres v) = unat (yres v) * unat (line_length f)"
    using unat_small [of "unat (yres v) * unat (line_length f)"] by (simp add: mult.commute)
  with None read show ?thesis
    by (auto simp: read_memory_def Let_def mult.commute split: if_splits option.splits)
qed

lemma unpan_ok:
  "geometry_ok v ll \<Longrightarrow> geometry_ok (v\<lparr>yoffset := 0\<rparr>) ll"
  "mono_ok v ll \<Longrightarrow> mono_ok (v\<lparr>yoffset := 0\<rparr>) ll"
proof -
  have "unat (yres v) * unat ll \<le> (unat (yres v) + unat (yoffset v)) * unat ll"
    by (rule mult_le_mono1) simp
  from le_less_trans [OF this, of "2 ^ 32"]
  show "geometry_ok v ll \<Longrightarrow> geometry_ok (v\<lparr>yoffset := 0\<rparr>) ll"
    "mono_ok v ll \<Longrightarrow> mono_ok (v\<lparr>yoffset := 0\<rparr>) ll"
    by (simp_all add: geometry_ok_def mono_ok_def pixel_bytes_def)
qed

lemma dump_orderly:
  assumes "unat ll * (unat (yres v) + unat (yoffset v)) \<le> length mem"
  shows "geometry_ok v ll \<Longrightarrow> orderly (dump_video_memory wr mok mem v cm ll)"
    and "mono_ok v ll \<Longrightarrow> orderly (dump_video_memory_mono wr mok mem v bz ll)"
  using dump_video_memory_outcome [OF _ assms, of wr mok cm]
    dump_video_memory_mono_outcome [OF _ assms, of wr mok bz]
  by (auto split: if_splits)

lemma fbcat_dump_orderly:
  assumes e: "env_consistent e"
  shows "orderly (fbcat_dump e)"
proof (cases "get_fscreeninfo e")
  case None
  then show ?thesis by (simp add: fbcat_dump_def)
next
  case (Some f)
  show ?thesis
  proof (cases "get_vscreeninfo e")
    case None
    with Some show ?thesis by (simp add: fbcat_dump_def)
  next
    case v: (Some v)
    from e Some v have ok: "description_ok f v" and map: "\<forall>n mem. mapping e n = Some mem \<longrightarrow> unat n \<le> length mem"
      by (auto simp: env_consistent_def)
    have g: "(unat (yres v) + unat (yoffset v)) * unat (line_length f) < 2 ^ 32"
      using ok by (auto simp: description_ok_def geometry_ok_def mono_ok_def split: if_splits)
    have dump: "orderly (if m then dump_video_memory_mono (written e) (malloc_ok e) mem v' bz (line_length f)
        else dump_video_memory (written e) (malloc_ok e) mem v' cm (line_length f))"
      if c: "choose_map e f (fb_var.truncate v) = Done (cm, m, bz)"
        and r: "read_memory e f v = Done (mem, v')" for cm m bz mem v'
    proof -
      from read_memory_fits [OF r map g] have fits:
        "unat (line_length f) * (unat (yres v') + unat (yoffset v')) \<le> length mem"
        and v': "v' = v \<or> v' = v\<lparr>yoffset := 0\<rparr>" by blast+
      have "if m then mono_ok v' (line_length f) else geometry_ok v' (line_length f)"
        using ok v' unpan_ok choose_map_mono [OF c] by (auto simp: description_ok_def)
      with dump_orderly [OF fits] show ?thesis by (cases m) simp_all
    qed
    have "orderly (choose_map e f (fb_var.truncate v))"
      by (rule choose_map_orderly) (use ok in \<open>simp add: description_ok_def\<close>)
    with dump show ?thesis
      unfolding fbcat_dump_def Some v option.case
      by (auto intro!: orderly_and_then read_memory_orderly)
  qed
qed

lemma fbcat_main_orderly:
  assumes "env_consistent e"
  shows "if tty e \<or> 1 < length (args e) then fbcat_main e = Exit 1 else orderly (fbcat_main e)"
  using fbcat_dump_orderly [OF assms] by (auto simp: fbcat_main_def intro: orderly_and_then)

end
