(* ===== verification/Fb_Str.thy ===== *)
theory Fb_Str
  imports Fbcat
begin

text \<open>
  \<open>fb_str.c\<close>, the test program that writes text into a framebuffer (the same file is in
  \<open>fbdev/tests\<close> and in \<open>drm/drm_simple_display_pipe/tests\<close>). The mapped screen is a list of bytes;
  a store outside it is a crash. The font is a parameter: the table of 256 glyphs of 16 bytes at
  the head of the file is data that no theorem depends on.
\<close>

section \<open>State\<close>

text \<open>The global variables that \<open>main\<close> sets from the screen's description.\<close>

record screen =
  scr_xres :: u32
  scr_bpp :: u32
  line_width :: u32
  pixel_width :: u32

definition store :: "u8 list \<Rightarrow> nat \<Rightarrow> u8 list \<Rightarrow> u8 list option" where
  "store mem a bs =
     (if a + length bs \<le> length mem then Some (take a mem @ bs @ drop (a + length bs) mem) else None)"

text \<open>Little-endian stores of 2 and 4 bytes.\<close>

definition le16 :: "u32 \<Rightarrow> u8 list" where
  "le16 v = [ucast v, ucast (drop_bit 8 v)]"

definition le32 :: "u32 \<Rightarrow> u8 list" where
  "le32 v = [ucast v, ucast (drop_bit 8 v), ucast (drop_bit 16 v), ucast (drop_bit 24 v)]"

definition rgb565 :: "u32 \<Rightarrow> u32" where
  "rgb565 color =
     (let r = drop_bit 16 color AND 0xff;
          g = drop_bit 8 color AND 0xff;
          b = color AND 0xff
      in push_bit 11 (drop_bit 3 r) OR push_bit 5 (drop_bit 2 g) OR drop_bit 3 b)"

section \<open>Drawing\<close>

text \<open>
  The bytes of one pixel, or \<open>None\<close> for a depth that only prints a message. The address is the sum
  of two 32-bit products and the base.
\<close>

definition pixel_data :: "u32 \<Rightarrow> u32 \<Rightarrow> u8 list option" where
  "pixel_data bpp color =
     (if bpp = 8 then Some [ucast color]
      else if bpp = 16 then Some (le16 (rgb565 color))
      else if bpp = 32 then Some (le32 color)
      else None)"

definition lcd_put_pixel :: "screen \<Rightarrow> c_int \<Rightarrow> c_int \<Rightarrow> u32 \<Rightarrow> u8 list \<Rightarrow> u8 list option" where
  "lcd_put_pixel s x y color mem =
     (case pixel_data (scr_bpp s) color of
        None \<Rightarrow> Some mem
      | Some bs \<Rightarrow> store mem (unat (y * line_width s) + unat (x * pixel_width s)) bs)"

fun put_pixels :: "screen \<Rightarrow> (c_int \<times> c_int \<times> u32) list \<Rightarrow> u8 list \<Rightarrow> u8 list option" where
  "put_pixels s [] mem = Some mem"
| "put_pixels s ((x, y, color) # ps) mem =
     (case lcd_put_pixel s x y color mem of None \<Rightarrow> None | Some mem' \<Rightarrow> put_pixels s ps mem')"

text \<open>
  The two loops over a glyph: 16 rows from the top, in each the bits from 7 down to 0; a bit that is
  not set is drawn black.
\<close>

definition glyph_row :: "u8 list \<Rightarrow> u8 \<Rightarrow> nat \<Rightarrow> u8" where
  "glyph_row font c row = font ! (unat c * 16 + row)"

definition ascii_pixels ::
    "u8 list \<Rightarrow> c_int \<Rightarrow> c_int \<Rightarrow> u32 \<Rightarrow> u8 \<Rightarrow> (c_int \<times> c_int \<times> u32) list" where
  "ascii_pixels font x y color c =
     concat (map (\<lambda>row. map (\<lambda>column.
         (x + 7 - of_nat column, y + of_nat row,
          if bit (glyph_row font c row) column then color else 0))
       (rev [0..<8])) [0..<16])"

definition lcd_put_ascii ::
    "u8 list \<Rightarrow> screen \<Rightarrow> c_int \<Rightarrow> c_int \<Rightarrow> u32 \<Rightarrow> u8 \<Rightarrow> u8 list \<Rightarrow> u8 list option" where
  "lcd_put_ascii font s x y color c mem = put_pixels s (ascii_pixels font x y color c) mem"

text \<open>
  The loop over the string and its final zero byte; bytes with the top bit set are skipped. A cell
  that reaches the right margin moves to the next line, and line 64 moves back to the top.
\<close>

fun string_loop ::
    "u8 list \<Rightarrow> screen \<Rightarrow> u32 \<Rightarrow> u8 list \<Rightarrow> c_int \<Rightarrow> c_int \<Rightarrow> c_int \<Rightarrow> u8 list \<Rightarrow> u8 list option" where
  "string_loop font s color [] x y temp_index mem = Some mem"
| "string_loop font s color (dots # str) x y temp_index mem =
     (let ascii = dots AND 0x80 \<noteq> 0x80
      in case (if ascii then lcd_put_ascii font s (x + temp_index * 8) y color dots mem
               else Some mem) of
        None \<Rightarrow> None
      | Some mem' \<Rightarrow>
          let t = (if ascii then temp_index + 1 else temp_index);
              wrap = scr_xres s - (x + t * 8) \<le> 16;
              (x', y', t') = (if wrap then (0, y + 16, 0) else (x, y, t));
              (x', y') = (if y' = 64 then (0, 0) else (x', y'))
          in string_loop font s color str x' y' t' mem')"

definition lcd_put_string ::
    "u8 list \<Rightarrow> screen \<Rightarrow> c_int \<Rightarrow> c_int \<Rightarrow> u32 \<Rightarrow> u8 list \<Rightarrow> u8 list \<Rightarrow> u8 list option" where
  "lcd_put_string font s x y color str mem = string_loop font s color (str @ [0]) x y 0 mem"

section \<open>The main function\<close>

text \<open>\<open>atoi\<close>: blanks, a sign, digits; what follows is ignored.\<close>

definition is_digit :: "char \<Rightarrow> bool" where
  "is_digit c \<longleftrightarrow> 48 \<le> (of_char c :: nat) \<and> (of_char c :: nat) \<le> 57"

definition is_blank :: "char \<Rightarrow> bool" where
  "is_blank c \<longleftrightarrow> (of_char c :: nat) = 32 \<or> 9 \<le> (of_char c :: nat) \<and> (of_char c :: nat) \<le> 13"

definition atoi :: "string \<Rightarrow> c_int" where
  "atoi cs = (case dropWhile is_blank cs of
     [] \<Rightarrow> 0
   | c # cs' \<Rightarrow>
       if c = CHR ''-'' then - of_nat (read_dec (takeWhile is_digit cs'))
       else if c = CHR ''+'' then of_nat (read_dec (takeWhile is_digit cs'))
       else of_nat (read_dec (takeWhile is_digit (c # cs'))))"

definition screen_of :: "fb_var \<Rightarrow> screen" where
  "screen_of v = \<lparr>scr_xres = xres v, scr_bpp = bits_per_pixel v,
     line_width = xres v * bits_per_pixel v div 8, pixel_width = bits_per_pixel v div 8\<rparr>"

definition screen_size :: "fb_var \<Rightarrow> u32" where
  "screen_size v = xres v * yres v * bits_per_pixel v div 8"

text \<open>
  \<open>argv\<close> is the argument list without the program's name. \<open>fb\<close> is the description of the device
  (\<open>None\<close>: it cannot be opened or asked), \<open>map\<close> the mapping of as many bytes as it is given. The
  result is the exit status and the mapping after the program wrote to it.
\<close>

definition fb_str_main ::
    "u8 list \<Rightarrow> string list \<Rightarrow> fb_var option \<Rightarrow> (u32 \<Rightarrow> u8 list option)
      \<Rightarrow> (c_int \<times> u8 list option) outcome" where
  "fb_str_main font argv fb mmap =
     (if argv = [] then Done (- 1, None)
      else case fb of
        None \<Rightarrow> Done (- 1, None)
      | Some v \<Rightarrow>
          if length argv = 3 \<and> (atoi (argv ! 0) > xres v \<or> atoi (argv ! 1) > yres v)
          then Done (- 1, None)
          else case mmap (screen_size v) of
            None \<Rightarrow> Done (- 1, None)
          | Some mem \<Rightarrow>
              let s = screen_of v;
                  drawn = (if length argv = 3
                    then lcd_put_string font s (atoi (argv ! 0)) (atoi (argv ! 1)) 0xFFFFFF
                           (text_bytes (argv ! 2)) mem
                    else if length argv = 4
                    then lcd_put_string font s (atoi (argv ! 0)) (atoi (argv ! 1)) (atoi (argv ! 2))
                           (text_bytes (argv ! 3)) mem
                    else lcd_put_string font s 0 0 0xFFFFFF (text_bytes (argv ! 0)) mem)
              in (case drawn of None \<Rightarrow> Crash | Some mem' \<Rightarrow> Done (0, Some mem')))"

end
