(* ===== verification/Fb_Str_Spec.thy ===== *)
theory Fb_Str_Spec
  imports Fb_Str
begin

text \<open>
  What \<open>fb_str.c\<close> draws: one pixel, one glyph, the cells a string occupies, and why a string drawn
  from the origin stays on the screen of the driver however long it is.
\<close>

section \<open>Pixels of a screen\<close>

text \<open>Pixel \<open>i\<close> of a memory of pixels of \<open>P\<close> bytes.\<close>

definition px :: "nat \<Rightarrow> u8 list \<Rightarrow> nat \<Rightarrow> u8 list" where
  "px P mem i = take P (drop (i * P) mem)"

lemma px_nth: "i * P + P \<le> length mem \<Longrightarrow> k < P \<Longrightarrow> px P mem i ! k = mem ! (i * P + k)"
  by (simp add: px_def)

lemma px_length: "i * P + P \<le> length mem \<Longrightarrow> length (px P mem i) = P"
  by (simp add: px_def)

lemma store_Some:
  "a + length bs \<le> length mem \<Longrightarrow> \<exists>mem'. store mem a bs = Some mem'"
  by (simp add: store_def)

lemma store_length: "store mem a bs = Some mem' \<Longrightarrow> length mem' = length mem"
  by (auto simp: store_def split: if_splits)

lemma store_nth:
  "store mem a bs = Some mem' \<Longrightarrow> k < length mem \<Longrightarrow>
     mem' ! k = (if a \<le> k \<and> k < a + length bs then bs ! (k - a) else mem ! k)"
  by (auto simp: store_def nth_append min_def split: if_splits)

lemma cells_apart: "i \<noteq> j \<Longrightarrow> k < P \<Longrightarrow> \<not> (i * P \<le> j * P + k \<and> j * P + k < i * P + P)" for i j k P :: nat
proof (rule notI, elim conjE)
  assume ij: "i \<noteq> j" and k: "k < P" and lo: "i * P \<le> j * P + k" and hi: "j * P + k < i * P + P"
  have "(j * P + k) div P = j" "(j * P + k) div P = i"
    using k lo hi by (simp, intro div_nat_eqI) (simp_all add: algebra_simps)
  with ij show False by simp
qed

lemma store_px:
  assumes st: "store mem (i * P) bs = Some mem'" and bs: "length bs = P"
    and j: "j * P + P \<le> length mem" and i: "i * P + P \<le> length mem"
  shows "px P mem' j = (if j = i then bs else px P mem j)"
proof (rule nth_equalityI)
  show "length (px P mem' j) = length (if j = i then bs else px P mem j)"
    using j bs store_length [OF st] by (simp add: px_length)
next
  fix k assume "k < length (px P mem' j)"
  then have k: "k < P" using j store_length [OF st] by (simp add: px_length)
  have "px P mem' j ! k = mem' ! (j * P + k)"
    using j k store_length [OF st] by (simp add: px_nth)
  also have "\<dots> = (if j = i then bs ! k else mem ! (j * P + k))"
    using store_nth [OF st, of "j * P + k"] j k bs cells_apart [of i j k P] by (cases "j = i") auto
  finally show "px P mem' j ! k = (if j = i then bs else px P mem j) ! k"
    using j k by (simp add: px_nth)
qed

text \<open>A screen of \<open>W\<close> by \<open>H\<close> pixels of \<open>P\<close> bytes, small enough for 32-bit addresses.\<close>

definition screen_ok :: "screen \<Rightarrow> nat \<Rightarrow> nat \<Rightarrow> nat \<Rightarrow> bool" where
  "screen_ok s W H P \<longleftrightarrow> P \<in> {1, 2, 4} \<and> scr_xres s = of_nat W \<and> scr_bpp s = of_nat (8 * P) \<and>
     line_width s = of_nat (W * P) \<and> pixel_width s = of_nat P \<and> W * H * P < 2 ^ 31 \<and> 0 < H"

definition colour_bytes :: "nat \<Rightarrow> u32 \<Rightarrow> u8 list" where
  "colour_bytes P color =
     (if P = 1 then [ucast color] else if P = 2 then le16 (rgb565 color) else le32 color)"

lemma colour_bytes_length: "P \<in> {1, 2, 4} \<Longrightarrow> length (colour_bytes P color) = P"
  by (auto simp: colour_bytes_def le16_def le32_def)

lemma pixel_data_ok: "P \<in> {1, 2, 4} \<Longrightarrow> pixel_data (of_nat (8 * P)) color = Some (colour_bytes P color)"
  by (auto simp: pixel_data_def colour_bytes_def)

lemma unat_of_nat_small: "n < 2 ^ 31 \<Longrightarrow> unat (of_nat n :: u32) = n"
  by (simp add: unat_of_nat take_bit_nat_eq_self unsigned_of_nat)

lemma pixel_index: "x < W \<Longrightarrow> y < H \<Longrightarrow> y * W + x < W * H" for x y W H :: nat
proof -
  assume "x < W" "y < H"
  then have "y * W + x < (y + 1) * W" "(y + 1) * W \<le> H * W" by (simp, intro mult_le_mono1) simp
  then show ?thesis by (simp add: mult.commute)
qed

lemma lcd_put_pixel_ok:
  assumes s: "screen_ok s W H P" and xy: "x < W" "y < H" and mem: "length mem = W * H * P"
  shows "\<exists>mem'. lcd_put_pixel s (of_nat x) (of_nat y) color mem = Some mem' \<and>
    length mem' = length mem \<and>
    (\<forall>j < W * H. px P mem' j = (if j = y * W + x then colour_bytes P color else px P mem j))"
proof -
  let ?i = "y * W + x"
  have P: "P \<in> {1, 2, 4}" using s by (simp add: screen_ok_def)
  have i: "?i < W * H" using xy by (rule pixel_index)
  have fit: "j * P + P \<le> W * H * P" if "j < W * H" for j
    using that mult_le_mono1 [of "j + 1" "W * H" P] by simp
  have "W * H * P < 2 ^ 31" using s by (simp add: screen_ok_def)
  with fit [OF i] have lt: "?i * P < 2 ^ 31" by linarith
  have "y * (W * P) \<le> ?i * P" "x * P \<le> ?i * P" by (simp_all add: algebra_simps)
  from le_less_trans [OF this(1) lt] le_less_trans [OF this(2) lt] have "unat (of_nat y * line_width s) + unat (of_nat x * pixel_width s) = ?i * P"
    using unat_of_nat_small [of "y * (W * P)"] unat_of_nat_small [of "x * P"] s
    by (simp add: screen_ok_def algebra_simps)
  then have put: "lcd_put_pixel s (of_nat x) (of_nat y) color mem =
      store mem (?i * P) (colour_bytes P color)"
    using pixel_data_ok [OF P] s by (simp add: lcd_put_pixel_def screen_ok_def)
  from fit [OF i] mem obtain mem' where st: "store mem (?i * P) (colour_bytes P color) = Some mem'"
    using store_Some [of "?i * P" "colour_bytes P color" mem] colour_bytes_length [OF P] by auto
  with put show ?thesis
    using store_length [OF st] store_px [OF st colour_bytes_length [OF P]] fit i mem by simp
qed

section \<open>Many pixels\<close>

abbreviation conv :: "nat \<times> nat \<times> u32 \<Rightarrow> c_int \<times> c_int \<times> u32" where
  "conv \<equiv> (\<lambda>(x, y, c). (of_nat x, of_nat y, c))"

abbreviation place :: "nat \<Rightarrow> nat \<times> nat \<times> u32 \<Rightarrow> nat" where
  "place W \<equiv> (\<lambda>(x, y, c). y * W + x)"

lemma put_pixels_ok:
  assumes s: "screen_ok s W H P"
  shows "length mem = W * H * P \<Longrightarrow> \<forall>(x, y, c)\<in>set ps. x < W \<and> y < H \<Longrightarrow>
    distinct (map (place W) ps) \<Longrightarrow>
    \<exists>mem'. put_pixels s (map conv ps) mem = Some mem' \<and> length mem' = length mem \<and>
      (\<forall>(x, y, c)\<in>set ps. px P mem' (y * W + x) = colour_bytes P c) \<and>
      (\<forall>j < W * H. j \<notin> set (map (place W) ps) \<longrightarrow> px P mem' j = px P mem j)"
proof (induction ps arbitrary: mem)
  case Nil
  then show ?case by simp
next
  case (Cons p ps)
  obtain x y c where p: "p = (x, y, c)" by (cases p)
  from Cons.prems p have xy: "x < W" "y < H" by auto
  from lcd_put_pixel_ok [OF s xy Cons.prems(1), of c] obtain mem1 where
    put: "lcd_put_pixel s (of_nat x) (of_nat y) c mem = Some mem1" and len: "length mem1 = length mem"
    and px1: "\<forall>j < W * H. px P mem1 j = (if j = y * W + x then colour_bytes P c else px P mem j)"
    by blast
  from Cons.IH [of mem1] Cons.prems len obtain mem' where
    rest: "put_pixels s (map conv ps) mem1 = Some mem'" and len': "length mem' = length mem1"
    and new: "\<forall>(x, y, c)\<in>set ps. px P mem' (y * W + x) = colour_bytes P c"
    and old: "\<forall>j < W * H. j \<notin> set (map (place W) ps) \<longrightarrow> px P mem' j = px P mem1 j"
    by auto
  have "y * W + x \<notin> set (map (place W) ps)" using Cons.prems(3) p by simp
  with old px1 pixel_index [OF xy] have "px P mem' (y * W + x) = colour_bytes P c" by simp
  with put rest len len' new old px1 p show ?case by auto
qed

section \<open>One glyph\<close>

definition glyph :: "u8 list \<Rightarrow> nat \<Rightarrow> nat \<Rightarrow> u32 \<Rightarrow> u8 \<Rightarrow> (nat \<times> nat \<times> u32) list" where
  "glyph font x y color c =
     concat (map (\<lambda>row. map (\<lambda>column.
         (x + 7 - column, y + row, if bit (glyph_row font c row) column then color else 0))
       (rev [0..<8])) [0..<16])"

lemma ascii_pixels_glyph:
  "ascii_pixels font (of_nat x) (of_nat y) color c = map conv (glyph font x y color c)"
  unfolding ascii_pixels_def glyph_def map_concat map_map
  by (intro arg_cong [of _ _ concat] map_cong refl) (simp add: of_nat_diff)

lemma glyph_mem:
  "(u, v, d) \<in> set (glyph font x y color c) \<longleftrightarrow>
     x \<le> u \<and> u < x + 8 \<and> y \<le> v \<and> v < y + 16 \<and>
     d = (if bit (glyph_row font c (v - y)) (7 - (u - x)) then color else 0)"
proof
  assume "(u, v, d) \<in> set (glyph font x y color c)"
  then show "x \<le> u \<and> u < x + 8 \<and> y \<le> v \<and> v < y + 16 \<and>
     d = (if bit (glyph_row font c (v - y)) (7 - (u - x)) then color else 0)"
    by (auto simp: glyph_def)
next
  assume *: "x \<le> u \<and> u < x + 8 \<and> y \<le> v \<and> v < y + 16 \<and>
     d = (if bit (glyph_row font c (v - y)) (7 - (u - x)) then color else 0)"
  then have "7 - (u - x) \<in> set (rev [0..<8])" "v - y \<in> set [0..<16]"
    "x + 7 - (7 - (u - x)) = u" "y + (v - y) = v" by auto
  with * show "(u, v, d) \<in> set (glyph font x y color c)"
    unfolding glyph_def set_concat set_map by (auto intro!: bexI image_eqI)
qed

lemma glyph_distinct:
  assumes "x + 8 \<le> W"
  shows "distinct (map (place W) (glyph font x y color c))"
proof -
  have "map (place W) (glyph font x y color c) =
      map (\<lambda>(r, k). (y + r) * W + (x + 7 - k)) (List.product [0..<16] (rev [0..<8]))"
    by (simp add: glyph_def map_concat product_concat_map comp_def)
  moreover have "inj_on (\<lambda>(r, k). (y + r) * W + (x + 7 - k)) (set (List.product [0..<16] (rev [0..<8])))"
  proof (rule inj_onI)
    fix p q :: "nat \<times> nat"
    assume pq: "p \<in> set (List.product [0..<16] (rev [0..<8]))"
      "q \<in> set (List.product [0..<16] (rev [0..<8]))"
      and eq: "(\<lambda>(r, k). (y + r) * W + (x + 7 - k)) p = (\<lambda>(r, k). (y + r) * W + (x + 7 - k)) q"
    obtain r k r' k' where p: "p = (r, k)" "q = (r', k')" by (metis surj_pair)
    with pq have k: "k < 8" "k' < 8" by auto
    with assms have lt: "x + 7 - k < W" "x + 7 - k' < W" by simp_all
    from eq p have eq: "(y + r) * W + (x + 7 - k) = (y + r') * W + (x + 7 - k')" by simp
    from arg_cong [OF eq, of "\<lambda>n. n div W"] lt have "r = r'" by simp
    moreover from arg_cong [OF eq, of "\<lambda>n. n mod W"] lt have "x + 7 - k = x + 7 - k'" by simp
    ultimately show "p = q" using k p by simp
  qed
  ultimately show ?thesis by (simp add: distinct_map distinct_product)
qed

text \<open>A glyph that fits on the screen is drawn bit by bit, and nothing else changes.\<close>

lemma lcd_put_ascii_ok:
  assumes s: "screen_ok s W H P" and fit: "x + 8 \<le> W" "y + 16 \<le> H"
    and mem: "length mem = W * H * P"
  shows "\<exists>mem'. lcd_put_ascii font s (of_nat x) (of_nat y) color c mem = Some mem' \<and>
    length mem' = length mem \<and>
    (\<forall>u < W. \<forall>v < H. px P mem' (v * W + u) =
      (if x \<le> u \<and> u < x + 8 \<and> y \<le> v \<and> v < y + 16
       then colour_bytes P (if bit (glyph_row font c (v - y)) (7 - (u - x)) then color else 0)
       else px P mem (v * W + u)))"
proof -
  have inside: "\<forall>(u, v, d)\<in>set (glyph font x y color c). u < W \<and> v < H"
    using fit by (auto simp: glyph_mem)
  from put_pixels_ok [OF s mem inside glyph_distinct [OF fit(1)]] obtain mem' where
    put: "put_pixels s (map conv (glyph font x y color c)) mem = Some mem'"
    and len: "length mem' = length mem"
    and new: "\<forall>(u, v, d)\<in>set (glyph font x y color c). px P mem' (v * W + u) = colour_bytes P d"
    and old: "\<forall>j < W * H. j \<notin> set (map (place W) (glyph font x y color c)) \<longrightarrow>
      px P mem' j = px P mem j"
    by blast
  have "px P mem' (v * W + u) = px P mem (v * W + u)"
    if uv: "u < W" "v < H" and out: "\<not> (x \<le> u \<and> u < x + 8 \<and> y \<le> v \<and> v < y + 16)" for u v
  proof -
    have "v * W + u \<notin> set (map (place W) (glyph font x y color c))"
    proof
      assume "v * W + u \<in> set (map (place W) (glyph font x y color c))"
      then obtain u' v' d where m: "(u', v', d) \<in> set (glyph font x y color c)"
        and eq: "v * W + u = v' * W + u'" by auto
      from m fit have "u' < W" by (auto simp: glyph_mem)
      with arg_cong [OF eq, of "\<lambda>n. n div W"] arg_cong [OF eq, of "\<lambda>n. n mod W"] uv
      have "v = v'" "u = u'" by simp_all
      with m out show False by (auto simp: glyph_mem)
    qed
    with old pixel_index [OF uv] show ?thesis by blast
  qed
  moreover have "px P mem' (v * W + u) =
      colour_bytes P (if bit (glyph_row font c (v - y)) (7 - (u - x)) then color else 0)"
    if "x \<le> u \<and> u < x + 8 \<and> y \<le> v \<and> v < y + 16" for u v
  proof -
    have "(u, v, if bit (glyph_row font c (v - y)) (7 - (u - x)) then color else 0)
        \<in> set (glyph font x y color c)" using that by (simp add: glyph_mem)
    from new [rule_format, OF this] show ?thesis by simp
  qed
  ultimately show ?thesis
    using put len by (auto simp: lcd_put_ascii_def ascii_pixels_glyph)
qed

section \<open>A string\<close>

text \<open>
  A string that starts at the origin fills cells of 8 by 16 pixels, four lines of them, and begins
  again at the top when they are full. Cell \<open>k\<close> of a screen of width \<open>W\<close>:
\<close>

definition per_line :: "nat \<Rightarrow> nat" where
  "per_line W = (W - 9) div 8"

definition cell :: "nat \<Rightarrow> nat \<Rightarrow> nat \<times> nat" where
  "cell W k = (8 * (k mod per_line W), 16 * (k div per_line W mod 4))"

definition printed :: "u8 list \<Rightarrow> u8 list" where
  "printed str = filter (\<lambda>c. c AND 0x80 \<noteq> 0x80) str"

fun draw_cells ::
    "u8 list \<Rightarrow> screen \<Rightarrow> nat \<Rightarrow> u32 \<Rightarrow> u8 list \<Rightarrow> nat \<Rightarrow> u8 list \<Rightarrow> u8 list option" where
  "draw_cells font s W color [] k mem = Some mem"
| "draw_cells font s W color (c # cs) k mem =
     (case cell W k of (x, y) \<Rightarrow>
       case lcd_put_ascii font s (of_nat x) (of_nat y) color c mem of
         None \<Rightarrow> None
       | Some mem' \<Rightarrow> draw_cells font s W color cs (k + 1) mem')"

lemma wrap_iff:
  assumes "17 \<le> W" "W < 2 ^ 31" "t \<le> per_line W"
  shows "(of_nat W :: u32) - of_nat (8 * t) \<le> 16 \<longleftrightarrow> t = per_line W"
proof -
  have le: "8 * t \<le> W" using assms by (simp add: per_line_def)
  then have "(of_nat W :: u32) - of_nat (8 * t) = of_nat (W - 8 * t)" by (simp add: of_nat_diff)
  moreover have "unat (of_nat (W - 8 * t) :: u32) = W - 8 * t"
    using assms(2) unat_of_nat_small [of "W - 8 * t"] by simp
  ultimately have "(of_nat W :: u32) - of_nat (8 * t) \<le> 16 \<longleftrightarrow> W - 8 * t \<le> 16"
    by (simp add: word_le_nat_alt)
  also have "\<dots> \<longleftrightarrow> t = per_line W" using assms le by (simp add: per_line_def) linarith
  finally show ?thesis .
qed

lemma next_cell:
  assumes "0 < m"
  shows "Suc k mod m = (if Suc (k mod m) = m then 0 else Suc (k mod m))"
    and "Suc k div m = (if Suc (k mod m) = m then Suc (k div m) else k div m)"
  using assms by (simp_all add: mod_Suc div_Suc)

text \<open>One round of the loop when the line starts at column 0.\<close>

lemma string_loop_step:
  assumes "lcd_put_ascii font s (t * 8) y color c mem = Some mem'" and "c AND 0x80 \<noteq> 0x80"
  shows "string_loop font s color (c # cs) 0 y t mem =
    (if scr_xres s - (t + 1) * 8 \<le> 16
     then string_loop font s color cs 0 (if y + 16 = 64 then 0 else y + 16) 0 mem'
     else string_loop font s color cs 0 (if y = 64 then 0 else y) (t + 1) mem')"
  using assms by simp

lemma string_loop_skip:
  assumes "c AND 0x80 = 0x80" and "\<not> scr_xres s - t * 8 \<le> 16"
  shows "string_loop font s color (c # cs) 0 y t mem =
    string_loop font s color cs 0 (if y = 64 then 0 else y) t mem"
  using assms by simp

lemma row_bound: "l < 5 \<Longrightarrow> (of_nat (16 * l) :: c_int) = 64 \<longleftrightarrow> l = 4"
proof -
  assume "l < 5"
  then have "unat (of_nat (16 * l) :: c_int) = 16 * l" using unat_of_nat_small [of "16 * l"] by simp
  then show ?thesis by (simp add: word_unat_eq_iff)
qed

lemma string_loop_cells:
  assumes W: "17 \<le> W" "W < 2 ^ 31" and s: "scr_xres s = of_nat W"
  shows "string_loop font s color str 0 (of_nat (16 * (k div per_line W mod 4)))
      (of_nat (k mod per_line W)) mem =
    draw_cells font s W color (printed str) k mem"
proof (induction str arbitrary: k mem)
  case Nil
  then show ?case by (simp add: printed_def)
next
  case (Cons c cs)
  let ?m = "per_line W"
  let ?t = "k mod ?m" and ?l = "k div ?m mod 4"
  have m: "0 < ?m" using W by (simp add: per_line_def)
  then have t: "?t < ?m" by simp
  have l: "?l < 4" by simp
  show ?case
  proof (cases "c AND 0x80 \<noteq> 0x80")
    case True
    have x: "(of_nat ?t * 8 :: c_int) = of_nat (8 * ?t)" by simp
    have wrap: "scr_xres s - (of_nat ?t + 1) * 8 \<le> 16 \<longleftrightarrow> Suc ?t = ?m"
      using wrap_iff [OF W, of "Suc ?t"] t s by (simp add: algebra_simps)
    show ?thesis
    proof (cases "lcd_put_ascii font s (of_nat (8 * ?t)) (of_nat (16 * ?l)) color c mem")
      case None
      with True show ?thesis by (simp add: printed_def Let_def cell_def mult.commute)
    next
      case (Some mem')
      then have put: "lcd_put_ascii font s (of_nat ?t * 8) (of_nat (16 * ?l)) color c mem = Some mem'"
        by (simp only: x)
      have draw: "draw_cells font s W color (printed (c # cs)) k mem =
          draw_cells font s W color (printed cs) (Suc k) mem'"
        using Some True by (simp add: printed_def cell_def)
      show ?thesis
      proof (cases "Suc ?t = ?m")
        case True': True
        have "Suc k mod ?m = 0" and q: "Suc k div ?m = Suc (k div ?m)"
          using next_cell [OF m, of k] True' by simp_all
        moreover have "(if of_nat (16 * ?l) + 16 = (64 :: c_int) then 0 else of_nat (16 * ?l) + 16) =
            (of_nat (16 * (Suc (k div ?m) mod 4)) :: c_int)"
          using row_bound [of "Suc ?l"] l by (simp add: mod_Suc)
        ultimately show ?thesis
          using Cons.IH [of "Suc k" mem']
          unfolding draw string_loop_step [OF put True] by (simp only: wrap True' if_True semiring_1_class.of_nat_0 simp_thms)
      next
        case False
        have "Suc k mod ?m = Suc ?t" and "Suc k div ?m = k div ?m"
          using next_cell [OF m, of k] False by simp_all
        moreover have "(of_nat (16 * ?l) :: c_int) \<noteq> 64"
          using row_bound [of ?l] l by simp
        ultimately show ?thesis
          using Cons.IH [of "Suc k" mem'] False
          unfolding draw string_loop_step [OF put True]
          by (simp only: wrap if_False of_nat_Suc add.commute [of 1 "of_nat ?t"])
      qed
    qed
  next
    case False
    have wrap: "\<not> scr_xres s - of_nat ?t * 8 \<le> 16"
      using wrap_iff [OF W, of ?t] t s by (simp add: mult.commute)
    have "(of_nat (16 * ?l) :: c_int) \<noteq> 64" using row_bound [of ?l] l by simp
    with Cons.IH [of k mem] string_loop_skip [OF _ wrap, of c] False show ?thesis
      by (simp add: printed_def del: string_loop.simps)
  qed
qed

lemma cell_fits:
  assumes "17 \<le> W" and "cell W k = (x, y)"
  shows "x + 8 \<le> W \<and> y + 16 \<le> 64"
proof -
  have "0 < per_line W" using assms(1) by (simp add: per_line_def)
  then have "k mod per_line W < per_line W" by simp
  moreover have "8 * per_line W \<le> W - 9" by (simp add: per_line_def)
  moreover have "k div per_line W mod 4 < 4" by simp
  ultimately show ?thesis using assms by (auto simp: cell_def)
qed

text \<open>However long the string, the cells stay in the first 64 lines.\<close>

lemma draw_cells_ok:
  assumes s: "screen_ok s W H P" and W: "17 \<le> W" and H: "64 \<le> H"
  shows "length mem = W * H * P \<Longrightarrow>
    \<exists>mem'. draw_cells font s W color cs k mem = Some mem' \<and> length mem' = length mem \<and>
      (\<forall>u < W. \<forall>v < H. 64 \<le> v \<longrightarrow> px P mem' (v * W + u) = px P mem (v * W + u))"
proof (induction cs arbitrary: k mem)
  case Nil
  then show ?case by simp
next
  case (Cons c cs)
  obtain x y where cell: "cell W k = (x, y)" by (cases "cell W k")
  with cell_fits [OF W cell] H have fit: "x + 8 \<le> W" "y + 16 \<le> H" and y: "y + 16 \<le> 64" by simp_all
  from lcd_put_ascii_ok [OF s fit Cons.prems, of font color c] obtain mem1 where
    put: "lcd_put_ascii font s (of_nat x) (of_nat y) color c mem = Some mem1"
    and len: "length mem1 = length mem"
    and px1: "\<forall>u < W. \<forall>v < H. px P mem1 (v * W + u) =
      (if x \<le> u \<and> u < x + 8 \<and> y \<le> v \<and> v < y + 16
       then colour_bytes P (if bit (glyph_row font c (v - y)) (7 - (u - x)) then color else 0)
       else px P mem (v * W + u))"
    by blast
  from Cons.IH [of mem1 "Suc k"] Cons.prems len obtain mem' where
    "draw_cells font s W color cs (Suc k) mem1 = Some mem'" "length mem' = length mem1"
    "\<forall>u < W. \<forall>v < H. 64 \<le> v \<longrightarrow> px P mem' (v * W + u) = px P mem1 (v * W + u)"
    by auto
  with put len px1 y cell show ?case by auto
qed

lemma screen_ok_width: "screen_ok s W H P \<Longrightarrow> W < 2 ^ 31"
proof -
  assume "screen_ok s W H P"
  then have "W * H * P < 2 ^ 31" "0 < H" "0 < P" by (auto simp: screen_ok_def)
  have "W * 1 * 1 \<le> W * H * P"
    by (intro mult_le_mono) (use \<open>0 < H\<close> \<open>0 < P\<close> in simp_all)
  then have "W \<le> W * H * P" by (simp only: mult_1_right)
  with \<open>W * H * P < 2 ^ 31\<close> show ?thesis by (rule le_less_trans [rotated])
qed

lemma lcd_put_string_origin:
  assumes s: "screen_ok s W H P" and W: "17 \<le> W"
  shows "lcd_put_string font s 0 0 color str mem =
    draw_cells font s W color (printed (str @ [0])) 0 mem"
  using string_loop_cells [OF W screen_ok_width [OF s], of s font color "str @ [0]" 0 mem] s
  by (simp add: lcd_put_string_def screen_ok_def)

text \<open>
  Nothing keeps a glyph off the right edge: columns beyond it are the first columns of the next
  line.
\<close>

lemma pixel_spills:
  assumes s: "screen_ok s W H P" and d: "d < W" and y: "Suc y < H"
  shows "lcd_put_pixel s (of_nat (W + d)) (of_nat y) color mem =
    lcd_put_pixel s (of_nat d) (of_nat (Suc y)) color mem"
proof -
  have "W * H * P < 2 ^ 31" using s by (simp add: screen_ok_def)
  then have lt: "(Suc y * W + d) * P < 2 ^ 31"
    by (rule le_less_trans [OF mult_le_mono1 [OF less_imp_le [OF pixel_index [OF d y]]]])
  have "y * (W * P) \<le> (Suc y * W + d) * P" "(W + d) * P \<le> (Suc y * W + d) * P"
    "Suc y * (W * P) \<le> (Suc y * W + d) * P" "d * P \<le> (Suc y * W + d) * P"
    by (simp_all add: algebra_simps)
  then have "unat (of_nat (y * (W * P)) :: u32) = y * (W * P)"
    "unat (of_nat ((W + d) * P) :: u32) = (W + d) * P"
    "unat (of_nat (Suc y * (W * P)) :: u32) = Suc y * (W * P)"
    "unat (of_nat (d * P) :: u32) = d * P"
    using lt unat_of_nat_small by (meson le_less_trans)+
  then have "unat (of_nat y * line_width s) + unat (of_nat (W + d) * pixel_width s) =
      unat (of_nat (Suc y) * line_width s) + unat (of_nat d * pixel_width s)"
    using s by (simp add: screen_ok_def algebra_simps flip: of_nat_mult of_nat_add of_nat_Suc)
  then show ?thesis unfolding lcd_put_pixel_def by (simp only:)
qed

end
