(* ===== verification/Rgb565.thy ===== *)
theory Rgb565
  imports Fbcat_Spec Fb_Str_Spec Fbdev_Module
begin

text \<open>
  The 16-bit colours of the framebuffer, which three programs of the repository have to agree on:
  the driver describes them with bit fields and packs palette entries, \<open>fb_str\<close> packs pixels by
  shifting, \<open>fbcat\<close> unpacks them with the driver's bit fields.
\<close>

section \<open>Packing\<close>

lemma byte_mask: "(0xff :: u32) = mask 8" "(0xffff :: u32) = mask 16"
  by (simp_all add: mask_numeral)

lemma bit_field:
  "bit (push_bit k (drop_bit j (drop_bit i c AND 0xff)) :: u32) n \<longleftrightarrow>
     n < 32 \<and> k \<le> n \<and> n - k + j < 8 \<and> bit c (n - k + j + i)"
  by (auto simp: byte_mask bit_simps ac_simps)

lemma bit_rgb565:
  "bit (rgb565 c) n \<longleftrightarrow>
     (11 \<le> n \<and> n < 16 \<and> bit c (n + 8)) \<or> (5 \<le> n \<and> n < 11 \<and> bit c (n + 5)) \<or>
     (n < 5 \<and> bit c (n + 3))"
proof -
  have r: "bit (push_bit 11 (drop_bit 3 (drop_bit 16 c AND 0xff)) :: u32) n \<longleftrightarrow>
      11 \<le> n \<and> n < 16 \<and> bit c (n + 8)"
    using bit_field [of 11 3 16 c n] by (auto simp: le_iff_add add.commute)
  have g: "bit (push_bit 5 (drop_bit 2 (drop_bit 8 c AND 0xff)) :: u32) n \<longleftrightarrow>
      5 \<le> n \<and> n < 11 \<and> bit c (n + 5)"
    using bit_field [of 5 2 8 c n] by (auto simp: le_iff_add add.commute)
  have b: "bit (drop_bit 3 (c AND 0xff) :: u32) n \<longleftrightarrow> n < 5 \<and> bit c (n + 3)"
    using bit_field [of 0 3 0 c n] by (auto simp: add.commute)
  show ?thesis unfolding rgb565_def Let_def bit_or_iff r g b by blast
qed

lemma rgb565_bound: "rgb565 c < 2 ^ 16"
proof -
  have "rgb565 c = take_bit 16 (rgb565 c)"
    by (rule bit_word_eqI) (auto simp: bit_take_bit_iff bit_rgb565)
  also have "\<dots> < 2 ^ 16"
    by (simp add: word_less_nat_alt unsigned_take_bit_eq take_bit_nat_less_exp [of 16, simplified])
  finally show ?thesis .
qed

lemma bit_chan_to_field:
  assumes "unat (bf_length bf) \<le> 16"
  shows "bit (chan_to_field c bf) n \<longleftrightarrow> n < 32 \<and> unat (offset bf) \<le> n \<and>
    n - unat (offset bf) < unat (bf_length bf) \<and>
    bit c (n - unat (offset bf) + (16 - unat (bf_length bf)))"
proof -
  have "unat (16 - bf_length bf) = 16 - unat (bf_length bf)"
    using assms by (simp add: unat_sub word_le_nat_alt)
  then show ?thesis
    using assms by (auto simp: chan_to_field_def Let_def byte_mask bit_simps add.commute)
qed

text \<open>The driver's palette entry and the pixel of \<open>fb_str\<close> for the same 24-bit colour.\<close>

lemma pack_colour_rgb565:
  "pack_colour fill_var r g b =
     rgb565 (push_bit 16 (drop_bit 8 r AND 0xff) OR push_bit 8 (drop_bit 8 g AND 0xff) OR
             (drop_bit 8 b AND 0xff))"
  (is "_ = rgb565 ?c")
proof (rule bit_word_eqI)
  fix n
  have c: "bit ?c m \<longleftrightarrow> (16 \<le> m \<and> m < 24 \<and> bit r (m - 8)) \<or> (8 \<le> m \<and> m < 16 \<and> bit g m) \<or>
      (m < 8 \<and> bit b (m + 8))" for m
  proof -
    have "bit (push_bit 16 (drop_bit 8 r AND 0xff) :: u32) m \<longleftrightarrow> 16 \<le> m \<and> m < 24 \<and> bit r (m - 8)"
      using bit_field [of 16 0 8 r m] by (auto simp: le_iff_add add.commute)
    moreover have "bit (push_bit 8 (drop_bit 8 g AND 0xff) :: u32) m \<longleftrightarrow> 8 \<le> m \<and> m < 16 \<and> bit g m"
      using bit_field [of 8 0 8 g m] by (auto simp: le_iff_add add.commute)
    moreover have "bit (drop_bit 8 b AND 0xff :: u32) m \<longleftrightarrow> m < 8 \<and> bit b (m + 8)"
      using bit_field [of 0 0 8 b m] by (auto simp: add.commute)
    ultimately show ?thesis by (simp add: bit_or_iff)
  qed
  have "bit (pack_colour fill_var r g b) n \<longleftrightarrow>
      (11 \<le> n \<and> n < 16 \<and> bit r n) \<or> (5 \<le> n \<and> n < 11 \<and> bit g (n + 5)) \<or> (n < 5 \<and> bit b (n + 11))"
  proof -
    have "bit (chan_to_field r \<lparr>offset = 11, bf_length = 5\<rparr>) n \<longleftrightarrow> 11 \<le> n \<and> n < 16 \<and> bit r n"
      using bit_chan_to_field [of "\<lparr>offset = 11, bf_length = 5\<rparr>" r n, simplified]
      by (auto simp: le_iff_add add.commute)
    moreover have "bit (chan_to_field g \<lparr>offset = 5, bf_length = 6\<rparr>) n \<longleftrightarrow>
        5 \<le> n \<and> n < 11 \<and> bit g (n + 5)"
      using bit_chan_to_field [of "\<lparr>offset = 5, bf_length = 6\<rparr>" g n, simplified]
      by (auto simp: le_iff_add add.commute)
    moreover have "bit (chan_to_field b \<lparr>offset = 0, bf_length = 5\<rparr>) n \<longleftrightarrow>
        n < 5 \<and> bit b (n + 11)"
      using bit_chan_to_field [of "\<lparr>offset = 0, bf_length = 5\<rparr>" b n, simplified] by auto
    ultimately show ?thesis by (simp add: pack_colour_def fill_var_def bit_or_iff)
  qed
  also have "\<dots> \<longleftrightarrow> bit (rgb565 ?c) n"
    unfolding bit_rgb565 c
    by (cases "n < 5"; cases "n < 11"; cases "n < 16") (simp_all add: ac_simps)
  finally show "bit (pack_colour fill_var r g b) n = bit (rgb565 ?c) n" .
qed

section \<open>Unpacking\<close>

text \<open>The colour channels of a 24-bit colour, and the fields of a packed pixel.\<close>

definition red8 :: "u32 \<Rightarrow> u32" where "red8 c = drop_bit 16 c AND 0xff"
definition green8 :: "u32 \<Rightarrow> u32" where "green8 c = drop_bit 8 c AND 0xff"
definition blue8 :: "u32 \<Rightarrow> u32" where "blue8 c = c AND 0xff"

lemma colour_index_rgb565:
  "colour_index (rgb565 c) (red fill_var) = drop_bit 3 (red8 c)"
  "colour_index (rgb565 c) (green fill_var) = drop_bit 2 (green8 c)"
  "colour_index (rgb565 c) (blue fill_var) = drop_bit 3 (blue8 c)"
proof -
  have m: "(31 :: u32) = mask 5" "(63 :: u32) = mask 6" by (simp_all add: mask_numeral)
  have "drop_bit 11 (rgb565 c) AND 31 = drop_bit 3 (red8 c)"
    by (rule bit_word_eqI) (auto simp: red8_def m byte_mask bit_simps bit_rgb565 ac_simps)
  then show "colour_index (rgb565 c) (red fill_var) = drop_bit 3 (red8 c)"
    by (simp add: colour_index_def fill_var_def)
  have "drop_bit 5 (rgb565 c) AND 63 = drop_bit 2 (green8 c)"
    by (rule bit_word_eqI) (auto simp: green8_def m byte_mask bit_simps bit_rgb565 ac_simps)
  then show "colour_index (rgb565 c) (green fill_var) = drop_bit 2 (green8 c)"
    by (simp add: colour_index_def fill_var_def)
  have "rgb565 c AND 31 = drop_bit 3 (blue8 c)"
    by (rule bit_word_eqI) (auto simp: blue8_def m byte_mask bit_simps bit_rgb565 ac_simps)
  then show "colour_index (rgb565 c) (blue fill_var) = drop_bit 3 (blue8 c)"
    by (simp add: colour_index_def fill_var_def)
qed

lemma load_pixel_px:
  assumes px: "px 2 mem i = le16 v" and i: "i * 2 + 2 \<le> length mem" and v: "v < 2 ^ 16"
  shows "load_pixel mem 2 (i * 2) = Some v"
proof -
  have v16: "take_bit 16 v = v"
    using v by (simp add: word_eq_iff_unsigned [where ?'a = nat] unsigned_take_bit_eq
        take_bit_nat_eq_self word_less_nat_alt)
  have "mem ! (i * 2) = ucast v" "mem ! (i * 2 + 1) = ucast (drop_bit 8 v)"
    using px_nth [OF i, of 0] px_nth [OF i, of 1] px by (simp_all add: le16_def)
  moreover have "ucast (ucast v :: u8) OR push_bit 8 (ucast (ucast (drop_bit 8 v) :: u8)) =
      take_bit 16 v"
    by (rule bit_word_eqI) (auto simp: bit_simps)
  ultimately show ?thesis
    using i v16 by (simp add: load_pixel_def load8_def numeral_2_eq_2)
qed

text \<open>
  A 5-bit field holds the channel divided by 8, a 6-bit field the channel divided by 4; the dummy
  colour map spreads them over 0 to 255.
\<close>

definition spread5 :: "nat \<Rightarrow> nat" where "spread5 q = q * 65535 div 31 div 256"
definition spread6 :: "nat \<Rightarrow> nat" where "spread6 q = q * 65535 div 63 div 256"

lemma spread5_close: "q < 32 \<Longrightarrow> 8 * q \<le> spread5 q \<and> spread5 q \<le> 8 * q + 7"
proof -
  assume q: "q < 32"
  have eq: "spread5 q = q * 65535 div 7936" by (simp add: spread5_def flip: div_mult2_eq)
  have "q * 65535 < (8 * q + 8) * 7936" using q by simp
  then have "spread5 q < 8 * q + 8" unfolding eq by (simp add: div_less_iff_less_mult)
  moreover have "8 * q \<le> spread5 q" unfolding eq by (simp add: less_eq_div_iff_mult_less_eq)
  ultimately show ?thesis by simp
qed

lemma spread6_close: "q < 64 \<Longrightarrow> 4 * q \<le> spread6 q \<and> spread6 q \<le> 4 * q + 3"
proof -
  assume q: "q < 64"
  have eq: "spread6 q = q * 65535 div 16128" by (simp add: spread6_def flip: div_mult2_eq)
  have "q * 65535 < (4 * q + 4) * 16128" using q by simp
  then have "spread6 q < 4 * q + 4" unfolding eq by (simp add: div_less_iff_less_mult)
  moreover have "4 * q \<le> spread6 q" unfolding eq by (simp add: less_eq_div_iff_mult_less_eq)
  ultimately show ?thesis by simp
qed

lemma true_map_nth:
  assumes "true_map bf g = Some cm" and "k < 2 ^ unat (bf_length bf)"
  shows "cm ! k = of_nat (k * 0xFFFF div (2 ^ unat (bf_length bf) - 1))"
  using assms by (auto simp: true_map_def Let_def nth_append split: if_splits)

lemma high_byte: "n < 65536 \<Longrightarrow> unat (ucast (drop_bit 8 (of_nat n :: u16)) :: u8) = n div 256"
proof -
  assume n: "n < 65536"
  then have "unat (drop_bit 8 (of_nat n :: u16)) = n div 256"
    by (simp add: unat_div unsigned_of_nat take_bit_nat_eq_self drop_bit_eq_div)
  moreover from n have "n div 256 < 256" by simp
  ultimately show ?thesis by (simp add: unsigned_ucast_eq take_bit_nat_eq_self)
qed

lemma channel_value:
  assumes cm: "true_map bf g = Some cm" and len: "unat (bf_length bf) \<le> 8"
    and k: "unat (colour_index p bf) = k" "k < 2 ^ unat (bf_length bf)"
  shows "unat (get_color p bf cm) = k * 65535 div (2 ^ unat (bf_length bf) - 1) div 256"
proof -
  let ?m = "2 ^ unat (bf_length bf) - 1 :: nat"
  have "0 < unat (bf_length bf)" using cm by (auto simp: true_map_def Let_def split: if_splits)
  then have "(2 :: nat) ^ 1 \<le> 2 ^ unat (bf_length bf)" by (intro power_increasing) simp_all
  then have "?m \<noteq> 0" by simp
  then have "k * 65535 div ?m \<le> ?m * 65535 div ?m" using k(2) by (intro div_le_mono) simp
  then have "k * 65535 div ?m < 65536" using \<open>?m \<noteq> 0\<close> by simp
  with true_map_nth [OF cm k(2)] k(1) show ?thesis
    by (simp add: get_color_def high_byte)
qed

lemma channel_small: "red8 c < 256" "green8 c < 256" "blue8 c < 256"
proof -
  have "x AND 0xff < 256" for x :: u32
    by (simp add: byte_mask word_less_nat_alt unsigned_take_bit_eq flip: take_bit_eq_mask)
      (use take_bit_nat_less_exp [of 8 "unat x"] in simp)
  then show "red8 c < 256" "green8 c < 256" "blue8 c < 256"
    by (simp_all add: red8_def green8_def blue8_def)
qed

text \<open>
  Reading back a pixel that \<open>fb_str\<close> packed, with the driver's description of the screen: red and
  blue come back within 7 of what was asked for, green within 3.
\<close>

lemma rgb565_read_back:
  assumes "true_cmap fill_var g = Some cm"
  shows "unat (get_color (rgb565 c) (red fill_var) (cm_red cm)) = spread5 (unat (red8 c) div 8)"
    and "unat (get_color (rgb565 c) (green fill_var) (cm_green cm)) = spread6 (unat (green8 c) div 4)"
    and "unat (get_color (rgb565 c) (blue fill_var) (cm_blue cm)) = spread5 (unat (blue8 c) div 8)"
proof -
  from assms have maps: "true_map (red fill_var) (cm_red g) = Some (cm_red cm)"
    "true_map (green fill_var) (cm_green g) = Some (cm_green cm)"
    "true_map (blue fill_var) (cm_blue g) = Some (cm_blue cm)"
    by (auto simp: true_cmap_def split: option.splits)
  have q: "unat (drop_bit 3 (red8 c)) = unat (red8 c) div 8"
    "unat (drop_bit 2 (green8 c)) = unat (green8 c) div 4"
    "unat (drop_bit 3 (blue8 c)) = unat (blue8 c) div 8"
    by (simp_all add: unat_div drop_bit_eq_div)
  have s: "unat (red8 c) < 256" "unat (green8 c) < 256" "unat (blue8 c) < 256"
    using channel_small [of c] by (simp_all add: word_less_nat_alt)
  show "unat (get_color (rgb565 c) (red fill_var) (cm_red cm)) = spread5 (unat (red8 c) div 8)"
    using channel_value [OF maps(1), of "rgb565 c" "unat (red8 c) div 8"] s(1)
    by (simp add: colour_index_rgb565 q spread5_def) (simp add: fill_var_def)
  show "unat (get_color (rgb565 c) (green fill_var) (cm_green cm)) = spread6 (unat (green8 c) div 4)"
    using channel_value [OF maps(2), of "rgb565 c" "unat (green8 c) div 4"] s(2)
    by (simp add: colour_index_rgb565 q spread6_def) (simp add: fill_var_def)
  show "unat (get_color (rgb565 c) (blue fill_var) (cm_blue cm)) = spread5 (unat (blue8 c) div 8)"
    using channel_value [OF maps(3), of "rgb565 c" "unat (blue8 c) div 8"] s(3)
    by (simp add: colour_index_rgb565 q spread5_def) (simp add: fill_var_def)
qed

end
