(* ===== verification/Screen_Path.thy ===== *)
theory Screen_Path
  imports Rgb565
begin

text \<open>
  The framebuffer driver and the two programs together: \<open>fb_str\<close> writes into the screen that
  \<open>fbdev/dummy-fb.c\<close> describes, \<open>fbcat\<close> reads it back as a picture.
\<close>

section \<open>Text on the driver's screen\<close>

lemma screen_of_fill: "screen_ok (screen_of fill_var) 480 320 2"
  by (simp add: screen_ok_def screen_of_def fill_var_def display_def)

lemma screen_size_fill: "screen_size fill_var = 307200"
  by (simp add: screen_size_def fill_var_def display_def)

lemma fb_str_main_default:
  assumes "argv \<noteq> []" "length argv \<noteq> 3" "length argv \<noteq> 4"
    and mem: "mmap 307200 = Some mem" "length mem = 307200"
  shows "\<exists>mem'. fb_str_main font argv (Some fill_var) mmap = Done (0, Some mem') \<and>
    length mem' = 307200 \<and>
    lcd_put_string font (screen_of fill_var) 0 0 0xFFFFFF (text_bytes (argv ! 0)) mem = Some mem' \<and>
    (\<forall>u < 480. \<forall>v < 320. 64 \<le> v \<longrightarrow> px 2 mem' (v * 480 + u) = px 2 mem (v * 480 + u))"
proof -
  let ?str = "text_bytes (argv ! 0)"
  have "\<exists>mem'. draw_cells font (screen_of fill_var) 480 0xFFFFFF (printed (?str @ [0])) 0 mem = Some mem' \<and>
      length mem' = length mem \<and>
      (\<forall>u < 480. \<forall>v < 320. 64 \<le> v \<longrightarrow> px 2 mem' (v * 480 + u) = px 2 mem (v * 480 + u))"
    by (rule draw_cells_ok [OF screen_of_fill]) (simp_all add: mem)
  then obtain mem' where
    "draw_cells font (screen_of fill_var) 480 0xFFFFFF (printed (?str @ [0])) 0 mem = Some mem'"
    and rest: "length mem' = length mem"
      "\<forall>u < 480. \<forall>v < 320. 64 \<le> v \<longrightarrow> px 2 mem' (v * 480 + u) = px 2 mem (v * 480 + u)"
    by blast
  then have "lcd_put_string font (screen_of fill_var) 0 0 0xFFFFFF ?str mem = Some mem'"
    by (simp add: lcd_put_string_origin [OF screen_of_fill])
  with rest mem assms(1-3) show ?thesis
    by (simp add: fb_str_main_def screen_size_fill Let_def)
qed

section \<open>A pixel written and dumped\<close>

definition near :: "nat \<Rightarrow> u8 \<Rightarrow> u32 \<Rightarrow> bool" where
  "near d b c \<longleftrightarrow> unat b \<le> unat c + d \<and> unat c \<le> unat b + d"

lemma near_spread:
  assumes "c < 256"
  shows "unat b = spread5 (unat c div 8) \<Longrightarrow> near 7 b c"
    and "unat b = spread6 (unat c div 4) \<Longrightarrow> near 3 b c"
proof -
  have c: "unat c < 256" using assms by (simp add: word_less_nat_alt)
  then have "8 * (unat c div 8) \<le> spread5 (unat c div 8) \<and>
      spread5 (unat c div 8) \<le> 8 * (unat c div 8) + 7"
    by (intro spread5_close) simp
  then show "unat b = spread5 (unat c div 8) \<Longrightarrow> near 7 b c" unfolding near_def by linarith
  from c have "4 * (unat c div 4) \<le> spread6 (unat c div 4) \<and>
      spread6 (unat c div 4) \<le> 4 * (unat c div 4) + 3"
    by (intro spread6_close) simp
  then show "unat b = spread6 (unat c div 4) \<Longrightarrow> near 3 b c" unfolding near_def by linarith
qed

lemma rgb565_near:
  assumes "true_cmap fill_var g = Some cm"
  shows "near 7 (get_color (rgb565 c) (red fill_var) (cm_red cm)) (red8 c) \<and>
    near 3 (get_color (rgb565 c) (green fill_var) (cm_green cm)) (green8 c) \<and>
    near 7 (get_color (rgb565 c) (blue fill_var) (cm_blue cm)) (blue8 c)"
  using rgb565_read_back [OF assms, of c] channel_small [of c] by (simp add: near_spread)

lemma put_then_load:
  assumes s: "screen_ok s W H 2" and xy: "x < W" "y < H" and mem: "length mem = W * H * 2"
    and put: "lcd_put_pixel s (of_nat x) (of_nat y) c mem = Some mem'"
  shows "load_pixel mem' 2 ((y * W + x) * 2) = Some (rgb565 c) \<and> length mem' = length mem"
proof -
  have i: "y * W + x < W * H" using pixel_index [OF xy] .
  from lcd_put_pixel_ok [OF s xy mem, of c] put
  have "length mem' = length mem" and px: "px 2 mem' (y * W + x) = colour_bytes 2 c"
    using i by auto
  moreover have "(y * W + x) * 2 + 2 \<le> length mem'" using calculation(1) mem i by simp
  ultimately show ?thesis
    using load_pixel_px [of mem' "y * W + x" "rgb565 c"] rgb565_bound [of c]
    by (simp add: colour_bytes_def)
qed

text \<open>The description a screen of the driver has when it is not panned.\<close>

definition unpanned :: "var_screeninfo \<Rightarrow> bool" where
  "unpanned v \<longleftrightarrow> fb_var.truncate v = fill_var \<and> xoffset v = 0 \<and> yoffset v = 0"

lemma unpanned_fields:
  assumes "unpanned v"
  shows "xres v = 480" "yres v = 320" "bits_per_pixel v = 16" "red v = red fill_var"
    "green v = green fill_var" "blue v = blue fill_var"
proof -
  have t: "fb_var.truncate v = fill_var" using assms by (simp add: unpanned_def)
  have "xres (fb_var.truncate v) = 480" "yres (fb_var.truncate v) = 320"
    "bits_per_pixel (fb_var.truncate v) = 16"
    unfolding t by (simp_all add: fill_var_def display_def)
  then show "xres v = 480" "yres v = 320" "bits_per_pixel v = 16"
    by (simp_all add: fb_var.truncate_def)
  show "red v = red fill_var" "green v = green fill_var" "blue v = blue fill_var"
    by (simp_all flip: t)
qed

lemma unpanned_line:
  assumes "unpanned v" and "y < 320"
  shows "line_start v 960 y = y * 960" and "pixel_bytes v = 2"
proof -
  note f = unpanned_fields [OF assms(1)]
  show P: "pixel_bytes v = 2" by (simp add: pixel_bytes_def f)
  have g: "geometry_ok v 960"
    using assms(1) by (simp add: geometry_ok_def P f unpanned_def)
  from line_start_eq [OF g, of y] assms show "line_start v 960 y = y * 960"
    by (simp add: f P unpanned_def)
qed

lemma dump_shows_pixel:
  assumes v: "unpanned v" and cm: "true_cmap fill_var g = Some cm" and xy: "x < 480" "y < 320"
    and load: "load_pixel mem 2 ((y * 480 + x) * 2) = Some (rgb565 c)"
    and dump: "dump_video_memory wr mok mem v cm 960 = Done out"
  shows "let i = length (ppm_header v) + (y * 480 + x) * 3 in
    near 7 (out ! i) (red8 c) \<and> near 3 (out ! (i + 1)) (green8 c) \<and> near 7 (out ! (i + 2)) (blue8 c)"
proof -
  note f = unpanned_fields [OF v]
  from dump_video_memory_Done [OF dump] have "\<forall>y < 320. \<forall>x < 480. \<exists>p.
      load_pixel mem (pixel_bytes v) (line_start v 960 y + x * pixel_bytes v) = Some p \<and>
      (let i = length (ppm_header v) + (y * (480 * 3) + x * 3)
       in out ! i = get_color p (red v) (cm_red cm) \<and>
          out ! (i + 1) = get_color p (green v) (cm_green cm) \<and>
          out ! (i + 2) = get_color p (blue v) (cm_blue cm))"
    by (simp add: f)
  with xy obtain p where
    p: "load_pixel mem (pixel_bytes v) (line_start v 960 y + x * pixel_bytes v) = Some p"
    and out: "let i = length (ppm_header v) + (y * (480 * 3) + x * 3)
       in out ! i = get_color p (red v) (cm_red cm) \<and>
          out ! (i + 1) = get_color p (green v) (cm_green cm) \<and>
          out ! (i + 2) = get_color p (blue v) (cm_blue cm)"
    by blast
  have "line_start v 960 y + x * pixel_bytes v = (y * 480 + x) * 2"
    using unpanned_line [OF v xy(2)] by simp
  with p load unpanned_line(2) [OF v xy(2)] have "p = rgb565 c" by simp
  moreover have i: "(y * 480 + x) * 3 = y * (480 * 3) + x * 3" by simp
  ultimately show ?thesis
    unfolding i using out rgb565_near [OF cm, of c] by (simp add: Let_def f)
qed

section \<open>The whole of fbcat on the driver's screen\<close>

text \<open>
  With the two descriptions of the driver the main function always takes the colour path with the
  true-colour map of its fields, on a mapping of the whole screen.
\<close>

lemma fbcat_dump_driver:
  assumes "get_fscreeninfo e = Some fill_fix" and "get_vscreeninfo e = Some v" and v: "unpanned v"
    and "mapping e 307200 = Some mem"
  shows "\<exists>cm. true_cmap fill_var (stack_cmap e) = Some cm \<and>
    fbcat_dump e = dump_video_memory (written e) (malloc_ok e) mem v cm 960"
proof -
  obtain cm where cm: "true_cmap fill_var (stack_cmap e) = Some cm"
    by (simp add: true_cmap_def true_map_def fill_var_def Let_def)
  have t: "fb_var.truncate v = fill_var" and y0: "yoffset v = 0"
    using v by (simp_all add: unpanned_def)
  note f = unpanned_fields [OF v]
  have vis: "visual fill_fix = FB_VISUAL_TRUECOLOR" "fix_type fill_fix = FB_TYPE_PACKED_PIXELS"
    "line_length fill_fix = 960"
    by (simp_all add: fill_fix_def display_def)
  have lens: "\<not> 8 < bf_length (red fill_var)" "\<not> 8 < bf_length (green fill_var)"
    "\<not> 8 < bf_length (blue fill_var)"
    by (simp_all add: fill_var_def)
  have "choose_map e fill_fix fill_var = Done (cm, False, False)"
    by (simp add: choose_map_def vis cm)
  moreover have "read_memory e fill_fix v = Done (mem, v)"
    by (simp add: read_memory_def vis f y0 assms(4))
  ultimately have "fbcat_dump e = dump_video_memory (written e) (malloc_ok e) mem v cm 960"
    using lens by (simp add: fbcat_dump_def assms(1,2) vis t f)
  with cm show ?thesis by blast
qed

lemma fbcat_main_driver:
  assumes "get_fscreeninfo e = Some fill_fix" and "get_vscreeninfo e = Some v" and "unpanned v"
    and "mapping e 307200 = Some mem" and "fbcat_main e = Done out"
  shows "\<exists>cm. true_cmap fill_var (stack_cmap e) = Some cm \<and>
    dump_video_memory (written e) (malloc_ok e) mem v cm 960 = Done out"
  using fbcat_dump_driver [OF assms(1-4)] assms(5)
  by (auto simp: fbcat_main_def and_then_Done_iff split: if_splits)

text \<open>It succeeds when it is given a file, its buffer and every write.\<close>

definition fbcat_runs :: "fbcat_env \<Rightarrow> bool" where
  "fbcat_runs e \<longleftrightarrow> \<not> tty e \<and> length (args e) \<le> 1 \<and> opens e (fbdev_name e) \<and> malloc_ok e \<and>
     (\<forall>y < 320. written e y) \<and> close_ok e"

lemma fbcat_main_succeeds:
  assumes "get_fscreeninfo e = Some fill_fix" and "get_vscreeninfo e = Some v" and v: "unpanned v"
    and "mapping e 307200 = Some mem" and mem: "length mem = 307200" and ok: "fbcat_runs e"
  shows "\<exists>out. fbcat_main e = Done out"
proof -
  obtain cm where dump: "fbcat_dump e = dump_video_memory (written e) (malloc_ok e) mem v cm 960"
    using fbcat_dump_driver [OF assms(1-4)] by blast
  note f = unpanned_fields [OF v]
  have y0: "yoffset v = 0" and x0: "xoffset v = 0" using v by (simp_all add: unpanned_def)
  have "geometry_ok v 960" by (simp add: geometry_ok_def f y0 x0 pixel_bytes_def)
  from dump_video_memory_outcome [OF this, of mem "written e" "malloc_ok e" cm] mem ok
  obtain out where "dump_video_memory (written e) (malloc_ok e) mem v cm 960 = Done out"
    by (auto simp: f y0 fbcat_runs_def)
  with dump ok show ?thesis by (simp add: fbcat_main_def fbcat_runs_def)
qed

end
