(* ===== verification/Font.thy ===== *)
theory Font
  imports Prelude
begin

text \<open>
  The font of \<open>fb_str.c\<close>: the table \<open>fontdata_8x16\<close> of 256 glyphs of 16 rows, written as in the
  source and cut into groups of eight glyphs, each named by its first character. The lemmas are what
  a reader of the screen relies on: the glyphs of the characters below 128 differ from each other,
  but for the blank.
\<close>

section \<open>The table\<close>

definition font_00 :: "u8 list list" where
  "font_00 = [
     [0x00, 0x00, 0x00, 0x00, 0x00, 0x00, 0x00, 0x00,
      0x00, 0x00, 0x00, 0x00, 0x00, 0x00, 0x00, 0x00],
     [0x00, 0x00, 0x7e, 0x81, 0xa5, 0x81, 0x81, 0xbd,
      0x99, 0x81, 0x81, 0x7e, 0x00, 0x00, 0x00, 0x00],
     [0x00, 0x00, 0x7e, 0xff, 0xdb, 0xff, 0xff, 0xc3,
      0xe7, 0xff, 0xff, 0x7e, 0x00, 0x00, 0x00, 0x00],
     [0x00, 0x00, 0x00, 0x00, 0x6c, 0xfe, 0xfe, 0xfe,
      0xfe, 0x7c, 0x38, 0x10, 0x00, 0x00, 0x00, 0x00],
     [0x00, 0x00, 0x00, 0x00, 0x10, 0x38, 0x7c, 0xfe,
      0x7c, 0x38, 0x10, 0x00, 0x00, 0x00, 0x00, 0x00],
     [0x00, 0x00, 0x00, 0x18, 0x3c, 0x3c, 0xe7, 0xe7,
      0xe7, 0x18, 0x18, 0x3c, 0x00, 0x00, 0x00, 0x00],
     [0x00, 0x00, 0x00, 0x18, 0x3c, 0x7e, 0xff, 0xff,
      0x7e, 0x18, 0x18, 0x3c, 0x00, 0x00, 0x00, 0x00],
     [0x00, 0x00, 0x00, 0x00, 0x00, 0x00, 0x18, 0x3c,
      0x3c, 0x18, 0x00, 0x00, 0x00, 0x00, 0x00, 0x00]]"

definition font_08 :: "u8 list list" where
  "font_08 = [
     [0xff, 0xff, 0xff, 0xff, 0xff, 0xff, 0xe7, 0xc3,
      0xc3, 0xe7, 0xff, 0xff, 0xff, 0xff, 0xff, 0xff],
     [0x00, 0x00, 0x00, 0x00, 0x00, 0x3c, 0x66, 0x42,
      0x42, 0x66, 0x3c, 0x00, 0x00, 0x00, 0x00, 0x00],
     [0xff, 0xff, 0xff, 0xff, 0xff, 0xc3, 0x99, 0xbd,
      0xbd, 0x99, 0xc3, 0xff, 0xff, 0xff, 0xff, 0xff],
     [0x00, 0x00, 0x1e, 0x0e, 0x1a, 0x32, 0x78, 0xcc,
      0xcc, 0xcc, 0xcc, 0x78, 0x00, 0x00, 0x00, 0x00],
     [0x00, 0x00, 0x3c, 0x66, 0x66, 0x66, 0x66, 0x3c,
      0x18, 0x7e, 0x18, 0x18, 0x00, 0x00, 0x00, 0x00],
     [0x00, 0x00, 0x3f, 0x33, 0x3f, 0x30, 0x30, 0x30,
      0x30, 0x70, 0xf0, 0xe0, 0x00, 0x00, 0x00, 0x00],
     [0x00, 0x00, 0x7f, 0x63, 0x7f, 0x63, 0x63, 0x63,
      0x63, 0x67, 0xe7, 0xe6, 0xc0, 0x00, 0x00, 0x00],
     [0x00, 0x00, 0x00, 0x18, 0x18, 0xdb, 0x3c, 0xe7,
      0x3c, 0xdb, 0x18, 0x18, 0x00, 0x00, 0x00, 0x00]]"

definition font_10 :: "u8 list list" where
  "font_10 = [
     [0x00, 0x80, 0xc0, 0xe0, 0xf0, 0xf8, 0xfe, 0xf8,
      0xf0, 0xe0, 0xc0, 0x80, 0x00, 0x00, 0x00, 0x00],
     [0x00, 0x02, 0x06, 0x0e, 0x1e, 0x3e, 0xfe, 0x3e,
      0x1e, 0x0e, 0x06, 0x02, 0x00, 0x00, 0x00, 0x00],
     [0x00, 0x00, 0x18, 0x3c, 0x7e, 0x18, 0x18, 0x18,
      0x7e, 0x3c, 0x18, 0x00, 0x00, 0x00, 0x00, 0x00],
     [0x00, 0x00, 0x66, 0x66, 0x66, 0x66, 0x66, 0x66,
      0x66, 0x00, 0x66, 0x66, 0x00, 0x00, 0x00, 0x00],
     [0x00, 0x00, 0x7f, 0xdb, 0xdb, 0xdb, 0x7b, 0x1b,
      0x1b, 0x1b, 0x1b, 0x1b, 0x00, 0x00, 0x00, 0x00],
     [0x00, 0x7c, 0xc6, 0x60, 0x38, 0x6c, 0xc6, 0xc6,
      0x6c, 0x38, 0x0c, 0xc6, 0x7c, 0x00, 0x00, 0x00],
     [0x00, 0x00, 0x00, 0x00, 0x00, 0x00, 0x00, 0x00,
      0xfe, 0xfe, 0xfe, 0xfe, 0x00, 0x00, 0x00, 0x00],
     [0x00, 0x00, 0x18, 0x3c, 0x7e, 0x18, 0x18, 0x18,
      0x7e, 0x3c, 0x18, 0x7e, 0x00, 0x00, 0x00, 0x00]]"

definition font_18 :: "u8 list list" where
  "font_18 = [
     [0x00, 0x00, 0x18, 0x3c, 0x7e, 0x18, 0x18, 0x18,
      0x18, 0x18, 0x18, 0x18, 0x00, 0x00, 0x00, 0x00],
     [0x00, 0x00, 0x18, 0x18, 0x18, 0x18, 0x18, 0x18,
      0x18, 0x7e, 0x3c, 0x18, 0x00, 0x00, 0x00, 0x00],
     [0x00, 0x00, 0x00, 0x00, 0x00, 0x18, 0x0c, 0xfe,
      0x0c, 0x18, 0x00, 0x00, 0x00, 0x00, 0x00, 0x00],
     [0x00, 0x00, 0x00, 0x00, 0x00, 0x30, 0x60, 0xfe,
      0x60, 0x30, 0x00, 0x00, 0x00, 0x00, 0x00, 0x00],
     [0x00, 0x00, 0x00, 0x00, 0x00, 0x00, 0xc0, 0xc0,
      0xc0, 0xfe, 0x00, 0x00, 0x00, 0x00, 0x00, 0x00],
     [0x00, 0x00, 0x00, 0x00, 0x00, 0x28, 0x6c, 0xfe,
      0x6c, 0x28, 0x00, 0x00, 0x00, 0x00, 0x00, 0x00],
     [0x00, 0x00, 0x00, 0x00, 0x10, 0x38, 0x38, 0x7c,
      0x7c, 0xfe, 0xfe, 0x00, 0x00, 0x00, 0x00, 0x00],
     [0x00, 0x00, 0x00, 0x00, 0xfe, 0xfe, 0x7c, 0x7c,
      0x38, 0x38, 0x10, 0x00, 0x00, 0x00, 0x00, 0x00]]"

definition font_20 :: "u8 list list" where
  "font_20 = [
     [0x00, 0x00, 0x00, 0x00, 0x00, 0x00, 0x00, 0x00,
      0x00, 0x00, 0x00, 0x00, 0x00, 0x00, 0x00, 0x00],
     [0x00, 0x00, 0x18, 0x3c, 0x3c, 0x3c, 0x18, 0x18,
      0x18, 0x00, 0x18, 0x18, 0x00, 0x00, 0x00, 0x00],
     [0x00, 0x66, 0x66, 0x66, 0x24, 0x00, 0x00, 0x00,
      0x00, 0x00, 0x00, 0x00, 0x00, 0x00, 0x00, 0x00],
     [0x00, 0x00, 0x00, 0x6c, 0x6c, 0xfe, 0x6c, 0x6c,
      0x6c, 0xfe, 0x6c, 0x6c, 0x00, 0x00, 0x00, 0x00],
     [0x18, 0x18, 0x7c, 0xc6, 0xc2, 0xc0, 0x7c, 0x06,
      0x06, 0x86, 0xc6, 0x7c, 0x18, 0x18, 0x00, 0x00],
     [0x00, 0x00, 0x00, 0x00, 0xc2, 0xc6, 0x0c, 0x18,
      0x30, 0x60, 0xc6, 0x86, 0x00, 0x00, 0x00, 0x00],
     [0x00, 0x00, 0x38, 0x6c, 0x6c, 0x38, 0x76, 0xdc,
      0xcc, 0xcc, 0xcc, 0x76, 0x00, 0x00, 0x00, 0x00],
     [0x00, 0x30, 0x30, 0x30, 0x60, 0x00, 0x00, 0x00,
      0x00, 0x00, 0x00, 0x00, 0x00, 0x00, 0x00, 0x00]]"

definition font_28 :: "u8 list list" where
  "font_28 = [
     [0x00, 0x00, 0x0c, 0x18, 0x30, 0x30, 0x30, 0x30,
      0x30, 0x30, 0x18, 0x0c, 0x00, 0x00, 0x00, 0x00],
     [0x00, 0x00, 0x30, 0x18, 0x0c, 0x0c, 0x0c, 0x0c,
      0x0c, 0x0c, 0x18, 0x30, 0x00, 0x00, 0x00, 0x00],
     [0x00, 0x00, 0x00, 0x00, 0x00, 0x66, 0x3c, 0xff,
      0x3c, 0x66, 0x00, 0x00, 0x00, 0x00, 0x00, 0x00],
     [0x00, 0x00, 0x00, 0x00, 0x00, 0x18, 0x18, 0x7e,
      0x18, 0x18, 0x00, 0x00, 0x00, 0x00, 0x00, 0x00],
     [0x00, 0x00, 0x00, 0x00, 0x00, 0x00, 0x00, 0x00,
      0x00, 0x18, 0x18, 0x18, 0x30, 0x00, 0x00, 0x00],
     [0x00, 0x00, 0x00, 0x00, 0x00, 0x00, 0x00, 0xfe,
      0x00, 0x00, 0x00, 0x00, 0x00, 0x00, 0x00, 0x00],
     [0x00, 0x00, 0x00, 0x00, 0x00, 0x00, 0x00, 0x00,
      0x00, 0x00, 0x18, 0x18, 0x00, 0x00, 0x00, 0x00],
     [0x00, 0x00, 0x00, 0x00, 0x02, 0x06, 0x0c, 0x18,
      0x30, 0x60, 0xc0, 0x80, 0x00, 0x00, 0x00, 0x00]]"

definition font_30 :: "u8 list list" where
  "font_30 = [
     [0x00, 0x00, 0x38, 0x6c, 0xc6, 0xc6, 0xd6, 0xd6,
      0xc6, 0xc6, 0x6c, 0x38, 0x00, 0x00, 0x00, 0x00],
     [0x00, 0x00, 0x18, 0x38, 0x78, 0x18, 0x18, 0x18,
      0x18, 0x18, 0x18, 0x7e, 0x00, 0x00, 0x00, 0x00],
     [0x00, 0x00, 0x7c, 0xc6, 0x06, 0x0c, 0x18, 0x30,
      0x60, 0xc0, 0xc6, 0xfe, 0x00, 0x00, 0x00, 0x00],
     [0x00, 0x00, 0x7c, 0xc6, 0x06, 0x06, 0x3c, 0x06,
      0x06, 0x06, 0xc6, 0x7c, 0x00, 0x00, 0x00, 0x00],
     [0x00, 0x00, 0x0c, 0x1c, 0x3c, 0x6c, 0xcc, 0xfe,
      0x0c, 0x0c, 0x0c, 0x1e, 0x00, 0x00, 0x00, 0x00],
     [0x00, 0x00, 0xfe, 0xc0, 0xc0, 0xc0, 0xfc, 0x06,
      0x06, 0x06, 0xc6, 0x7c, 0x00, 0x00, 0x00, 0x00],
     [0x00, 0x00, 0x38, 0x60, 0xc0, 0xc0, 0xfc, 0xc6,
      0xc6, 0xc6, 0xc6, 0x7c, 0x00, 0x00, 0x00, 0x00],
     [0x00, 0x00, 0xfe, 0xc6, 0x06, 0x06, 0x0c, 0x18,
      0x30, 0x30, 0x30, 0x30, 0x00, 0x00, 0x00, 0x00]]"

definition font_38 :: "u8 list list" where
  "font_38 = [
     [0x00, 0x00, 0x7c, 0xc6, 0xc6, 0xc6, 0x7c, 0xc6,
      0xc6, 0xc6, 0xc6, 0x7c, 0x00, 0x00, 0x00, 0x00],
     [0x00, 0x00, 0x7c, 0xc6, 0xc6, 0xc6, 0x7e, 0x06,
      0x06, 0x06, 0x0c, 0x78, 0x00, 0x00, 0x00, 0x00],
     [0x00, 0x00, 0x00, 0x00, 0x18, 0x18, 0x00, 0x00,
      0x00, 0x18, 0x18, 0x00, 0x00, 0x00, 0x00, 0x00],
     [0x00, 0x00, 0x00, 0x00, 0x18, 0x18, 0x00, 0x00,
      0x00, 0x18, 0x18, 0x30, 0x00, 0x00, 0x00, 0x00],
     [0x00, 0x00, 0x00, 0x06, 0x0c, 0x18, 0x30, 0x60,
      0x30, 0x18, 0x0c, 0x06, 0x00, 0x00, 0x00, 0x00],
     [0x00, 0x00, 0x00, 0x00, 0x00, 0x7e, 0x00, 0x00,
      0x7e, 0x00, 0x00, 0x00, 0x00, 0x00, 0x00, 0x00],
     [0x00, 0x00, 0x00, 0x60, 0x30, 0x18, 0x0c, 0x06,
      0x0c, 0x18, 0x30, 0x60, 0x00, 0x00, 0x00, 0x00],
     [0x00, 0x00, 0x7c, 0xc6, 0xc6, 0x0c, 0x18, 0x18,
      0x18, 0x00, 0x18, 0x18, 0x00, 0x00, 0x00, 0x00]]"

definition font_40 :: "u8 list list" where
  "font_40 = [
     [0x00, 0x00, 0x00, 0x7c, 0xc6, 0xc6, 0xde, 0xde,
      0xde, 0xdc, 0xc0, 0x7c, 0x00, 0x00, 0x00, 0x00],
     [0x00, 0x00, 0x10, 0x38, 0x6c, 0xc6, 0xc6, 0xfe,
      0xc6, 0xc6, 0xc6, 0xc6, 0x00, 0x00, 0x00, 0x00],
     [0x00, 0x00, 0xfc, 0x66, 0x66, 0x66, 0x7c, 0x66,
      0x66, 0x66, 0x66, 0xfc, 0x00, 0x00, 0x00, 0x00],
     [0x00, 0x00, 0x3c, 0x66, 0xc2, 0xc0, 0xc0, 0xc0,
      0xc0, 0xc2, 0x66, 0x3c, 0x00, 0x00, 0x00, 0x00],
     [0x00, 0x00, 0xf8, 0x6c, 0x66, 0x66, 0x66, 0x66,
      0x66, 0x66, 0x6c, 0xf8, 0x00, 0x00, 0x00, 0x00],
     [0x00, 0x00, 0xfe, 0x66, 0x62, 0x68, 0x78, 0x68,
      0x60, 0x62, 0x66, 0xfe, 0x00, 0x00, 0x00, 0x00],
     [0x00, 0x00, 0xfe, 0x66, 0x62, 0x68, 0x78, 0x68,
      0x60, 0x60, 0x60, 0xf0, 0x00, 0x00, 0x00, 0x00],
     [0x00, 0x00, 0x3c, 0x66, 0xc2, 0xc0, 0xc0, 0xde,
      0xc6, 0xc6, 0x66, 0x3a, 0x00, 0x00, 0x00, 0x00]]"

definition font_48 :: "u8 list list" where
  "font_48 = [
     [0x00, 0x00, 0xc6, 0xc6, 0xc6, 0xc6, 0xfe, 0xc6,
      0xc6, 0xc6, 0xc6, 0xc6, 0x00, 0x00, 0x00, 0x00],
     [0x00, 0x00, 0x3c, 0x18, 0x18, 0x18, 0x18, 0x18,
      0x18, 0x18, 0x18, 0x3c, 0x00, 0x00, 0x00, 0x00],
     [0x00, 0x00, 0x1e, 0x0c, 0x0c, 0x0c, 0x0c, 0x0c,
      0xcc, 0xcc, 0xcc, 0x78, 0x00, 0x00, 0x00, 0x00],
     [0x00, 0x00, 0xe6, 0x66, 0x66, 0x6c, 0x78, 0x78,
      0x6c, 0x66, 0x66, 0xe6, 0x00, 0x00, 0x00, 0x00],
     [0x00, 0x00, 0xf0, 0x60, 0x60, 0x60, 0x60, 0x60,
      0x60, 0x62, 0x66, 0xfe, 0x00, 0x00, 0x00, 0x00],
     [0x00, 0x00, 0xc6, 0xee, 0xfe, 0xfe, 0xd6, 0xc6,
      0xc6, 0xc6, 0xc6, 0xc6, 0x00, 0x00, 0x00, 0x00],
     [0x00, 0x00, 0xc6, 0xe6, 0xf6, 0xfe, 0xde, 0xce,
      0xc6, 0xc6, 0xc6, 0xc6, 0x00, 0x00, 0x00, 0x00],
     [0x00, 0x00, 0x7c, 0xc6, 0xc6, 0xc6, 0xc6, 0xc6,
      0xc6, 0xc6, 0xc6, 0x7c, 0x00, 0x00, 0x00, 0x00]]"

definition font_50 :: "u8 list list" where
  "font_50 = [
     [0x00, 0x00, 0xfc, 0x66, 0x66, 0x66, 0x7c, 0x60,
      0x60, 0x60, 0x60, 0xf0, 0x00, 0x00, 0x00, 0x00],
     [0x00, 0x00, 0x7c, 0xc6, 0xc6, 0xc6, 0xc6, 0xc6,
      0xc6, 0xd6, 0xde, 0x7c, 0x0c, 0x0e, 0x00, 0x00],
     [0x00, 0x00, 0xfc, 0x66, 0x66, 0x66, 0x7c, 0x6c,
      0x66, 0x66, 0x66, 0xe6, 0x00, 0x00, 0x00, 0x00],
     [0x00, 0x00, 0x7c, 0xc6, 0xc6, 0x60, 0x38, 0x0c,
      0x06, 0xc6, 0xc6, 0x7c, 0x00, 0x00, 0x00, 0x00],
     [0x00, 0x00, 0x7e, 0x7e, 0x5a, 0x18, 0x18, 0x18,
      0x18, 0x18, 0x18, 0x3c, 0x00, 0x00, 0x00, 0x00],
     [0x00, 0x00, 0xc6, 0xc6, 0xc6, 0xc6, 0xc6, 0xc6,
      0xc6, 0xc6, 0xc6, 0x7c, 0x00, 0x00, 0x00, 0x00],
     [0x00, 0x00, 0xc6, 0xc6, 0xc6, 0xc6, 0xc6, 0xc6,
      0xc6, 0x6c, 0x38, 0x10, 0x00, 0x00, 0x00, 0x00],
     [0x00, 0x00, 0xc6, 0xc6, 0xc6, 0xc6, 0xd6, 0xd6,
      0xd6, 0xfe, 0xee, 0x6c, 0x00, 0x00, 0x00, 0x00]]"

definition font_58 :: "u8 list list" where
  "font_58 = [
     [0x00, 0x00, 0xc6, 0xc6, 0x6c, 0x7c, 0x38, 0x38,
      0x7c, 0x6c, 0xc6, 0xc6, 0x00, 0x00, 0x00, 0x00],
     [0x00, 0x00, 0x66, 0x66, 0x66, 0x66, 0x3c, 0x18,
      0x18, 0x18, 0x18, 0x3c, 0x00, 0x00, 0x00, 0x00],
     [0x00, 0x00, 0xfe, 0xc6, 0x86, 0x0c, 0x18, 0x30,
      0x60, 0xc2, 0xc6, 0xfe, 0x00, 0x00, 0x00, 0x00],
     [0x00, 0x00, 0x3c, 0x30, 0x30, 0x30, 0x30, 0x30,
      0x30, 0x30, 0x30, 0x3c, 0x00, 0x00, 0x00, 0x00],
     [0x00, 0x00, 0x00, 0x80, 0xc0, 0xe0, 0x70, 0x38,
      0x1c, 0x0e, 0x06, 0x02, 0x00, 0x00, 0x00, 0x00],
     [0x00, 0x00, 0x3c, 0x0c, 0x0c, 0x0c, 0x0c, 0x0c,
      0x0c, 0x0c, 0x0c, 0x3c, 0x00, 0x00, 0x00, 0x00],
     [0x10, 0x38, 0x6c, 0xc6, 0x00, 0x00, 0x00, 0x00,
      0x00, 0x00, 0x00, 0x00, 0x00, 0x00, 0x00, 0x00],
     [0x00, 0x00, 0x00, 0x00, 0x00, 0x00, 0x00, 0x00,
      0x00, 0x00, 0x00, 0x00, 0x00, 0xff, 0x00, 0x00]]"

definition font_60 :: "u8 list list" where
  "font_60 = [
     [0x00, 0x30, 0x18, 0x0c, 0x00, 0x00, 0x00, 0x00,
      0x00, 0x00, 0x00, 0x00, 0x00, 0x00, 0x00, 0x00],
     [0x00, 0x00, 0x00, 0x00, 0x00, 0x78, 0x0c, 0x7c,
      0xcc, 0xcc, 0xcc, 0x76, 0x00, 0x00, 0x00, 0x00],
     [0x00, 0x00, 0xe0, 0x60, 0x60, 0x78, 0x6c, 0x66,
      0x66, 0x66, 0x66, 0x7c, 0x00, 0x00, 0x00, 0x00],
     [0x00, 0x00, 0x00, 0x00, 0x00, 0x7c, 0xc6, 0xc0,
      0xc0, 0xc0, 0xc6, 0x7c, 0x00, 0x00, 0x00, 0x00],
     [0x00, 0x00, 0x1c, 0x0c, 0x0c, 0x3c, 0x6c, 0xcc,
      0xcc, 0xcc, 0xcc, 0x76, 0x00, 0x00, 0x00, 0x00],
     [0x00, 0x00, 0x00, 0x00, 0x00, 0x7c, 0xc6, 0xfe,
      0xc0, 0xc0, 0xc6, 0x7c, 0x00, 0x00, 0x00, 0x00],
     [0x00, 0x00, 0x1c, 0x36, 0x32, 0x30, 0x78, 0x30,
      0x30, 0x30, 0x30, 0x78, 0x00, 0x00, 0x00, 0x00],
     [0x00, 0x00, 0x00, 0x00, 0x00, 0x76, 0xcc, 0xcc,
      0xcc, 0xcc, 0xcc, 0x7c, 0x0c, 0xcc, 0x78, 0x00]]"

definition font_68 :: "u8 list list" where
  "font_68 = [
     [0x00, 0x00, 0xe0, 0x60, 0x60, 0x6c, 0x76, 0x66,
      0x66, 0x66, 0x66, 0xe6, 0x00, 0x00, 0x00, 0x00],
     [0x00, 0x00, 0x18, 0x18, 0x00, 0x38, 0x18, 0x18,
      0x18, 0x18, 0x18, 0x3c, 0x00, 0x00, 0x00, 0x00],
     [0x00, 0x00, 0x06, 0x06, 0x00, 0x0e, 0x06, 0x06,
      0x06, 0x06, 0x06, 0x06, 0x66, 0x66, 0x3c, 0x00],
     [0x00, 0x00, 0xe0, 0x60, 0x60, 0x66, 0x6c, 0x78,
      0x78, 0x6c, 0x66, 0xe6, 0x00, 0x00, 0x00, 0x00],
     [0x00, 0x00, 0x38, 0x18, 0x18, 0x18, 0x18, 0x18,
      0x18, 0x18, 0x18, 0x3c, 0x00, 0x00, 0x00, 0x00],
     [0x00, 0x00, 0x00, 0x00, 0x00, 0xec, 0xfe, 0xd6,
      0xd6, 0xd6, 0xd6, 0xc6, 0x00, 0x00, 0x00, 0x00],
     [0x00, 0x00, 0x00, 0x00, 0x00, 0xdc, 0x66, 0x66,
      0x66, 0x66, 0x66, 0x66, 0x00, 0x00, 0x00, 0x00],
     [0x00, 0x00, 0x00, 0x00, 0x00, 0x7c, 0xc6, 0xc6,
      0xc6, 0xc6, 0xc6, 0x7c, 0x00, 0x00, 0x00, 0x00]]"

definition font_70 :: "u8 list list" where
  "font_70 = [
     [0x00, 0x00, 0x00, 0x00, 0x00, 0xdc, 0x66, 0x66,
      0x66, 0x66, 0x66, 0x7c, 0x60, 0x60, 0xf0, 0x00],
     [0x00, 0x00, 0x00, 0x00, 0x00, 0x76, 0xcc, 0xcc,
      0xcc, 0xcc, 0xcc, 0x7c, 0x0c, 0x0c, 0x1e, 0x00],
     [0x00, 0x00, 0x00, 0x00, 0x00, 0xdc, 0x76, 0x66,
      0x60, 0x60, 0x60, 0xf0, 0x00, 0x00, 0x00, 0x00],
     [0x00, 0x00, 0x00, 0x00, 0x00, 0x7c, 0xc6, 0x60,
      0x38, 0x0c, 0xc6, 0x7c, 0x00, 0x00, 0x00, 0x00],
     [0x00, 0x00, 0x10, 0x30, 0x30, 0xfc, 0x30, 0x30,
      0x30, 0x30, 0x36, 0x1c, 0x00, 0x00, 0x00, 0x00],
     [0x00, 0x00, 0x00, 0x00, 0x00, 0xcc, 0xcc, 0xcc,
      0xcc, 0xcc, 0xcc, 0x76, 0x00, 0x00, 0x00, 0x00],
     [0x00, 0x00, 0x00, 0x00, 0x00, 0xc6, 0xc6, 0xc6,
      0xc6, 0xc6, 0x6c, 0x38, 0x00, 0x00, 0x00, 0x00],
     [0x00, 0x00, 0x00, 0x00, 0x00, 0xc6, 0xc6, 0xd6,
      0xd6, 0xd6, 0xfe, 0x6c, 0x00, 0x00, 0x00, 0x00]]"

definition font_78 :: "u8 list list" where
  "font_78 = [
     [0x00, 0x00, 0x00, 0x00, 0x00, 0xc6, 0x6c, 0x38,
      0x38, 0x38, 0x6c, 0xc6, 0x00, 0x00, 0x00, 0x00],
     [0x00, 0x00, 0x00, 0x00, 0x00, 0xc6, 0xc6, 0xc6,
      0xc6, 0xc6, 0xc6, 0x7e, 0x06, 0x0c, 0xf8, 0x00],
     [0x00, 0x00, 0x00, 0x00, 0x00, 0xfe, 0xcc, 0x18,
      0x30, 0x60, 0xc6, 0xfe, 0x00, 0x00, 0x00, 0x00],
     [0x00, 0x00, 0x0e, 0x18, 0x18, 0x18, 0x70, 0x18,
      0x18, 0x18, 0x18, 0x0e, 0x00, 0x00, 0x00, 0x00],
     [0x00, 0x00, 0x18, 0x18, 0x18, 0x18, 0x18, 0x18,
      0x18, 0x18, 0x18, 0x18, 0x00, 0x00, 0x00, 0x00],
     [0x00, 0x00, 0x70, 0x18, 0x18, 0x18, 0x0e, 0x18,
      0x18, 0x18, 0x18, 0x70, 0x00, 0x00, 0x00, 0x00],
     [0x00, 0x76, 0xdc, 0x00, 0x00, 0x00, 0x00, 0x00,
      0x00, 0x00, 0x00, 0x00, 0x00, 0x00, 0x00, 0x00],
     [0x00, 0x00, 0x00, 0x00, 0x10, 0x38, 0x6c, 0xc6,
      0xc6, 0xc6, 0xfe, 0x00, 0x00, 0x00, 0x00, 0x00]]"

definition font_80 :: "u8 list list" where
  "font_80 = [
     [0x00, 0x00, 0x3c, 0x66, 0xc2, 0xc0, 0xc0, 0xc0,
      0xc0, 0xc2, 0x66, 0x3c, 0x18, 0x70, 0x00, 0x00],
     [0x00, 0x00, 0xcc, 0x00, 0x00, 0xcc, 0xcc, 0xcc,
      0xcc, 0xcc, 0xcc, 0x76, 0x00, 0x00, 0x00, 0x00],
     [0x00, 0x0c, 0x18, 0x30, 0x00, 0x7c, 0xc6, 0xfe,
      0xc0, 0xc0, 0xc6, 0x7c, 0x00, 0x00, 0x00, 0x00],
     [0x00, 0x10, 0x38, 0x6c, 0x00, 0x78, 0x0c, 0x7c,
      0xcc, 0xcc, 0xcc, 0x76, 0x00, 0x00, 0x00, 0x00],
     [0x00, 0x00, 0xcc, 0x00, 0x00, 0x78, 0x0c, 0x7c,
      0xcc, 0xcc, 0xcc, 0x76, 0x00, 0x00, 0x00, 0x00],
     [0x00, 0x60, 0x30, 0x18, 0x00, 0x78, 0x0c, 0x7c,
      0xcc, 0xcc, 0xcc, 0x76, 0x00, 0x00, 0x00, 0x00],
     [0x00, 0x38, 0x6c, 0x38, 0x00, 0x78, 0x0c, 0x7c,
      0xcc, 0xcc, 0xcc, 0x76, 0x00, 0x00, 0x00, 0x00],
     [0x00, 0x00, 0x00, 0x00, 0x00, 0x7c, 0xc6, 0xc0,
      0xc0, 0xc0, 0xc6, 0x7c, 0x18, 0x70, 0x00, 0x00]]"

definition font_88 :: "u8 list list" where
  "font_88 = [
     [0x00, 0x10, 0x38, 0x6c, 0x00, 0x7c, 0xc6, 0xfe,
      0xc0, 0xc0, 0xc6, 0x7c, 0x00, 0x00, 0x00, 0x00],
     [0x00, 0x00, 0xc6, 0x00, 0x00, 0x7c, 0xc6, 0xfe,
      0xc0, 0xc0, 0xc6, 0x7c, 0x00, 0x00, 0x00, 0x00],
     [0x00, 0x60, 0x30, 0x18, 0x00, 0x7c, 0xc6, 0xfe,
      0xc0, 0xc0, 0xc6, 0x7c, 0x00, 0x00, 0x00, 0x00],
     [0x00, 0x00, 0x66, 0x00, 0x00, 0x38, 0x18, 0x18,
      0x18, 0x18, 0x18, 0x3c, 0x00, 0x00, 0x00, 0x00],
     [0x00, 0x18, 0x3c, 0x66, 0x00, 0x38, 0x18, 0x18,
      0x18, 0x18, 0x18, 0x3c, 0x00, 0x00, 0x00, 0x00],
     [0x00, 0x60, 0x30, 0x18, 0x00, 0x38, 0x18, 0x18,
      0x18, 0x18, 0x18, 0x3c, 0x00, 0x00, 0x00, 0x00],
     [0x00, 0xc6, 0x00, 0x10, 0x38, 0x6c, 0xc6, 0xc6,
      0xfe, 0xc6, 0xc6, 0xc6, 0x00, 0x00, 0x00, 0x00],
     [0x38, 0x6c, 0x38, 0x10, 0x38, 0x6c, 0xc6, 0xfe,
      0xc6, 0xc6, 0xc6, 0xc6, 0x00, 0x00, 0x00, 0x00]]"

definition font_90 :: "u8 list list" where
  "font_90 = [
     [0x0c, 0x18, 0x00, 0xfe, 0x66, 0x62, 0x68, 0x78,
      0x68, 0x62, 0x66, 0xfe, 0x00, 0x00, 0x00, 0x00],
     [0x00, 0x00, 0x00, 0x00, 0x00, 0xec, 0x36, 0x36,
      0x7e, 0xd8, 0xd8, 0x6e, 0x00, 0x00, 0x00, 0x00],
     [0x00, 0x00, 0x3e, 0x6c, 0xcc, 0xcc, 0xfe, 0xcc,
      0xcc, 0xcc, 0xcc, 0xce, 0x00, 0x00, 0x00, 0x00],
     [0x00, 0x10, 0x38, 0x6c, 0x00, 0x7c, 0xc6, 0xc6,
      0xc6, 0xc6, 0xc6, 0x7c, 0x00, 0x00, 0x00, 0x00],
     [0x00, 0x00, 0xc6, 0x00, 0x00, 0x7c, 0xc6, 0xc6,
      0xc6, 0xc6, 0xc6, 0x7c, 0x00, 0x00, 0x00, 0x00],
     [0x00, 0x60, 0x30, 0x18, 0x00, 0x7c, 0xc6, 0xc6,
      0xc6, 0xc6, 0xc6, 0x7c, 0x00, 0x00, 0x00, 0x00],
     [0x00, 0x30, 0x78, 0xcc, 0x00, 0xcc, 0xcc, 0xcc,
      0xcc, 0xcc, 0xcc, 0x76, 0x00, 0x00, 0x00, 0x00],
     [0x00, 0x60, 0x30, 0x18, 0x00, 0xcc, 0xcc, 0xcc,
      0xcc, 0xcc, 0xcc, 0x76, 0x00, 0x00, 0x00, 0x00]]"

definition font_98 :: "u8 list list" where
  "font_98 = [
     [0x00, 0x00, 0xc6, 0x00, 0x00, 0xc6, 0xc6, 0xc6,
      0xc6, 0xc6, 0xc6, 0x7e, 0x06, 0x0c, 0x78, 0x00],
     [0x00, 0xc6, 0x00, 0x7c, 0xc6, 0xc6, 0xc6, 0xc6,
      0xc6, 0xc6, 0xc6, 0x7c, 0x00, 0x00, 0x00, 0x00],
     [0x00, 0xc6, 0x00, 0xc6, 0xc6, 0xc6, 0xc6, 0xc6,
      0xc6, 0xc6, 0xc6, 0x7c, 0x00, 0x00, 0x00, 0x00],
     [0x00, 0x18, 0x18, 0x7c, 0xc6, 0xc0, 0xc0, 0xc0,
      0xc6, 0x7c, 0x18, 0x18, 0x00, 0x00, 0x00, 0x00],
     [0x00, 0x38, 0x6c, 0x64, 0x60, 0xf0, 0x60, 0x60,
      0x60, 0x60, 0xe6, 0xfc, 0x00, 0x00, 0x00, 0x00],
     [0x00, 0x00, 0x66, 0x66, 0x3c, 0x18, 0x7e, 0x18,
      0x7e, 0x18, 0x18, 0x18, 0x00, 0x00, 0x00, 0x00],
     [0x00, 0xf8, 0xcc, 0xcc, 0xf8, 0xc4, 0xcc, 0xde,
      0xcc, 0xcc, 0xcc, 0xc6, 0x00, 0x00, 0x00, 0x00],
     [0x00, 0x0e, 0x1b, 0x18, 0x18, 0x18, 0x7e, 0x18,
      0x18, 0x18, 0xd8, 0x70, 0x00, 0x00, 0x00, 0x00]]"

definition font_A0 :: "u8 list list" where
  "font_A0 = [
     [0x00, 0x18, 0x30, 0x60, 0x00, 0x78, 0x0c, 0x7c,
      0xcc, 0xcc, 0xcc, 0x76, 0x00, 0x00, 0x00, 0x00],
     [0x00, 0x0c, 0x18, 0x30, 0x00, 0x38, 0x18, 0x18,
      0x18, 0x18, 0x18, 0x3c, 0x00, 0x00, 0x00, 0x00],
     [0x00, 0x18, 0x30, 0x60, 0x00, 0x7c, 0xc6, 0xc6,
      0xc6, 0xc6, 0xc6, 0x7c, 0x00, 0x00, 0x00, 0x00],
     [0x00, 0x18, 0x30, 0x60, 0x00, 0xcc, 0xcc, 0xcc,
      0xcc, 0xcc, 0xcc, 0x76, 0x00, 0x00, 0x00, 0x00],
     [0x00, 0x00, 0x76, 0xdc, 0x00, 0xdc, 0x66, 0x66,
      0x66, 0x66, 0x66, 0x66, 0x00, 0x00, 0x00, 0x00],
     [0x76, 0xdc, 0x00, 0xc6, 0xe6, 0xf6, 0xfe, 0xde,
      0xce, 0xc6, 0xc6, 0xc6, 0x00, 0x00, 0x00, 0x00],
     [0x00, 0x00, 0x3c, 0x6c, 0x6c, 0x3e, 0x00, 0x7e,
      0x00, 0x00, 0x00, 0x00, 0x00, 0x00, 0x00, 0x00],
     [0x00, 0x00, 0x38, 0x6c, 0x6c, 0x38, 0x00, 0x7c,
      0x00, 0x00, 0x00, 0x00, 0x00, 0x00, 0x00, 0x00]]"

definition font_A8 :: "u8 list list" where
  "font_A8 = [
     [0x00, 0x00, 0x30, 0x30, 0x00, 0x30, 0x30, 0x60,
      0xc0, 0xc6, 0xc6, 0x7c, 0x00, 0x00, 0x00, 0x00],
     [0x00, 0x00, 0x00, 0x00, 0x00, 0x00, 0xfe, 0xc0,
      0xc0, 0xc0, 0xc0, 0x00, 0x00, 0x00, 0x00, 0x00],
     [0x00, 0x00, 0x00, 0x00, 0x00, 0x00, 0xfe, 0x06,
      0x06, 0x06, 0x06, 0x00, 0x00, 0x00, 0x00, 0x00],
     [0x00, 0x60, 0xe0, 0x62, 0x66, 0x6c, 0x18, 0x30,
      0x60, 0xdc, 0x86, 0x0c, 0x18, 0x3e, 0x00, 0x00],
     [0x00, 0x60, 0xe0, 0x62, 0x66, 0x6c, 0x18, 0x30,
      0x66, 0xce, 0x9a, 0x3f, 0x06, 0x06, 0x00, 0x00],
     [0x00, 0x00, 0x18, 0x18, 0x00, 0x18, 0x18, 0x18,
      0x3c, 0x3c, 0x3c, 0x18, 0x00, 0x00, 0x00, 0x00],
     [0x00, 0x00, 0x00, 0x00, 0x00, 0x36, 0x6c, 0xd8,
      0x6c, 0x36, 0x00, 0x00, 0x00, 0x00, 0x00, 0x00],
     [0x00, 0x00, 0x00, 0x00, 0x00, 0xd8, 0x6c, 0x36,
      0x6c, 0xd8, 0x00, 0x00, 0x00, 0x00, 0x00, 0x00]]"

definition font_B0 :: "u8 list list" where
  "font_B0 = [
     [0x11, 0x44, 0x11, 0x44, 0x11, 0x44, 0x11, 0x44,
      0x11, 0x44, 0x11, 0x44, 0x11, 0x44, 0x11, 0x44],
     [0x55, 0xaa, 0x55, 0xaa, 0x55, 0xaa, 0x55, 0xaa,
      0x55, 0xaa, 0x55, 0xaa, 0x55, 0xaa, 0x55, 0xaa],
     [0xdd, 0x77, 0xdd, 0x77, 0xdd, 0x77, 0xdd, 0x77,
      0xdd, 0x77, 0xdd, 0x77, 0xdd, 0x77, 0xdd, 0x77],
     [0x18, 0x18, 0x18, 0x18, 0x18, 0x18, 0x18, 0x18,
      0x18, 0x18, 0x18, 0x18, 0x18, 0x18, 0x18, 0x18],
     [0x18, 0x18, 0x18, 0x18, 0x18, 0x18, 0x18, 0xf8,
      0x18, 0x18, 0x18, 0x18, 0x18, 0x18, 0x18, 0x18],
     [0x18, 0x18, 0x18, 0x18, 0x18, 0xf8, 0x18, 0xf8,
      0x18, 0x18, 0x18, 0x18, 0x18, 0x18, 0x18, 0x18],
     [0x36, 0x36, 0x36, 0x36, 0x36, 0x36, 0x36, 0xf6,
      0x36, 0x36, 0x36, 0x36, 0x36, 0x36, 0x36, 0x36],
     [0x00, 0x00, 0x00, 0x00, 0x00, 0x00, 0x00, 0xfe,
      0x36, 0x36, 0x36, 0x36, 0x36, 0x36, 0x36, 0x36]]"

definition font_B8 :: "u8 list list" where
  "font_B8 = [
     [0x00, 0x00, 0x00, 0x00, 0x00, 0xf8, 0x18, 0xf8,
      0x18, 0x18, 0x18, 0x18, 0x18, 0x18, 0x18, 0x18],
     [0x36, 0x36, 0x36, 0x36, 0x36, 0xf6, 0x06, 0xf6,
      0x36, 0x36, 0x36, 0x36, 0x36, 0x36, 0x36, 0x36],
     [0x36, 0x36, 0x36, 0x36, 0x36, 0x36, 0x36, 0x36,
      0x36, 0x36, 0x36, 0x36, 0x36, 0x36, 0x36, 0x36],
     [0x00, 0x00, 0x00, 0x00, 0x00, 0xfe, 0x06, 0xf6,
      0x36, 0x36, 0x36, 0x36, 0x36, 0x36, 0x36, 0x36],
     [0x36, 0x36, 0x36, 0x36, 0x36, 0xf6, 0x06, 0xfe,
      0x00, 0x00, 0x00, 0x00, 0x00, 0x00, 0x00, 0x00],
     [0x36, 0x36, 0x36, 0x36, 0x36, 0x36, 0x36, 0xfe,
      0x00, 0x00, 0x00, 0x00, 0x00, 0x00, 0x00, 0x00],
     [0x18, 0x18, 0x18, 0x18, 0x18, 0xf8, 0x18, 0xf8,
      0x00, 0x00, 0x00, 0x00, 0x00, 0x00, 0x00, 0x00],
     [0x00, 0x00, 0x00, 0x00, 0x00, 0x00, 0x00, 0xf8,
      0x18, 0x18, 0x18, 0x18, 0x18, 0x18, 0x18, 0x18]]"

definition font_C0 :: "u8 list list" where
  "font_C0 = [
     [0x18, 0x18, 0x18, 0x18, 0x18, 0x18, 0x18, 0x1f,
      0x00, 0x00, 0x00, 0x00, 0x00, 0x00, 0x00, 0x00],
     [0x18, 0x18, 0x18, 0x18, 0x18, 0x18, 0x18, 0xff,
      0x00, 0x00, 0x00, 0x00, 0x00, 0x00, 0x00, 0x00],
     [0x00, 0x00, 0x00, 0x00, 0x00, 0x00, 0x00, 0xff,
      0x18, 0x18, 0x18, 0x18, 0x18, 0x18, 0x18, 0x18],
     [0x18, 0x18, 0x18, 0x18, 0x18, 0x18, 0x18, 0x1f,
      0x18, 0x18, 0x18, 0x18, 0x18, 0x18, 0x18, 0x18],
     [0x00, 0x00, 0x00, 0x00, 0x00, 0x00, 0x00, 0xff,
      0x00, 0x00, 0x00, 0x00, 0x00, 0x00, 0x00, 0x00],
     [0x18, 0x18, 0x18, 0x18, 0x18, 0x18, 0x18, 0xff,
      0x18, 0x18, 0x18, 0x18, 0x18, 0x18, 0x18, 0x18],
     [0x18, 0x18, 0x18, 0x18, 0x18, 0x1f, 0x18, 0x1f,
      0x18, 0x18, 0x18, 0x18, 0x18, 0x18, 0x18, 0x18],
     [0x36, 0x36, 0x36, 0x36, 0x36, 0x36, 0x36, 0x37,
      0x36, 0x36, 0x36, 0x36, 0x36, 0x36, 0x36, 0x36]]"

definition font_C8 :: "u8 list list" where
  "font_C8 = [
     [0x36, 0x36, 0x36, 0x36, 0x36, 0x37, 0x30, 0x3f,
      0x00, 0x00, 0x00, 0x00, 0x00, 0x00, 0x00, 0x00],
     [0x00, 0x00, 0x00, 0x00, 0x00, 0x3f, 0x30, 0x37,
      0x36, 0x36, 0x36, 0x36, 0x36, 0x36, 0x36, 0x36],
     [0x36, 0x36, 0x36, 0x36, 0x36, 0xf7, 0x00, 0xff,
      0x00, 0x00, 0x00, 0x00, 0x00, 0x00, 0x00, 0x00],
     [0x00, 0x00, 0x00, 0x00, 0x00, 0xff, 0x00, 0xf7,
      0x36, 0x36, 0x36, 0x36, 0x36, 0x36, 0x36, 0x36],
     [0x36, 0x36, 0x36, 0x36, 0x36, 0x37, 0x30, 0x37,
      0x36, 0x36, 0x36, 0x36, 0x36, 0x36, 0x36, 0x36],
     [0x00, 0x00, 0x00, 0x00, 0x00, 0xff, 0x00, 0xff,
      0x00, 0x00, 0x00, 0x00, 0x00, 0x00, 0x00, 0x00],
     [0x36, 0x36, 0x36, 0x36, 0x36, 0xf7, 0x00, 0xf7,
      0x36, 0x36, 0x36, 0x36, 0x36, 0x36, 0x36, 0x36],
     [0x18, 0x18, 0x18, 0x18, 0x18, 0xff, 0x00, 0xff,
      0x00, 0x00, 0x00, 0x00, 0x00, 0x00, 0x00, 0x00]]"

definition font_D0 :: "u8 list list" where
  "font_D0 = [
     [0x36, 0x36, 0x36, 0x36, 0x36, 0x36, 0x36, 0xff,
      0x00, 0x00, 0x00, 0x00, 0x00, 0x00, 0x00, 0x00],
     [0x00, 0x00, 0x00, 0x00, 0x00, 0xff, 0x00, 0xff,
      0x18, 0x18, 0x18, 0x18, 0x18, 0x18, 0x18, 0x18],
     [0x00, 0x00, 0x00, 0x00, 0x00, 0x00, 0x00, 0xff,
      0x36, 0x36, 0x36, 0x36, 0x36, 0x36, 0x36, 0x36],
     [0x36, 0x36, 0x36, 0x36, 0x36, 0x36, 0x36, 0x3f,
      0x00, 0x00, 0x00, 0x00, 0x00, 0x00, 0x00, 0x00],
     [0x18, 0x18, 0x18, 0x18, 0x18, 0x1f, 0x18, 0x1f,
      0x00, 0x00, 0x00, 0x00, 0x00, 0x00, 0x00, 0x00],
     [0x00, 0x00, 0x00, 0x00, 0x00, 0x1f, 0x18, 0x1f,
      0x18, 0x18, 0x18, 0x18, 0x18, 0x18, 0x18, 0x18],
     [0x00, 0x00, 0x00, 0x00, 0x00, 0x00, 0x00, 0x3f,
      0x36, 0x36, 0x36, 0x36, 0x36, 0x36, 0x36, 0x36],
     [0x36, 0x36, 0x36, 0x36, 0x36, 0x36, 0x36, 0xff,
      0x36, 0x36, 0x36, 0x36, 0x36, 0x36, 0x36, 0x36]]"

definition font_D8 :: "u8 list list" where
  "font_D8 = [
     [0x18, 0x18, 0x18, 0x18, 0x18, 0xff, 0x18, 0xff,
      0x18, 0x18, 0x18, 0x18, 0x18, 0x18, 0x18, 0x18],
     [0x18, 0x18, 0x18, 0x18, 0x18, 0x18, 0x18, 0xf8,
      0x00, 0x00, 0x00, 0x00, 0x00, 0x00, 0x00, 0x00],
     [0x00, 0x00, 0x00, 0x00, 0x00, 0x00, 0x00, 0x1f,
      0x18, 0x18, 0x18, 0x18, 0x18, 0x18, 0x18, 0x18],
     [0xff, 0xff, 0xff, 0xff, 0xff, 0xff, 0xff, 0xff,
      0xff, 0xff, 0xff, 0xff, 0xff, 0xff, 0xff, 0xff],
     [0x00, 0x00, 0x00, 0x00, 0x00, 0x00, 0x00, 0xff,
      0xff, 0xff, 0xff, 0xff, 0xff, 0xff, 0xff, 0xff],
     [0xf0, 0xf0, 0xf0, 0xf0, 0xf0, 0xf0, 0xf0, 0xf0,
      0xf0, 0xf0, 0xf0, 0xf0, 0xf0, 0xf0, 0xf0, 0xf0],
     [0x0f, 0x0f, 0x0f, 0x0f, 0x0f, 0x0f, 0x0f, 0x0f,
      0x0f, 0x0f, 0x0f, 0x0f, 0x0f, 0x0f, 0x0f, 0x0f],
     [0xff, 0xff, 0xff, 0xff, 0xff, 0xff, 0xff, 0x00,
      0x00, 0x00, 0x00, 0x00, 0x00, 0x00, 0x00, 0x00]]"

definition font_E0 :: "u8 list list" where
  "font_E0 = [
     [0x00, 0x00, 0x00, 0x00, 0x00, 0x76, 0xdc, 0xd8,
      0xd8, 0xd8, 0xdc, 0x76, 0x00, 0x00, 0x00, 0x00],
     [0x00, 0x00, 0x78, 0xcc, 0xcc, 0xcc, 0xd8, 0xcc,
      0xc6, 0xc6, 0xc6, 0xcc, 0x00, 0x00, 0x00, 0x00],
     [0x00, 0x00, 0xfe, 0xc6, 0xc6, 0xc0, 0xc0, 0xc0,
      0xc0, 0xc0, 0xc0, 0xc0, 0x00, 0x00, 0x00, 0x00],
     [0x00, 0x00, 0x00, 0x00, 0x00, 0xfe, 0x6c, 0x6c,
      0x6c, 0x6c, 0x6c, 0x6c, 0x00, 0x00, 0x00, 0x00],
     [0x00, 0x00, 0xfe, 0xc6, 0x60, 0x30, 0x18, 0x18,
      0x30, 0x60, 0xc6, 0xfe, 0x00, 0x00, 0x00, 0x00],
     [0x00, 0x00, 0x00, 0x00, 0x00, 0x7e, 0xd8, 0xd8,
      0xd8, 0xd8, 0xd8, 0x70, 0x00, 0x00, 0x00, 0x00],
     [0x00, 0x00, 0x00, 0x00, 0x00, 0x66, 0x66, 0x66,
      0x66, 0x66, 0x66, 0x7c, 0x60, 0x60, 0xc0, 0x00],
     [0x00, 0x00, 0x00, 0x00, 0x76, 0xdc, 0x18, 0x18,
      0x18, 0x18, 0x18, 0x18, 0x00, 0x00, 0x00, 0x00]]"

definition font_E8 :: "u8 list list" where
  "font_E8 = [
     [0x00, 0x00, 0x7e, 0x18, 0x3c, 0x66, 0x66, 0x66,
      0x66, 0x3c, 0x18, 0x7e, 0x00, 0x00, 0x00, 0x00],
     [0x00, 0x00, 0x38, 0x6c, 0xc6, 0xc6, 0xfe, 0xc6,
      0xc6, 0xc6, 0x6c, 0x38, 0x00, 0x00, 0x00, 0x00],
     [0x00, 0x00, 0x38, 0x6c, 0xc6, 0xc6, 0xc6, 0x6c,
      0x6c, 0x6c, 0x6c, 0xee, 0x00, 0x00, 0x00, 0x00],
     [0x00, 0x00, 0x1e, 0x30, 0x18, 0x0c, 0x3e, 0x66,
      0x66, 0x66, 0x66, 0x3c, 0x00, 0x00, 0x00, 0x00],
     [0x00, 0x00, 0x00, 0x00, 0x00, 0x7e, 0xdb, 0xdb,
      0xdb, 0x7e, 0x00, 0x00, 0x00, 0x00, 0x00, 0x00],
     [0x00, 0x00, 0x00, 0x03, 0x06, 0x7e, 0xdb, 0xdb,
      0xf3, 0x7e, 0x60, 0xc0, 0x00, 0x00, 0x00, 0x00],
     [0x00, 0x00, 0x1c, 0x30, 0x60, 0x60, 0x7c, 0x60,
      0x60, 0x60, 0x30, 0x1c, 0x00, 0x00, 0x00, 0x00],
     [0x00, 0x00, 0x00, 0x7c, 0xc6, 0xc6, 0xc6, 0xc6,
      0xc6, 0xc6, 0xc6, 0xc6, 0x00, 0x00, 0x00, 0x00]]"

definition font_F0 :: "u8 list list" where
  "font_F0 = [
     [0x00, 0x00, 0x00, 0x00, 0xfe, 0x00, 0x00, 0xfe,
      0x00, 0x00, 0xfe, 0x00, 0x00, 0x00, 0x00, 0x00],
     [0x00, 0x00, 0x00, 0x00, 0x18, 0x18, 0x7e, 0x18,
      0x18, 0x00, 0x00, 0x7e, 0x00, 0x00, 0x00, 0x00],
     [0x00, 0x00, 0x00, 0x30, 0x18, 0x0c, 0x06, 0x0c,
      0x18, 0x30, 0x00, 0x7e, 0x00, 0x00, 0x00, 0x00],
     [0x00, 0x00, 0x00, 0x0c, 0x18, 0x30, 0x60, 0x30,
      0x18, 0x0c, 0x00, 0x7e, 0x00, 0x00, 0x00, 0x00],
     [0x00, 0x00, 0x0e, 0x1b, 0x1b, 0x18, 0x18, 0x18,
      0x18, 0x18, 0x18, 0x18, 0x18, 0x18, 0x18, 0x18],
     [0x18, 0x18, 0x18, 0x18, 0x18, 0x18, 0x18, 0x18,
      0x18, 0xd8, 0xd8, 0xd8, 0x70, 0x00, 0x00, 0x00],
     [0x00, 0x00, 0x00, 0x00, 0x00, 0x18, 0x00, 0x7e,
      0x00, 0x18, 0x00, 0x00, 0x00, 0x00, 0x00, 0x00],
     [0x00, 0x00, 0x00, 0x00, 0x00, 0x76, 0xdc, 0x00,
      0x76, 0xdc, 0x00, 0x00, 0x00, 0x00, 0x00, 0x00]]"

definition font_F8 :: "u8 list list" where
  "font_F8 = [
     [0x00, 0x38, 0x6c, 0x6c, 0x38, 0x00, 0x00, 0x00,
      0x00, 0x00, 0x00, 0x00, 0x00, 0x00, 0x00, 0x00],
     [0x00, 0x00, 0x00, 0x00, 0x00, 0x00, 0x00, 0x18,
      0x18, 0x00, 0x00, 0x00, 0x00, 0x00, 0x00, 0x00],
     [0x00, 0x00, 0x00, 0x00, 0x00, 0x00, 0x00, 0x18,
      0x00, 0x00, 0x00, 0x00, 0x00, 0x00, 0x00, 0x00],
     [0x00, 0x0f, 0x0c, 0x0c, 0x0c, 0x0c, 0x0c, 0xec,
      0x6c, 0x6c, 0x3c, 0x1c, 0x00, 0x00, 0x00, 0x00],
     [0x00, 0x6c, 0x36, 0x36, 0x36, 0x36, 0x36, 0x00,
      0x00, 0x00, 0x00, 0x00, 0x00, 0x00, 0x00, 0x00],
     [0x00, 0x3c, 0x66, 0x0c, 0x18, 0x32, 0x7e, 0x00,
      0x00, 0x00, 0x00, 0x00, 0x00, 0x00, 0x00, 0x00],
     [0x00, 0x00, 0x00, 0x00, 0x7e, 0x7e, 0x7e, 0x7e,
      0x7e, 0x7e, 0x7e, 0x00, 0x00, 0x00, 0x00, 0x00],
     [0x00, 0x00, 0x00, 0x00, 0x00, 0x00, 0x00, 0x00,
      0x00, 0x00, 0x00, 0x00, 0x00, 0x00, 0x00, 0x00]]"

definition glyphs :: "u8 list list" where
  "glyphs = concat [font_00, font_08, font_10, font_18, font_20, font_28, font_30, font_38,
     font_40, font_48, font_50, font_58, font_60, font_68, font_70, font_78,
     font_80, font_88, font_90, font_98, font_A0, font_A8, font_B0, font_B8,
     font_C0, font_C8, font_D0, font_D8, font_E0, font_E8, font_F0, font_F8]"

definition fontdata_8x16 :: "u8 list" where
  "fontdata_8x16 = concat glyphs"

lemmas font_groups =
  font_00_def font_08_def font_10_def font_18_def font_20_def font_28_def
  font_30_def font_38_def font_40_def font_48_def font_50_def font_58_def
  font_60_def font_68_def font_70_def font_78_def font_80_def font_88_def
  font_90_def font_98_def font_A0_def font_A8_def font_B0_def font_B8_def
  font_C0_def font_C8_def font_D0_def font_D8_def font_E0_def font_E8_def
  font_F0_def font_F8_def

section \<open>Rows of a glyph\<close>

lemma glyph_lengths: "list_all (\<lambda>g. length g = 16) glyphs"
  by (simp add: glyphs_def font_groups)

lemma glyphs_length: "length glyphs = 256"
  by (simp add: glyphs_def font_groups)

text \<open>Element \<open>j\<close> of list \<open>i\<close> in a concatenation of lists of one length.\<close>

lemma concat_nth_same:
  "list_all (\<lambda>x. length x = n) xs \<Longrightarrow> i < length xs \<Longrightarrow> j < n \<Longrightarrow>
     concat xs ! (i * n + j) = xs ! i ! j"
proof (induction xs arbitrary: i)
  case Nil
  then show ?case by simp
next
  case (Cons x xs)
  then show ?case by (cases i) (auto simp: nth_append)
qed

lemma length_concat_same: "list_all (\<lambda>x. length x = n) xs \<Longrightarrow> length (concat xs) = length xs * n"
  by (induction xs) auto

lemma fontdata_length: "length fontdata_8x16 = 4096"
  using length_concat_same [OF glyph_lengths] by (simp add: fontdata_8x16_def glyphs_length)

lemma fontdata_nth: "c < 256 \<Longrightarrow> r < 16 \<Longrightarrow> fontdata_8x16 ! (c * 16 + r) = glyphs ! c ! r"
  unfolding fontdata_8x16_def by (rule concat_nth_same [OF glyph_lengths]) (simp_all add: glyphs_length)

text \<open>The sixteen rows of a character, as the program indexes them, are its glyph.\<close>

lemma fontdata_rows:
  assumes "c < 256"
  shows "map (\<lambda>r. fontdata_8x16 ! (c * 16 + r)) [0..<16] = glyphs ! c"
proof (rule nth_equalityI)
  have len: "length (glyphs ! c) = 16"
    using glyph_lengths assms by (simp add: list_all_length glyphs_length)
  then show "length (map (\<lambda>r. fontdata_8x16 ! (c * 16 + r)) [0..<16]) = length (glyphs ! c)" by simp
  fix r assume "r < length (map (\<lambda>r. fontdata_8x16 ! (c * 16 + r)) [0..<16])"
  then show "map (\<lambda>r. fontdata_8x16 ! (c * 16 + r)) [0..<16] ! r = glyphs ! c ! r"
    using assms by (simp add: fontdata_nth)
qed

section \<open>Telling the characters apart\<close>

text \<open>
  The glyphs of the characters 1 to 127 are different. A glyph is compared as one number, so that
  the comparison of all pairs stays cheap.
\<close>

definition glyph_key :: "u8 list \<Rightarrow> nat" where
  "glyph_key g = foldr (\<lambda>b a. unat b + 256 * a) g 0"

definition ascii_glyphs :: "u8 list list" where
  "ascii_glyphs = take 127 (tl glyphs)"

lemma ascii_keys_distinct: "distinct (map glyph_key ascii_glyphs)"
  by (simp add: ascii_glyphs_def glyphs_def font_groups glyph_key_def)

lemma ascii_glyphs_distinct: "distinct ascii_glyphs"
  using ascii_keys_distinct by (simp add: distinct_map)

lemma ascii_glyphs_nth: "k < 127 \<Longrightarrow> ascii_glyphs ! k = glyphs ! Suc k"
  by (simp add: ascii_glyphs_def nth_tl glyphs_length)

lemma glyphs_inj:
  assumes "0 < c" "c < 128" "0 < d" "d < 128" "glyphs ! c = glyphs ! d"
  shows "c = d"
proof -
  have "ascii_glyphs ! (c - 1) = ascii_glyphs ! (d - 1)"
    using assms by (simp add: ascii_glyphs_nth)
  moreover have "length ascii_glyphs = 127" by (simp add: ascii_glyphs_def glyphs_length)
  ultimately show ?thesis
    using nth_eq_iff_index_eq [OF ascii_glyphs_distinct] assms by auto
qed

text \<open>The terminating zero of a string looks like a blank.\<close>

lemma glyph_zero: "glyphs ! 0 = glyphs ! 32"
  by (simp add: glyphs_def font_groups)

end
