(* ===== verification/Fb_Text.thy ===== *)
theory Fb_Text
  imports Screen_Path Font
begin

text \<open>
  Reading the text of a screen back: the cells of \<open>fb_str.c\<close> are independent of each other, the rows
  of a cell are the rows of a glyph of the font, and the font tells its characters apart. So the
  characters that \<open>fb_str\<close> wrote last can be read from the screen, and from the picture \<open>fbcat\<close>
  makes of it.
\<close>

section \<open>A cell that shows a character\<close>

definition shows_char ::
    "u8 list \<Rightarrow> nat \<Rightarrow> nat \<Rightarrow> u32 \<Rightarrow> u8 list \<Rightarrow> nat \<times> nat \<Rightarrow> u8 \<Rightarrow> bool" where
  "shows_char font P W color mem xy c \<longleftrightarrow> (case xy of (x, y) \<Rightarrow>
     \<forall>u < 8. \<forall>v < 16. px P mem ((y + v) * W + (x + u)) =
       colour_bytes P (if bit (glyph_row font c v) (7 - u) then color else 0))"

text \<open>The cells are numbered modulo the four lines; different cells do not overlap.\<close>

abbreviation cells :: "nat \<Rightarrow> nat" where
  "cells W \<equiv> per_line W * 4"

lemma cell_eq: "cell W i = cell W j \<longleftrightarrow> i mod cells W = j mod cells W"
proof
  assume "cell W i = cell W j"
  then show "i mod cells W = j mod cells W" by (simp add: cell_def mod_mult2_eq)
next
  assume eq: "i mod cells W = j mod cells W"
  have split: "k mod cells W mod per_line W = k mod per_line W"
    "k mod cells W div per_line W = k div per_line W mod 4" for k
    by (simp_all add: mod_mult2_eq mod_mult_self4 div_mult2_eq split: if_splits)
      (cases "per_line W = 0"; simp)
  from split [of i] split [of j] eq show "cell W i = cell W j" by (simp add: cell_def)
qed

lemma cell_next: "0 < d \<Longrightarrow> d < cells W \<Longrightarrow> cell W (k + d) \<noteq> cell W k"
proof
  assume d: "0 < d" "d < cells W" and "cell W (k + d) = cell W k"
  then have "(k + d) mod cells W = k mod cells W" by (simp add: cell_eq)
  then have "cells W dvd d" using mod_eq_dvd_iff_nat [of k "k + d" "cells W"] by simp
  with d show False by (simp add: nat_dvd_not_less)
qed

lemma cells_disjoint:
  assumes "cell W i = (x, y)" "cell W j = (x', y')" "(x, y) \<noteq> (x', y')"
    and uv: "u < 8" "v < 16"
  shows "\<not> (x \<le> x' + u \<and> x' + u < x + 8 \<and> y \<le> y' + v \<and> y' + v < y + 16)"
proof
  assume in_cell: "x \<le> x' + u \<and> x' + u < x + 8 \<and> y \<le> y' + v \<and> y' + v < y + 16"
  obtain a b a' b' where "x = 8 * a" "y = 16 * b" "x' = 8 * a'" "y' = 16 * b'"
    using assms(1,2) by (auto simp: cell_def)
  with in_cell uv have "a = a'" "b = b'" by linarith+
  with assms(3) \<open>x = 8 * a\<close> \<open>y = 16 * b\<close> \<open>x' = 8 * a'\<close> \<open>y' = 16 * b'\<close> show False by simp
qed

section \<open>Drawing cell by cell\<close>

lemma put_shows:
  assumes s: "screen_ok s W H P" and W: "17 \<le> W" and H: "64 \<le> H" and mem: "length mem = W * H * P"
    and cell: "cell W k = (x, y)"
  shows "\<exists>mem'. lcd_put_ascii font s (of_nat x) (of_nat y) color c mem = Some mem' \<and>
    length mem' = length mem \<and> shows_char font P W color mem' (cell W k) c \<and>
    (\<forall>i d. cell W i \<noteq> cell W k \<longrightarrow> shows_char font P W color mem (cell W i) d \<longrightarrow>
      shows_char font P W color mem' (cell W i) d)"
proof -
  have fit: "x + 8 \<le> W" "y + 16 \<le> H" using cell_fits [OF W cell] H by simp_all
  from lcd_put_ascii_ok [OF s fit mem, of font color c] obtain mem' where
    put: "lcd_put_ascii font s (of_nat x) (of_nat y) color c mem = Some mem'"
    and len: "length mem' = length mem"
    and px: "\<forall>u < W. \<forall>v < H. px P mem' (v * W + u) =
      (if x \<le> u \<and> u < x + 8 \<and> y \<le> v \<and> v < y + 16
       then colour_bytes P (if bit (glyph_row font c (v - y)) (7 - (u - x)) then color else 0)
       else px P mem (v * W + u))"
    by blast
  have at: "px P mem' ((y + v) * W + (x + u)) =
      colour_bytes P (if bit (glyph_row font c v) (7 - u) then color else 0)"
    if "u < 8" "v < 16" for u v
    using px [rule_format, of "x + u" "y + v"] fit that by simp
  have keep: "px P mem' ((y' + v) * W + (x' + u)) = px P mem ((y' + v) * W + (x' + u))"
    if other: "cell W i = (x', y')" "cell W i \<noteq> cell W k" and uv: "u < 8" "v < 16" for i x' y' u v
  proof -
    have "x' + 8 \<le> W" "y' + 16 \<le> H" using cell_fits [OF W other(1)] H by simp_all
    moreover have "(x, y) \<noteq> (x', y')" using other cell by auto
    ultimately show ?thesis
      using px [rule_format, of "x' + u" "y' + v"] cells_disjoint [OF cell other(1) _ uv] uv by auto
  qed
  have "shows_char font P W color mem' (cell W i) d"
    if "cell W i \<noteq> cell W k" "shows_char font P W color mem (cell W i) d" for i d
    using that keep [of i] by (cases "cell W i") (simp add: shows_char_def)
  with put len at cell show ?thesis by (auto simp: shows_char_def)
qed

text \<open>Of the characters drawn, the last ones, one for each cell, are on the screen.\<close>

lemma draw_cells_shows:
  assumes s: "screen_ok s W H P" and W: "17 \<le> W" and H: "64 \<le> H"
  shows "length mem = W * H * P \<Longrightarrow>
    \<exists>mem'. draw_cells font s W color cs k mem = Some mem' \<and> length mem' = length mem \<and>
      (\<forall>j < length cs. length cs \<le> j + cells W \<longrightarrow>
         shows_char font P W color mem' (cell W (k + j)) (cs ! j)) \<and>
      (\<forall>i d. (\<forall>j < length cs. cell W i \<noteq> cell W (k + j)) \<longrightarrow>
         shows_char font P W color mem (cell W i) d \<longrightarrow> shows_char font P W color mem' (cell W i) d)"
proof (induction cs arbitrary: k mem)
  case Nil
  then show ?case by simp
next
  case (Cons c cs)
  obtain x y where cell: "cell W k = (x, y)" by (cases "cell W k")
  from put_shows [OF s W H Cons.prems cell, of font color c] obtain mem1 where
    put: "lcd_put_ascii font s (of_nat x) (of_nat y) color c mem = Some mem1"
    and len: "length mem1 = length mem" and new: "shows_char font P W color mem1 (cell W k) c"
    and old: "\<forall>i d. cell W i \<noteq> cell W k \<longrightarrow> shows_char font P W color mem (cell W i) d \<longrightarrow>
      shows_char font P W color mem1 (cell W i) d"
    by blast
  from Cons.IH [of mem1 "Suc k"] Cons.prems len obtain mem' where
    rest: "draw_cells font s W color cs (Suc k) mem1 = Some mem'" and len': "length mem' = length mem1"
    and last: "\<forall>j < length cs. length cs \<le> j + cells W \<longrightarrow>
      shows_char font P W color mem' (cell W (Suc k + j)) (cs ! j)"
    and stay: "\<forall>i d. (\<forall>j < length cs. cell W i \<noteq> cell W (Suc k + j)) \<longrightarrow>
      shows_char font P W color mem1 (cell W i) d \<longrightarrow> shows_char font P W color mem' (cell W i) d"
    by auto
  have draw: "draw_cells font s W color (c # cs) k mem = Some mem'"
    using put rest cell by simp
  have shown: "shows_char font P W color mem' (cell W (k + j)) ((c # cs) ! j)"
    if "j < length (c # cs)" "length (c # cs) \<le> j + cells W" for j
  proof (cases j)
    case 0
    have "cell W k \<noteq> cell W (Suc k + i)" if "i < length cs" for i
      using cell_next [of "Suc i" W k] that 0 \<open>length (c # cs) \<le> j + cells W\<close> by simp
    with stay new 0 show ?thesis by simp
  next
    case (Suc i)
    with last that show ?thesis by simp
  qed
  have kept: "shows_char font P W color mem' (cell W i) d"
    if out: "\<forall>j < length (c # cs). cell W i \<noteq> cell W (k + j)"
      and "shows_char font P W color mem (cell W i) d" for i d
  proof -
    have "cell W i \<noteq> cell W k" using out [rule_format, of 0] by simp
    moreover have "\<forall>j < length cs. cell W i \<noteq> cell W (Suc k + j)"
      using out by (metis Suc_less_eq add_Suc_shift length_Cons)
    ultimately show ?thesis using old stay that(2) by blast
  qed
  show ?case
  proof (intro exI [of _ mem'] conjI allI impI)
    show "draw_cells font s W color (c # cs) k mem = Some mem'" by (rule draw)
    show "length mem' = length mem" using len len' by simp
  qed (simp_all only: shown kept)
qed

section \<open>Reading a cell\<close>

text \<open>
  A row read from the screen has a bit where the pixel has the colour of the text; a cell is the
  character whose glyph has these sixteen rows.
\<close>

definition cell_row :: "nat \<Rightarrow> nat \<Rightarrow> u32 \<Rightarrow> u8 list \<Rightarrow> nat \<times> nat \<Rightarrow> nat \<Rightarrow> u8" where
  "cell_row P W color mem xy v = (case xy of (x, y) \<Rightarrow>
     horner_sum of_bool 2
       (map (\<lambda>k. px P mem ((y + v) * W + (x + (7 - k))) = colour_bytes P color) [0..<8]))"

definition char_of_rows :: "u8 list \<Rightarrow> nat option" where
  "char_of_rows g = find (\<lambda>c. glyphs ! c = g) [1..<128]"

definition read_char :: "nat \<Rightarrow> nat \<Rightarrow> u32 \<Rightarrow> u8 list \<Rightarrow> nat \<times> nat \<Rightarrow> nat option" where
  "read_char P W color mem xy = char_of_rows (map (cell_row P W color mem xy) [0..<16])"

lemma horner_row: "horner_sum of_bool 2 (map (bit b) [0..<8]) = (b :: u8)"
  by (simp only: horner_sum_bit_eq_take_bit) (simp add: take_bit_word_eq_self)

lemma cell_row_glyph:
  assumes "shows_char font P W color mem xy c" and "colour_bytes P color \<noteq> colour_bytes P 0"
    and "v < 16"
  shows "cell_row P W color mem xy v = glyph_row font c v"
proof -
  obtain x y where xy: "xy = (x, y)" by (cases xy)
  have all: "\<forall>u < 8. \<forall>v < 16. px P mem ((y + v) * W + (x + u)) =
      colour_bytes P (if bit (glyph_row font c v) (7 - u) then color else 0)"
    using assms(1) by (simp only: shows_char_def xy prod.case)
  have "(px P mem ((y + v) * W + (x + (7 - k))) = colour_bytes P color) = bit (glyph_row font c v) k"
    if "k < 8" for k
  proof -
    have "7 - k < 8" "7 - (7 - k) = k" using that by simp_all
    with all [rule_format, of "7 - k" v] assms(3)
    have "px P mem ((y + v) * W + (x + (7 - k))) =
        colour_bytes P (if bit (glyph_row font c v) k then color else 0)" by simp
    with assms(2) show ?thesis by simp
  qed
  then have "map (\<lambda>k. px P mem ((y + v) * W + (x + (7 - k))) = colour_bytes P color) [0..<8] =
      map (bit (glyph_row font c v)) [0..<8]" by (intro map_cong refl) simp
  then show ?thesis by (simp only: cell_row_def xy prod.case horner_row)
qed

lemma char_of_glyph:
  assumes "0 < c" "c < 128"
  shows "char_of_rows (glyphs ! c) = Some c"
proof -
  have "glyphs ! d \<noteq> glyphs ! c" if "0 < d" "d < c" for d
    using glyphs_inj [of d c] that assms by auto
  then show ?thesis
    unfolding char_of_rows_def find_Some_iff
    by (intro exI [of _ "c - 1"]) (use assms in auto)
qed

lemma read_char_shown:
  assumes "shows_char fontdata_8x16 P W color mem xy c"
    and "colour_bytes P color \<noteq> colour_bytes P 0" and "0 < c" and "c < 128"
  shows "read_char P W color mem xy = Some (unat c)"
proof -
  have c: "0 < unat c" "unat c < 128"
    using assms(3,4) by (simp_all add: word_less_nat_alt)
  have "map (cell_row P W color mem xy) [0..<16] = map (\<lambda>r. fontdata_8x16 ! (unat c * 16 + r)) [0..<16]"
    unfolding glyph_row_def [symmetric] by (intro map_cong refl cell_row_glyph [OF assms(1,2)]) simp
  also have "\<dots> = glyphs ! unat c" using c by (intro fontdata_rows) simp
  finally show ?thesis unfolding read_char_def by (simp only: char_of_glyph [OF c])
qed

section \<open>The text of a screen\<close>

text \<open>
  A string drawn from the origin: its last characters, as many as the cells hold without the
  terminating zero, are read back from the screen.
\<close>

lemma lcd_put_string_shows:
  assumes s: "screen_ok s W H P" and W: "17 \<le> W" and H: "64 \<le> H" and mem: "length mem = W * H * P"
  shows "\<exists>mem'. lcd_put_string font s 0 0 color str mem = Some mem' \<and> length mem' = length mem \<and>
    (\<forall>j < length (printed str). length (printed str) < j + cells W \<longrightarrow>
       shows_char font P W color mem' (cell W j) (printed str ! j))"
proof -
  have cs: "printed (str @ [0]) = printed str @ [0]" by (simp add: printed_def)
  from draw_cells_shows [OF s W H mem, of font color "printed str @ [0]" 0] obtain mem' where
    "draw_cells font s W color (printed str @ [0]) 0 mem = Some mem'" "length mem' = length mem"
    and last: "\<forall>j < length (printed str @ [0]). length (printed str @ [0]) \<le> j + cells W \<longrightarrow>
      shows_char font P W color mem' (cell W (0 + j)) ((printed str @ [0]) ! j)"
    by blast
  moreover have "shows_char font P W color mem' (cell W j) (printed str ! j)"
    if "j < length (printed str)" "length (printed str) < j + cells W" for j
    using last [rule_format, of j] that by (simp add: nth_append)
  ultimately show ?thesis by (auto simp: lcd_put_string_origin [OF s W] cs)
qed

lemma and_exp_set: "bit c n \<Longrightarrow> c AND 2 ^ n = 2 ^ n" for c :: "'a :: len word"
  by (intro bit_word_eqI) (auto simp: bit_simps)

lemma top_bit_clear:
  assumes "c AND 0x80 \<noteq> (0x80 :: u8)"
  shows "c < 128"
proof -
  have 7: "(0x80 :: u8) = 2 ^ 7" by simp
  have "\<not> bit c 7"
  proof
    assume "bit c 7"
    then have "c AND 2 ^ 7 = 2 ^ 7" by (rule and_exp_set)
    then show False using assms unfolding 7 by blast
  qed
  have "take_bit 7 c = c"
  proof (rule bit_word_eqI)
    fix n assume "n < LENGTH(8)"
    then have "n < 7 \<or> n = 7" by simp linarith
    with \<open>\<not> bit c 7\<close> show "bit (take_bit 7 c) n = bit c n" by (auto simp: bit_take_bit_iff)
  qed
  then have "take_bit 7 (unat c) = unat c" by (simp flip: unsigned_take_bit_eq)
  then have "unat c < 2 ^ 7" by (metis take_bit_nat_less_exp)
  then show ?thesis by (simp add: word_less_nat_alt)
qed

lemma printed_ascii: "c \<in> set (printed str) \<Longrightarrow> c < 128"
  using top_bit_clear by (auto simp: printed_def)

lemma printed_char:
  assumes "0 \<notin> set str" and "j < length (printed str)"
  shows "0 < printed str ! j" and "printed str ! j < 128"
proof -
  from assms(2) have in_str: "printed str ! j \<in> set (printed str)" by simp
  then show "printed str ! j < 128" by (rule printed_ascii)
  from in_str assms(1) have "printed str ! j \<noteq> 0" by (auto simp: printed_def)
  then show "0 < printed str ! j" by (simp add: word_neq_0_conv)
qed

lemma lcd_put_string_reads:
  assumes s: "screen_ok s W H P" and W: "17 \<le> W" and H: "64 \<le> H" and mem: "length mem = W * H * P"
    and ink: "colour_bytes P color \<noteq> colour_bytes P 0" and str: "0 \<notin> set str"
  shows "\<exists>mem'. lcd_put_string fontdata_8x16 s 0 0 color str mem = Some mem' \<and>
    (\<forall>j < length (printed str). length (printed str) < j + cells W \<longrightarrow>
       read_char P W color mem' (cell W j) = Some (unat (printed str ! j)))"
  using lcd_put_string_shows [OF s W H mem, of fontdata_8x16 color str]
    read_char_shown [OF _ ink] printed_char [OF str] by blast

section \<open>Text in a picture\<close>

text \<open>
  The picture \<open>fbcat\<close> writes holds three bytes for a pixel. A cell of it is read by the red byte: the
  white text of \<open>fb_str\<close> has a bit where it is 128 or more.
\<close>

definition ppm_row :: "nat \<Rightarrow> u8 list \<Rightarrow> nat \<times> nat \<Rightarrow> nat \<Rightarrow> u8" where
  "ppm_row h out xy v = (case xy of (x, y) \<Rightarrow>
     horner_sum of_bool 2
       (map (\<lambda>k. 128 \<le> out ! (h + ((y + v) * 480 + (x + (7 - k))) * 3)) [0..<8]))"

definition ppm_char :: "nat \<Rightarrow> u8 list \<Rightarrow> nat \<times> nat \<Rightarrow> nat option" where
  "ppm_char h out xy = char_of_rows (map (ppm_row h out xy) [0..<16])"

lemma red8_white: "red8 0xFFFFFF = 255" "red8 0 = 0"
  by (simp_all add: red8_def)

lemma near_bit: "near 7 b 255 \<Longrightarrow> 128 \<le> b" "near 7 b 0 \<Longrightarrow> \<not> 128 \<le> b"
  by (simp_all add: near_def word_le_nat_alt)

lemma shown_in_picture:
  assumes v: "unpanned v" and cm: "true_cmap fill_var g = Some cm"
    and mem: "length mem = 307200" and dump: "dump_video_memory wr mok mem v cm 960 = Done out"
    and shown: "shows_char font 2 480 0xFFFFFF mem (cell 480 j) c" and r: "r < 16"
  shows "ppm_row (length (ppm_header v)) out (cell 480 j) r = glyph_row font c r"
proof -
  obtain x y where xy: "cell 480 j = (x, y)" by (cases "cell 480 j")
  then have fit: "x + 8 \<le> 480" "y + 16 \<le> 64" using cell_fits [of 480 j x y] by simp_all
  have all: "\<forall>u < 8. \<forall>v < 16. px 2 mem ((y + v) * 480 + (x + u)) =
      colour_bytes 2 (if bit (glyph_row font c v) (7 - u) then 0xFFFFFF else 0)"
    using shown by (simp only: shows_char_def xy prod.case)
  have "(128 \<le> out ! (length (ppm_header v) + ((y + r) * 480 + (x + (7 - k))) * 3)) =
      bit (glyph_row font c r) k" if "k < 8" for k
  proof -
    let ?col = "if bit (glyph_row font c r) k then 0xFFFFFF else 0 :: u32"
    let ?i = "(y + r) * 480 + (x + (7 - k))"
    have "7 - k < 8" "7 - (7 - k) = k" using that by simp_all
    with all [rule_format, of "7 - k" r] r have "px 2 mem ?i = colour_bytes 2 ?col" by simp
    moreover have "x + (7 - k) < 480" "y + r < 320" using fit r by simp_all
    moreover from this have "?i * 2 + 2 \<le> length mem" using mem by simp
    ultimately have "load_pixel mem 2 (?i * 2) = Some (rgb565 ?col)"
      using load_pixel_px [of mem ?i "rgb565 ?col"] rgb565_bound [of ?col]
      by (simp add: colour_bytes_def)
    from dump_shows_pixel [OF v cm \<open>x + (7 - k) < 480\<close> \<open>y + r < 320\<close> this dump]
    have "near 7 (out ! (length (ppm_header v) + ?i * 3)) (red8 ?col)" by (simp only: Let_def)
    then show ?thesis using near_bit by (cases "bit (glyph_row font c r) k") (simp_all add: red8_white)
  qed
  then have "map (\<lambda>k. 128 \<le> out ! (length (ppm_header v) + ((y + r) * 480 + (x + (7 - k))) * 3)) [0..<8] =
      map (bit (glyph_row font c r)) [0..<8]" by (intro map_cong refl) simp
  then show ?thesis by (simp only: ppm_row_def xy prod.case horner_row)
qed

lemma ppm_char_shown:
  assumes v: "unpanned v" and cm: "true_cmap fill_var g = Some cm"
    and mem: "length mem = 307200" and dump: "dump_video_memory wr mok mem v cm 960 = Done out"
    and shown: "shows_char fontdata_8x16 2 480 0xFFFFFF mem (cell 480 j) c" and c: "0 < c" "c < 128"
  shows "ppm_char (length (ppm_header v)) out (cell 480 j) = Some (unat c)"
proof -
  have nat: "0 < unat c" "unat c < 128" using c by (simp_all add: word_less_nat_alt)
  have "map (ppm_row (length (ppm_header v)) out (cell 480 j)) [0..<16] =
      map (\<lambda>r. fontdata_8x16 ! (unat c * 16 + r)) [0..<16]"
    unfolding glyph_row_def [symmetric]
    by (intro map_cong refl shown_in_picture [OF v cm mem dump shown]) simp
  also have "\<dots> = glyphs ! unat c" using nat by (intro fontdata_rows) simp
  finally show ?thesis unfolding ppm_char_def by (simp only: char_of_glyph [OF nat])
qed

lemma cells_480: "cells 480 = 232"
  by (simp add: per_line_def)

lemma fb_str_then_fbcat:
  assumes argv: "argv \<noteq> []" "length argv \<noteq> 3" "length argv \<noteq> 4"
    and mem: "mmap 307200 = Some mem" "length mem = 307200"
    and str: "0 \<notin> set (text_bytes (argv ! 0))"
    and run: "fb_str_main fontdata_8x16 argv (Some fill_var) mmap = Done (0, Some mem')"
    and v: "unpanned v" and cm: "true_cmap fill_var g = Some cm"
    and dump: "dump_video_memory wr mok mem' v cm 960 = Done out"
    and j: "j < length (printed (text_bytes (argv ! 0)))"
      "length (printed (text_bytes (argv ! 0))) < j + 232"
  shows "ppm_char (length (ppm_header v)) out (cell 480 j) = Some (unat (printed (text_bytes (argv ! 0)) ! j))"
proof -
  let ?str = "text_bytes (argv ! 0)"
  from fb_str_main_default [where mmap = mmap, OF argv mem, of fontdata_8x16] run
  have put: "lcd_put_string fontdata_8x16 (screen_of fill_var) 0 0 0xFFFFFF ?str mem = Some mem'"
    and len: "length mem' = 307200" by auto
  have "length mem = 480 * 320 * 2" using mem by simp
  from lcd_put_string_shows [OF screen_of_fill _ _ this, of fontdata_8x16 "0xFFFFFF" ?str] put j
  have shown: "shows_char fontdata_8x16 2 480 0xFFFFFF mem' (cell 480 j) (printed ?str ! j)"
    unfolding cells_480 by auto
  note c = printed_char [OF str j(1)]
  from ppm_char_shown [OF v cm len dump shown c] show ?thesis .
qed

end
