(* ===== verification/Fb_Bounds.thy ===== *)
theory Fb_Bounds
  imports Screen_Path
begin

text \<open>
  From which positions \<open>fb_str.c\<close> stays on the screen: a text that starts on one of the four text lines
  never leaves the first 64 lines, however long it is, because the cursor starts over after the
  fourth; the check that \<open>main\<close> makes admits other positions, whose characters hang over the last
  line.
\<close>

section \<open>Texts that stay on the screen\<close>

lemma margin_iff:
  assumes "a \<le> W" "W < 2 ^ 31"
  shows "(of_nat W :: u32) - of_nat a \<le> 16 \<longleftrightarrow> W - a \<le> 16"
proof -
  have "(of_nat W :: u32) - of_nat a = of_nat (W - a)" using assms(1) by (simp add: of_nat_diff)
  moreover have "unat (of_nat (W - a) :: u32) = W - a"
    using assms(2) unat_of_nat_small [of "W - a"] by simp
  ultimately show ?thesis by (simp add: word_le_nat_alt)
qed

text \<open>The cursor after a character: on the same line, or at the start of the next of four lines.\<close>

lemma string_loop_next:
  assumes s: "scr_xres s = of_nat W" and W: "W < 2 ^ 31" and l: "l < 4" and xt: "x + 8 * t \<le> W"
  shows "(let wrap = scr_xres s - (of_nat x + of_nat t * 8) \<le> 16;
      (x', y', t') = (if wrap then (0, of_nat (16 * l) + 16, 0) else (of_nat x, of_nat (16 * l), of_nat t));
      (x', y') = (if y' = 64 then (0, 0) else (x', y'))
    in string_loop font s color str x' y' t' mem) =
    (if W - (x + 8 * t) \<le> 16
     then string_loop font s color str (of_nat 0) (of_nat (16 * (Suc l mod 4))) (of_nat 0) mem
     else string_loop font s color str (of_nat x) (of_nat (16 * l)) (of_nat t) mem)"
proof -
  have "(of_nat x + of_nat t * 8 :: u32) = of_nat (x + 8 * t)" by simp
  then have wrap: "scr_xres s - (of_nat x + of_nat t * 8) \<le> 16 \<longleftrightarrow> W - (x + 8 * t) \<le> 16"
    unfolding s by (simp only: margin_iff [OF xt W])
  have "(of_nat (16 * l) + 16 :: c_int) = of_nat (16 * Suc l)" by simp
  then have down: "(if of_nat (16 * l) + 16 = (64 :: c_int) then 0 else of_nat (16 * l) + 16) =
      (of_nat (16 * (Suc l mod 4)) :: c_int)"
    using row_bound [of "Suc l"] l by (simp add: mod_Suc)
  have stay: "(of_nat (16 * l) :: c_int) \<noteq> 64" using row_bound [of l] l by simp
  show ?thesis
  proof (cases "W - (x + 8 * t) \<le> 16")
    case True
    then show ?thesis
      using down by (cases "of_nat (16 * l) + 16 = (64 :: c_int)") (simp_all only: wrap Let_def if_True prod.case semiring_1_class.of_nat_0 if_False simp_thms)
  next
    case False
    with stay show ?thesis by (simp only: wrap Let_def if_False prod.case)
  qed
qed

lemma string_loop_safe:
  assumes s: "screen_ok s W H P" and W: "17 \<le> W" and H: "64 \<le> H"
  shows "length mem = W * H * P \<Longrightarrow> x + 8 * t + 8 \<le> W \<Longrightarrow> l < 4 \<Longrightarrow>
    \<exists>mem'. string_loop font s color str (of_nat x) (of_nat (16 * l)) (of_nat t) mem = Some mem' \<and>
      length mem' = length mem \<and>
      (\<forall>u < W. \<forall>v < H. 64 \<le> v \<longrightarrow> px P mem' (v * W + u) = px P mem (v * W + u))"
proof (induction str arbitrary: x l t mem)
  case Nil
  then show ?case by simp
next
  case (Cons c cs)
  have xres: "scr_xres s = of_nat W" using s by (simp add: screen_ok_def)
  note W31 = screen_ok_width [OF s]
  let ?t = "if c AND 0x80 \<noteq> 0x80 then Suc t else t"
  obtain mem1 where put: "(if c AND 0x80 \<noteq> 0x80
        then lcd_put_ascii font s (of_nat x + of_nat t * 8) (of_nat (16 * l)) color c mem
        else Some mem) = Some mem1"
    and len: "length mem1 = length mem"
    and px1: "\<forall>u < W. \<forall>v < H. 64 \<le> v \<longrightarrow> px P mem1 (v * W + u) = px P mem (v * W + u)"
  proof (cases "c AND 0x80 \<noteq> 0x80")
    case True
    have at: "(of_nat x + of_nat t * 8 :: c_int) = of_nat (x + 8 * t)" by simp
    have "16 * l + 16 \<le> H" using Cons.prems(3) H by simp
    from lcd_put_ascii_ok [OF s Cons.prems(2) this Cons.prems(1), of font color c] obtain mem1
      where "lcd_put_ascii font s (of_nat (x + 8 * t)) (of_nat (16 * l)) color c mem = Some mem1"
      and "length mem1 = length mem"
      and "\<forall>u < W. \<forall>v < H. px P mem1 (v * W + u) =
        (if x + 8 * t \<le> u \<and> u < x + 8 * t + 8 \<and> 16 * l \<le> v \<and> v < 16 * l + 16
         then colour_bytes P (if bit (glyph_row font c (v - 16 * l)) (7 - (u - (x + 8 * t))) then color else 0)
         else px P mem (v * W + u))"
      by blast
    with True Cons.prems(3) show thesis by (intro that [of mem1]) (simp_all only: at if_True simp_thms, auto)
  next
    case False
    then show thesis by (intro that [of mem]) simp_all
  qed
  have "x + 8 * ?t \<le> W" using Cons.prems(2) by simp
  note step = string_loop_next [OF xres W31 Cons.prems(3) this, of font color cs mem1]
  have tt: "(if c AND 0x80 \<noteq> 0x80 then of_nat t + 1 else of_nat t) = (of_nat ?t :: c_int)" by simp
  have "string_loop font s color (c # cs) (of_nat x) (of_nat (16 * l)) (of_nat t) mem =
    (if W - (x + 8 * ?t) \<le> 16
     then string_loop font s color cs (of_nat 0) (of_nat (16 * (Suc l mod 4))) (of_nat 0) mem1
     else string_loop font s color cs (of_nat x) (of_nat (16 * l)) (of_nat ?t) mem1)"
    unfolding step [symmetric] by (simp only: string_loop.simps Let_def put tt option.case)
  moreover have "\<exists>mem'. (if W - (x + 8 * ?t) \<le> 16
      then string_loop font s color cs (of_nat 0) (of_nat (16 * (Suc l mod 4))) (of_nat 0) mem1
      else string_loop font s color cs (of_nat x) (of_nat (16 * l)) (of_nat ?t) mem1) = Some mem' \<and>
      length mem' = length mem1 \<and>
      (\<forall>u < W. \<forall>v < H. 64 \<le> v \<longrightarrow> px P mem' (v * W + u) = px P mem1 (v * W + u))"
    using Cons.IH [of mem1 0 0 "Suc l mod 4"] Cons.IH [of mem1 x ?t l] Cons.prems len W
    by (cases "W - (x + 8 * ?t) \<le> 16") simp_all
  ultimately show ?case using len px1 by auto
qed

lemma lcd_put_string_safe:
  assumes "screen_ok s W H P" and "17 \<le> W" and "64 \<le> H" and "length mem = W * H * P"
    and "x + 8 \<le> W" and "l < 4"
  shows "\<exists>mem'. lcd_put_string font s (of_nat x) (of_nat (16 * l)) color str mem = Some mem' \<and>
    length mem' = length mem \<and>
    (\<forall>u < W. \<forall>v < H. 64 \<le> v \<longrightarrow> px P mem' (v * W + u) = px P mem (v * W + u))"
  using string_loop_safe [OF assms(1-4), of x 0 l font color "str @ [0]"] assms(5,6)
  by (simp add: lcd_put_string_def)

text \<open>The positions from which the driver's screen is never left.\<close>

definition text_line :: "c_int \<Rightarrow> c_int \<Rightarrow> bool" where
  "text_line x y \<longleftrightarrow> x \<le> 472 \<and> y \<in> {0, 16, 32, 48}"

lemma put_at_text_line:
  assumes "text_line x y" and mem: "length mem = 307200"
  shows "\<exists>mem'. lcd_put_string font (screen_of fill_var) x y color str mem = Some mem' \<and>
    length mem' = 307200 \<and>
    (\<forall>u < 480. \<forall>v < 320. 64 \<le> v \<longrightarrow> px 2 mem' (v * 480 + u) = px 2 mem (v * 480 + u))"
proof -
  have x: "x = of_nat (unat x)" "unat x + 8 \<le> 480"
    using assms(1) by (simp_all add: text_line_def word_le_nat_alt)
  have "y \<in> (\<lambda>l. of_nat (16 * l)) ` {0, 1, 2, 3 :: nat}"
    using assms(1) by (simp add: text_line_def)
  then obtain l where "y = of_nat (16 * l)" "l \<in> {0, 1, 2, 3 :: nat}" by blast
  then have l: "y = of_nat (16 * l)" "l < 4" by (simp, elim insertE) simp_all
  have "length mem = 480 * 320 * 2" using mem by simp
  from lcd_put_string_safe [OF screen_of_fill _ _ this x(2) l(2), of font color str] show ?thesis
    using mem l(1) by (simp flip: x(1))
qed

lemma fb_str_main_safe:
  assumes "argv \<noteq> []" and mem: "mmap 307200 = Some mem" "length mem = 307200"
    and pos: "length argv = 3 \<or> length argv = 4 \<Longrightarrow> text_line (atoi (argv ! 0)) (atoi (argv ! 1))"
  shows "\<exists>mem'. fb_str_main font argv (Some fill_var) mmap = Done (0, Some mem') \<and>
    length mem' = 307200 \<and>
    (\<forall>u < 480. \<forall>v < 320. 64 \<le> v \<longrightarrow> px 2 mem' (v * 480 + u) = px 2 mem (v * 480 + u))"
proof -
  have dims: "xres fill_var = 480" "yres fill_var = 320" by (simp_all add: fill_var_def display_def)
  have check: "\<not> (xres fill_var < x \<or> yres fill_var < y)" if "text_line x y" for x y
    using that unfolding dims text_line_def by (auto simp: word_le_nat_alt word_less_nat_alt)
  have origin: "text_line 0 0" by (simp add: text_line_def)
  consider "length argv = 3" | "length argv = 4" | "length argv \<noteq> 3" "length argv \<noteq> 4" by blast
  then show ?thesis
  proof cases
    case 1
    with pos have line: "text_line (atoi (argv ! 0)) (atoi (argv ! 1))" by simp
    from put_at_text_line [OF line mem(2), of font "0xFFFFFF" "text_bytes (argv ! 2)"] check [OF line] 1 assms(1) mem(1)
    show ?thesis by (auto simp: fb_str_main_def screen_size_fill Let_def)
  next
    case 2
    with pos have line: "text_line (atoi (argv ! 0)) (atoi (argv ! 1))" by simp
    from put_at_text_line [OF line mem(2), of font "atoi (argv ! 2)" "text_bytes (argv ! 3)"] 2 assms(1) mem(1)
    show ?thesis by (auto simp: fb_str_main_def screen_size_fill Let_def)
  next
    case 3
    from put_at_text_line [OF origin mem(2), of font "0xFFFFFF" "text_bytes (argv ! 0)"] 3 assms(1) mem(1)
    show ?thesis by (auto simp: fb_str_main_def screen_size_fill Let_def)
  qed
qed

section \<open>Texts that do not\<close>

lemma put_pixels_inside:
  assumes "put_pixels s ps mem = Some mem'" and "(x, y, c) \<in> set ps"
    and "pixel_data (scr_bpp s) c = Some bs"
  shows "unat (y * line_width s) + unat (x * pixel_width s) + length bs \<le> length mem"
  using assms(1,2)
proof (induction ps arbitrary: mem)
  case Nil
  then show ?case by simp
next
  case (Cons p ps)
  obtain u v d where p: "p = (u, v, d)" by (cases p)
  from Cons.prems(1) p obtain mem1 where put: "lcd_put_pixel s u v d mem = Some mem1"
    and rest: "put_pixels s ps mem1 = Some mem'"
    by (auto split: option.splits)
  have len: "length mem1 = length mem"
    using put by (auto simp: lcd_put_pixel_def dest: store_length split: option.splits)
  show ?case
  proof (cases "(x, y, c) = p")
    case True
    with put p assms(3) show ?thesis
      by (auto simp: lcd_put_pixel_def store_def split: if_splits)
  next
    case False
    with Cons.prems(2) have "(x, y, c) \<in> set ps" by auto
    from Cons.IH [OF rest this] len show ?thesis by simp
  qed
qed

text \<open>A glyph that hangs over the last line of the screen leaves the mapping.\<close>

lemma glyph_below_crashes:
  assumes s: "screen_ok s W H P" and mem: "length mem = W * H * P"
    and y: "y \<le> H" "H < y + 16"
  shows "lcd_put_ascii font s (of_nat x) (of_nat y) color c mem = None"
proof (rule ccontr)
  assume "lcd_put_ascii font s (of_nat x) (of_nat y) color c mem \<noteq> None"
  then obtain mem' where put: "put_pixels s (map conv (glyph font x y color c)) mem = Some mem'"
    by (auto simp: lcd_put_ascii_def ascii_pixels_glyph)
  define d where "d = (if bit (glyph_row font c (H - y)) 7 then color else 0)"
  have "(x, H, d) \<in> set (glyph font x y color c)"
    using y by (simp add: glyph_mem d_def)
  then have mem_px: "(of_nat x, of_nat H, d) \<in> set (map conv (glyph font x y color c))"
    by force
  have P: "P \<in> {1, 2, 4}" using s by (simp add: screen_ok_def)
  have data: "pixel_data (scr_bpp s) d = Some (colour_bytes P d)"
    using pixel_data_ok [OF P] s by (simp add: screen_ok_def)
  have "unat (of_nat H * line_width s) = W * H * P"
    using unat_of_nat_small [of "H * (W * P)"] s by (simp add: screen_ok_def mult.left_commute mult.commute)
  with put_pixels_inside [OF put mem_px data] mem colour_bytes_length [OF P, of d] P
  show False by auto
qed

lemma lcd_put_string_below_crashes:
  assumes s: "screen_ok s W H P" and mem: "length mem = W * H * P" and y: "y \<le> H" "H < y + 16"
    and first: "hd (str @ [0]) AND 0x80 \<noteq> 0x80"
  shows "lcd_put_string font s (of_nat x) (of_nat y) color str mem = None"
proof -
  obtain c cs where str: "str @ [0] = c # cs" by (cases str) auto
  have "lcd_put_ascii font s (of_nat x) (of_nat y) color c mem = None"
    by (rule glyph_below_crashes [OF s mem y])
  with first str show ?thesis by (simp add: lcd_put_string_def)
qed

lemma fb_str_main_below_crashes:
  assumes "atoi sx \<le> 480" and "atoi sy = of_nat y" and "304 < y" and "y \<le> 320"
    and "mmap 307200 = Some mem" and "length mem = 307200"
    and "hd (text_bytes t @ [0]) AND 0x80 \<noteq> 0x80"
  shows "fb_str_main font [sx, sy, t] (Some fill_var) mmap = Crash"
proof -
  have "\<not> atoi sx > xres fill_var" "\<not> (of_nat y :: u32) > yres fill_var"
    using assms(1,4) by (simp_all add: fill_var_def display_def not_less word_le_nat_alt unat_of_nat_small)
  moreover have "lcd_put_string font (screen_of fill_var) (of_nat (unat (atoi sx))) (of_nat y) 0xFFFFFF
      (text_bytes t) mem = None"
    using assms by (intro lcd_put_string_below_crashes [OF screen_of_fill]) simp_all
  ultimately show ?thesis
    using assms(2,5) by (simp add: fb_str_main_def screen_size_fill Let_def)
qed

end
