(* ===== verification/Fb_Flush.thy ===== *)
theory Fb_Flush
  imports Fb_Text Fb_Bounds Fb_Dirty
begin

text \<open>
  Drawing and reporting together: \<open>examples/fb_str.c\<close> writes into the mapped video memory, the
  kernel notes the pages it touched, and \<open>dummy_fb_deferred_io\<close> of \<open>fbdev/dummy-fb.c\<close> turns them
  into the band of lines to send on. No pixel that the program changed lies outside that band.
\<close>

section \<open>The mapping keeps its length\<close>

lemma put_pixels_length: "put_pixels s ps mem = Some mem' \<Longrightarrow> length mem' = length mem"
proof (induction ps arbitrary: mem)
  case Nil
  then show ?case by simp
next
  case (Cons p ps)
  obtain x y c where p: "p = (x, y, c)" by (cases p)
  with Cons.prems obtain mem1 where "lcd_put_pixel s x y c mem = Some mem1"
    and "put_pixels s ps mem1 = Some mem'" by (auto split: option.splits)
  moreover from this(1) have "length mem1 = length mem"
    by (auto simp: lcd_put_pixel_def dest: store_length split: option.splits)
  ultimately show ?case using Cons.IH by simp
qed

lemma string_loop_length:
  "string_loop font s color str x y t mem = Some mem' \<Longrightarrow> length mem' = length mem"
proof (induction font s color str x y t mem rule: string_loop.induct)
  case (1 font s color x y t mem)
  then show ?case by simp
next
  case (2 font s color c str x y t mem)
  show ?case
  proof (cases "if c AND 0x80 \<noteq> 0x80 then lcd_put_ascii font s (x + t * 8) y color c mem else Some mem")
    case None
    with 2(2) show ?thesis by (simp only: string_loop.simps Let_def option.case option.distinct)
  next
    case (Some mem1)
    then have "length mem1 = length mem"
      by (auto simp: lcd_put_ascii_def dest: put_pixels_length split: if_splits)
    moreover have "length mem' = length mem1"
      using 2(1) [OF refl Some refl refl] 2(2) Some by (auto simp: Let_def split: if_splits prod.splits)
    ultimately show ?thesis by simp
  qed
qed

lemma fb_str_main_length:
  "fb_str_main font argv (Some v) mmap = Done (0, Some mem') \<Longrightarrow>
     \<exists>mem. mmap (screen_size v) = Some mem \<and> length mem' = length mem"
  by (auto simp: fb_str_main_def Let_def lcd_put_string_def dest: string_loop_length
      split: if_splits option.splits)

section \<open>What the kernel reports\<close>

text \<open>The kernel hands the handler every page a program wrote to since the last time.\<close>

definition touched :: "u64 \<Rightarrow> u8 list \<Rightarrow> u8 list \<Rightarrow> u64 list \<Rightarrow> bool" where
  "touched page_size mem mem' offs \<longleftrightarrow>
     (\<forall>off\<in>set offs. page_ok page_size off) \<and>
     (\<forall>k < length mem. mem ! k \<noteq> mem' ! k \<longrightarrow>
        (\<exists>off\<in>set offs. unat off \<le> k \<and> k < unat off + unat page_size))"

lemma px_differs:
  assumes "px P mem i \<noteq> px P mem' i" and "length mem' = length mem" and "i * P + P \<le> length mem"
  shows "\<exists>k < P. mem ! (i * P + k) \<noteq> mem' ! (i * P + k)"
proof (rule ccontr)
  assume "\<not> ?thesis"
  then have "px P mem i = px P mem' i"
    using assms(2,3) by (intro nth_equalityI) (simp_all add: px_length px_nth)
  with assms(1) show False by simp
qed

lemma change_reported:
  fixes garbage :: u32
  assumes t: "touched page_size mem mem' offs" and len: "length mem = 307200" "length mem' = 307200"
    and uv: "u < 480" "v < 320" and change: "px 2 mem' (v * 480 + u) \<noteq> px 2 mem (v * 480 + u)"
  defines "a \<equiv> dirty_of page_size garbage fill_var fill_fix offs"
  shows "unat (y1 a) \<le> v \<and> v \<le> unat (y2 a)"
proof -
  from px_differs [OF change [symmetric]] len uv obtain k where
    k: "k < 2" "mem ! ((v * 480 + u) * 2 + k) \<noteq> mem' ! ((v * 480 + u) * 2 + k)" by auto
  let ?b = "(v * 480 + u) * 2 + k"
  have b: "?b < 307200" using uv k(1) by simp
  with t k(2) len obtain off where off: "off \<in> set offs" "unat off \<le> ?b" "?b < unat off + unat page_size"
    by (auto simp: touched_def)
  have "?b div 960 = v" using uv k(1) by (intro div_nat_eqI) simp_all
  with dirty_of_covers [OF _ off b, of garbage] t show ?thesis by (simp add: touched_def a_def)
qed

lemma fb_str_change_reported:
  fixes garbage :: u32
  assumes "fb_str_main font argv (Some fill_var) mmap = Done (0, Some mem')"
    and "mmap 307200 = Some mem" and "length mem = 307200" and "touched page_size mem mem' offs"
    and "u < 480" and "v < 320" and "px 2 mem' (v * 480 + u) \<noteq> px 2 mem (v * 480 + u)"
  shows "let a = dirty_of page_size garbage fill_var fill_fix offs in unat (y1 a) \<le> v \<and> v \<le> unat (y2 a)"
proof -
  have "length mem' = 307200"
    using fb_str_main_length [OF assms(1)] assms(2,3) by (simp add: screen_size_fill)
  from change_reported [OF assms(4,3) this assms(5-7), of garbage] show ?thesis by (simp add: Let_def)
qed

lemma page_start: "k < 75 \<Longrightarrow> unat (of_nat (k * 4096) :: u64) = k * 4096"
  by (rule of_nat_inverse [OF refl]) simp

lemma touched_everywhere:
  "touched 4096 mem mem' (map (\<lambda>k. of_nat (k * 4096)) [0..<75])" if "length mem \<le> 307200"
  unfolding touched_def
proof (intro conjI allI impI ballI)
  fix off assume "off \<in> set (map (\<lambda>k. of_nat (k * 4096)) [0..<75] :: u64 list)"
  then obtain k where k: "off = of_nat (k * 4096)" "k < 75" by (auto simp del: of_nat_mult)
  from page_start [OF k(2)] k show "page_ok 4096 off" by (simp add: page_ok_def del: of_nat_mult)
next
  fix k assume "k < length mem"
  with that have k: "k div 4096 < 75" by (simp add: div_less_iff_less_mult)
  note page_start [OF k]
  moreover have "k div 4096 * 4096 \<le> k \<and> k < k div 4096 * 4096 + 4096"
    using div_mult_mod_eq [of k 4096] mod_less_divisor [of 4096 k] by linarith
  ultimately show "\<exists>off\<in>set (map (\<lambda>k. of_nat (k * 4096)) [0..<75]). unat (off :: u64) \<le> k \<and>
      k < unat off + unat (4096 :: u64)"
    using k by (intro bexI [of _ "of_nat (k div 4096 * 4096)"]) (auto simp del: of_nat_mult)
qed

text \<open>The first character of a text is drawn over whatever stood in the corner.\<close>

lemma fb_str_main_corner:
  assumes argv: "argv \<noteq> []" "length argv \<noteq> 3" "length argv \<noteq> 4"
    and mem: "mmap 307200 = Some mem" "length mem = 307200"
    and run: "fb_str_main font argv (Some fill_var) mmap = Done (0, Some mem')"
    and pr: "printed (text_bytes (argv ! 0)) \<noteq> []" "length (printed (text_bytes (argv ! 0))) < 232"
  shows "px 2 mem' 0 \<in> {colour_bytes 2 0xFFFFFF, colour_bytes 2 0}"
proof -
  let ?str = "text_bytes (argv ! 0)"
  from run argv mem(1) have put: "lcd_put_string font (screen_of fill_var) 0 0 0xFFFFFF ?str mem = Some mem'"
    by (auto simp: fb_str_main_def screen_size_fill Let_def split: option.splits)
  have "length mem = 480 * 320 * 2" using mem by simp
  from lcd_put_string_shows [OF screen_of_fill _ _ this, of font "0xFFFFFF" ?str] put pr
  have "shows_char font 2 480 0xFFFFFF mem' (cell 480 0) (printed ?str ! 0)"
    unfolding cells_480 by auto
  then have "px 2 mem' ((0 + 0) * 480 + (0 + 0)) \<in> {colour_bytes 2 0xFFFFFF, colour_bytes 2 0}"
    unfolding shows_char_def cell_def by (auto simp: per_line_def dest!: spec [of _ "0::nat"] split: if_splits)
  then show ?thesis by simp
qed

end
