(* ===== verification/Fb_Rectangle_Spec.thy ===== *)
theory Fb_Rectangle_Spec
  imports Fb_Rectangle
begin

text \<open>
  What \<open>fb_rectangle.c\<close> leaves on a screen of 16-bit pixels, the screen of the driver: it stores
  three bytes a pixel two bytes apart, so that red is overwritten by the next pixel's blue and
  spills over the right edge of the rectangle. Then the run of the program: it returns when the
  clock advances by five seconds before its milliseconds wrap.
\<close>

section \<open>Bytes of a rectangle\<close>

lemma store_byte: "a < length mem \<Longrightarrow> store mem a [x] = Some (mem[a := x])"
  by (simp add: store_def upd_conv_take_nth_drop)

lemma put_rgb_16:
  assumes "bits_per_pixel v = 16" and "j < 2 ^ 29" and "a + 2 * j + 2 < length mem"
  shows "put_rgb v a (of_nat j) (r, g, b) mem =
    Some (mem[a + 2 * j + 2 := r, a + 2 * j + 1 := g, a + 2 * j := b])"
proof -
  have "unat (2 * of_nat j + 2 :: u32) = 2 * j + 2" "unat (2 * of_nat j + 1 :: u32) = 2 * j + 1"
    "unat (2 * of_nat j :: u32) = 2 * j"
    using assms(2) unat_of_nat_small [of "2 * j + 2"] unat_of_nat_small [of "2 * j + 1"]
      unat_of_nat_small [of "2 * j"] by (simp_all add: add.commute)
  with assms(1,3) show ?thesis by (simp add: store_byte add.assoc)
qed

text \<open>The byte \<open>d\<close> places behind the start of a row of \<open>n\<close> pixels.\<close>

fun row_byte :: "nat \<Rightarrow> rgb \<Rightarrow> nat \<Rightarrow> u8 \<Rightarrow> u8" where
  "row_byte n (r, g, b) d old =
     (if n = 0 \<or> 2 * n < d then old else if d = 2 * n then r else if even d then b else g)"

declare row_byte.simps [simp del]

lemma row_byte_0 [simp]: "row_byte 0 c d old = old"
  by (cases c) (simp add: row_byte.simps)

lemma row_byte_Suc:
  "row_byte (Suc n) (r, g, b) d old =
     (if d = 2 * n then b else if d = 2 * n + 1 then g else if d = 2 * n + 2 then r
      else row_byte n (r, g, b) d old)"
  by (auto simp: row_byte.simps)

lemma row_byte_beyond: "2 * n < d \<Longrightarrow> row_byte n c d old = old"
  by (cases c) (simp add: row_byte.simps)

lemma draw_row_16:
  assumes "bits_per_pixel v = 16" and "n < 2 ^ 29" and "n = 0 \<or> a + 2 * n < length mem"
  shows "\<exists>mem'. draw_row v a c n mem = Some mem' \<and> length mem' = length mem \<and>
    (\<forall>k < length mem. mem' ! k = (if a \<le> k then row_byte n c (k - a) (mem ! k) else mem ! k))"
  using assms(2,3)
proof (induction n)
  case 0
  then show ?case by simp
next
  case (Suc n)
  obtain r g b where c: "c = (r, g, b)" by (cases c)
  from Suc obtain m where m: "draw_row v a c n mem = Some m" "length m = length mem"
    "\<And>k. k < length mem \<Longrightarrow> m ! k = (if a \<le> k then row_byte n c (k - a) (mem ! k) else mem ! k)"
    by auto
  have put: "put_rgb v a (of_nat n) c m = Some (m[a + 2 * n + 2 := r, a + 2 * n + 1 := g, a + 2 * n := b])"
    unfolding c using put_rgb_16 [OF assms(1), of n a m] Suc.prems m(2) by simp
  have "(m[a + 2 * n + 2 := r, a + 2 * n + 1 := g, a + 2 * n := b]) ! k =
      (if a \<le> k then row_byte (Suc n) c (k - a) (mem ! k) else mem ! k)" if "k < length mem" for k
  proof (cases "a \<le> k")
    case True
    then obtain d where "k = a + d" by (metis le_Suc_ex)
    with that m(2,3) show ?thesis by (simp add: nth_list_update c row_byte_Suc)
  next
    case False
    with that m(2,3) show ?thesis by (simp add: nth_list_update)
  qed
  with m(1,2) put show ?case by simp
qed

text \<open>All rows: byte \<open>k\<close> of a memory whose lines are \<open>S\<close> bytes apart.\<close>

definition rect_byte :: "nat \<Rightarrow> nat \<Rightarrow> nat \<Rightarrow> rgb \<Rightarrow> nat \<Rightarrow> nat \<Rightarrow> u8 \<Rightarrow> u8" where
  "rect_byte S w h c a k old =
     (if a \<le> k \<and> (k - a) div S < h then row_byte w c ((k - a) mod S) old else old)"

lemma draw_rows_16:
  assumes "bits_per_pixel v = 16" and "w < 2 ^ 29" and "2 * w < S" and S: "S = unat (stride v)"
    and "h = 0 \<or> a + (h - 1) * S + 2 * w < length mem"
  shows "\<exists>mem'. draw_rows v a c w h mem = Some mem' \<and> length mem' = length mem \<and>
    (\<forall>k < length mem. mem' ! k = rect_byte S w h c a k (mem ! k))"
  using assms(5)
proof (induction h)
  case 0
  then show ?case by (simp add: rect_byte_def)
next
  case (Suc h)
  have "h = 0 \<or> a + (h - 1) * S + 2 * w < length mem"
    using Suc.prems assms(3) by (cases h) auto
  from Suc.IH [OF this] obtain m where m: "draw_rows v a c w h mem = Some m" "length m = length mem"
    "\<And>k. k < length mem \<Longrightarrow> m ! k = rect_byte S w h c a k (mem ! k)" by auto
  have "w = 0 \<or> a + h * S + 2 * w < length m" using Suc.prems m(2) by simp
  from draw_row_16 [OF assms(1,2) this, of c] obtain m' where
    m': "draw_row v (a + h * S) c w m = Some m'" "length m' = length m"
    "\<And>k. k < length m \<Longrightarrow> m' ! k = (if a + h * S \<le> k then row_byte w c (k - (a + h * S)) (m ! k) else m ! k)"
    by auto
  have eq: "(if a + h * S \<le> k then row_byte w c (k - (a + h * S)) (rect_byte S w h c a k old)
      else rect_byte S w h c a k old) = rect_byte S w (Suc h) c a k old" for k old
  proof (cases "a \<le> k")
    case True
    then obtain d where k: "k = a + d" by (metis le_Suc_ex)
    have S0: "0 < S" using assms(3) by simp
    have d: "d = d div S * S + d mod S" by simp
    consider "d div S < h" | "d div S = h" | "h < d div S" by linarith
    then show ?thesis
    proof cases
      case 1
      then have "d < h * S" using S0 by (simp add: div_less_iff_less_mult)
      with 1 k show ?thesis by (simp add: rect_byte_def)
    next
      case 2
      then have "h * S \<le> d" "d - h * S = d mod S" using d by (metis le_add1, simp add: minus_div_mult_eq_mod)
      with 2 k show ?thesis by (simp add: rect_byte_def)
    next
      case 3
      then have "Suc h * S \<le> d" using less_eq_div_iff_mult_less_eq [OF S0, of "Suc h" d] by simp
      with assms(3) have "h * S \<le> d" "2 * w < d - h * S" by auto
      with 3 k show ?thesis by (simp add: rect_byte_def row_byte_beyond)
    qed
  qed (simp add: rect_byte_def)
  have "\<forall>k < length mem. m' ! k = rect_byte S w (Suc h) c a k (mem ! k)"
    using m'(2,3) m(2,3) by (simp flip: eq)
  with m(1,2) m'(1,2) show ?case by (simp flip: S)
qed

section \<open>Pixels of a rectangle\<close>

text \<open>A byte of column \<open>u\<close> and line \<open>l\<close> of a screen that is \<open>W\<close> pixels wide.\<close>

lemma rect_byte_at:
  assumes "X + w < W" and "u < W" and "e < 2"
  shows "rect_byte (2 * W) w h c (Y * (2 * W) + 2 * X) (l * (2 * W) + 2 * u + e) old =
    (if Y \<le> l \<and> l < Y + h \<and> X \<le> u then row_byte w c (2 * (u - X) + e) old else old)"
proof -
  let ?S = "2 * W" let ?a = "Y * ?S + 2 * X" let ?k = "l * ?S + 2 * u + e"
  consider "l < Y" | "Y \<le> l" "X \<le> u" | "l = Y" "u < X" | "Y < l" "u < X" by linarith
  then show ?thesis
  proof cases
    case 1
    then have "Suc l * ?S \<le> Y * ?S" by (intro mult_le_mono1) simp
    with assms have "?k < ?a" by simp
    with 1 show ?thesis by (simp add: rect_byte_def)
  next
    case 2
    then obtain i j where "l = Y + i" "u = X + j" by (metis le_Suc_ex)
    then have "?a \<le> ?k" "?k - ?a = 2 * j + e + i * ?S" by (simp_all add: algebra_simps)
    moreover have "2 * j + e < ?S" using assms \<open>u = X + j\<close> by linarith
    ultimately show ?thesis using \<open>l = Y + i\<close> \<open>u = X + j\<close> by (simp add: rect_byte_def)
  next
    case 3
    with assms have "?k < ?a" by simp
    with 3 show ?thesis by (simp add: rect_byte_def)
  next
    case 4
    then obtain i where i: "l = Suc Y + i" by (metis Suc_leI le_Suc_ex)
    let ?d = "?S - 2 * X + 2 * u + e"
    have "?k - ?a = ?d + i * ?S" using i 4 assms by (simp add: algebra_simps)
    moreover have "?d < ?S" "2 * w < ?d" using 4 assms by linarith+
    ultimately have "(?k - ?a) mod ?S = ?d" "2 * w < ?d" by simp_all
    with 4 show ?thesis by (simp add: rect_byte_def row_byte_beyond)
  qed
qed

lemma row_byte_px:
  "row_byte w (r, g, b) (2 * i) old = (if i < w then b else if i = w \<and> 0 < w then r else old)"
  "row_byte w (r, g, b) (2 * i + 1) old = (if i < w then g else old)"
  by (auto simp: row_byte.simps)

definition inside :: "nat \<Rightarrow> nat \<Rightarrow> nat \<Rightarrow> bool" where
  "inside a n i \<longleftrightarrow> a \<le> i \<and> i < a + n"

lemma px_2: "i * 2 + 2 \<le> length mem \<Longrightarrow> px 2 mem i = [mem ! (i * 2), mem ! (i * 2 + 1)]"
  by (simp add: px_def numeral_2_eq_2 take_Suc_conv_app_nth)

lemma factor_small: "a * b < n \<Longrightarrow> 0 < b \<Longrightarrow> a < n" for a b n :: nat
  by (cases b) auto

lemma unat_of_nat_32: "n < 2 ^ 32 \<Longrightarrow> unat (of_nat n :: u32) = n"
  by (simp add: unat_of_nat take_bit_nat_eq_self unsigned_of_nat)

lemma stride_16:
  assumes "xres v = of_nat W" "bits_per_pixel v = 16" and "W * 16 < 2 ^ 32"
  shows "unat (stride v) = 2 * W"
proof -
  have "stride v = of_nat (W * 16) div 8" by (simp add: stride_def assms(1,2))
  then have "unat (stride v) = W * 16 div 8" using unat_of_nat_32 [OF assms(3)] by (simp add: unat_div)
  then show ?thesis by simp
qed

lemma rectangle_pixels:
  assumes v: "xres v = of_nat W" "bits_per_pixel v = 16" and wh: "X + w < W" "Y + h \<le> H" "W * H < 2 ^ 28"
    and mem: "length mem = W * H * 2"
  shows "\<exists>mem'. draw_rows v ((Y * W + X) * 2) (r, g, b) w h mem = Some mem' \<and>
    length mem' = length mem \<and>
    (\<forall>u < W. \<forall>l < H. px 2 mem' (l * W + u) =
       (if inside Y h l \<and> inside X w u then [b, g]
        else if inside Y h l \<and> u = X + w \<and> 0 < w then [r, mem ! ((l * W + u) * 2 + 1)]
        else px 2 mem (l * W + u)))"
proof (cases h)
  case 0
  then show ?thesis by (auto simp: inside_def)
next
  case (Suc h')
  let ?a = "Y * (2 * W) + 2 * X"
  have a: "(Y * W + X) * 2 = ?a" by simp
  have "W < 2 ^ 28" using factor_small [OF wh(3)] wh(2) Suc by simp
  then have W: "W * 16 < 2 ^ 32" "w < 2 ^ 29" using wh(1) by simp_all
  have "(Y + h') * (2 * W) + 2 * W \<le> H * (2 * W)"
    using mult_le_mono1 [OF wh(2), of "2 * W"] Suc by (simp add: algebra_simps)
  then have "?a + (h - 1) * (2 * W) + 2 * w < length mem"
    using Suc wh(1) mem by (simp add: algebra_simps)
  with draw_rows_16 [OF v(2) W(2) _ stride_16 [OF v W(1), symmetric], of h ?a mem "(r, g, b)"] wh(1)
  obtain m where m: "draw_rows v ?a (r, g, b) w h mem = Some m" "length m = length mem"
    "\<And>k. k < length mem \<Longrightarrow> m ! k = rect_byte (2 * W) w h (r, g, b) ?a k (mem ! k)"
    by auto
  have "px 2 m (l * W + u) = (if inside Y h l \<and> inside X w u then [b, g]
      else if inside Y h l \<and> u = X + w \<and> 0 < w then [r, mem ! ((l * W + u) * 2 + 1)]
      else px 2 mem (l * W + u))" if u: "u < W" and l: "l < H" for u l
  proof -
    have "l * W + u < W * H" using pixel_index [OF u l] .
    then have len: "(l * W + u) * 2 + 2 \<le> length mem" using mem by simp
    have byte: "m ! ((l * W + u) * 2 + e) =
        (if Y \<le> l \<and> l < Y + h \<and> X \<le> u then row_byte w (r, g, b) (2 * (u - X) + e) (mem ! ((l * W + u) * 2 + e))
         else mem ! ((l * W + u) * 2 + e))" if "e < 2" for e
    proof -
      have i: "(l * W + u) * 2 + e = l * (2 * W) + 2 * u + e" by simp
      have "rect_byte (2 * W) w h (r, g, b) ?a ((l * W + u) * 2 + e) old =
          (if Y \<le> l \<and> l < Y + h \<and> X \<le> u then row_byte w (r, g, b) (2 * (u - X) + e) old else old)" for old
        unfolding i by (rule rect_byte_at [OF wh(1) u that])
      moreover have "(l * W + u) * 2 + e < length mem" using len that by linarith
      ultimately show ?thesis using m(3) by simp
    qed
    show ?thesis
      using byte [of 0] byte [of 1] len m(2) row_byte_px [of w r g b "u - X"]
      by (auto simp: px_2 inside_def)
  qed
  with m(1,2) show ?thesis unfolding a by blast
qed

section \<open>A round, and the whole run\<close>

text \<open>The part of a screen that the environment asks for, not larger than the screen.\<close>

definition bench_fits :: "bench \<Rightarrow> nat \<Rightarrow> nat \<Rightarrow> nat \<Rightarrow> nat \<Rightarrow> nat \<Rightarrow> nat \<Rightarrow> bool" where
  "bench_fits B W H posx posy bw bh \<longleftrightarrow>
     xres (b_info B) = of_nat W \<and> bits_per_pixel (b_info B) = 16 \<and> W * H < 2 ^ 28 \<and>
     b_posx B = of_nat posx \<and> b_posy B = of_nat posy \<and>
     b_width B = of_nat bw \<and> b_height B = of_nat bh \<and>
     b_w B = of_nat (bw div 4) \<and> b_h B = of_nat (bh div 4) \<and>
     0 < bw \<and> 0 < bh \<and> posx + bw \<le> W \<and> posy + bh \<le> H"

text \<open>Where the rectangle of round \<open>n\<close> is.\<close>

definition rect_x :: "(nat \<Rightarrow> c_int) \<Rightarrow> nat \<Rightarrow> nat \<Rightarrow> nat" where
  "rect_x rnd n bw = unat (rnd (5 * n + 3)) mod (bw - bw div 4)"

definition rect_y :: "(nat \<Rightarrow> c_int) \<Rightarrow> nat \<Rightarrow> nat \<Rightarrow> nat" where
  "rect_y rnd n bh = unat (rnd (5 * n + 4)) mod (bh - bh div 4)"

lemma place_bounds:
  "0 < bw \<Longrightarrow> x mod (bw - bw div 4) + bw div 4 < bw" for bw :: nat
  using mod_less_divisor [of "bw - bw div 4" x] by linarith

lemma mod_word: "unat (of_nat m :: u32) = m \<Longrightarrow> q mod of_nat m = of_nat (unat q mod m)" for q :: u32
proof -
  assume m: "unat (of_nat m :: u32) = m"
  have "unat q mod m < 2 ^ 32"
    using unsigned_less [of q] le_less_trans [OF mod_less_eq_dividend, of "unat q"] by auto
  then have "unat (of_nat (unat q mod m) :: u32) = unat q mod m" by (rule unat_of_nat_32)
  with m show ?thesis by (simp only: word_unat_eq_iff unat_mod)
qed

lemma place_word:
  assumes "0 < bw" and "bw < 2 ^ 31"
  shows "(of_nat bw :: u32) - of_nat (bw div 4) = of_nat (bw - bw div 4)"
    and "(of_nat (bw - bw div 4) :: u32) \<noteq> 0"
    and "(q :: u32) mod of_nat (bw - bw div 4) = of_nat (unat q mod (bw - bw div 4))"
proof -
  show "(of_nat bw :: u32) - of_nat (bw div 4) = of_nat (bw - bw div 4)" by simp
  have u: "unat (of_nat (bw - bw div 4) :: u32) = bw - bw div 4"
    using assms(2) by (intro unat_of_nat_small) simp
  then show "(of_nat (bw - bw div 4) :: u32) \<noteq> 0"
    using assms(1) by (metis diff_is_0_eq div_less_dividend leD one_less_numeral_iff semiring_norm(76) unat_0)
  show "q mod of_nat (bw - bw div 4) = of_nat (unat q mod (bw - bw div 4))"
    using u by (rule mod_word)
qed

lemma data_offset_16:
  assumes "xres (b_info B) = of_nat W" "bits_per_pixel (b_info B) = 16" "W * H < 2 ^ 28"
    and "b_posx B = of_nat posx" "b_posy B = of_nat posy" and "posx + x < W" "posy + y < H"
  shows "data_offset B (of_nat x) (of_nat y) = ((posy + y) * W + (posx + x)) * 2"
proof -
  have i: "(posy + y) * W + (posx + x) < W * H" using pixel_index [OF assms(6,7)] .
  then have "((posy + y) * W + (posx + x)) * 16 < 2 ^ 32" using assms(3) by simp
  from le_less_trans [OF _ this] have "(posy + y) * W * 16 < 2 ^ 32" "(posx + x) * 16 < 2 ^ 32"
    by simp_all
  then have a: "unat (of_nat ((posy + y) * W * 16) div 8 :: u32) = (posy + y) * W * 2"
    "unat (of_nat ((posx + x) * 16) div 8 :: u32) = (posx + x) * 2"
    using unat_of_nat_32 [of "(posy + y) * W * 16"] unat_of_nat_32 [of "(posx + x) * 16"]
    by (simp_all add: unat_div)
  moreover have "data_offset B (of_nat x) (of_nat y) =
      unat (of_nat ((posy + y) * W * 16) div 8 :: u32) + unat (of_nat ((posx + x) * 16) div 8 :: u32)"
    by (simp add: data_offset_def assms)
  ultimately show ?thesis by (simp add: algebra_simps)
qed

text \<open>Pixel \<open>(u, l)\<close> after round \<open>n\<close> on a screen that held \<open>mem\<close>.\<close>

definition rect_pixel ::
    "rgb \<Rightarrow> nat \<Rightarrow> nat \<Rightarrow> nat \<Rightarrow> nat \<Rightarrow> nat \<Rightarrow> nat \<Rightarrow> u8 list \<Rightarrow> u8 list" where
  "rect_pixel c X Y w h u l old = (case c of (r, g, b) \<Rightarrow>
     if inside Y h l \<and> inside X w u then [b, g]
     else if inside Y h l \<and> u = X + w \<and> 0 < w then [r, old ! 1]
     else old)"

lemma bench_round_16:
  assumes B: "bench_fits B W H posx posy bw bh" and mem: "length mem = W * H * 2"
  shows "\<exists>mem'. bench_round B rnd n mem = Done mem' \<and> length mem' = length mem \<and>
    (\<forall>u < W. \<forall>l < H. px 2 mem' (l * W + u) =
       rect_pixel (colour_of rnd n) (posx + rect_x rnd n bw) (posy + rect_y rnd n bh)
         (bw div 4) (bh div 4) u l (px 2 mem (l * W + u)))"
proof -
  let ?x = "rect_x rnd n bw" and ?y = "rect_y rnd n bh"
  obtain r g b where c: "colour_of rnd n = (r, g, b)" by (cases "colour_of rnd n")
  have pos: "0 < bw" "0 < bh" "0 < W" "0 < H" and WH: "W * H < 2 ^ 28"
    and fit: "posx + bw \<le> W" "posy + bh \<le> H"
    using B by (auto simp: bench_fits_def)
  have "W < 2 ^ 28" "H < 2 ^ 28"
    using factor_small [OF WH pos(4)] factor_small [of H W] WH pos(3) by (simp_all add: mult.commute)
  with fit have small: "bw < 2 ^ 31" "bh < 2 ^ 31" by simp_all
  have x: "?x + bw div 4 < bw" and y: "?y + bh div 4 < bh"
    using place_bounds pos(1,2) by (simp_all add: rect_x_def rect_y_def)
  have off: "data_offset B (of_nat ?x) (of_nat ?y) = ((posy + ?y) * W + (posx + ?x)) * 2"
    using B x y fit by (intro data_offset_16) (auto simp: bench_fits_def)
  have wh: "unat (b_w B) = bw div 4" "unat (b_h B) = bh div 4"
    using B small by (simp_all add: bench_fits_def unat_of_nat_small del: of_nat_div)
  have d: "b_width B - b_w B = of_nat (bw - bw div 4)" "b_height B - b_h B = of_nat (bh - bh div 4)"
    using B place_word(1) [OF pos(1) small(1)] place_word(1) [OF pos(2) small(2)]
    by (simp_all only: bench_fits_def)
  have place: "b_width B - b_w B \<noteq> 0" "b_height B - b_h B \<noteq> 0"
    "rnd (5 * n + 3) mod (b_width B - b_w B) = of_nat ?x"
    "rnd (5 * n + 4) mod (b_height B - b_h B) = of_nat ?y"
    using place_word(2,3) [OF pos(1) small(1)] place_word(2,3) [OF pos(2) small(2)]
    by (simp_all only: d rect_x_def rect_y_def not_False_eq_True simp_thms)
  have "bench_round B rnd n mem = from_option (draw_rows (b_info B)
      (((posy + ?y) * W + (posx + ?x)) * 2) (r, g, b) (bw div 4) (bh div 4) mem)"
    using place(1,2) by (simp add: bench_round_def c place(3,4) wh off)
  moreover have "length (px 2 mem (l * W + u)) = 2 \<and> px 2 mem (l * W + u) ! 1 = mem ! ((l * W + u) * 2 + 1)"
    if "u < W" "l < H" for u l
    using pixel_index [OF that] mem by (simp add: px_2)
  ultimately show ?thesis
    using rectangle_pixels [of "b_info B" W "posx + ?x" "bw div 4" "posy + ?y" "bh div 4" H mem r g b]
      B x y fit WH mem
    by (auto simp: bench_fits_def rect_pixel_def c)
qed

text \<open>
  The milliseconds of the clock at its readings, from the one before the loop to the first one five
  seconds later.
\<close>

definition clock_runs :: "(nat \<Rightarrow> int \<times> int) \<Rightarrow> (nat \<Rightarrow> nat) \<Rightarrow> nat \<Rightarrow> bool" where
  "clock_runs tod t N \<longleftrightarrow> (\<forall>k \<le> Suc N. now_ms (tod k) = of_nat (t k)) \<and>
     (\<forall>k \<le> N. t k < t 0 + 5000) \<and> t 0 + 5000 \<le> t (Suc N) \<and> t (Suc N) < 2 ^ 32"

lemma deadline:
  assumes "clock_runs tod t N" and "k \<le> Suc N"
  shows "now_ms (tod k) < now_ms (tod 0) + 5000 \<longleftrightarrow> k \<le> N"
proof -
  have t: "now_ms (tod k) = of_nat (t k)" "now_ms (tod 0) + 5000 = of_nat (t 0 + 5000)"
    using assms by (simp_all add: clock_runs_def)
  have "t 0 + 5000 < 2 ^ 32" "t k < 2 ^ 32" "k \<le> N \<longleftrightarrow> t k < t 0 + 5000"
    using assms by (auto simp: clock_runs_def le_Suc_eq)
  then show ?thesis unfolding t by (simp only: word_less_nat_alt unat_of_nat_32)
qed

lemma bench_loop_run:
  assumes B: "bench_fits B W H posx posy bw bh" and c: "clock_runs tod t N" and "k \<le> N"
    and "length mem = W * H * 2"
  shows "\<exists>mem1 mem'. bench_loop B rnd tod (now_ms (tod 0)) k mem =
      Some (Done (of_nat (Suc N), of_nat (t (Suc N)), mem')) \<and>
    length mem1 = length mem \<and> bench_round B rnd N mem1 = Done mem' \<and> length mem' = length mem"
  using assms(3,4)
proof (induction k arbitrary: mem rule: inc_induct)
  case base
  from bench_round_16 [OF B base, of rnd N] obtain mem' where
    "bench_round B rnd N mem = Done mem'" "length mem' = length mem" by blast
  then show ?case
    using deadline [OF c, of "Suc N"] c
    by (subst bench_loop.simps) (auto simp: clock_runs_def)
next
  case (step k)
  from bench_round_16 [OF B step.prems, of rnd k] obtain m where
    m: "bench_round B rnd k mem = Done m" "length m = length mem" by blast
  with step.IH [of m] step.prems step.hyps deadline [OF c, of "Suc k"] show ?case
    by (subst bench_loop.simps) simp
qed

text \<open>
  The counter of milliseconds wraps every 49.7 days; started in the last five seconds before that,
  the benchmark stops after its first rectangle unless the counter has wrapped as well.
\<close>

lemma bench_loop_wrapped:
  assumes "bench_round B rnd n mem = Done mem'" and "start + 5000 \<le> now_ms (tod (Suc n))"
  shows "bench_loop B rnd tod start n mem = Some (Done (of_nat (Suc n), now_ms (tod (Suc n)), mem'))"
  using assms(1) leD [OF assms(2)] by (subst bench_loop.simps) simp

lemma bench_fits_default:
  "bench_fits (bench_of (\<lambda>_. None) fill_var) 480 320 0 0 480 320"
  by (simp add: bench_fits_def bench_of_def env_int_def fill_var_def display_def)

end
