(* ===== verification/Frames.thy ===== *)
theory Frames
  imports Video
begin

text \<open>
  The headers of the 25 JPEG arrays of \<open>v4l2/frames.h\<close>: the bytes of each array from its start to
  the line that ends its start-of-scan segment, as the source lists them. A walk over the segments
  of a JPEG header reads the picture size they announce. The entropy-coded data that follows is not
  modelled.
\<close>

section \<open>The header bytes\<close>

definition frame_1_head :: "u8 list" where
  "frame_1_head =
    [0xff, 0xd8, 0xff, 0xe0, 0x00, 0x10, 0x4a, 0x46, 0x49, 0x46, 0x00, 0x01,
     0x01, 0x00, 0x00, 0x01, 0x00, 0x01, 0x00, 0x00, 0xff, 0xdb, 0x00, 0x43,
     0x00, 0x02, 0x01, 0x01, 0x02, 0x01, 0x01, 0x02, 0x02, 0x02, 0x02, 0x02,
     0x02, 0x02, 0x02, 0x03, 0x05, 0x03, 0x03, 0x03, 0x03, 0x03, 0x06, 0x04,
     0x04, 0x03, 0x05, 0x07, 0x06, 0x07, 0x07, 0x07, 0x06, 0x07, 0x07, 0x08,
     0x09, 0x0b, 0x09, 0x08, 0x08, 0x0a, 0x08, 0x07, 0x07, 0x0a, 0x0d, 0x0a,
     0x0a, 0x0b, 0x0c, 0x0c, 0x0c, 0x0c, 0x07, 0x09, 0x0e, 0x0f, 0x0d, 0x0c,
     0x0e, 0x0b, 0x0c, 0x0c, 0x0c, 0xff, 0xdb, 0x00, 0x43, 0x01, 0x02, 0x02,
     0x02, 0x03, 0x03, 0x03, 0x06, 0x03, 0x03, 0x06, 0x0c, 0x08, 0x07, 0x08,
     0x0c, 0x0c, 0x0c, 0x0c, 0x0c, 0x0c, 0x0c, 0x0c, 0x0c, 0x0c, 0x0c, 0x0c,
     0x0c, 0x0c, 0x0c, 0x0c, 0x0c, 0x0c, 0x0c, 0x0c, 0x0c, 0x0c, 0x0c, 0x0c,
     0x0c, 0x0c, 0x0c, 0x0c, 0x0c, 0x0c, 0x0c, 0x0c, 0x0c, 0x0c, 0x0c, 0x0c,
     0x0c, 0x0c, 0x0c, 0x0c, 0x0c, 0x0c, 0x0c, 0x0c, 0x0c, 0x0c, 0x0c, 0x0c,
     0x0c, 0x0c, 0xff, 0xc0, 0x00, 0x11, 0x08, 0x01, 0x5e, 0x02, 0x58, 0x03,
     0x01, 0x22, 0x00, 0x02, 0x11, 0x01, 0x03, 0x11, 0x01, 0xff, 0xc4, 0x00,
     0x1e, 0x00, 0x00, 0x01, 0x04, 0x03, 0x01, 0x01, 0x01, 0x00, 0x00, 0x00,
     0x00, 0x00, 0x00, 0x00, 0x00, 0x00, 0x00, 0x05, 0x06, 0x07, 0x08, 0x03,
     0x04, 0x0a, 0x09, 0x01, 0x02, 0xff, 0xc4, 0x00, 0x6f, 0x10, 0x00, 0x00,
     0x05, 0x02, 0x03, 0x03, 0x07, 0x06, 0x06, 0x08, 0x0f, 0x0a, 0x0a, 0x08,
     0x06, 0x03, 0x01, 0x02, 0x03, 0x04, 0x05, 0x00, 0x06, 0x07, 0x11, 0x12,
     0x08, 0x13, 0x21, 0x14, 0x22, 0x31, 0x32, 0x41, 0x51, 0x61, 0x09, 0x15,
     0x23, 0x42, 0x52, 0x71, 0x16, 0x24, 0x62, 0x72, 0x81, 0x91, 0x33, 0x43,
     0x53, 0x73, 0x82, 0xa1, 0xb1, 0xd4, 0x17, 0x1a, 0x25, 0x34, 0x35, 0x57,
     0x63, 0x74, 0x83, 0x92, 0x96, 0xa2, 0xb2, 0xc1, 0xd1, 0x0a, 0x26, 0x44,
     0x54, 0x64, 0x93, 0xa3, 0xb3, 0xc2, 0xf0, 0x19, 0x36, 0x37, 0x45, 0x47,
     0x75, 0xa6, 0xb4, 0xc3, 0xe1, 0x18, 0x56, 0x65, 0x95, 0xa4, 0xd2, 0xd3,
     0xe2, 0x27, 0x46, 0x55, 0x66, 0x86, 0x94, 0x84, 0x85, 0xf2, 0xff, 0xc4,
     0x00, 0x1c, 0x01, 0x00, 0x02, 0x03, 0x01, 0x01, 0x01, 0x01, 0x00, 0x00,
     0x00, 0x00, 0x00, 0x00, 0x00, 0x00, 0x00, 0x00, 0x04, 0x03, 0x05, 0x06,
     0x02, 0x07, 0x01, 0x08, 0xff, 0xc4, 0x00, 0x42, 0x11, 0x00, 0x01, 0x03,
     0x02, 0x03, 0x05, 0x03, 0x07, 0x0a, 0x05, 0x04, 0x03, 0x01, 0x00, 0x00,
     0x00, 0x01, 0x00, 0x02, 0x03, 0x04, 0x11, 0x05, 0x12, 0x21, 0x13, 0x22,
     0x31, 0x41, 0x51, 0x06, 0x32, 0x61, 0x14, 0x52, 0x71, 0x81, 0x91, 0xa1,
     0xd1, 0x07, 0x15, 0x16, 0x17, 0x23, 0x42, 0x53, 0xb1, 0xc1, 0xe1, 0x33,
     0x92, 0xa2, 0xd2, 0xe2, 0x54, 0x62, 0x82, 0xf0, 0x43, 0x63, 0x72, 0x24,
     0xff, 0xda, 0x00, 0x0c, 0x03, 0x01, 0x00, 0x02, 0x11, 0x03, 0x11, 0x00,
     0x3f, 0x00, 0xf3, 0x5b, 0xf4, 0xbb, 0x7b, 0x61, 0xfe, 0xd4, 0x41, 0xfc]"

definition frame_2_head :: "u8 list" where
  "frame_2_head =
    [0xff, 0xd8, 0xff, 0xe0, 0x00, 0x10, 0x4a, 0x46, 0x49, 0x46, 0x00, 0x01,
     0x01, 0x00, 0x00, 0x01, 0x00, 0x01, 0x00, 0x00, 0xff, 0xdb, 0x00, 0x43,
     0x00, 0x02, 0x01, 0x01, 0x02, 0x01, 0x01, 0x02, 0x02, 0x02, 0x02, 0x02,
     0x02, 0x02, 0x02, 0x03, 0x05, 0x03, 0x03, 0x03, 0x03, 0x03, 0x06, 0x04,
     0x04, 0x03, 0x05, 0x07, 0x06, 0x07, 0x07, 0x07, 0x06, 0x07, 0x07, 0x08,
     0x09, 0x0b, 0x09, 0x08, 0x08, 0x0a, 0x08, 0x07, 0x07, 0x0a, 0x0d, 0x0a,
     0x0a, 0x0b, 0x0c, 0x0c, 0x0c, 0x0c, 0x07, 0x09, 0x0e, 0x0f, 0x0d, 0x0c,
     0x0e, 0x0b, 0x0c, 0x0c, 0x0c, 0xff, 0xdb, 0x00, 0x43, 0x01, 0x02, 0x02,
     0x02, 0x03, 0x03, 0x03, 0x06, 0x03, 0x03, 0x06, 0x0c, 0x08, 0x07, 0x08,
     0x0c, 0x0c, 0x0c, 0x0c, 0x0c, 0x0c, 0x0c, 0x0c, 0x0c, 0x0c, 0x0c, 0x0c,
     0x0c, 0x0c, 0x0c, 0x0c, 0x0c, 0x0c, 0x0c, 0x0c, 0x0c, 0x0c, 0x0c, 0x0c,
     0x0c, 0x0c, 0x0c, 0x0c, 0x0c, 0x0c, 0x0c, 0x0c, 0x0c, 0x0c, 0x0c, 0x0c,
     0x0c, 0x0c, 0x0c, 0x0c, 0x0c, 0x0c, 0x0c, 0x0c, 0x0c, 0x0c, 0x0c, 0x0c,
     0x0c, 0x0c, 0xff, 0xc0, 0x00, 0x11, 0x08, 0x01, 0x5e, 0x02, 0x58, 0x03,
     0x01, 0x22, 0x00, 0x02, 0x11, 0x01, 0x03, 0x11, 0x01, 0xff, 0xc4, 0x00,
     0x1e, 0x00, 0x00, 0x01, 0x04, 0x03, 0x01, 0x01, 0x01, 0x00, 0x00, 0x00,
     0x00, 0x00, 0x00, 0x00, 0x00, 0x00, 0x00, 0x05, 0x06, 0x07, 0x08, 0x03,
     0x04, 0x0a, 0x09, 0x01, 0x02, 0xff, 0xc4, 0x00, 0x6f, 0x10, 0x00, 0x00,
     0x05, 0x02, 0x03, 0x03, 0x07, 0x06, 0x06, 0x08, 0x10, 0x08, 0x09, 0x0a,
     0x06, 0x03, 0x01, 0x02, 0x03, 0x04, 0x05, 0x00, 0x06, 0x07, 0x11, 0x12,
     0x08, 0x13, 0x21, 0x14, 0x22, 0x31, 0x32, 0x41, 0x51, 0x61, 0x09, 0x15,
     0x23, 0x42, 0x52, 0x71, 0x16, 0x24, 0x62, 0x72, 0x81, 0x91, 0x33, 0x43,
     0x53, 0x73, 0x82, 0xa1, 0xb1, 0xd4, 0x17, 0x1a, 0x25, 0x34, 0x35, 0x57,
     0x63, 0x74, 0x83, 0x92, 0x96, 0xa2, 0xb2, 0xb3, 0xc1, 0xd1, 0x0a, 0x19,
     0x26, 0x54, 0x93, 0xa3, 0xc2, 0xf0, 0x36, 0x37, 0x44, 0x45, 0x47, 0x64,
     0x75, 0xa6, 0xb4, 0x18, 0x27, 0x56, 0x65, 0xa4, 0xc3, 0xd2, 0xd3, 0xe1,
     0xe2, 0x46, 0x66, 0x84, 0x86, 0x94, 0x95, 0x55, 0x85, 0xf2, 0xff, 0xc4,
     0x00, 0x1c, 0x01, 0x00, 0x02, 0x03, 0x01, 0x01, 0x01, 0x01, 0x00, 0x00,
     0x00, 0x00, 0x00, 0x00, 0x00, 0x00, 0x00, 0x04, 0x05, 0x00, 0x03, 0x06,
     0x02, 0x01, 0x07, 0x08, 0xff, 0xc4, 0x00, 0x44, 0x11, 0x00, 0x01, 0x03,
     0x02, 0x03, 0x05, 0x02, 0x09, 0x0a, 0x06, 0x02, 0x03, 0x00, 0x03, 0x00,
     0x00, 0x01, 0x00, 0x02, 0x03, 0x04, 0x11, 0x05, 0x12, 0x21, 0x13, 0x22,
     0x31, 0x41, 0x51, 0x06, 0x32, 0x14, 0x23, 0x52, 0x61, 0x71, 0x81, 0x91,
     0xa1, 0xd1, 0x07, 0x15, 0x16, 0x17, 0x42, 0x53, 0xb1, 0xc1, 0xe1, 0xe2,
     0x33, 0x54, 0x92, 0xa2, 0xd2, 0xf0, 0x62, 0x82, 0x43, 0x63, 0x72, 0x24,
     0x34, 0xf1, 0xff, 0xda, 0x00, 0x0c, 0x03, 0x01, 0x00, 0x02, 0x11, 0x03,
     0x11, 0x00, 0x3f, 0x00, 0xf3, 0x5b, 0xf4, 0xbb, 0x7b, 0x61, 0xfe, 0xd4]"

definition frame_3_head :: "u8 list" where
  "frame_3_head =
    [0xff, 0xd8, 0xff, 0xe0, 0x00, 0x10, 0x4a, 0x46, 0x49, 0x46, 0x00, 0x01,
     0x01, 0x00, 0x00, 0x01, 0x00, 0x01, 0x00, 0x00, 0xff, 0xdb, 0x00, 0x43,
     0x00, 0x02, 0x01, 0x01, 0x02, 0x01, 0x01, 0x02, 0x02, 0x02, 0x02, 0x02,
     0x02, 0x02, 0x02, 0x03, 0x05, 0x03, 0x03, 0x03, 0x03, 0x03, 0x06, 0x04,
     0x04, 0x03, 0x05, 0x07, 0x06, 0x07, 0x07, 0x07, 0x06, 0x07, 0x07, 0x08,
     0x09, 0x0b, 0x09, 0x08, 0x08, 0x0a, 0x08, 0x07, 0x07, 0x0a, 0x0d, 0x0a,
     0x0a, 0x0b, 0x0c, 0x0c, 0x0c, 0x0c, 0x07, 0x09, 0x0e, 0x0f, 0x0d, 0x0c,
     0x0e, 0x0b, 0x0c, 0x0c, 0x0c, 0xff, 0xdb, 0x00, 0x43, 0x01, 0x02, 0x02,
     0x02, 0x03, 0x03, 0x03, 0x06, 0x03, 0x03, 0x06, 0x0c, 0x08, 0x07, 0x08,
     0x0c, 0x0c, 0x0c, 0x0c, 0x0c, 0x0c, 0x0c, 0x0c, 0x0c, 0x0c, 0x0c, 0x0c,
     0x0c, 0x0c, 0x0c, 0x0c, 0x0c, 0x0c, 0x0c, 0x0c, 0x0c, 0x0c, 0x0c, 0x0c,
     0x0c, 0x0c, 0x0c, 0x0c, 0x0c, 0x0c, 0x0c, 0x0c, 0x0c, 0x0c, 0x0c, 0x0c,
     0x0c, 0x0c, 0x0c, 0x0c, 0x0c, 0x0c, 0x0c, 0x0c, 0x0c, 0x0c, 0x0c, 0x0c,
     0x0c, 0x0c, 0xff, 0xc0, 0x00, 0x11, 0x08, 0x01, 0x5e, 0x02, 0x58, 0x03,
     0x01, 0x22, 0x00, 0x02, 0x11, 0x01, 0x03, 0x11, 0x01, 0xff, 0xc4, 0x00,
     0x1e, 0x00, 0x00, 0x01, 0x03, 0x05, 0x01, 0x01, 0x00, 0x00, 0x00, 0x00,
     0x00, 0x00, 0x00, 0x00, 0x00, 0x00, 0x00, 0x03, 0x07, 0x08, 0x04, 0x05,
     0x06, 0x09, 0x0a, 0x01, 0x02, 0xff, 0xc4, 0x00, 0x75, 0x10, 0x00, 0x00,
     0x05, 0x02, 0x03, 0x03, 0x06, 0x05, 0x0a, 0x0d, 0x0b, 0x0e, 0x0b, 0x07,
     0x03, 0x05, 0x01, 0x02, 0x03, 0x04, 0x05, 0x00, 0x06, 0x07, 0x11, 0x12,
     0x08, 0x13, 0x21, 0x09, 0x14, 0x22, 0x31, 0x41, 0x61, 0x15, 0x32, 0x51,
     0x52, 0x91, 0x16, 0x23, 0x33, 0x42, 0x62, 0x71, 0x72, 0x81, 0xa1, 0xd4,
     0x1a, 0x24, 0x37, 0x43, 0x53, 0x57, 0x73, 0x82, 0x92, 0x96, 0xb4, 0xc1,
     0xd1, 0x0a, 0x17, 0x18, 0x34, 0x44, 0x63, 0x74, 0x75, 0x93, 0xa2, 0xb1,
     0x25, 0x26, 0x27, 0x35, 0x54, 0x64, 0x76, 0x83, 0xa3, 0xa4, 0xa6, 0xb3,
     0xc2, 0xc3, 0x36, 0x38, 0x46, 0x55, 0x56, 0x65, 0x94, 0xb2, 0xb5, 0xc4,
     0xd3, 0x28, 0x45, 0x47, 0x84, 0x85, 0x95, 0xa5, 0x19, 0x66, 0xf2, 0x77,
     0x87, 0x97, 0xe2, 0xf0, 0xff, 0xc4, 0x00, 0x1c, 0x01, 0x01, 0x00, 0x02,
     0x03, 0x01, 0x01, 0x01, 0x00, 0x00, 0x00, 0x00, 0x00, 0x00, 0x00, 0x00,
     0x00, 0x00, 0x03, 0x04, 0x05, 0x06, 0x07, 0x02, 0x01, 0x08, 0xff, 0xc4,
     0x00, 0x49, 0x11, 0x00, 0x01, 0x03, 0x02, 0x03, 0x03, 0x07, 0x06, 0x09,
     0x0a, 0x07, 0x01, 0x01, 0x01, 0x00, 0x00, 0x01, 0x00, 0x02, 0x03, 0x04,
     0x11, 0x05, 0x12, 0x21, 0x06, 0x31, 0x41, 0x07, 0x13, 0x22, 0x51, 0x61,
     0x71, 0x91, 0x14, 0x17, 0x32, 0x42, 0xc1, 0xd1, 0x15, 0x53, 0x81, 0xa1,
     0xa2, 0xb1, 0xd2, 0xe1, 0xe2, 0x23, 0x33, 0x34, 0x43, 0x52, 0x54, 0x62,
     0x72, 0x82, 0x92, 0x08, 0x16, 0x24, 0x35, 0x44, 0xa3, 0xf0, 0x25, 0xb2,
     0xf1, 0xff, 0xda, 0x00, 0x0c, 0x03, 0x01, 0x00, 0x02, 0x11, 0x03, 0x11,
     0x00, 0x3f, 0x00, 0xd6, 0xa7, 0xd0, 0xee, 0xed, 0x87, 0xf6, 0xa2, 0x2f]"

definition frame_4_head :: "u8 list" where
  "frame_4_head =
    [0xff, 0xd8, 0xff, 0xe0, 0x00, 0x10, 0x4a, 0x46, 0x49, 0x46, 0x00, 0x01,
     0x01, 0x00, 0x00, 0x01, 0x00, 0x01, 0x00, 0x00, 0xff, 0xdb, 0x00, 0x43,
     0x00, 0x02, 0x01, 0x01, 0x02, 0x01, 0x01, 0x02, 0x02, 0x02, 0x02, 0x02,
     0x02, 0x02, 0x02, 0x03, 0x05, 0x03, 0x03, 0x03, 0x03, 0x03, 0x06, 0x04,
     0x04, 0x03, 0x05, 0x07, 0x06, 0x07, 0x07, 0x07, 0x06, 0x07, 0x07, 0x08,
     0x09, 0x0b, 0x09, 0x08, 0x08, 0x0a, 0x08, 0x07, 0x07, 0x0a, 0x0d, 0x0a,
     0x0a, 0x0b, 0x0c, 0x0c, 0x0c, 0x0c, 0x07, 0x09, 0x0e, 0x0f, 0x0d, 0x0c,
     0x0e, 0x0b, 0x0c, 0x0c, 0x0c, 0xff, 0xdb, 0x00, 0x43, 0x01, 0x02, 0x02,
     0x02, 0x03, 0x03, 0x03, 0x06, 0x03, 0x03, 0x06, 0x0c, 0x08, 0x07, 0x08,
     0x0c, 0x0c, 0x0c, 0x0c, 0x0c, 0x0c, 0x0c, 0x0c, 0x0c, 0x0c, 0x0c, 0x0c,
     0x0c, 0x0c, 0x0c, 0x0c, 0x0c, 0x0c, 0x0c, 0x0c, 0x0c, 0x0c, 0x0c, 0x0c,
     0x0c, 0x0c, 0x0c, 0x0c, 0x0c, 0x0c, 0x0c, 0x0c, 0x0c, 0x0c, 0x0c, 0x0c,
     0x0c, 0x0c, 0x0c, 0x0c, 0x0c, 0x0c, 0x0c, 0x0c, 0x0c, 0x0c, 0x0c, 0x0c,
     0x0c, 0x0c, 0xff, 0xc0, 0x00, 0x11, 0x08, 0x01, 0x5e, 0x02, 0x58, 0x03,
     0x01, 0x22, 0x00, 0x02, 0x11, 0x01, 0x03, 0x11, 0x01, 0xff, 0xc4, 0x00,
     0x1e, 0x00, 0x00, 0x01, 0x03, 0x05, 0x01, 0x01, 0x00, 0x00, 0x00, 0x00,
     0x00, 0x00, 0x00, 0x00, 0x00, 0x00, 0x00, 0x03, 0x07, 0x08, 0x01, 0x05,
     0x06, 0x09, 0x0a, 0x04, 0x02, 0xff, 0xc4, 0x00, 0x73, 0x10, 0x00, 0x00,
     0x05, 0x02, 0x03, 0x03, 0x06, 0x05, 0x0b, 0x0a, 0x0e, 0x0b, 0x0c, 0x09,
     0x05, 0x00, 0x01, 0x02, 0x03, 0x04, 0x05, 0x00, 0x06, 0x07, 0x11, 0x12,
     0x08, 0x13, 0x21, 0x09, 0x14, 0x22, 0x31, 0x41, 0x61, 0x15, 0x23, 0x32,
     0x51, 0x91, 0x16, 0x33, 0x42, 0x52, 0x57, 0x62, 0x71, 0x72, 0x81, 0xa1,
     0xd4, 0x17, 0x1a, 0x24, 0x37, 0x43, 0x53, 0x73, 0x96, 0xb1, 0xc1, 0x0a,
     0x18, 0x25, 0x34, 0x54, 0x63, 0x74, 0x75, 0x82, 0x92, 0xa2, 0xa4, 0xb4,
     0xd1, 0x27, 0x35, 0x64, 0x65, 0x76, 0x83, 0x93, 0xa6, 0xb2, 0xb5, 0xc2,
     0x26, 0x38, 0x44, 0x45, 0x47, 0x55, 0x56, 0x85, 0xa5, 0xb3, 0xd3, 0xf0,
     0x19, 0x28, 0x46, 0x66, 0x84, 0x94, 0x95, 0xa3, 0xc3, 0x36, 0x39, 0x77,
     0x86, 0xd2, 0xff, 0xc4, 0x00, 0x1d, 0x01, 0x00, 0x02, 0x02, 0x03, 0x01,
     0x01, 0x01, 0x00, 0x00, 0x00, 0x00, 0x00, 0x00, 0x00, 0x00, 0x00, 0x00,
     0x03, 0x04, 0x05, 0x01, 0x06, 0x07, 0x02, 0x08, 0x09, 0xff, 0xc4, 0x00,
     0x4b, 0x11, 0x00, 0x01, 0x03, 0x02, 0x03, 0x03, 0x06, 0x0a, 0x07, 0x06,
     0x05, 0x03, 0x04, 0x03, 0x00, 0x00, 0x01, 0x00, 0x02, 0x03, 0x04, 0x11,
     0x05, 0x12, 0x21, 0x06, 0x31, 0x41, 0x13, 0x22, 0x51, 0x61, 0x71, 0x91,
     0x07, 0x14, 0x17, 0x32, 0x42, 0x53, 0x81, 0xb1, 0xc1, 0xd1, 0x15, 0x72,
     0xa1, 0xa2, 0xd2, 0xe1, 0xe2, 0x23, 0x24, 0x33, 0x34, 0x52, 0x62, 0x35,
     0x54, 0x82, 0x92, 0xf0, 0x08, 0x16, 0x25, 0x43, 0x44, 0x63, 0xb2, 0x83,
     0xc2, 0xf1, 0xff, 0xda, 0x00, 0x0c, 0x03, 0x01, 0x00, 0x02, 0x11, 0x03,
     0x11, 0x00, 0x3f, 0x00, 0xd6, 0xa7, 0xd6, 0xf0, 0x6d, 0x83, 0xee, 0x44]"

definition frame_5_head :: "u8 list" where
  "frame_5_head =
    [0xff, 0xd8, 0xff, 0xe0, 0x00, 0x10, 0x4a, 0x46, 0x49, 0x46, 0x00, 0x01,
     0x01, 0x00, 0x00, 0x01, 0x00, 0x01, 0x00, 0x00, 0xff, 0xdb, 0x00, 0x43,
     0x00, 0x02, 0x01, 0x01, 0x02, 0x01, 0x01, 0x02, 0x02, 0x02, 0x02, 0x02,
     0x02, 0x02, 0x02, 0x03, 0x05, 0x03, 0x03, 0x03, 0x03, 0x03, 0x06, 0x04,
     0x04, 0x03, 0x05, 0x07, 0x06, 0x07, 0x07, 0x07, 0x06, 0x07, 0x07, 0x08,
     0x09, 0x0b, 0x09, 0x08, 0x08, 0x0a, 0x08, 0x07, 0x07, 0x0a, 0x0d, 0x0a,
     0x0a, 0x0b, 0x0c, 0x0c, 0x0c, 0x0c, 0x07, 0x09, 0x0e, 0x0f, 0x0d, 0x0c,
     0x0e, 0x0b, 0x0c, 0x0c, 0x0c, 0xff, 0xdb, 0x00, 0x43, 0x01, 0x02, 0x02,
     0x02, 0x03, 0x03, 0x03, 0x06, 0x03, 0x03, 0x06, 0x0c, 0x08, 0x07, 0x08,
     0x0c, 0x0c, 0x0c, 0x0c, 0x0c, 0x0c, 0x0c, 0x0c, 0x0c, 0x0c, 0x0c, 0x0c,
     0x0c, 0x0c, 0x0c, 0x0c, 0x0c, 0x0c, 0x0c, 0x0c, 0x0c, 0x0c, 0x0c, 0x0c,
     0x0c, 0x0c, 0x0c, 0x0c, 0x0c, 0x0c, 0x0c, 0x0c, 0x0c, 0x0c, 0x0c, 0x0c,
     0x0c, 0x0c, 0x0c, 0x0c, 0x0c, 0x0c, 0x0c, 0x0c, 0x0c, 0x0c, 0x0c, 0x0c,
     0x0c, 0x0c, 0xff, 0xc0, 0x00, 0x11, 0x08, 0x01, 0x5e, 0x02, 0x58, 0x03,
     0x01, 0x22, 0x00, 0x02, 0x11, 0x01, 0x03, 0x11, 0x01, 0xff, 0xc4, 0x00,
     0x1e, 0x00, 0x00, 0x01, 0x03, 0x05, 0x01, 0x01, 0x00, 0x00, 0x00, 0x00,
     0x00, 0x00, 0x00, 0x00, 0x00, 0x00, 0x00, 0x03, 0x07, 0x08, 0x01, 0x02,
     0x06, 0x09, 0x0a, 0x05, 0x04, 0xff, 0xc4, 0x00, 0x75, 0x10, 0x00, 0x00,
     0x05, 0x02, 0x03, 0x03, 0x06, 0x05, 0x0b, 0x0a, 0x0c, 0x0f, 0x0c, 0x0a,
     0x03, 0x01, 0x01, 0x02, 0x03, 0x04, 0x05, 0x00, 0x06, 0x07, 0x11, 0x12,
     0x08, 0x13, 0x21, 0x09, 0x14, 0x22, 0x31, 0x41, 0x61, 0x15, 0x32, 0x51,
     0x52, 0x91, 0x16, 0x1a, 0x23, 0x33, 0x42, 0x57, 0x62, 0x71, 0x72, 0x81,
     0xd4, 0x0a, 0x17, 0x24, 0x37, 0x43, 0x53, 0x73, 0x96, 0xa1, 0xb1, 0x18,
     0x34, 0x54, 0x63, 0x74, 0x75, 0x82, 0x92, 0xa6, 0xb4, 0xc1, 0xd1, 0x19,
     0x25, 0x26, 0x36, 0x44, 0x64, 0x65, 0x76, 0x93, 0xa2, 0xa4, 0xb2, 0xb5,
     0xc2, 0xd3, 0x27, 0x38, 0x45, 0x55, 0x66, 0x83, 0x94, 0x95, 0xa3, 0xb3,
     0xc3, 0xf0, 0x35, 0x46, 0x47, 0x56, 0x77, 0x84, 0x85, 0x86, 0xa5, 0xd2,
     0x28, 0x39, 0xe2, 0xf2, 0xff, 0xc4, 0x00, 0x1d, 0x01, 0x00, 0x02, 0x02,
     0x03, 0x01, 0x01, 0x01, 0x00, 0x00, 0x00, 0x00, 0x00, 0x00, 0x00, 0x00,
     0x00, 0x00, 0x03, 0x04, 0x06, 0x01, 0x05, 0x07, 0x02, 0x08, 0x09, 0xff,
     0xc4, 0x00, 0x46, 0x11, 0x00, 0x01, 0x03, 0x02, 0x03, 0x03, 0x06, 0x0b,
     0x06, 0x04, 0x05, 0x05, 0x01, 0x01, 0x00, 0x00, 0x01, 0x00, 0x02, 0x03,
     0x04, 0x11, 0x05, 0x12, 0x21, 0x06, 0x31, 0x41, 0x13, 0x22, 0x51, 0x61,
     0x71, 0x91, 0x07, 0x14, 0x17, 0x32, 0x42, 0x53, 0x81, 0xa1, 0xb1, 0xd1,
     0xd2, 0x23, 0x34, 0xa2, 0xc1, 0xe1, 0xe2, 0x15, 0x33, 0x52, 0x72, 0x24,
     0x54, 0x62, 0x92, 0xf0, 0x08, 0x16, 0x35, 0x43, 0x82, 0x44, 0xc2, 0xff,
     0xda, 0x00, 0x0c, 0x03, 0x01, 0x00, 0x02, 0x11, 0x03, 0x11, 0x00, 0x3f,
     0x00, 0xd6, 0xa7, 0xad, 0xe0, 0xdb, 0x07, 0xde, 0x88, 0x3f, 0x1a, 0xa1]"

definition frame_6_head :: "u8 list" where
  "frame_6_head =
    [0xff, 0xd8, 0xff, 0xe0, 0x00, 0x10, 0x4a, 0x46, 0x49, 0x46, 0x00, 0x01,
     0x01, 0x00, 0x00, 0x01, 0x00, 0x01, 0x00, 0x00, 0xff, 0xdb, 0x00, 0x43,
     0x00, 0x02, 0x01, 0x01, 0x02, 0x01, 0x01, 0x02, 0x02, 0x02, 0x02, 0x02,
     0x02, 0x02, 0x02, 0x03, 0x05, 0x03, 0x03, 0x03, 0x03, 0x03, 0x06, 0x04,
     0x04, 0x03, 0x05, 0x07, 0x06, 0x07, 0x07, 0x07, 0x06, 0x07, 0x07, 0x08,
     0x09, 0x0b, 0x09, 0x08, 0x08, 0x0a, 0x08, 0x07, 0x07, 0x0a, 0x0d, 0x0a,
     0x0a, 0x0b, 0x0c, 0x0c, 0x0c, 0x0c, 0x07, 0x09, 0x0e, 0x0f, 0x0d, 0x0c,
     0x0e, 0x0b, 0x0c, 0x0c, 0x0c, 0xff, 0xdb, 0x00, 0x43, 0x01, 0x02, 0x02,
     0x02, 0x03, 0x03, 0x03, 0x06, 0x03, 0x03, 0x06, 0x0c, 0x08, 0x07, 0x08,
     0x0c, 0x0c, 0x0c, 0x0c, 0x0c, 0x0c, 0x0c, 0x0c, 0x0c, 0x0c, 0x0c, 0x0c,
     0x0c, 0x0c, 0x0c, 0x0c, 0x0c, 0x0c, 0x0c, 0x0c, 0x0c, 0x0c, 0x0c, 0x0c,
     0x0c, 0x0c, 0x0c, 0x0c, 0x0c, 0x0c, 0x0c, 0x0c, 0x0c, 0x0c, 0x0c, 0x0c,
     0x0c, 0x0c, 0x0c, 0x0c, 0x0c, 0x0c, 0x0c, 0x0c, 0x0c, 0x0c, 0x0c, 0x0c,
     0x0c, 0x0c, 0xff, 0xc0, 0x00, 0x11, 0x08, 0x01, 0x5e, 0x02, 0x58, 0x03,
     0x01, 0x22, 0x00, 0x02, 0x11, 0x01, 0x03, 0x11, 0x01, 0xff, 0xc4, 0x00,
     0x1e, 0x00, 0x00, 0x01, 0x03, 0x05, 0x01, 0x01, 0x00, 0x00, 0x00, 0x00,
     0x00, 0x00, 0x00, 0x00, 0x00, 0x00, 0x00, 0x03, 0x07, 0x08, 0x01, 0x02,
     0x06, 0x09, 0x0a, 0x05, 0x04, 0xff, 0xc4, 0x00, 0x78, 0x10, 0x00, 0x00,
     0x05, 0x02, 0x03, 0x03, 0x06, 0x06, 0x0a, 0x09, 0x0c, 0x08, 0x0f, 0x0d,
     0x09, 0x00, 0x01, 0x02, 0x03, 0x04, 0x05, 0x00, 0x06, 0x07, 0x11, 0x12,
     0x08, 0x13, 0x21, 0x09, 0x14, 0x22, 0x31, 0x41, 0x61, 0x15, 0x32, 0x51,
     0x52, 0x81, 0x91, 0x16, 0x1a, 0x23, 0x33, 0x42, 0x57, 0x62, 0x71, 0x72,
     0xd4, 0x0a, 0x24, 0x37, 0x53, 0x82, 0x96, 0xa1, 0xb1, 0xb4, 0x17, 0x25,
     0x34, 0x43, 0x63, 0x73, 0x74, 0x75, 0x92, 0xa6, 0xc1, 0xd1, 0x18, 0x27,
     0x44, 0x54, 0x64, 0xa2, 0xa4, 0xb5, 0x19, 0x26, 0x35, 0x36, 0x55, 0x65,
     0x76, 0x83, 0x85, 0x93, 0x94, 0xa3, 0xa5, 0xb2, 0xc2, 0x38, 0x39, 0x45,
     0x47, 0x56, 0x66, 0x86, 0xb3, 0xc3, 0xd3, 0xe1, 0xe2, 0xf0, 0x28, 0x29,
     0x46, 0x84, 0x95, 0xc4, 0xc5, 0xd2, 0xd5, 0xff, 0xc4, 0x00, 0x1c, 0x01,
     0x00, 0x02, 0x02, 0x03, 0x01, 0x01, 0x00, 0x00, 0x00, 0x00, 0x00, 0x00,
     0x00, 0x00, 0x00, 0x00, 0x00, 0x03, 0x04, 0x05, 0x01, 0x06, 0x07, 0x02,
     0x08, 0xff, 0xc4, 0x00, 0x47, 0x11, 0x00, 0x01, 0x03, 0x02, 0x03, 0x03,
     0x06, 0x0a, 0x07, 0x07, 0x03, 0x05, 0x01, 0x01, 0x00, 0x00, 0x01, 0x00,
     0x02, 0x03, 0x04, 0x11, 0x05, 0x12, 0x21, 0x06, 0x31, 0x41, 0x13, 0x22,
     0x51, 0x61, 0x71, 0x91, 0x07, 0x14, 0x17, 0x32, 0x42, 0x53, 0x81, 0xa1,
     0xd1, 0xd2, 0x34, 0x52, 0xa2, 0xb1, 0xc1, 0xe1, 0xe2, 0x15, 0x23, 0x33,
     0x54, 0x72, 0x92, 0xf0, 0x24, 0x44, 0x82, 0x16, 0x25, 0x35, 0x43, 0x62,
     0x08, 0xf1, 0xff, 0xda, 0x00, 0x0c, 0x03, 0x01, 0x00, 0x02, 0x11, 0x03,
     0x11, 0x00, 0x3f, 0x00, 0xd6, 0x8f, 0xb5, 0xe5, 0xdb, 0x03, 0xe2, 0x8c]"

definition frame_7_head :: "u8 list" where
  "frame_7_head =
    [0xff, 0xd8, 0xff, 0xe0, 0x00, 0x10, 0x4a, 0x46, 0x49, 0x46, 0x00, 0x01,
     0x01, 0x00, 0x00, 0x01, 0x00, 0x01, 0x00, 0x00, 0xff, 0xdb, 0x00, 0x43,
     0x00, 0x02, 0x01, 0x01, 0x02, 0x01, 0x01, 0x02, 0x02, 0x02, 0x02, 0x02,
     0x02, 0x02, 0x02, 0x03, 0x05, 0x03, 0x03, 0x03, 0x03, 0x03, 0x06, 0x04,
     0x04, 0x03, 0x05, 0x07, 0x06, 0x07, 0x07, 0x07, 0x06, 0x07, 0x07, 0x08,
     0x09, 0x0b, 0x09, 0x08, 0x08, 0x0a, 0x08, 0x07, 0x07, 0x0a, 0x0d, 0x0a,
     0x0a, 0x0b, 0x0c, 0x0c, 0x0c, 0x0c, 0x07, 0x09, 0x0e, 0x0f, 0x0d, 0x0c,
     0x0e, 0x0b, 0x0c, 0x0c, 0x0c, 0xff, 0xdb, 0x00, 0x43, 0x01, 0x02, 0x02,
     0x02, 0x03, 0x03, 0x03, 0x06, 0x03, 0x03, 0x06, 0x0c, 0x08, 0x07, 0x08,
     0x0c, 0x0c, 0x0c, 0x0c, 0x0c, 0x0c, 0x0c, 0x0c, 0x0c, 0x0c, 0x0c, 0x0c,
     0x0c, 0x0c, 0x0c, 0x0c, 0x0c, 0x0c, 0x0c, 0x0c, 0x0c, 0x0c, 0x0c, 0x0c,
     0x0c, 0x0c, 0x0c, 0x0c, 0x0c, 0x0c, 0x0c, 0x0c, 0x0c, 0x0c, 0x0c, 0x0c,
     0x0c, 0x0c, 0x0c, 0x0c, 0x0c, 0x0c, 0x0c, 0x0c, 0x0c, 0x0c, 0x0c, 0x0c,
     0x0c, 0x0c, 0xff, 0xc0, 0x00, 0x11, 0x08, 0x01, 0x5e, 0x02, 0x58, 0x03,
     0x01, 0x22, 0x00, 0x02, 0x11, 0x01, 0x03, 0x11, 0x01, 0xff, 0xc4, 0x00,
     0x1e, 0x00, 0x00, 0x01, 0x03, 0x05, 0x01, 0x01, 0x00, 0x00, 0x00, 0x00,
     0x00, 0x00, 0x00, 0x00, 0x00, 0x00, 0x00, 0x03, 0x07, 0x08, 0x01, 0x02,
     0x06, 0x09, 0x0a, 0x05, 0x04, 0xff, 0xc4, 0x00, 0x73, 0x10, 0x00, 0x00,
     0x05, 0x02, 0x03, 0x03, 0x06, 0x07, 0x06, 0x0e, 0x0a, 0x0b, 0x0a, 0x0d,
     0x05, 0x01, 0x01, 0x02, 0x03, 0x04, 0x05, 0x00, 0x06, 0x07, 0x11, 0x12,
     0x08, 0x13, 0x21, 0x09, 0x14, 0x22, 0x31, 0x41, 0x61, 0x15, 0x32, 0x51,
     0x52, 0x71, 0x81, 0x91, 0x16, 0x23, 0x33, 0x42, 0x62, 0xd4, 0x0a, 0x17,
     0x1a, 0x24, 0x37, 0x43, 0x53, 0x57, 0x72, 0x82, 0x92, 0x96, 0xa1, 0xb1,
     0x18, 0x34, 0x54, 0x63, 0x74, 0x75, 0xa2, 0xb4, 0xc1, 0xd1, 0x25, 0x44,
     0x47, 0x64, 0x65, 0x73, 0x83, 0xa4, 0xa6, 0xb5, 0xc2, 0x19, 0x26, 0x35,
     0x36, 0x76, 0x93, 0x94, 0xa3, 0xb3, 0xc3, 0x27, 0x28, 0x38, 0x45, 0x55,
     0x56, 0x84, 0xa5, 0xb2, 0xc4, 0xd2, 0xd3, 0xe1, 0x29, 0x39, 0x85, 0x86,
     0x95, 0xf1, 0xff, 0xc4, 0x00, 0x1c, 0x01, 0x00, 0x02, 0x02, 0x03, 0x01,
     0x01, 0x00, 0x00, 0x00, 0x00, 0x00, 0x00, 0x00, 0x00, 0x00, 0x00, 0x00,
     0x03, 0x04, 0x06, 0x01, 0x02, 0x05, 0x07, 0x08, 0xff, 0xc4, 0x00, 0x44,
     0x11, 0x00, 0x01, 0x03, 0x02, 0x03, 0x04, 0x04, 0x08, 0x0d, 0x03, 0x05,
     0x01, 0x01, 0x01, 0x00, 0x00, 0x01, 0x00, 0x02, 0x03, 0x04, 0x11, 0x05,
     0x12, 0x21, 0x06, 0x13, 0x31, 0x41, 0x22, 0x51, 0x61, 0x71, 0x07, 0x14,
     0x17, 0x32, 0x42, 0x81, 0x91, 0xd1, 0x23, 0x34, 0x52, 0x53, 0x54, 0x92,
     0xa1, 0xa2, 0xb1, 0xc1, 0xd2, 0xe1, 0xe2, 0x15, 0x16, 0x33, 0x24, 0x35,
     0x72, 0x82, 0xf0, 0x62, 0x44, 0x43, 0xff, 0xda, 0x00, 0x0c, 0x03, 0x01,
     0x00, 0x02, 0x11, 0x03, 0x11, 0x00, 0x3f, 0x00, 0xd7, 0xcf, 0xd4, 0xc4]"

definition frame_8_head :: "u8 list" where
  "frame_8_head =
    [0xff, 0xd8, 0xff, 0xe0, 0x00, 0x10, 0x4a, 0x46, 0x49, 0x46, 0x00, 0x01,
     0x01, 0x00, 0x00, 0x01, 0x00, 0x01, 0x00, 0x00, 0xff, 0xdb, 0x00, 0x43,
     0x00, 0x02, 0x01, 0x01, 0x02, 0x01, 0x01, 0x02, 0x02, 0x02, 0x02, 0x02,
     0x02, 0x02, 0x02, 0x03, 0x05, 0x03, 0x03, 0x03, 0x03, 0x03, 0x06, 0x04,
     0x04, 0x03, 0x05, 0x07, 0x06, 0x07, 0x07, 0x07, 0x06, 0x07, 0x07, 0x08,
     0x09, 0x0b, 0x09, 0x08, 0x08, 0x0a, 0x08, 0x07, 0x07, 0x0a, 0x0d, 0x0a,
     0x0a, 0x0b, 0x0c, 0x0c, 0x0c, 0x0c, 0x07, 0x09, 0x0e, 0x0f, 0x0d, 0x0c,
     0x0e, 0x0b, 0x0c, 0x0c, 0x0c, 0xff, 0xdb, 0x00, 0x43, 0x01, 0x02, 0x02,
     0x02, 0x03, 0x03, 0x03, 0x06, 0x03, 0x03, 0x06, 0x0c, 0x08, 0x07, 0x08,
     0x0c, 0x0c, 0x0c, 0x0c, 0x0c, 0x0c, 0x0c, 0x0c, 0x0c, 0x0c, 0x0c, 0x0c,
     0x0c, 0x0c, 0x0c, 0x0c, 0x0c, 0x0c, 0x0c, 0x0c, 0x0c, 0x0c, 0x0c, 0x0c,
     0x0c, 0x0c, 0x0c, 0x0c, 0x0c, 0x0c, 0x0c, 0x0c, 0x0c, 0x0c, 0x0c, 0x0c,
     0x0c, 0x0c, 0x0c, 0x0c, 0x0c, 0x0c, 0x0c, 0x0c, 0x0c, 0x0c, 0x0c, 0x0c,
     0x0c, 0x0c, 0xff, 0xc0, 0x00, 0x11, 0x08, 0x01, 0x5e, 0x02, 0x58, 0x03,
     0x01, 0x22, 0x00, 0x02, 0x11, 0x01, 0x03, 0x11, 0x01, 0xff, 0xc4, 0x00,
     0x1e, 0x00, 0x00, 0x01, 0x03, 0x05, 0x01, 0x01, 0x00, 0x00, 0x00, 0x00,
     0x00, 0x00, 0x00, 0x00, 0x00, 0x00, 0x00, 0x01, 0x03, 0x07, 0x02, 0x06,
     0x08, 0x09, 0x0a, 0x05, 0x04, 0xff, 0xc4, 0x00, 0x73, 0x10, 0x00, 0x00,
     0x05, 0x02, 0x03, 0x03, 0x06, 0x06, 0x0a, 0x0a, 0x09, 0x0d, 0x0a, 0x0c,
     0x07, 0x00, 0x01, 0x02, 0x03, 0x04, 0x05, 0x00, 0x06, 0x07, 0x11, 0x12,
     0x08, 0x13, 0x21, 0x09, 0x14, 0x22, 0x31, 0x41, 0x61, 0x15, 0x32, 0x51,
     0x52, 0x71, 0x91, 0x16, 0x1a, 0x23, 0x33, 0x42, 0x57, 0x62, 0x81, 0xa1,
     0xd4, 0x0a, 0x24, 0x37, 0x43, 0x53, 0x72, 0x82, 0x92, 0x96, 0xb1, 0x17,
     0x34, 0x73, 0x74, 0x93, 0xa6, 0xb4, 0xc1, 0xd1, 0x18, 0x25, 0x27, 0x54,
     0x63, 0x64, 0x65, 0x75, 0x83, 0xa2, 0xa4, 0xb5, 0xc2, 0x26, 0x35, 0x36,
     0x44, 0x47, 0x56, 0x76, 0xa5, 0xb2, 0xb3, 0x19, 0x28, 0x38, 0x45, 0x55,
     0x66, 0x77, 0x94, 0xa3, 0xc3, 0xd3, 0xe1, 0x46, 0x84, 0x85, 0x86, 0xd2,
     0xf0, 0xf1, 0xff, 0xc4, 0x00, 0x1c, 0x01, 0x00, 0x02, 0x02, 0x03, 0x01,
     0x01, 0x00, 0x00, 0x00, 0x00, 0x00, 0x00, 0x00, 0x00, 0x00, 0x00, 0x00,
     0x03, 0x02, 0x04, 0x01, 0x05, 0x06, 0x07, 0x08, 0xff, 0xc4, 0x00, 0x48,
     0x11, 0x00, 0x01, 0x03, 0x02, 0x03, 0x05, 0x03, 0x06, 0x09, 0x0a, 0x06,
     0x02, 0x03, 0x00, 0x00, 0x00, 0x01, 0x00, 0x02, 0x03, 0x04, 0x11, 0x05,
     0x12, 0x21, 0x06, 0x13, 0x31, 0x41, 0x51, 0x22, 0x61, 0x71, 0x07, 0x14,
     0x32, 0x81, 0x91, 0xd1, 0x17, 0x42, 0x53, 0xa1, 0xb1, 0xc1, 0xd2, 0xe1,
     0xe2, 0x15, 0x23, 0x33, 0x34, 0x35, 0x52, 0x54, 0x92, 0xa2, 0xf0, 0x16,
     0x24, 0x25, 0x44, 0x72, 0x82, 0x43, 0x62, 0xa3, 0xc2, 0xf1, 0xff, 0xda,
     0x00, 0x0c, 0x03, 0x01, 0x00, 0x02, 0x11, 0x03, 0x11, 0x00, 0x3f, 0x00]"

definition frame_9_head :: "u8 list" where
  "frame_9_head =
    [0xff, 0xd8, 0xff, 0xe0, 0x00, 0x10, 0x4a, 0x46, 0x49, 0x46, 0x00, 0x01,
     0x01, 0x00, 0x00, 0x01, 0x00, 0x01, 0x00, 0x00, 0xff, 0xdb, 0x00, 0x43,
     0x00, 0x02, 0x01, 0x01, 0x02, 0x01, 0x01, 0x02, 0x02, 0x02, 0x02, 0x02,
     0x02, 0x02, 0x02, 0x03, 0x05, 0x03, 0x03, 0x03, 0x03, 0x03, 0x06, 0x04,
     0x04, 0x03, 0x05, 0x07, 0x06, 0x07, 0x07, 0x07, 0x06, 0x07, 0x07, 0x08,
     0x09, 0x0b, 0x09, 0x08, 0x08, 0x0a, 0x08, 0x07, 0x07, 0x0a, 0x0d, 0x0a,
     0x0a, 0x0b, 0x0c, 0x0c, 0x0c, 0x0c, 0x07, 0x09, 0x0e, 0x0f, 0x0d, 0x0c,
     0x0e, 0x0b, 0x0c, 0x0c, 0x0c, 0xff, 0xdb, 0x00, 0x43, 0x01, 0x02, 0x02,
     0x02, 0x03, 0x03, 0x03, 0x06, 0x03, 0x03, 0x06, 0x0c, 0x08, 0x07, 0x08,
     0x0c, 0x0c, 0x0c, 0x0c, 0x0c, 0x0c, 0x0c, 0x0c, 0x0c, 0x0c, 0x0c, 0x0c,
     0x0c, 0x0c, 0x0c, 0x0c, 0x0c, 0x0c, 0x0c, 0x0c, 0x0c, 0x0c, 0x0c, 0x0c,
     0x0c, 0x0c, 0x0c, 0x0c, 0x0c, 0x0c, 0x0c, 0x0c, 0x0c, 0x0c, 0x0c, 0x0c,
     0x0c, 0x0c, 0x0c, 0x0c, 0x0c, 0x0c, 0x0c, 0x0c, 0x0c, 0x0c, 0x0c, 0x0c,
     0x0c, 0x0c, 0xff, 0xc0, 0x00, 0x11, 0x08, 0x01, 0x5e, 0x02, 0x58, 0x03,
     0x01, 0x22, 0x00, 0x02, 0x11, 0x01, 0x03, 0x11, 0x01, 0xff, 0xc4, 0x00,
     0x1e, 0x00, 0x00, 0x01, 0x03, 0x05, 0x01, 0x01, 0x00, 0x00, 0x00, 0x00,
     0x00, 0x00, 0x00, 0x00, 0x00, 0x00, 0x00, 0x03, 0x07, 0x08, 0x01, 0x02,
     0x06, 0x09, 0x0a, 0x05, 0x04, 0xff, 0xc4, 0x00, 0x72, 0x10, 0x00, 0x00,
     0x05, 0x02, 0x03, 0x03, 0x06, 0x06, 0x0a, 0x08, 0x0f, 0x08, 0x0d, 0x0c,
     0x03, 0x01, 0x01, 0x02, 0x03, 0x04, 0x05, 0x00, 0x06, 0x07, 0x11, 0x12,
     0x08, 0x13, 0x21, 0x09, 0x14, 0x22, 0x31, 0x41, 0x61, 0x15, 0x32, 0x51,
     0x52, 0x71, 0x91, 0x16, 0x1a, 0x23, 0x33, 0x42, 0x57, 0x62, 0x72, 0x81,
     0xd4, 0x0a, 0x24, 0x37, 0x82, 0x92, 0x96, 0xa1, 0xb1, 0x17, 0x18, 0x25,
     0x27, 0x34, 0x43, 0x53, 0x73, 0x74, 0x75, 0xa2, 0xa6, 0xb4, 0xc1, 0xd1,
     0x36, 0x54, 0x76, 0x83, 0x93, 0xa4, 0xb5, 0xc2, 0x26, 0x28, 0x35, 0x38,
     0x55, 0x56, 0x63, 0x64, 0x65, 0x95, 0xb2, 0xb3, 0xd3, 0x44, 0x45, 0x46,
     0x47, 0x77, 0x84, 0x94, 0xa3, 0xa5, 0xc3, 0xe1, 0xf0, 0x19, 0x39, 0x85,
     0xc4, 0xff, 0xc4, 0x00, 0x1d, 0x01, 0x00, 0x02, 0x02, 0x03, 0x01, 0x01,
     0x01, 0x00, 0x00, 0x00, 0x00, 0x00, 0x00, 0x00, 0x00, 0x00, 0x00, 0x03,
     0x04, 0x06, 0x01, 0x02, 0x05, 0x07, 0x08, 0x09, 0xff, 0xc4, 0x00, 0x49,
     0x11, 0x00, 0x01, 0x03, 0x02, 0x03, 0x04, 0x04, 0x09, 0x08, 0x08, 0x06,
     0x02, 0x03, 0x01, 0x00, 0x00, 0x01, 0x00, 0x02, 0x03, 0x04, 0x11, 0x05,
     0x12, 0x21, 0x06, 0x13, 0x31, 0x41, 0x22, 0x51, 0x61, 0x71, 0x07, 0x14,
     0x32, 0x42, 0x81, 0x91, 0xb1, 0xc1, 0xd1, 0x16, 0x17, 0x34, 0x53, 0x54,
     0xa1, 0xe1, 0xe2, 0x15, 0x23, 0x33, 0x52, 0x82, 0x92, 0xa2, 0xd2, 0x24,
     0x25, 0x35, 0x62, 0x72, 0xf0, 0x43, 0xf1, 0x63, 0xa3, 0xb2, 0xc2, 0xff,
     0xda, 0x00, 0x0c, 0x03, 0x01, 0x00, 0x02, 0x11, 0x03, 0x11, 0x00, 0x3f,
     0x00, 0xd7, 0xc7, 0xb5, 0x85, 0xdb, 0x97, 0xe2, 0x44, 0x3f, 0x1c, 0xa0]"

definition frame_10_head :: "u8 list" where
  "frame_10_head =
    [0xff, 0xd8, 0xff, 0xe0, 0x00, 0x10, 0x4a, 0x46, 0x49, 0x46, 0x00, 0x01,
     0x01, 0x00, 0x00, 0x01, 0x00, 0x01, 0x00, 0x00, 0xff, 0xdb, 0x00, 0x43,
     0x00, 0x02, 0x01, 0x01, 0x02, 0x01, 0x01, 0x02, 0x02, 0x02, 0x02, 0x02,
     0x02, 0x02, 0x02, 0x03, 0x05, 0x03, 0x03, 0x03, 0x03, 0x03, 0x06, 0x04,
     0x04, 0x03, 0x05, 0x07, 0x06, 0x07, 0x07, 0x07, 0x06, 0x07, 0x07, 0x08,
     0x09, 0x0b, 0x09, 0x08, 0x08, 0x0a, 0x08, 0x07, 0x07, 0x0a, 0x0d, 0x0a,
     0x0a, 0x0b, 0x0c, 0x0c, 0x0c, 0x0c, 0x07, 0x09, 0x0e, 0x0f, 0x0d, 0x0c,
     0x0e, 0x0b, 0x0c, 0x0c, 0x0c, 0xff, 0xdb, 0x00, 0x43, 0x01, 0x02, 0x02,
     0x02, 0x03, 0x03, 0x03, 0x06, 0x03, 0x03, 0x06, 0x0c, 0x08, 0x07, 0x08,
     0x0c, 0x0c, 0x0c, 0x0c, 0x0c, 0x0c, 0x0c, 0x0c, 0x0c, 0x0c, 0x0c, 0x0c,
     0x0c, 0x0c, 0x0c, 0x0c, 0x0c, 0x0c, 0x0c, 0x0c, 0x0c, 0x0c, 0x0c, 0x0c,
     0x0c, 0x0c, 0x0c, 0x0c, 0x0c, 0x0c, 0x0c, 0x0c, 0x0c, 0x0c, 0x0c, 0x0c,
     0x0c, 0x0c, 0x0c, 0x0c, 0x0c, 0x0c, 0x0c, 0x0c, 0x0c, 0x0c, 0x0c, 0x0c,
     0x0c, 0x0c, 0xff, 0xc0, 0x00, 0x11, 0x08, 0x01, 0x5e, 0x02, 0x58, 0x03,
     0x01, 0x22, 0x00, 0x02, 0x11, 0x01, 0x03, 0x11, 0x01, 0xff, 0xc4, 0x00,
     0x1e, 0x00, 0x00, 0x01, 0x03, 0x05, 0x01, 0x01, 0x00, 0x00, 0x00, 0x00,
     0x00, 0x00, 0x00, 0x00, 0x00, 0x00, 0x00, 0x03, 0x07, 0x08, 0x01, 0x02,
     0x05, 0x06, 0x0a, 0x04, 0x09, 0xff, 0xc4, 0x00, 0x75, 0x10, 0x00, 0x00,
     0x05, 0x02, 0x03, 0x03, 0x06, 0x06, 0x09, 0x0b, 0x09, 0x0f, 0x11, 0x08,
     0x03, 0x01, 0x01, 0x02, 0x03, 0x04, 0x05, 0x00, 0x06, 0x07, 0x11, 0x12,
     0x08, 0x13, 0x21, 0x09, 0x14, 0x22, 0x31, 0x41, 0x61, 0x15, 0x32, 0x51,
     0x52, 0x71, 0x91, 0x16, 0x23, 0x33, 0x42, 0x62, 0x72, 0x81, 0xa1, 0xd4,
     0x0a, 0x17, 0x1a, 0x24, 0x37, 0x43, 0x53, 0x57, 0x96, 0xb1, 0xc1, 0x18,
     0x63, 0x73, 0x75, 0x82, 0x92, 0xa2, 0xb4, 0xd1, 0x25, 0x27, 0x34, 0x38,
     0x54, 0x64, 0x65, 0x74, 0x76, 0x93, 0xa4, 0xa6, 0xb3, 0xb5, 0xc2, 0x26,
     0x28, 0x35, 0x36, 0x44, 0x45, 0x55, 0x56, 0x83, 0x84, 0x94, 0x95, 0xa3,
     0xa5, 0xb2, 0xc3, 0xf0, 0x19, 0x47, 0x66, 0x67, 0x77, 0x86, 0xd2, 0xd3,
     0x85, 0x87, 0x97, 0xe1, 0xff, 0xc4, 0x00, 0x1d, 0x01, 0x00, 0x02, 0x02,
     0x03, 0x01, 0x01, 0x01, 0x00, 0x00, 0x00, 0x00, 0x00, 0x00, 0x00, 0x00,
     0x00, 0x00, 0x03, 0x04, 0x06, 0x01, 0x02, 0x05, 0x07, 0x08, 0x09, 0xff,
     0xc4, 0x00, 0x48, 0x11, 0x00, 0x01, 0x03, 0x02, 0x03, 0x05, 0x02, 0x07,
     0x0c, 0x09, 0x04, 0x02, 0x03, 0x00, 0x00, 0x00, 0x01, 0x00, 0x02, 0x03,
     0x04, 0x11, 0x05, 0x12, 0x21, 0x06, 0x13, 0x31, 0x41, 0x51, 0x22, 0x61,
     0x07, 0x14, 0x32, 0x71, 0x91, 0xa1, 0xd1, 0x17, 0x23, 0x42, 0x52, 0x53,
     0x54, 0x81, 0xa2, 0xb1, 0xc1, 0xe1, 0xe2, 0x15, 0x16, 0x34, 0x35, 0x43,
     0x62, 0x72, 0x92, 0xd2, 0x24, 0x33, 0x82, 0xf0, 0x08, 0xf1, 0x25, 0xa3,
     0xc2, 0xff, 0xda, 0x00, 0x0c, 0x03, 0x01, 0x00, 0x02, 0x11, 0x03, 0x11,
     0x00, 0x3f, 0x00, 0xf9, 0xa3, 0xf6, 0x3c, 0xdb, 0x5f, 0xfe, 0x29, 0x0b]"

definition frame_11_head :: "u8 list" where
  "frame_11_head =
    [0xff, 0xd8, 0xff, 0xe0, 0x00, 0x10, 0x4a, 0x46, 0x49, 0x46, 0x00, 0x01,
     0x01, 0x00, 0x00, 0x01, 0x00, 0x01, 0x00, 0x00, 0xff, 0xdb, 0x00, 0x43,
     0x00, 0x02, 0x01, 0x01, 0x02, 0x01, 0x01, 0x02, 0x02, 0x02, 0x02, 0x02,
     0x02, 0x02, 0x02, 0x03, 0x05, 0x03, 0x03, 0x03, 0x03, 0x03, 0x06, 0x04,
     0x04, 0x03, 0x05, 0x07, 0x06, 0x07, 0x07, 0x07, 0x06, 0x07, 0x07, 0x08,
     0x09, 0x0b, 0x09, 0x08, 0x08, 0x0a, 0x08, 0x07, 0x07, 0x0a, 0x0d, 0x0a,
     0x0a, 0x0b, 0x0c, 0x0c, 0x0c, 0x0c, 0x07, 0x09, 0x0e, 0x0f, 0x0d, 0x0c,
     0x0e, 0x0b, 0x0c, 0x0c, 0x0c, 0xff, 0xdb, 0x00, 0x43, 0x01, 0x02, 0x02,
     0x02, 0x03, 0x03, 0x03, 0x06, 0x03, 0x03, 0x06, 0x0c, 0x08, 0x07, 0x08,
     0x0c, 0x0c, 0x0c, 0x0c, 0x0c, 0x0c, 0x0c, 0x0c, 0x0c, 0x0c, 0x0c, 0x0c,
     0x0c, 0x0c, 0x0c, 0x0c, 0x0c, 0x0c, 0x0c, 0x0c, 0x0c, 0x0c, 0x0c, 0x0c,
     0x0c, 0x0c, 0x0c, 0x0c, 0x0c, 0x0c, 0x0c, 0x0c, 0x0c, 0x0c, 0x0c, 0x0c,
     0x0c, 0x0c, 0x0c, 0x0c, 0x0c, 0x0c, 0x0c, 0x0c, 0x0c, 0x0c, 0x0c, 0x0c,
     0x0c, 0x0c, 0xff, 0xc0, 0x00, 0x11, 0x08, 0x01, 0x5e, 0x02, 0x58, 0x03,
     0x01, 0x22, 0x00, 0x02, 0x11, 0x01, 0x03, 0x11, 0x01, 0xff, 0xc4, 0x00,
     0x1e, 0x00, 0x00, 0x01, 0x03, 0x05, 0x01, 0x01, 0x00, 0x00, 0x00, 0x00,
     0x00, 0x00, 0x00, 0x00, 0x00, 0x00, 0x00, 0x03, 0x07, 0x08, 0x01, 0x02,
     0x04, 0x06, 0x0a, 0x09, 0x05, 0xff, 0xc4, 0x00, 0x76, 0x10, 0x00, 0x00,
     0x05, 0x02, 0x03, 0x03, 0x06, 0x07, 0x06, 0x0b, 0x10, 0x0b, 0x0a, 0x0c,
     0x07, 0x00, 0x01, 0x02, 0x03, 0x04, 0x05, 0x00, 0x06, 0x07, 0x11, 0x12,
     0x08, 0x13, 0x21, 0x09, 0x14, 0x22, 0x31, 0x41, 0x61, 0x15, 0x23, 0x32,
     0x51, 0x52, 0x71, 0x91, 0x16, 0x33, 0x42, 0x62, 0x81, 0xd4, 0x0a, 0x17,
     0x1a, 0x24, 0x37, 0x57, 0x72, 0x82, 0x96, 0xa1, 0xb1, 0x18, 0x25, 0x34,
     0x43, 0x53, 0x54, 0x63, 0x73, 0x74, 0x75, 0x92, 0xa2, 0xa6, 0xb4, 0xc1,
     0xd1, 0x26, 0x36, 0x64, 0x65, 0x76, 0x83, 0x93, 0xa3, 0xa4, 0xb5, 0xc2,
     0x38, 0x44, 0x45, 0x47, 0x55, 0xa5, 0xb3, 0xc4, 0xd2, 0xf0, 0x28, 0x35,
     0x56, 0x67, 0x77, 0x84, 0x85, 0x94, 0x95, 0xb2, 0xc3, 0xd3, 0x19, 0x27,
     0x46, 0x66, 0x97, 0xe1, 0xf1, 0xff, 0xc4, 0x00, 0x1d, 0x01, 0x00, 0x02,
     0x02, 0x03, 0x01, 0x01, 0x01, 0x00, 0x00, 0x00, 0x00, 0x00, 0x00, 0x00,
     0x00, 0x00, 0x00, 0x03, 0x04, 0x05, 0x01, 0x02, 0x06, 0x07, 0x08, 0x09,
     0xff, 0xc4, 0x00, 0x4a, 0x11, 0x00, 0x01, 0x03, 0x02, 0x03, 0x04, 0x03,
     0x0a, 0x09, 0x0b, 0x04, 0x02, 0x03, 0x00, 0x00, 0x00, 0x01, 0x00, 0x02,
     0x03, 0x04, 0x11, 0x05, 0x12, 0x21, 0x06, 0x31, 0x41, 0x51, 0x13, 0x22,
     0x61, 0x07, 0x32, 0x42, 0x71, 0x81, 0x91, 0xa1, 0xb1, 0xc1, 0xd1, 0x14,
     0x17, 0x23, 0x53, 0x72, 0xa2, 0xd2, 0xe1, 0xe2, 0x15, 0x16, 0x24, 0x33,
     0x34, 0x35, 0x52, 0x54, 0x62, 0x92, 0xf0, 0x25, 0x43, 0x44, 0x82, 0x08,
     0xf1, 0x63, 0x73, 0xa3, 0xff, 0xda, 0x00, 0x0c, 0x03, 0x01, 0x00, 0x02,
     0x11, 0x03, 0x11, 0x00, 0x3f, 0x00, 0xf3, 0x47, 0xea, 0x79, 0x76, 0xc0]"

definition frame_12_head :: "u8 list" where
  "frame_12_head =
    [0xff, 0xd8, 0xff, 0xe0, 0x00, 0x10, 0x4a, 0x46, 0x49, 0x46, 0x00, 0x01,
     0x01, 0x00, 0x00, 0x01, 0x00, 0x01, 0x00, 0x00, 0xff, 0xdb, 0x00, 0x43,
     0x00, 0x02, 0x01, 0x01, 0x02, 0x01, 0x01, 0x02, 0x02, 0x02, 0x02, 0x02,
     0x02, 0x02, 0x02, 0x03, 0x05, 0x03, 0x03, 0x03, 0x03, 0x03, 0x06, 0x04,
     0x04, 0x03, 0x05, 0x07, 0x06, 0x07, 0x07, 0x07, 0x06, 0x07, 0x07, 0x08,
     0x09, 0x0b, 0x09, 0x08, 0x08, 0x0a, 0x08, 0x07, 0x07, 0x0a, 0x0d, 0x0a,
     0x0a, 0x0b, 0x0c, 0x0c, 0x0c, 0x0c, 0x07, 0x09, 0x0e, 0x0f, 0x0d, 0x0c,
     0x0e, 0x0b, 0x0c, 0x0c, 0x0c, 0xff, 0xdb, 0x00, 0x43, 0x01, 0x02, 0x02,
     0x02, 0x03, 0x03, 0x03, 0x06, 0x03, 0x03, 0x06, 0x0c, 0x08, 0x07, 0x08,
     0x0c, 0x0c, 0x0c, 0x0c, 0x0c, 0x0c, 0x0c, 0x0c, 0x0c, 0x0c, 0x0c, 0x0c,
     0x0c, 0x0c, 0x0c, 0x0c, 0x0c, 0x0c, 0x0c, 0x0c, 0x0c, 0x0c, 0x0c, 0x0c,
     0x0c, 0x0c, 0x0c, 0x0c, 0x0c, 0x0c, 0x0c, 0x0c, 0x0c, 0x0c, 0x0c, 0x0c,
     0x0c, 0x0c, 0x0c, 0x0c, 0x0c, 0x0c, 0x0c, 0x0c, 0x0c, 0x0c, 0x0c, 0x0c,
     0x0c, 0x0c, 0xff, 0xc0, 0x00, 0x11, 0x08, 0x01, 0x5e, 0x02, 0x58, 0x03,
     0x01, 0x22, 0x00, 0x02, 0x11, 0x01, 0x03, 0x11, 0x01, 0xff, 0xc4, 0x00,
     0x1e, 0x00, 0x00, 0x01, 0x03, 0x05, 0x01, 0x01, 0x00, 0x00, 0x00, 0x00,
     0x00, 0x00, 0x00, 0x00, 0x00, 0x00, 0x00, 0x03, 0x07, 0x08, 0x01, 0x02,
     0x04, 0x06, 0x0a, 0x09, 0x05, 0xff, 0xc4, 0x00, 0x76, 0x10, 0x00, 0x00,
     0x05, 0x02, 0x03, 0x03, 0x06, 0x07, 0x06, 0x0c, 0x0d, 0x0d, 0x0b, 0x0b,
     0x04, 0x03, 0x01, 0x02, 0x03, 0x04, 0x05, 0x00, 0x06, 0x07, 0x11, 0x12,
     0x08, 0x13, 0x21, 0x09, 0x14, 0x22, 0x31, 0x41, 0x61, 0x15, 0x23, 0x32,
     0x51, 0x52, 0x71, 0x91, 0x16, 0x33, 0x42, 0x62, 0x81, 0xd4, 0x0a, 0x17,
     0x1a, 0x24, 0x37, 0x43, 0x57, 0x72, 0x82, 0x96, 0xa1, 0xb1, 0x18, 0x25,
     0x34, 0x53, 0x63, 0x73, 0x74, 0x92, 0xa2, 0xa6, 0xb4, 0xc1, 0xd1, 0x26,
     0x36, 0x54, 0x64, 0x65, 0x75, 0x76, 0x83, 0x93, 0xa3, 0xa4, 0xb5, 0xc2,
     0x35, 0x38, 0x44, 0x45, 0x47, 0x55, 0xa5, 0xb3, 0xc4, 0xd2, 0xf0, 0x27,
     0x28, 0x56, 0x67, 0x77, 0x84, 0x85, 0x94, 0x95, 0xb2, 0xc3, 0x19, 0x46,
     0x66, 0xd3, 0x97, 0xe1, 0xf1, 0xff, 0xc4, 0x00, 0x1d, 0x01, 0x00, 0x02,
     0x02, 0x03, 0x01, 0x01, 0x01, 0x00, 0x00, 0x00, 0x00, 0x00, 0x00, 0x00,
     0x00, 0x00, 0x00, 0x03, 0x04, 0x05, 0x01, 0x02, 0x06, 0x07, 0x08, 0x09,
     0xff, 0xc4, 0x00, 0x4a, 0x11, 0x00, 0x01, 0x03, 0x02, 0x03, 0x04, 0x03,
     0x0b, 0x07, 0x0b, 0x04, 0x02, 0x03, 0x01, 0x00, 0x00, 0x01, 0x00, 0x02,
     0x03, 0x04, 0x11, 0x05, 0x12, 0x21, 0x06, 0x31, 0x41, 0x51, 0x13, 0x22,
     0x61, 0x07, 0x14, 0x32, 0x42, 0x71, 0x81, 0x91, 0xa1, 0xb1, 0xc1, 0xd1,
     0x17, 0x23, 0x53, 0x72, 0xa2, 0xe1, 0xe2, 0x15, 0x16, 0x24, 0x34, 0x35,
     0x52, 0x54, 0x62, 0x92, 0xd2, 0xf0, 0x25, 0x33, 0x43, 0x44, 0x08, 0x82,
     0x63, 0x73, 0xa3, 0xf1, 0xff, 0xda, 0x00, 0x0c, 0x03, 0x01, 0x00, 0x02,
     0x11, 0x03, 0x11, 0x00, 0x3f, 0x00, 0xf3, 0x57, 0xea, 0x79, 0xb6, 0xc1]"

definition frame_13_head :: "u8 list" where
  "frame_13_head =
    [0xff, 0xd8, 0xff, 0xe0, 0x00, 0x10, 0x4a, 0x46, 0x49, 0x46, 0x00, 0x01,
     0x01, 0x00, 0x00, 0x01, 0x00, 0x01, 0x00, 0x00, 0xff, 0xdb, 0x00, 0x43,
     0x00, 0x02, 0x01, 0x01, 0x02, 0x01, 0x01, 0x02, 0x02, 0x02, 0x02, 0x02,
     0x02, 0x02, 0x02, 0x03, 0x05, 0x03, 0x03, 0x03, 0x03, 0x03, 0x06, 0x04,
     0x04, 0x03, 0x05, 0x07, 0x06, 0x07, 0x07, 0x07, 0x06, 0x07, 0x07, 0x08,
     0x09, 0x0b, 0x09, 0x08, 0x08, 0x0a, 0x08, 0x07, 0x07, 0x0a, 0x0d, 0x0a,
     0x0a, 0x0b, 0x0c, 0x0c, 0x0c, 0x0c, 0x07, 0x09, 0x0e, 0x0f, 0x0d, 0x0c,
     0x0e, 0x0b, 0x0c, 0x0c, 0x0c, 0xff, 0xdb, 0x00, 0x43, 0x01, 0x02, 0x02,
     0x02, 0x03, 0x03, 0x03, 0x06, 0x03, 0x03, 0x06, 0x0c, 0x08, 0x07, 0x08,
     0x0c, 0x0c, 0x0c, 0x0c, 0x0c, 0x0c, 0x0c, 0x0c, 0x0c, 0x0c, 0x0c, 0x0c,
     0x0c, 0x0c, 0x0c, 0x0c, 0x0c, 0x0c, 0x0c, 0x0c, 0x0c, 0x0c, 0x0c, 0x0c,
     0x0c, 0x0c, 0x0c, 0x0c, 0x0c, 0x0c, 0x0c, 0x0c, 0x0c, 0x0c, 0x0c, 0x0c,
     0x0c, 0x0c, 0x0c, 0x0c, 0x0c, 0x0c, 0x0c, 0x0c, 0x0c, 0x0c, 0x0c, 0x0c,
     0x0c, 0x0c, 0xff, 0xc0, 0x00, 0x11, 0x08, 0x01, 0x5e, 0x02, 0x58, 0x03,
     0x01, 0x22, 0x00, 0x02, 0x11, 0x01, 0x03, 0x11, 0x01, 0xff, 0xc4, 0x00,
     0x1e, 0x00, 0x00, 0x01, 0x03, 0x05, 0x01, 0x01, 0x00, 0x00, 0x00, 0x00,
     0x00, 0x00, 0x00, 0x00, 0x00, 0x00, 0x00, 0x01, 0x03, 0x07, 0x02, 0x06,
     0x08, 0x09, 0x0a, 0x04, 0x05, 0xff, 0xc4, 0x00, 0x75, 0x10, 0x00, 0x00,
     0x05, 0x02, 0x03, 0x03, 0x06, 0x07, 0x08, 0x08, 0x0d, 0x0b, 0x0f, 0x0b,
     0x05, 0x01, 0x01, 0x02, 0x03, 0x04, 0x05, 0x00, 0x06, 0x07, 0x11, 0x12,
     0x08, 0x13, 0x21, 0x09, 0x14, 0x22, 0x31, 0x41, 0x61, 0x15, 0x23, 0x32,
     0x51, 0x52, 0x71, 0x91, 0x16, 0x33, 0x42, 0x57, 0x62, 0x72, 0x81, 0xd4,
     0x0a, 0x1a, 0x37, 0x43, 0x82, 0x96, 0xa1, 0xb1, 0x17, 0x24, 0x25, 0x34,
     0x53, 0x73, 0x75, 0x92, 0xa2, 0xa6, 0xb4, 0xc1, 0xd1, 0x18, 0x27, 0x54,
     0x63, 0x64, 0x65, 0x74, 0x76, 0xa4, 0xb5, 0xc2, 0x26, 0x35, 0x36, 0x38,
     0x44, 0x45, 0x47, 0x55, 0x56, 0x66, 0x93, 0xa3, 0xa5, 0xb2, 0xf0, 0x19,
     0x28, 0x29, 0x84, 0x85, 0x94, 0x95, 0xb3, 0xc3, 0xc4, 0xd3, 0x39, 0x46,
     0x86, 0x97, 0xd5, 0xe2, 0xff, 0xc4, 0x00, 0x1c, 0x01, 0x00, 0x02, 0x02,
     0x03, 0x01, 0x01, 0x00, 0x00, 0x00, 0x00, 0x00, 0x00, 0x00, 0x00, 0x00,
     0x00, 0x00, 0x03, 0x04, 0x06, 0x01, 0x02, 0x05, 0x07, 0x08, 0xff, 0xc4,
     0x00, 0x48, 0x11, 0x00, 0x01, 0x03, 0x02, 0x03, 0x04, 0x05, 0x06, 0x0a,
     0x09, 0x03, 0x05, 0x01, 0x01, 0x00, 0x00, 0x01, 0x00, 0x02, 0x03, 0x04,
     0x11, 0x05, 0x12, 0x21, 0x06, 0x13, 0x31, 0x41, 0x07, 0x22, 0x51, 0x61,
     0x71, 0x14, 0x32, 0x42, 0x81, 0x91, 0xd1, 0x16, 0x17, 0x53, 0xa1, 0xa2,
     0xb1, 0xc1, 0xd2, 0xe1, 0xe2, 0x15, 0x23, 0x33, 0x34, 0x52, 0x54, 0x72,
     0x92, 0xf0, 0x24, 0x43, 0x82, 0x25, 0x35, 0x44, 0x62, 0xf1, 0x08, 0xa3,
     0xff, 0xda, 0x00, 0x0c, 0x03, 0x01, 0x00, 0x02, 0x11, 0x03, 0x11, 0x00,
     0x3f, 0x00, 0xd7, 0xbf, 0xda, 0xc4, 0x6d, 0xc9, 0xf1, 0x24, 0x5f, 0xc7]"

definition frame_14_head :: "u8 list" where
  "frame_14_head =
    [0xff, 0xd8, 0xff, 0xe0, 0x00, 0x10, 0x4a, 0x46, 0x49, 0x46, 0x00, 0x01,
     0x01, 0x00, 0x00, 0x01, 0x00, 0x01, 0x00, 0x00, 0xff, 0xdb, 0x00, 0x43,
     0x00, 0x02, 0x01, 0x01, 0x02, 0x01, 0x01, 0x02, 0x02, 0x02, 0x02, 0x02,
     0x02, 0x02, 0x02, 0x03, 0x05, 0x03, 0x03, 0x03, 0x03, 0x03, 0x06, 0x04,
     0x04, 0x03, 0x05, 0x07, 0x06, 0x07, 0x07, 0x07, 0x06, 0x07, 0x07, 0x08,
     0x09, 0x0b, 0x09, 0x08, 0x08, 0x0a, 0x08, 0x07, 0x07, 0x0a, 0x0d, 0x0a,
     0x0a, 0x0b, 0x0c, 0x0c, 0x0c, 0x0c, 0x07, 0x09, 0x0e, 0x0f, 0x0d, 0x0c,
     0x0e, 0x0b, 0x0c, 0x0c, 0x0c, 0xff, 0xdb, 0x00, 0x43, 0x01, 0x02, 0x02,
     0x02, 0x03, 0x03, 0x03, 0x06, 0x03, 0x03, 0x06, 0x0c, 0x08, 0x07, 0x08,
     0x0c, 0x0c, 0x0c, 0x0c, 0x0c, 0x0c, 0x0c, 0x0c, 0x0c, 0x0c, 0x0c, 0x0c,
     0x0c, 0x0c, 0x0c, 0x0c, 0x0c, 0x0c, 0x0c, 0x0c, 0x0c, 0x0c, 0x0c, 0x0c,
     0x0c, 0x0c, 0x0c, 0x0c, 0x0c, 0x0c, 0x0c, 0x0c, 0x0c, 0x0c, 0x0c, 0x0c,
     0x0c, 0x0c, 0x0c, 0x0c, 0x0c, 0x0c, 0x0c, 0x0c, 0x0c, 0x0c, 0x0c, 0x0c,
     0x0c, 0x0c, 0xff, 0xc0, 0x00, 0x11, 0x08, 0x01, 0x5e, 0x02, 0x58, 0x03,
     0x01, 0x22, 0x00, 0x02, 0x11, 0x01, 0x03, 0x11, 0x01, 0xff, 0xc4, 0x00,
     0x1e, 0x00, 0x00, 0x01, 0x02, 0x07, 0x01, 0x00, 0x00, 0x00, 0x00, 0x00,
     0x00, 0x00, 0x00, 0x00, 0x00, 0x00, 0x00, 0x03, 0x07, 0x01, 0x02, 0x04,
     0x06, 0x08, 0x09, 0x0a, 0x05, 0xff, 0xc4, 0x00, 0x6f, 0x10, 0x00, 0x00,
     0x05, 0x02, 0x03, 0x03, 0x06, 0x06, 0x09, 0x0b, 0x0c, 0x0c, 0x0b, 0x08,
     0x03, 0x01, 0x01, 0x02, 0x03, 0x04, 0x05, 0x00, 0x06, 0x07, 0x11, 0x12,
     0x08, 0x13, 0x21, 0x09, 0x14, 0x22, 0x31, 0x41, 0x61, 0x15, 0x23, 0x32,
     0x51, 0x71, 0x91, 0x16, 0x33, 0x42, 0x52, 0x62, 0x72, 0x81, 0xa1, 0xd4,
     0x0a, 0x17, 0x1a, 0x24, 0x37, 0x43, 0x53, 0x57, 0x96, 0xb1, 0xc1, 0x18,
     0x34, 0x54, 0x73, 0x74, 0x75, 0x82, 0x92, 0xa2, 0xa6, 0xb4, 0xd1, 0x25,
     0x26, 0x27, 0x35, 0x63, 0x64, 0x76, 0x83, 0xa4, 0xb2, 0xb5, 0xc2, 0x36,
     0x38, 0x44, 0x55, 0x56, 0x65, 0x86, 0x93, 0xa3, 0xb3, 0xc4, 0x45, 0x47,
     0x84, 0x94, 0xa5, 0xd3, 0xe1, 0xf0, 0x19, 0x39, 0x95, 0xc3, 0xff, 0xc4,
     0x00, 0x1c, 0x01, 0x00, 0x02, 0x02, 0x03, 0x01, 0x01, 0x00, 0x00, 0x00,
     0x00, 0x00, 0x00, 0x00, 0x00, 0x00, 0x00, 0x00, 0x03, 0x04, 0x05, 0x01,
     0x02, 0x06, 0x07, 0x08, 0xff, 0xc4, 0x00, 0x47, 0x11, 0x00, 0x01, 0x03,
     0x02, 0x03, 0x05, 0x02, 0x0a, 0x06, 0x08, 0x06, 0x03, 0x00, 0x03, 0x00,
     0x00, 0x01, 0x00, 0x02, 0x03, 0x04, 0x11, 0x05, 0x12, 0x21, 0x06, 0x13,
     0x31, 0x41, 0x51, 0x22, 0x61, 0x07, 0x14, 0x32, 0x42, 0x71, 0x81, 0x91,
     0xa1, 0xc1, 0xd1, 0x34, 0x53, 0xa2, 0xb1, 0xe1, 0xe2, 0x15, 0x16, 0x17,
     0x23, 0x24, 0x52, 0x72, 0xd2, 0x43, 0x44, 0x54, 0x62, 0x82, 0x92, 0x33,
     0x35, 0xf0, 0x08, 0xb2, 0xc2, 0xff, 0xda, 0x00, 0x0c, 0x03, 0x01, 0x00,
     0x02, 0x11, 0x03, 0x11, 0x00, 0x3f, 0x00, 0xd7, 0xcf, 0xd8, 0xc1, 0xed]"

definition frame_15_head :: "u8 list" where
  "frame_15_head =
    [0xff, 0xd8, 0xff, 0xe0, 0x00, 0x10, 0x4a, 0x46, 0x49, 0x46, 0x00, 0x01,
     0x01, 0x00, 0x00, 0x01, 0x00, 0x01, 0x00, 0x00, 0xff, 0xdb, 0x00, 0x43,
     0x00, 0x02, 0x01, 0x01, 0x02, 0x01, 0x01, 0x02, 0x02, 0x02, 0x02, 0x02,
     0x02, 0x02, 0x02, 0x03, 0x05, 0x03, 0x03, 0x03, 0x03, 0x03, 0x06, 0x04,
     0x04, 0x03, 0x05, 0x07, 0x06, 0x07, 0x07, 0x07, 0x06, 0x07, 0x07, 0x08,
     0x09, 0x0b, 0x09, 0x08, 0x08, 0x0a, 0x08, 0x07, 0x07, 0x0a, 0x0d, 0x0a,
     0x0a, 0x0b, 0x0c, 0x0c, 0x0c, 0x0c, 0x07, 0x09, 0x0e, 0x0f, 0x0d, 0x0c,
     0x0e, 0x0b, 0x0c, 0x0c, 0x0c, 0xff, 0xdb, 0x00, 0x43, 0x01, 0x02, 0x02,
     0x02, 0x03, 0x03, 0x03, 0x06, 0x03, 0x03, 0x06, 0x0c, 0x08, 0x07, 0x08,
     0x0c, 0x0c, 0x0c, 0x0c, 0x0c, 0x0c, 0x0c, 0x0c, 0x0c, 0x0c, 0x0c, 0x0c,
     0x0c, 0x0c, 0x0c, 0x0c, 0x0c, 0x0c, 0x0c, 0x0c, 0x0c, 0x0c, 0x0c, 0x0c,
     0x0c, 0x0c, 0x0c, 0x0c, 0x0c, 0x0c, 0x0c, 0x0c, 0x0c, 0x0c, 0x0c, 0x0c,
     0x0c, 0x0c, 0x0c, 0x0c, 0x0c, 0x0c, 0x0c, 0x0c, 0x0c, 0x0c, 0x0c, 0x0c,
     0x0c, 0x0c, 0xff, 0xc0, 0x00, 0x11, 0x08, 0x01, 0x5e, 0x02, 0x58, 0x03,
     0x01, 0x22, 0x00, 0x02, 0x11, 0x01, 0x03, 0x11, 0x01, 0xff, 0xc4, 0x00,
     0x1e, 0x00, 0x00, 0x01, 0x03, 0x05, 0x01, 0x01, 0x00, 0x00, 0x00, 0x00,
     0x00, 0x00, 0x00, 0x00, 0x00, 0x00, 0x00, 0x02, 0x03, 0x07, 0x01, 0x05,
     0x06, 0x08, 0x09, 0x04, 0x0a, 0xff, 0xc4, 0x00, 0x73, 0x10, 0x00, 0x00,
     0x05, 0x02, 0x03, 0x03, 0x07, 0x05, 0x06, 0x0c, 0x0d, 0x0d, 0x0d, 0x07,
     0x04, 0x03, 0x01, 0x02, 0x03, 0x04, 0x05, 0x00, 0x06, 0x07, 0x11, 0x12,
     0x08, 0x13, 0x21, 0x09, 0x14, 0x22, 0x31, 0x41, 0x51, 0x61, 0x15, 0x23,
     0x32, 0x81, 0x91, 0x16, 0x33, 0x42, 0x52, 0x71, 0xd4, 0x0a, 0x1a, 0x24,
     0x37, 0x43, 0x53, 0x57, 0x62, 0x72, 0x96, 0xa1, 0xb1, 0x17, 0x34, 0x65,
     0x73, 0x74, 0x75, 0x82, 0x92, 0xa2, 0xa6, 0xb4, 0xc1, 0xd1, 0x18, 0x25,
     0x26, 0x44, 0x47, 0x54, 0x63, 0x64, 0x76, 0x93, 0xa3, 0xa4, 0xb5, 0x19,
     0x27, 0x36, 0x38, 0x45, 0x55, 0x66, 0x83, 0x95, 0xa5, 0xb2, 0xc3, 0xd3,
     0x39, 0x46, 0x56, 0x86, 0x94, 0xb3, 0xc2, 0x28, 0x84, 0xc4, 0xd2, 0xe1,
     0xf0, 0xf1, 0xff, 0xc4, 0x00, 0x1c, 0x01, 0x00, 0x02, 0x02, 0x03, 0x01,
     0x01, 0x00, 0x00, 0x00, 0x00, 0x00, 0x00, 0x00, 0x00, 0x00, 0x00, 0x00,
     0x03, 0x01, 0x04, 0x02, 0x05, 0x06, 0x07, 0x08, 0xff, 0xc4, 0x00, 0x46,
     0x11, 0x00, 0x01, 0x03, 0x02, 0x03, 0x05, 0x03, 0x06, 0x09, 0x0c, 0x02,
     0x03, 0x01, 0x01, 0x00, 0x00, 0x01, 0x00, 0x02, 0x03, 0x04, 0x11, 0x05,
     0x12, 0x21, 0x06, 0x13, 0x31, 0x41, 0x51, 0x22, 0x61, 0x71, 0x07, 0x14,
     0x32, 0x81, 0x91, 0xd1, 0x17, 0x34, 0x42, 0x92, 0xa1, 0xb1, 0xc1, 0xe1,
     0xe2, 0x15, 0x16, 0x23, 0x24, 0x33, 0x43, 0x52, 0x53, 0x54, 0x62, 0xa2,
     0xd2, 0x35, 0x82, 0x25, 0x72, 0xf0, 0x44, 0xb2, 0xff, 0xda, 0x00, 0x0c,
     0x03, 0x01, 0x00, 0x02, 0x11, 0x03, 0x11, 0x00, 0x3f, 0x00, 0xe7, 0xcf]"

definition frame_16_head :: "u8 list" where
  "frame_16_head =
    [0xff, 0xd8, 0xff, 0xe0, 0x00, 0x10, 0x4a, 0x46, 0x49, 0x46, 0x00, 0x01,
     0x01, 0x00, 0x00, 0x01, 0x00, 0x01, 0x00, 0x00, 0xff, 0xdb, 0x00, 0x43,
     0x00, 0x02, 0x01, 0x01, 0x02, 0x01, 0x01, 0x02, 0x02, 0x02, 0x02, 0x02,
     0x02, 0x02, 0x02, 0x03, 0x05, 0x03, 0x03, 0x03, 0x03, 0x03, 0x06, 0x04,
     0x04, 0x03, 0x05, 0x07, 0x06, 0x07, 0x07, 0x07, 0x06, 0x07, 0x07, 0x08,
     0x09, 0x0b, 0x09, 0x08, 0x08, 0x0a, 0x08, 0x07, 0x07, 0x0a, 0x0d, 0x0a,
     0x0a, 0x0b, 0x0c, 0x0c, 0x0c, 0x0c, 0x07, 0x09, 0x0e, 0x0f, 0x0d, 0x0c,
     0x0e, 0x0b, 0x0c, 0x0c, 0x0c, 0xff, 0xdb, 0x00, 0x43, 0x01, 0x02, 0x02,
     0x02, 0x03, 0x03, 0x03, 0x06, 0x03, 0x03, 0x06, 0x0c, 0x08, 0x07, 0x08,
     0x0c, 0x0c, 0x0c, 0x0c, 0x0c, 0x0c, 0x0c, 0x0c, 0x0c, 0x0c, 0x0c, 0x0c,
     0x0c, 0x0c, 0x0c, 0x0c, 0x0c, 0x0c, 0x0c, 0x0c, 0x0c, 0x0c, 0x0c, 0x0c,
     0x0c, 0x0c, 0x0c, 0x0c, 0x0c, 0x0c, 0x0c, 0x0c, 0x0c, 0x0c, 0x0c, 0x0c,
     0x0c, 0x0c, 0x0c, 0x0c, 0x0c, 0x0c, 0x0c, 0x0c, 0x0c, 0x0c, 0x0c, 0x0c,
     0x0c, 0x0c, 0xff, 0xc0, 0x00, 0x11, 0x08, 0x01, 0x5e, 0x02, 0x58, 0x03,
     0x01, 0x22, 0x00, 0x02, 0x11, 0x01, 0x03, 0x11, 0x01, 0xff, 0xc4, 0x00,
     0x1e, 0x00, 0x00, 0x01, 0x03, 0x05, 0x01, 0x01, 0x00, 0x00, 0x00, 0x00,
     0x00, 0x00, 0x00, 0x00, 0x00, 0x00, 0x00, 0x02, 0x03, 0x07, 0x01, 0x05,
     0x06, 0x08, 0x09, 0x04, 0x0a, 0xff, 0xc4, 0x00, 0x73, 0x10, 0x00, 0x00,
     0x05, 0x02, 0x03, 0x03, 0x07, 0x05, 0x06, 0x0c, 0x0d, 0x0d, 0x0c, 0x09,
     0x05, 0x01, 0x01, 0x02, 0x03, 0x04, 0x05, 0x00, 0x06, 0x07, 0x11, 0x12,
     0x08, 0x13, 0x21, 0x09, 0x14, 0x22, 0x31, 0x41, 0x51, 0x61, 0x15, 0x23,
     0x32, 0x81, 0x91, 0x16, 0x33, 0x42, 0x52, 0x71, 0xd4, 0x0a, 0x1a, 0x24,
     0x37, 0x43, 0x53, 0x57, 0x62, 0x72, 0x96, 0xa1, 0xb1, 0x17, 0x34, 0x65,
     0x73, 0x74, 0x75, 0x82, 0x92, 0xa2, 0xa6, 0xb4, 0xc1, 0xd1, 0x18, 0x25,
     0x26, 0x36, 0x44, 0x47, 0x63, 0x64, 0x76, 0x93, 0xa3, 0xa4, 0xb5, 0x19,
     0x27, 0x38, 0x45, 0x54, 0x66, 0x83, 0x95, 0xa5, 0xb2, 0xc3, 0xd3, 0x39,
     0x46, 0x55, 0x56, 0x86, 0x94, 0xb3, 0xc2, 0xd2, 0x28, 0x84, 0xc4, 0xe1,
     0xf0, 0xf1, 0xff, 0xc4, 0x00, 0x1c, 0x01, 0x00, 0x02, 0x02, 0x03, 0x01,
     0x01, 0x00, 0x00, 0x00, 0x00, 0x00, 0x00, 0x00, 0x00, 0x00, 0x00, 0x00,
     0x03, 0x01, 0x04, 0x02, 0x05, 0x06, 0x07, 0x08, 0xff, 0xc4, 0x00, 0x46,
     0x11, 0x00, 0x01, 0x03, 0x02, 0x03, 0x05, 0x03, 0x06, 0x09, 0x0c, 0x02,
     0x03, 0x01, 0x01, 0x00, 0x00, 0x01, 0x00, 0x02, 0x03, 0x04, 0x11, 0x05,
     0x12, 0x21, 0x06, 0x13, 0x31, 0x41, 0x51, 0x22, 0x61, 0x71, 0x07, 0x14,
     0x32, 0x81, 0x91, 0xd1, 0x17, 0x34, 0x42, 0x92, 0xa1, 0xb1, 0xc1, 0xe1,
     0xe2, 0x15, 0x16, 0x23, 0x24, 0x33, 0x43, 0x52, 0x53, 0x54, 0x62, 0xa2,
     0xd2, 0x82, 0xf0, 0x25, 0x35, 0x72, 0x44, 0xb2, 0xff, 0xda, 0x00, 0x0c,
     0x03, 0x01, 0x00, 0x02, 0x11, 0x03, 0x11, 0x00, 0x3f, 0x00, 0xe7, 0xc0]"

definition frame_17_head :: "u8 list" where
  "frame_17_head =
    [0xff, 0xd8, 0xff, 0xe0, 0x00, 0x10, 0x4a, 0x46, 0x49, 0x46, 0x00, 0x01,
     0x01, 0x00, 0x00, 0x01, 0x00, 0x01, 0x00, 0x00, 0xff, 0xdb, 0x00, 0x43,
     0x00, 0x02, 0x01, 0x01, 0x02, 0x01, 0x01, 0x02, 0x02, 0x02, 0x02, 0x02,
     0x02, 0x02, 0x02, 0x03, 0x05, 0x03, 0x03, 0x03, 0x03, 0x03, 0x06, 0x04,
     0x04, 0x03, 0x05, 0x07, 0x06, 0x07, 0x07, 0x07, 0x06, 0x07, 0x07, 0x08,
     0x09, 0x0b, 0x09, 0x08, 0x08, 0x0a, 0x08, 0x07, 0x07, 0x0a, 0x0d, 0x0a,
     0x0a, 0x0b, 0x0c, 0x0c, 0x0c, 0x0c, 0x07, 0x09, 0x0e, 0x0f, 0x0d, 0x0c,
     0x0e, 0x0b, 0x0c, 0x0c, 0x0c, 0xff, 0xdb, 0x00, 0x43, 0x01, 0x02, 0x02,
     0x02, 0x03, 0x03, 0x03, 0x06, 0x03, 0x03, 0x06, 0x0c, 0x08, 0x07, 0x08,
     0x0c, 0x0c, 0x0c, 0x0c, 0x0c, 0x0c, 0x0c, 0x0c, 0x0c, 0x0c, 0x0c, 0x0c,
     0x0c, 0x0c, 0x0c, 0x0c, 0x0c, 0x0c, 0x0c, 0x0c, 0x0c, 0x0c, 0x0c, 0x0c,
     0x0c, 0x0c, 0x0c, 0x0c, 0x0c, 0x0c, 0x0c, 0x0c, 0x0c, 0x0c, 0x0c, 0x0c,
     0x0c, 0x0c, 0x0c, 0x0c, 0x0c, 0x0c, 0x0c, 0x0c, 0x0c, 0x0c, 0x0c, 0x0c,
     0x0c, 0x0c, 0xff, 0xc0, 0x00, 0x11, 0x08, 0x01, 0x5e, 0x02, 0x58, 0x03,
     0x01, 0x22, 0x00, 0x02, 0x11, 0x01, 0x03, 0x11, 0x01, 0xff, 0xc4, 0x00,
     0x1e, 0x00, 0x00, 0x01, 0x03, 0x05, 0x01, 0x01, 0x00, 0x00, 0x00, 0x00,
     0x00, 0x00, 0x00, 0x00, 0x00, 0x00, 0x00, 0x01, 0x03, 0x07, 0x02, 0x06,
     0x08, 0x09, 0x0a, 0x05, 0x04, 0xff, 0xc4, 0x00, 0x75, 0x10, 0x00, 0x00,
     0x05, 0x02, 0x03, 0x03, 0x07, 0x04, 0x07, 0x0f, 0x0b, 0x0b, 0x0f, 0x0c,
     0x03, 0x00, 0x01, 0x02, 0x03, 0x04, 0x05, 0x00, 0x06, 0x07, 0x11, 0x12,
     0x08, 0x13, 0x21, 0x09, 0x14, 0x22, 0x31, 0x41, 0x51, 0x61, 0x15, 0x32,
     0x52, 0x71, 0x16, 0x23, 0x33, 0x42, 0x81, 0x91, 0xd4, 0x0a, 0x1a, 0x24,
     0x37, 0x43, 0x53, 0x57, 0x62, 0x72, 0x73, 0x92, 0x96, 0xa1, 0xb1, 0xc1,
     0x17, 0x18, 0x34, 0x54, 0x63, 0x75, 0x82, 0xa2, 0xa6, 0xb4, 0xd1, 0x25,
     0x47, 0x64, 0x65, 0x74, 0x93, 0xa3, 0xa4, 0xb3, 0xb5, 0xc2, 0x26, 0x27,
     0x35, 0x36, 0x44, 0x55, 0x56, 0x76, 0x83, 0x94, 0x95, 0xb2, 0xc3, 0xd3,
     0xf0, 0x19, 0x39, 0x45, 0x66, 0x84, 0x85, 0x86, 0xa5, 0xc4, 0xd2, 0xe1,
     0xf1, 0x29, 0x38, 0xb6, 0xff, 0xc4, 0x00, 0x1c, 0x01, 0x00, 0x02, 0x02,
     0x03, 0x01, 0x01, 0x00, 0x00, 0x00, 0x00, 0x00, 0x00, 0x00, 0x00, 0x00,
     0x00, 0x00, 0x03, 0x01, 0x04, 0x02, 0x05, 0x06, 0x07, 0x08, 0xff, 0xc4,
     0x00, 0x45, 0x11, 0x00, 0x01, 0x03, 0x02, 0x03, 0x04, 0x05, 0x05, 0x0e,
     0x05, 0x05, 0x00, 0x03, 0x00, 0x00, 0x00, 0x01, 0x00, 0x02, 0x03, 0x04,
     0x11, 0x05, 0x12, 0x21, 0x06, 0x13, 0x31, 0x41, 0x22, 0x32, 0x51, 0x61,
     0x71, 0x14, 0x91, 0xa1, 0xc1, 0xd1, 0x07, 0x17, 0x23, 0x34, 0x42, 0x52,
     0x53, 0x54, 0x81, 0x92, 0xa2, 0xb1, 0xe1, 0xe2, 0x15, 0x16, 0x24, 0x72,
     0xd2, 0x33, 0x43, 0x62, 0x82, 0xf0, 0x25, 0x44, 0x63, 0xff, 0xda, 0x00,
     0x0c, 0x03, 0x01, 0x00, 0x02, 0x11, 0x03, 0x11, 0x00, 0x3f, 0x00, 0xd7]"

definition frame_18_head :: "u8 list" where
  "frame_18_head =
    [0xff, 0xd8, 0xff, 0xe0, 0x00, 0x10, 0x4a, 0x46, 0x49, 0x46, 0x00, 0x01,
     0x01, 0x00, 0x00, 0x01, 0x00, 0x01, 0x00, 0x00, 0xff, 0xdb, 0x00, 0x43,
     0x00, 0x02, 0x01, 0x01, 0x02, 0x01, 0x01, 0x02, 0x02, 0x02, 0x02, 0x02,
     0x02, 0x02, 0x02, 0x03, 0x05, 0x03, 0x03, 0x03, 0x03, 0x03, 0x06, 0x04,
     0x04, 0x03, 0x05, 0x07, 0x06, 0x07, 0x07, 0x07, 0x06, 0x07, 0x07, 0x08,
     0x09, 0x0b, 0x09, 0x08, 0x08, 0x0a, 0x08, 0x07, 0x07, 0x0a, 0x0d, 0x0a,
     0x0a, 0x0b, 0x0c, 0x0c, 0x0c, 0x0c, 0x07, 0x09, 0x0e, 0x0f, 0x0d, 0x0c,
     0x0e, 0x0b, 0x0c, 0x0c, 0x0c, 0xff, 0xdb, 0x00, 0x43, 0x01, 0x02, 0x02,
     0x02, 0x03, 0x03, 0x03, 0x06, 0x03, 0x03, 0x06, 0x0c, 0x08, 0x07, 0x08,
     0x0c, 0x0c, 0x0c, 0x0c, 0x0c, 0x0c, 0x0c, 0x0c, 0x0c, 0x0c, 0x0c, 0x0c,
     0x0c, 0x0c, 0x0c, 0x0c, 0x0c, 0x0c, 0x0c, 0x0c, 0x0c, 0x0c, 0x0c, 0x0c,
     0x0c, 0x0c, 0x0c, 0x0c, 0x0c, 0x0c, 0x0c, 0x0c, 0x0c, 0x0c, 0x0c, 0x0c,
     0x0c, 0x0c, 0x0c, 0x0c, 0x0c, 0x0c, 0x0c, 0x0c, 0x0c, 0x0c, 0x0c, 0x0c,
     0x0c, 0x0c, 0xff, 0xc0, 0x00, 0x11, 0x08, 0x01, 0x5e, 0x02, 0x58, 0x03,
     0x01, 0x22, 0x00, 0x02, 0x11, 0x01, 0x03, 0x11, 0x01, 0xff, 0xc4, 0x00,
     0x1e, 0x00, 0x00, 0x01, 0x03, 0x05, 0x01, 0x01, 0x00, 0x00, 0x00, 0x00,
     0x00, 0x00, 0x00, 0x00, 0x00, 0x00, 0x00, 0x03, 0x07, 0x08, 0x01, 0x02,
     0x06, 0x09, 0x0a, 0x04, 0x05, 0xff, 0xc4, 0x00, 0x71, 0x10, 0x00, 0x00,
     0x05, 0x02, 0x03, 0x03, 0x07, 0x04, 0x08, 0x0c, 0x10, 0x07, 0x0d, 0x06,
     0x07, 0x01, 0x01, 0x02, 0x03, 0x04, 0x05, 0x00, 0x06, 0x07, 0x11, 0x12,
     0x08, 0x13, 0x21, 0x09, 0x14, 0x22, 0x31, 0x41, 0x51, 0x61, 0x15, 0x32,
     0x71, 0x91, 0x16, 0x23, 0x33, 0x42, 0x52, 0x62, 0x81, 0xa1, 0x0a, 0x17,
     0x1a, 0x24, 0x37, 0x57, 0x72, 0x92, 0x96, 0xb1, 0xc1, 0xd4, 0x18, 0x34,
     0x43, 0x53, 0x63, 0x73, 0x74, 0x75, 0x76, 0x82, 0x93, 0xa2, 0xa6, 0xb3,
     0xb4, 0xd1, 0x25, 0x27, 0x47, 0x54, 0x65, 0xa4, 0xc2, 0x26, 0x35, 0x36,
     0x38, 0x56, 0x64, 0x83, 0xa5, 0xb2, 0xb5, 0xc3, 0xe1, 0xf0, 0x28, 0x44,
     0x46, 0x55, 0xa3, 0xd2, 0x77, 0x84, 0x85, 0x94, 0xb6, 0xc4, 0xc5, 0xd3,
     0xff, 0xc4, 0x00, 0x1d, 0x01, 0x00, 0x02, 0x02, 0x03, 0x01, 0x01, 0x01,
     0x00, 0x00, 0x00, 0x00, 0x00, 0x00, 0x00, 0x00, 0x00, 0x00, 0x03, 0x04,
     0x05, 0x01, 0x02, 0x06, 0x07, 0x08, 0x09, 0xff, 0xc4, 0x00, 0x48, 0x11,
     0x00, 0x01, 0x03, 0x02, 0x03, 0x04, 0x04, 0x0a, 0x06, 0x08, 0x06, 0x02,
     0x03, 0x01, 0x00, 0x00, 0x01, 0x00, 0x02, 0x03, 0x04, 0x11, 0x05, 0x12,
     0x21, 0x06, 0x13, 0x31, 0x41, 0x22, 0x51, 0x61, 0x71, 0x07, 0x14, 0x17,
     0x32, 0x42, 0x91, 0xa1, 0xb1, 0xc1, 0xd1, 0x23, 0x53, 0x81, 0xa2, 0xe1,
     0xe2, 0x15, 0x34, 0x52, 0x54, 0x72, 0x92, 0xd2, 0xf0, 0x16, 0x24, 0x33,
     0x35, 0x43, 0x62, 0x82, 0xc2, 0x25, 0x44, 0xa3, 0xf1, 0xff, 0xda, 0x00,
     0x0c, 0x03, 0x01, 0x00, 0x02, 0x11, 0x03, 0x11, 0x00, 0x3f, 0x00, 0xd7]"

definition frame_19_head :: "u8 list" where
  "frame_19_head =
    [0xff, 0xd8, 0xff, 0xe0, 0x00, 0x10, 0x4a, 0x46, 0x49, 0x46, 0x00, 0x01,
     0x01, 0x00, 0x00, 0x01, 0x00, 0x01, 0x00, 0x00, 0xff, 0xdb, 0x00, 0x43,
     0x00, 0x02, 0x01, 0x01, 0x02, 0x01, 0x01, 0x02, 0x02, 0x02, 0x02, 0x02,
     0x02, 0x02, 0x02, 0x03, 0x05, 0x03, 0x03, 0x03, 0x03, 0x03, 0x06, 0x04,
     0x04, 0x03, 0x05, 0x07, 0x06, 0x07, 0x07, 0x07, 0x06, 0x07, 0x07, 0x08,
     0x09, 0x0b, 0x09, 0x08, 0x08, 0x0a, 0x08, 0x07, 0x07, 0x0a, 0x0d, 0x0a,
     0x0a, 0x0b, 0x0c, 0x0c, 0x0c, 0x0c, 0x07, 0x09, 0x0e, 0x0f, 0x0d, 0x0c,
     0x0e, 0x0b, 0x0c, 0x0c, 0x0c, 0xff, 0xdb, 0x00, 0x43, 0x01, 0x02, 0x02,
     0x02, 0x03, 0x03, 0x03, 0x06, 0x03, 0x03, 0x06, 0x0c, 0x08, 0x07, 0x08,
     0x0c, 0x0c, 0x0c, 0x0c, 0x0c, 0x0c, 0x0c, 0x0c, 0x0c, 0x0c, 0x0c, 0x0c,
     0x0c, 0x0c, 0x0c, 0x0c, 0x0c, 0x0c, 0x0c, 0x0c, 0x0c, 0x0c, 0x0c, 0x0c,
     0x0c, 0x0c, 0x0c, 0x0c, 0x0c, 0x0c, 0x0c, 0x0c, 0x0c, 0x0c, 0x0c, 0x0c,
     0x0c, 0x0c, 0x0c, 0x0c, 0x0c, 0x0c, 0x0c, 0x0c, 0x0c, 0x0c, 0x0c, 0x0c,
     0x0c, 0x0c, 0xff, 0xc0, 0x00, 0x11, 0x08, 0x01, 0x5e, 0x02, 0x58, 0x03,
     0x01, 0x22, 0x00, 0x02, 0x11, 0x01, 0x03, 0x11, 0x01, 0xff, 0xc4, 0x00,
     0x1e, 0x00, 0x00, 0x02, 0x02, 0x02, 0x03, 0x01, 0x01, 0x00, 0x00, 0x00,
     0x00, 0x00, 0x00, 0x00, 0x00, 0x00, 0x06, 0x07, 0x05, 0x08, 0x00, 0x04,
     0x03, 0x09, 0x0a, 0x01, 0x02, 0xff, 0xc4, 0x00, 0x72, 0x10, 0x00, 0x01,
     0x03, 0x02, 0x04, 0x02, 0x05, 0x05, 0x09, 0x08, 0x09, 0x0c, 0x0f, 0x06,
     0x01, 0x0d, 0x02, 0x01, 0x03, 0x04, 0x05, 0x06, 0x00, 0x07, 0x11, 0x12,
     0x13, 0x21, 0x08, 0x14, 0x22, 0x31, 0x41, 0x15, 0x32, 0x51, 0x61, 0x71,
     0x09, 0x16, 0x23, 0x42, 0x52, 0x62, 0x72, 0x81, 0x91, 0x17, 0x24, 0x33,
     0x53, 0x73, 0x82, 0x92, 0xa1, 0x25, 0x34, 0x43, 0x54, 0x63, 0x83, 0xa2,
     0xb1, 0xd4, 0x26, 0x35, 0x44, 0x55, 0x57, 0x64, 0x74, 0x93, 0x96, 0xc1,
     0xd1, 0xd2, 0x0a, 0x18, 0x1a, 0x36, 0x45, 0x56, 0x84, 0x85, 0x94, 0x95,
     0xa3, 0xa6, 0xb2, 0xb3, 0xc3, 0x19, 0x46, 0xa4, 0xc2, 0xd3, 0xf0, 0x27,
     0x37, 0x47, 0x65, 0xe1, 0x86, 0xe2, 0x28, 0x66, 0x75, 0x76, 0xb4, 0xc4,
     0xf1, 0xff, 0xc4, 0x00, 0x1c, 0x01, 0x00, 0x02, 0x02, 0x03, 0x01, 0x01,
     0x00, 0x00, 0x00, 0x00, 0x00, 0x00, 0x00, 0x00, 0x00, 0x00, 0x04, 0x05,
     0x03, 0x06, 0x00, 0x02, 0x07, 0x01, 0x08, 0xff, 0xc4, 0x00, 0x44, 0x11,
     0x00, 0x01, 0x03, 0x02, 0x04, 0x03, 0x04, 0x08, 0x04, 0x04, 0x05, 0x03,
     0x03, 0x05, 0x00, 0x00, 0x01, 0x00, 0x02, 0x03, 0x04, 0x11, 0x05, 0x12,
     0x21, 0x31, 0x13, 0x41, 0x51, 0x06, 0x22, 0x61, 0x71, 0x14, 0x32, 0x81,
     0x91, 0xa1, 0xb1, 0xd1, 0xe1, 0x15, 0x23, 0x42, 0xc1, 0x07, 0x16, 0x52,
     0xf0, 0x24, 0x33, 0x53, 0x62, 0xa2, 0x34, 0x72, 0x92, 0x43, 0x54, 0xf1,
     0x25, 0x63, 0x64, 0x82, 0xe2, 0xff, 0xda, 0x00, 0x0c, 0x03, 0x01, 0x00,
     0x02, 0x11, 0x03, 0x11, 0x00, 0x3f, 0x00, 0xeb, 0x78, 0xbf, 0xd8, 0xe4]"

definition frame_20_head :: "u8 list" where
  "frame_20_head =
    [0xff, 0xd8, 0xff, 0xe0, 0x00, 0x10, 0x4a, 0x46, 0x49, 0x46, 0x00, 0x01,
     0x01, 0x00, 0x00, 0x01, 0x00, 0x01, 0x00, 0x00, 0xff, 0xdb, 0x00, 0x43,
     0x00, 0x02, 0x01, 0x01, 0x02, 0x01, 0x01, 0x02, 0x02, 0x02, 0x02, 0x02,
     0x02, 0x02, 0x02, 0x03, 0x05, 0x03, 0x03, 0x03, 0x03, 0x03, 0x06, 0x04,
     0x04, 0x03, 0x05, 0x07, 0x06, 0x07, 0x07, 0x07, 0x06, 0x07, 0x07, 0x08,
     0x09, 0x0b, 0x09, 0x08, 0x08, 0x0a, 0x08, 0x07, 0x07, 0x0a, 0x0d, 0x0a,
     0x0a, 0x0b, 0x0c, 0x0c, 0x0c, 0x0c, 0x07, 0x09, 0x0e, 0x0f, 0x0d, 0x0c,
     0x0e, 0x0b, 0x0c, 0x0c, 0x0c, 0xff, 0xdb, 0x00, 0x43, 0x01, 0x02, 0x02,
     0x02, 0x03, 0x03, 0x03, 0x06, 0x03, 0x03, 0x06, 0x0c, 0x08, 0x07, 0x08,
     0x0c, 0x0c, 0x0c, 0x0c, 0x0c, 0x0c, 0x0c, 0x0c, 0x0c, 0x0c, 0x0c, 0x0c,
     0x0c, 0x0c, 0x0c, 0x0c, 0x0c, 0x0c, 0x0c, 0x0c, 0x0c, 0x0c, 0x0c, 0x0c,
     0x0c, 0x0c, 0x0c, 0x0c, 0x0c, 0x0c, 0x0c, 0x0c, 0x0c, 0x0c, 0x0c, 0x0c,
     0x0c, 0x0c, 0x0c, 0x0c, 0x0c, 0x0c, 0x0c, 0x0c, 0x0c, 0x0c, 0x0c, 0x0c,
     0x0c, 0x0c, 0xff, 0xc0, 0x00, 0x11, 0x08, 0x01, 0x5e, 0x02, 0x58, 0x03,
     0x01, 0x22, 0x00, 0x02, 0x11, 0x01, 0x03, 0x11, 0x01, 0xff, 0xc4, 0x00,
     0x1e, 0x00, 0x00, 0x02, 0x02, 0x02, 0x03, 0x01, 0x01, 0x00, 0x00, 0x00,
     0x00, 0x00, 0x00, 0x00, 0x00, 0x00, 0x06, 0x07, 0x05, 0x08, 0x00, 0x04,
     0x03, 0x09, 0x0a, 0x01, 0x02, 0xff, 0xc4, 0x00, 0x72, 0x10, 0x00, 0x01,
     0x03, 0x02, 0x04, 0x02, 0x05, 0x05, 0x09, 0x08, 0x09, 0x0c, 0x0e, 0x08,
     0x02, 0x0b, 0x02, 0x01, 0x03, 0x04, 0x05, 0x06, 0x00, 0x07, 0x11, 0x12,
     0x13, 0x21, 0x08, 0x14, 0x22, 0x31, 0x41, 0x15, 0x32, 0x51, 0x61, 0x71,
     0x09, 0x16, 0x23, 0x42, 0x52, 0x62, 0x72, 0x81, 0x91, 0x17, 0x24, 0x33,
     0x53, 0x73, 0x82, 0x92, 0xa1, 0x25, 0x34, 0x43, 0x54, 0x63, 0x83, 0xa2,
     0xb1, 0xd4, 0x26, 0x35, 0x44, 0x55, 0x57, 0x64, 0x74, 0x93, 0x96, 0xc1,
     0xd1, 0xd2, 0x0a, 0x18, 0x1a, 0x36, 0x45, 0x56, 0x84, 0x85, 0x94, 0x95,
     0xa3, 0xa6, 0xb2, 0xb3, 0x19, 0x27, 0x37, 0x46, 0xa4, 0xc2, 0xc3, 0xd3,
     0xf0, 0x47, 0x65, 0xe1, 0x86, 0xe2, 0x28, 0x66, 0x75, 0x76, 0xb4, 0xc4,
     0xf1, 0xff, 0xc4, 0x00, 0x1c, 0x01, 0x00, 0x02, 0x02, 0x03, 0x01, 0x01,
     0x00, 0x00, 0x00, 0x00, 0x00, 0x00, 0x00, 0x00, 0x00, 0x00, 0x04, 0x05,
     0x03, 0x06, 0x00, 0x02, 0x07, 0x01, 0x08, 0xff, 0xc4, 0x00, 0x44, 0x11,
     0x00, 0x01, 0x03, 0x02, 0x04, 0x03, 0x04, 0x08, 0x04, 0x04, 0x05, 0x03,
     0x03, 0x05, 0x00, 0x00, 0x01, 0x00, 0x02, 0x03, 0x04, 0x11, 0x05, 0x12,
     0x21, 0x31, 0x13, 0x41, 0x51, 0x06, 0x22, 0x61, 0x71, 0x14, 0x32, 0x81,
     0x91, 0xa1, 0xb1, 0xd1, 0xe1, 0x15, 0x23, 0x42, 0xc1, 0x07, 0x16, 0x52,
     0xf0, 0x24, 0x33, 0x53, 0x62, 0xa2, 0x34, 0x72, 0x92, 0x43, 0x54, 0xf1,
     0x25, 0x63, 0x64, 0x82, 0xe2, 0xff, 0xda, 0x00, 0x0c, 0x03, 0x01, 0x00,
     0x02, 0x11, 0x03, 0x11, 0x00, 0x3f, 0x00, 0xeb, 0x7c, 0xbf, 0xd8, 0xe5]"

definition frame_21_head :: "u8 list" where
  "frame_21_head =
    [0xff, 0xd8, 0xff, 0xe0, 0x00, 0x10, 0x4a, 0x46, 0x49, 0x46, 0x00, 0x01,
     0x01, 0x00, 0x00, 0x01, 0x00, 0x01, 0x00, 0x00, 0xff, 0xdb, 0x00, 0x43,
     0x00, 0x02, 0x01, 0x01, 0x02, 0x01, 0x01, 0x02, 0x02, 0x02, 0x02, 0x02,
     0x02, 0x02, 0x02, 0x03, 0x05, 0x03, 0x03, 0x03, 0x03, 0x03, 0x06, 0x04,
     0x04, 0x03, 0x05, 0x07, 0x06, 0x07, 0x07, 0x07, 0x06, 0x07, 0x07, 0x08,
     0x09, 0x0b, 0x09, 0x08, 0x08, 0x0a, 0x08, 0x07, 0x07, 0x0a, 0x0d, 0x0a,
     0x0a, 0x0b, 0x0c, 0x0c, 0x0c, 0x0c, 0x07, 0x09, 0x0e, 0x0f, 0x0d, 0x0c,
     0x0e, 0x0b, 0x0c, 0x0c, 0x0c, 0xff, 0xdb, 0x00, 0x43, 0x01, 0x02, 0x02,
     0x02, 0x03, 0x03, 0x03, 0x06, 0x03, 0x03, 0x06, 0x0c, 0x08, 0x07, 0x08,
     0x0c, 0x0c, 0x0c, 0x0c, 0x0c, 0x0c, 0x0c, 0x0c, 0x0c, 0x0c, 0x0c, 0x0c,
     0x0c, 0x0c, 0x0c, 0x0c, 0x0c, 0x0c, 0x0c, 0x0c, 0x0c, 0x0c, 0x0c, 0x0c,
     0x0c, 0x0c, 0x0c, 0x0c, 0x0c, 0x0c, 0x0c, 0x0c, 0x0c, 0x0c, 0x0c, 0x0c,
     0x0c, 0x0c, 0x0c, 0x0c, 0x0c, 0x0c, 0x0c, 0x0c, 0x0c, 0x0c, 0x0c, 0x0c,
     0x0c, 0x0c, 0xff, 0xc0, 0x00, 0x11, 0x08, 0x01, 0x5e, 0x02, 0x58, 0x03,
     0x01, 0x22, 0x00, 0x02, 0x11, 0x01, 0x03, 0x11, 0x01, 0xff, 0xc4, 0x00,
     0x1e, 0x00, 0x00, 0x02, 0x02, 0x02, 0x03, 0x01, 0x01, 0x00, 0x00, 0x00,
     0x00, 0x00, 0x00, 0x00, 0x00, 0x00, 0x06, 0x07, 0x05, 0x08, 0x00, 0x04,
     0x03, 0x09, 0x0a, 0x02, 0x01, 0xff, 0xc4, 0x00, 0x71, 0x10, 0x00, 0x01,
     0x03, 0x02, 0x04, 0x02, 0x05, 0x05, 0x08, 0x08, 0x0e, 0x0c, 0x0a, 0x08,
     0x03, 0x09, 0x02, 0x01, 0x03, 0x04, 0x05, 0x06, 0x00, 0x07, 0x11, 0x12,
     0x13, 0x21, 0x08, 0x14, 0x22, 0x31, 0x41, 0x15, 0x32, 0x51, 0x61, 0x71,
     0x09, 0x16, 0x23, 0x42, 0x52, 0x62, 0x72, 0x81, 0x24, 0x33, 0x43, 0x53,
     0x73, 0x82, 0x91, 0xa1, 0x17, 0x25, 0x26, 0x34, 0x44, 0x54, 0x63, 0x83,
     0x92, 0x93, 0xb1, 0xc1, 0xd1, 0xd4, 0x0a, 0x18, 0x35, 0x57, 0x64, 0x74,
     0x94, 0x95, 0x96, 0xa2, 0xb2, 0xd2, 0x19, 0x1a, 0x36, 0x45, 0x46, 0x55,
     0x56, 0x84, 0xa3, 0xd3, 0x27, 0x65, 0x85, 0xa4, 0xa6, 0xb3, 0xc2, 0xc3,
     0x37, 0x47, 0x75, 0x86, 0xe1, 0x38, 0x66, 0x76, 0xf0, 0xa5, 0xe3, 0xf1,
     0xff, 0xc4, 0x00, 0x1c, 0x01, 0x00, 0x02, 0x02, 0x03, 0x01, 0x01, 0x00,
     0x00, 0x00, 0x00, 0x00, 0x00, 0x00, 0x00, 0x00, 0x00, 0x04, 0x05, 0x03,
     0x06, 0x00, 0x02, 0x07, 0x01, 0x08, 0xff, 0xc4, 0x00, 0x41, 0x11, 0x00,
     0x01, 0x03, 0x02, 0x04, 0x03, 0x04, 0x07, 0x07, 0x02, 0x05, 0x05, 0x00,
     0x03, 0x00, 0x00, 0x01, 0x00, 0x02, 0x03, 0x04, 0x11, 0x05, 0x12, 0x21,
     0x31, 0x13, 0x41, 0x51, 0x06, 0x22, 0x61, 0x71, 0x14, 0x15, 0x32, 0x81,
     0x91, 0xa1, 0xe1, 0x23, 0x42, 0x52, 0xb1, 0xc1, 0xd1, 0xf0, 0x07, 0x16,
     0x24, 0x33, 0x53, 0x62, 0x92, 0x34, 0x43, 0x72, 0xa2, 0xf1, 0x83, 0xc2,
     0xd2, 0xff, 0xda, 0x00, 0x0c, 0x03, 0x01, 0x00, 0x02, 0x11, 0x03, 0x11,
     0x00, 0x3f, 0x00, 0xeb, 0x41, 0x7f, 0xb1, 0xf7, 0xe9, 0x74, 0x97, 0x37]"

definition frame_22_head :: "u8 list" where
  "frame_22_head =
    [0xff, 0xd8, 0xff, 0xe0, 0x00, 0x10, 0x4a, 0x46, 0x49, 0x46, 0x00, 0x01,
     0x01, 0x00, 0x00, 0x01, 0x00, 0x01, 0x00, 0x00, 0xff, 0xdb, 0x00, 0x43,
     0x00, 0x02, 0x01, 0x01, 0x02, 0x01, 0x01, 0x02, 0x02, 0x02, 0x02, 0x02,
     0x02, 0x02, 0x02, 0x03, 0x05, 0x03, 0x03, 0x03, 0x03, 0x03, 0x06, 0x04,
     0x04, 0x03, 0x05, 0x07, 0x06, 0x07, 0x07, 0x07, 0x06, 0x07, 0x07, 0x08,
     0x09, 0x0b, 0x09, 0x08, 0x08, 0x0a, 0x08, 0x07, 0x07, 0x0a, 0x0d, 0x0a,
     0x0a, 0x0b, 0x0c, 0x0c, 0x0c, 0x0c, 0x07, 0x09, 0x0e, 0x0f, 0x0d, 0x0c,
     0x0e, 0x0b, 0x0c, 0x0c, 0x0c, 0xff, 0xdb, 0x00, 0x43, 0x01, 0x02, 0x02,
     0x02, 0x03, 0x03, 0x03, 0x06, 0x03, 0x03, 0x06, 0x0c, 0x08, 0x07, 0x08,
     0x0c, 0x0c, 0x0c, 0x0c, 0x0c, 0x0c, 0x0c, 0x0c, 0x0c, 0x0c, 0x0c, 0x0c,
     0x0c, 0x0c, 0x0c, 0x0c, 0x0c, 0x0c, 0x0c, 0x0c, 0x0c, 0x0c, 0x0c, 0x0c,
     0x0c, 0x0c, 0x0c, 0x0c, 0x0c, 0x0c, 0x0c, 0x0c, 0x0c, 0x0c, 0x0c, 0x0c,
     0x0c, 0x0c, 0x0c, 0x0c, 0x0c, 0x0c, 0x0c, 0x0c, 0x0c, 0x0c, 0x0c, 0x0c,
     0x0c, 0x0c, 0xff, 0xc0, 0x00, 0x11, 0x08, 0x01, 0x5e, 0x02, 0x58, 0x03,
     0x01, 0x22, 0x00, 0x02, 0x11, 0x01, 0x03, 0x11, 0x01, 0xff, 0xc4, 0x00,
     0x1e, 0x00, 0x00, 0x02, 0x02, 0x02, 0x03, 0x01, 0x01, 0x00, 0x00, 0x00,
     0x00, 0x00, 0x00, 0x00, 0x00, 0x00, 0x06, 0x07, 0x05, 0x08, 0x00, 0x04,
     0x03, 0x09, 0x0a, 0x02, 0x01, 0xff, 0xc4, 0x00, 0x70, 0x10, 0x00, 0x01,
     0x03, 0x02, 0x04, 0x02, 0x05, 0x05, 0x09, 0x07, 0x09, 0x12, 0x0b, 0x05,
     0x07, 0x05, 0x02, 0x01, 0x03, 0x04, 0x05, 0x06, 0x00, 0x07, 0x11, 0x12,
     0x13, 0x21, 0x08, 0x14, 0x22, 0x31, 0x41, 0x15, 0x32, 0x51, 0x61, 0x71,
     0x09, 0x16, 0x23, 0x42, 0x52, 0x62, 0x72, 0x81, 0x91, 0x24, 0x33, 0x43,
     0x53, 0x73, 0x82, 0xa1, 0x17, 0x25, 0x34, 0x63, 0x83, 0x92, 0xa2, 0xb1,
     0xd4, 0x0a, 0x18, 0x26, 0x35, 0x44, 0x54, 0x55, 0x57, 0x64, 0x93, 0x95,
     0x96, 0xa3, 0xb2, 0xc1, 0xd1, 0xd2, 0xd3, 0x19, 0x1a, 0x45, 0x46, 0x56,
     0x65, 0x74, 0x94, 0xb3, 0xc2, 0xc3, 0x36, 0x75, 0x84, 0x85, 0xa6, 0x27,
     0x37, 0x47, 0x66, 0x86, 0xa4, 0xe1, 0xf0, 0x38, 0x76, 0xc4, 0xb4, 0xff,
     0xc4, 0x00, 0x1c, 0x01, 0x00, 0x02, 0x02, 0x03, 0x01, 0x01, 0x00, 0x00,
     0x00, 0x00, 0x00, 0x00, 0x00, 0x00, 0x00, 0x00, 0x04, 0x05, 0x03, 0x06,
     0x00, 0x02, 0x07, 0x01, 0x08, 0xff, 0xc4, 0x00, 0x43, 0x11, 0x00, 0x01,
     0x03, 0x02, 0x04, 0x03, 0x04, 0x07, 0x07, 0x03, 0x02, 0x05, 0x05, 0x01,
     0x01, 0x00, 0x01, 0x00, 0x02, 0x03, 0x04, 0x11, 0x05, 0x12, 0x21, 0x31,
     0x13, 0x41, 0x51, 0x06, 0x22, 0x61, 0x71, 0x14, 0x32, 0x81, 0x91, 0xa1,
     0xd1, 0xe1, 0x15, 0x23, 0x42, 0x52, 0xb1, 0xc1, 0xf0, 0x07, 0x16, 0x62,
     0x33, 0xa2, 0x24, 0x43, 0x53, 0x72, 0x82, 0x34, 0x44, 0x54, 0x92, 0xf1,
     0xb2, 0xd2, 0xff, 0xda, 0x00, 0x0c, 0x03, 0x01, 0x00, 0x02, 0x11, 0x03,
     0x11, 0x00, 0x3f, 0x00, 0xeb, 0x79, 0x7f, 0x99, 0xc9, 0xe9, 0x95, 0xe1]"

definition frame_23_head :: "u8 list" where
  "frame_23_head =
    [0xff, 0xd8, 0xff, 0xe0, 0x00, 0x10, 0x4a, 0x46, 0x49, 0x46, 0x00, 0x01,
     0x01, 0x00, 0x00, 0x01, 0x00, 0x01, 0x00, 0x00, 0xff, 0xdb, 0x00, 0x43,
     0x00, 0x02, 0x01, 0x01, 0x02, 0x01, 0x01, 0x02, 0x02, 0x02, 0x02, 0x02,
     0x02, 0x02, 0x02, 0x03, 0x05, 0x03, 0x03, 0x03, 0x03, 0x03, 0x06, 0x04,
     0x04, 0x03, 0x05, 0x07, 0x06, 0x07, 0x07, 0x07, 0x06, 0x07, 0x07, 0x08,
     0x09, 0x0b, 0x09, 0x08, 0x08, 0x0a, 0x08, 0x07, 0x07, 0x0a, 0x0d, 0x0a,
     0x0a, 0x0b, 0x0c, 0x0c, 0x0c, 0x0c, 0x07, 0x09, 0x0e, 0x0f, 0x0d, 0x0c,
     0x0e, 0x0b, 0x0c, 0x0c, 0x0c, 0xff, 0xdb, 0x00, 0x43, 0x01, 0x02, 0x02,
     0x02, 0x03, 0x03, 0x03, 0x06, 0x03, 0x03, 0x06, 0x0c, 0x08, 0x07, 0x08,
     0x0c, 0x0c, 0x0c, 0x0c, 0x0c, 0x0c, 0x0c, 0x0c, 0x0c, 0x0c, 0x0c, 0x0c,
     0x0c, 0x0c, 0x0c, 0x0c, 0x0c, 0x0c, 0x0c, 0x0c, 0x0c, 0x0c, 0x0c, 0x0c,
     0x0c, 0x0c, 0x0c, 0x0c, 0x0c, 0x0c, 0x0c, 0x0c, 0x0c, 0x0c, 0x0c, 0x0c,
     0x0c, 0x0c, 0x0c, 0x0c, 0x0c, 0x0c, 0x0c, 0x0c, 0x0c, 0x0c, 0x0c, 0x0c,
     0x0c, 0x0c, 0xff, 0xc0, 0x00, 0x11, 0x08, 0x01, 0x5e, 0x02, 0x58, 0x03,
     0x01, 0x22, 0x00, 0x02, 0x11, 0x01, 0x03, 0x11, 0x01, 0xff, 0xc4, 0x00,
     0x1e, 0x00, 0x00, 0x02, 0x02, 0x02, 0x03, 0x01, 0x01, 0x00, 0x00, 0x00,
     0x00, 0x00, 0x00, 0x00, 0x00, 0x00, 0x06, 0x07, 0x05, 0x08, 0x00, 0x04,
     0x03, 0x09, 0x0a, 0x01, 0x02, 0xff, 0xc4, 0x00, 0x75, 0x10, 0x00, 0x01,
     0x03, 0x02, 0x04, 0x02, 0x05, 0x05, 0x0a, 0x06, 0x09, 0x0c, 0x0b, 0x0e,
     0x01, 0x0d, 0x02, 0x01, 0x03, 0x04, 0x05, 0x06, 0x00, 0x07, 0x11, 0x12,
     0x13, 0x21, 0x08, 0x14, 0x22, 0x31, 0x41, 0x15, 0x32, 0x51, 0x61, 0x71,
     0x09, 0x16, 0x23, 0x33, 0x42, 0x52, 0x62, 0x72, 0x81, 0x91, 0x17, 0x24,
     0x43, 0x82, 0xa1, 0xb1, 0x25, 0x34, 0x53, 0x54, 0x63, 0x73, 0x83, 0x92,
     0xa2, 0x18, 0x26, 0x35, 0x44, 0x64, 0x74, 0x93, 0x96, 0xa3, 0xc1, 0xd1,
     0xd4, 0x0a, 0x1a, 0x45, 0x55, 0x57, 0x94, 0x95, 0xb2, 0xb3, 0xd2, 0xd3,
     0x19, 0x27, 0x36, 0x37, 0x46, 0x47, 0x56, 0x75, 0x84, 0x85, 0x86, 0xa4,
     0xc2, 0xe1, 0x65, 0x76, 0xc3, 0xf0, 0x28, 0x66, 0xa5, 0xa6, 0xb4, 0x38,
     0xb5, 0xc4, 0xe2, 0xe3, 0xff, 0xc4, 0x00, 0x1c, 0x01, 0x00, 0x02, 0x02,
     0x03, 0x01, 0x01, 0x00, 0x00, 0x00, 0x00, 0x00, 0x00, 0x00, 0x00, 0x00,
     0x00, 0x04, 0x05, 0x03, 0x06, 0x00, 0x02, 0x07, 0x01, 0x08, 0xff, 0xc4,
     0x00, 0x46, 0x11, 0x00, 0x01, 0x03, 0x02, 0x04, 0x03, 0x04, 0x06, 0x08,
     0x05, 0x02, 0x05, 0x03, 0x05, 0x00, 0x00, 0x01, 0x00, 0x02, 0x03, 0x04,
     0x11, 0x05, 0x12, 0x21, 0x31, 0x06, 0x41, 0x51, 0x13, 0x22, 0x61, 0x71,
     0x14, 0x32, 0x81, 0x91, 0xa1, 0xd1, 0x15, 0x23, 0x42, 0x52, 0xb1, 0xc1,
     0xe1, 0xf0, 0x07, 0x16, 0x33, 0x53, 0x62, 0x72, 0xa2, 0x24, 0x34, 0x43,
     0x92, 0xf1, 0x17, 0x25, 0x82, 0x35, 0x54, 0xc2, 0xd2, 0xe2, 0xff, 0xda,
     0x00, 0x0c, 0x03, 0x01, 0x00, 0x02, 0x11, 0x03, 0x11, 0x00, 0x3f, 0x00]"

definition frame_24_head :: "u8 list" where
  "frame_24_head =
    [0xff, 0xd8, 0xff, 0xe0, 0x00, 0x10, 0x4a, 0x46, 0x49, 0x46, 0x00, 0x01,
     0x01, 0x00, 0x00, 0x01, 0x00, 0x01, 0x00, 0x00, 0xff, 0xdb, 0x00, 0x43,
     0x00, 0x02, 0x01, 0x01, 0x02, 0x01, 0x01, 0x02, 0x02, 0x02, 0x02, 0x02,
     0x02, 0x02, 0x02, 0x03, 0x05, 0x03, 0x03, 0x03, 0x03, 0x03, 0x06, 0x04,
     0x04, 0x03, 0x05, 0x07, 0x06, 0x07, 0x07, 0x07, 0x06, 0x07, 0x07, 0x08,
     0x09, 0x0b, 0x09, 0x08, 0x08, 0x0a, 0x08, 0x07, 0x07, 0x0a, 0x0d, 0x0a,
     0x0a, 0x0b, 0x0c, 0x0c, 0x0c, 0x0c, 0x07, 0x09, 0x0e, 0x0f, 0x0d, 0x0c,
     0x0e, 0x0b, 0x0c, 0x0c, 0x0c, 0xff, 0xdb, 0x00, 0x43, 0x01, 0x02, 0x02,
     0x02, 0x03, 0x03, 0x03, 0x06, 0x03, 0x03, 0x06, 0x0c, 0x08, 0x07, 0x08,
     0x0c, 0x0c, 0x0c, 0x0c, 0x0c, 0x0c, 0x0c, 0x0c, 0x0c, 0x0c, 0x0c, 0x0c,
     0x0c, 0x0c, 0x0c, 0x0c, 0x0c, 0x0c, 0x0c, 0x0c, 0x0c, 0x0c, 0x0c, 0x0c,
     0x0c, 0x0c, 0x0c, 0x0c, 0x0c, 0x0c, 0x0c, 0x0c, 0x0c, 0x0c, 0x0c, 0x0c,
     0x0c, 0x0c, 0x0c, 0x0c, 0x0c, 0x0c, 0x0c, 0x0c, 0x0c, 0x0c, 0x0c, 0x0c,
     0x0c, 0x0c, 0xff, 0xc0, 0x00, 0x11, 0x08, 0x01, 0x5e, 0x02, 0x58, 0x03,
     0x01, 0x22, 0x00, 0x02, 0x11, 0x01, 0x03, 0x11, 0x01, 0xff, 0xc4, 0x00,
     0x1e, 0x00, 0x00, 0x02, 0x02, 0x02, 0x03, 0x01, 0x01, 0x00, 0x00, 0x00,
     0x00, 0x00, 0x00, 0x00, 0x00, 0x00, 0x06, 0x07, 0x05, 0x08, 0x00, 0x04,
     0x03, 0x09, 0x0a, 0x01, 0x02, 0xff, 0xc4, 0x00, 0x75, 0x10, 0x00, 0x01,
     0x03, 0x02, 0x04, 0x02, 0x05, 0x05, 0x0a, 0x06, 0x09, 0x0c, 0x0b, 0x0e,
     0x01, 0x0d, 0x02, 0x01, 0x03, 0x04, 0x05, 0x06, 0x00, 0x07, 0x11, 0x12,
     0x13, 0x21, 0x08, 0x14, 0x22, 0x31, 0x41, 0x15, 0x32, 0x51, 0x61, 0x71,
     0x09, 0x16, 0x23, 0x33, 0x42, 0x52, 0x62, 0x72, 0x81, 0x91, 0x17, 0x24,
     0x43, 0x82, 0xa1, 0xb1, 0x25, 0x34, 0x53, 0x54, 0x63, 0x73, 0x83, 0x92,
     0xa2, 0x18, 0x26, 0x35, 0x44, 0x64, 0x74, 0x93, 0x96, 0xa3, 0xc1, 0xd1,
     0xd4, 0x0a, 0x1a, 0x45, 0x55, 0x57, 0x94, 0x95, 0xb2, 0xb3, 0xd2, 0xd3,
     0x19, 0x27, 0x36, 0x37, 0x46, 0x47, 0x56, 0x75, 0x84, 0x85, 0x86, 0xa4,
     0xc2, 0xe1, 0x65, 0x76, 0xc3, 0xf0, 0x28, 0x66, 0xa5, 0xa6, 0xb4, 0x38,
     0xb5, 0xc4, 0xe2, 0xe3, 0xff, 0xc4, 0x00, 0x1c, 0x01, 0x00, 0x02, 0x02,
     0x03, 0x01, 0x01, 0x00, 0x00, 0x00, 0x00, 0x00, 0x00, 0x00, 0x00, 0x00,
     0x00, 0x04, 0x05, 0x03, 0x06, 0x00, 0x02, 0x07, 0x01, 0x08, 0xff, 0xc4,
     0x00, 0x46, 0x11, 0x00, 0x01, 0x03, 0x02, 0x04, 0x03, 0x04, 0x06, 0x08,
     0x05, 0x02, 0x05, 0x03, 0x05, 0x00, 0x00, 0x01, 0x00, 0x02, 0x03, 0x04,
     0x11, 0x05, 0x12, 0x21, 0x31, 0x06, 0x41, 0x51, 0x13, 0x22, 0x61, 0x71,
     0x14, 0x32, 0x81, 0x91, 0xa1, 0xd1, 0x15, 0x23, 0x42, 0x52, 0xb1, 0xc1,
     0xe1, 0xf0, 0x07, 0x16, 0x33, 0x53, 0x62, 0x72, 0xa2, 0x24, 0x34, 0x43,
     0x92, 0xf1, 0x17, 0x25, 0x82, 0x35, 0x54, 0xc2, 0xd2, 0xe2, 0xff, 0xda,
     0x00, 0x0c, 0x03, 0x01, 0x00, 0x02, 0x11, 0x03, 0x11, 0x00, 0x3f, 0x00]"

definition frame_25_head :: "u8 list" where
  "frame_25_head =
    [0xff, 0xd8, 0xff, 0xe0, 0x00, 0x10, 0x4a, 0x46, 0x49, 0x46, 0x00, 0x01,
     0x01, 0x00, 0x00, 0x01, 0x00, 0x01, 0x00, 0x00, 0xff, 0xdb, 0x00, 0x43,
     0x00, 0x02, 0x01, 0x01, 0x02, 0x01, 0x01, 0x02, 0x02, 0x02, 0x02, 0x02,
     0x02, 0x02, 0x02, 0x03, 0x05, 0x03, 0x03, 0x03, 0x03, 0x03, 0x06, 0x04,
     0x04, 0x03, 0x05, 0x07, 0x06, 0x07, 0x07, 0x07, 0x06, 0x07, 0x07, 0x08,
     0x09, 0x0b, 0x09, 0x08, 0x08, 0x0a, 0x08, 0x07, 0x07, 0x0a, 0x0d, 0x0a,
     0x0a, 0x0b, 0x0c, 0x0c, 0x0c, 0x0c, 0x07, 0x09, 0x0e, 0x0f, 0x0d, 0x0c,
     0x0e, 0x0b, 0x0c, 0x0c, 0x0c, 0xff, 0xdb, 0x00, 0x43, 0x01, 0x02, 0x02,
     0x02, 0x03, 0x03, 0x03, 0x06, 0x03, 0x03, 0x06, 0x0c, 0x08, 0x07, 0x08,
     0x0c, 0x0c, 0x0c, 0x0c, 0x0c, 0x0c, 0x0c, 0x0c, 0x0c, 0x0c, 0x0c, 0x0c,
     0x0c, 0x0c, 0x0c, 0x0c, 0x0c, 0x0c, 0x0c, 0x0c, 0x0c, 0x0c, 0x0c, 0x0c,
     0x0c, 0x0c, 0x0c, 0x0c, 0x0c, 0x0c, 0x0c, 0x0c, 0x0c, 0x0c, 0x0c, 0x0c,
     0x0c, 0x0c, 0x0c, 0x0c, 0x0c, 0x0c, 0x0c, 0x0c, 0x0c, 0x0c, 0x0c, 0x0c,
     0x0c, 0x0c, 0xff, 0xc0, 0x00, 0x11, 0x08, 0x01, 0x5e, 0x02, 0x58, 0x03,
     0x01, 0x22, 0x00, 0x02, 0x11, 0x01, 0x03, 0x11, 0x01, 0xff, 0xc4, 0x00,
     0x1e, 0x00, 0x00, 0x02, 0x02, 0x03, 0x01, 0x01, 0x01, 0x01, 0x00, 0x00,
     0x00, 0x00, 0x00, 0x00, 0x00, 0x00, 0x06, 0x07, 0x05, 0x08, 0x00, 0x03,
     0x04, 0x0a, 0x09, 0x02, 0x01, 0xff, 0xc4, 0x00, 0x76, 0x10, 0x00, 0x01,
     0x03, 0x02, 0x04, 0x02, 0x05, 0x05, 0x09, 0x07, 0x0a, 0x0d, 0x0f, 0x0a,
     0x02, 0x0b, 0x02, 0x01, 0x03, 0x04, 0x05, 0x06, 0x00, 0x07, 0x11, 0x12,
     0x13, 0x21, 0x08, 0x14, 0x22, 0x31, 0x41, 0x15, 0x32, 0x51, 0x61, 0x71,
     0x09, 0x16, 0x23, 0x42, 0x52, 0x62, 0x72, 0x81, 0x91, 0x24, 0x33, 0x53,
     0x73, 0x82, 0xa1, 0xb1, 0x17, 0x25, 0x34, 0x43, 0x44, 0x54, 0x63, 0x83,
     0x92, 0xc1, 0x0a, 0x18, 0x19, 0x64, 0x93, 0x95, 0x96, 0xa2, 0xa3, 0xd1,
     0xd2, 0xd3, 0xd4, 0x26, 0x35, 0x36, 0x37, 0x45, 0x46, 0x55, 0x56, 0x57,
     0x74, 0x94, 0xa4, 0xb2, 0xb3, 0xc2, 0x1a, 0x47, 0x65, 0x75, 0x84, 0x85,
     0x86, 0xa6, 0xc3, 0xe1, 0x38, 0xa5, 0xe3, 0xf0, 0xf1, 0x27, 0x76, 0xc4,
     0x28, 0x67, 0xb4, 0xb5, 0xe4, 0xff, 0xc4, 0x00, 0x1c, 0x01, 0x00, 0x02,
     0x02, 0x03, 0x01, 0x01, 0x00, 0x00, 0x00, 0x00, 0x00, 0x00, 0x00, 0x00,
     0x00, 0x00, 0x04, 0x05, 0x03, 0x06, 0x00, 0x02, 0x07, 0x01, 0x08, 0xff,
     0xc4, 0x00, 0x45, 0x11, 0x00, 0x01, 0x03, 0x02, 0x04, 0x03, 0x04, 0x06,
     0x08, 0x03, 0x07, 0x04, 0x02, 0x03, 0x00, 0x00, 0x01, 0x00, 0x02, 0x03,
     0x04, 0x11, 0x05, 0x12, 0x21, 0x31, 0x13, 0x41, 0x51, 0x06, 0x22, 0x61,
     0x71, 0x14, 0x32, 0x81, 0x91, 0xa1, 0xd1, 0x15, 0x23, 0x42, 0x52, 0xb1,
     0xc1, 0xe1, 0xf0, 0x16, 0x33, 0x62, 0x07, 0x24, 0x53, 0x72, 0x82, 0x92,
     0xa2, 0x25, 0xd2, 0xe2, 0xf1, 0x17, 0x43, 0x34, 0x44, 0x54, 0xff, 0xda,
     0x00, 0x0c, 0x03, 0x01, 0x00, 0x02, 0x11, 0x03, 0x11, 0x00, 0x3f, 0x00]"

definition frame_heads :: "u8 list list" where
  "frame_heads =
    [frame_1_head, frame_2_head, frame_3_head, frame_4_head, frame_5_head, frame_6_head,
     frame_7_head, frame_8_head, frame_9_head, frame_10_head, frame_11_head, frame_12_head,
     frame_13_head, frame_14_head, frame_15_head, frame_16_head, frame_17_head,
     frame_18_head, frame_19_head, frame_20_head, frame_21_head, frame_22_head,
     frame_23_head, frame_24_head, frame_25_head]"

section \<open>Walking a JPEG header\<close>

text \<open>
  A segment is \<open>0xff\<close>, a marker, and a big-endian length that counts itself and the bytes after
  it. The walk collects markers up to the start of scan \<open>0xda\<close>, and the size in the baseline frame
  header \<open>0xc0\<close>. The fuel bounds the number of segments; \<open>None\<close> is a malformed header.
\<close>

definition be16 :: "u8 \<Rightarrow> u8 \<Rightarrow> nat" where
  "be16 hi lo = unat hi * 256 + unat lo"

datatype segment = Seg u8 | Sof nat nat

text \<open>Skipping bytes; \<open>None\<close> when there are too few.\<close>

fun skip :: "nat \<Rightarrow> 'a list \<Rightarrow> 'a list option" where
  "skip 0 xs = Some xs"
| "skip (Suc n) [] = None"
| "skip (Suc n) (x # xs) = skip n xs"

lemma skip_eq: "skip n xs = (if n \<le> length xs then Some (drop n xs) else None)"
  by (induction n xs rule: skip.induct) simp_all

text \<open>The size in a frame header: precision, height, width.\<close>

definition seg_of :: "u8 \<Rightarrow> u8 list \<Rightarrow> segment option" where
  "seg_of m rest =
     (if m = 0xc0 then (case rest of
        p # h1 # h0 # w1 # w0 # _ \<Rightarrow> Some (Sof (be16 w1 w0) (be16 h1 h0))
      | _ \<Rightarrow> None) else Some (Seg m))"

fun jpeg_walk :: "nat \<Rightarrow> u8 list \<Rightarrow> segment list option" where
  "jpeg_walk (Suc n) (f # m # hi # lo # rest) =
     (if f \<noteq> 0xff \<or> be16 hi lo < 2 then None
      else case skip (be16 hi lo - 2) rest of
        None \<Rightarrow> None
      | Some next \<Rightarrow>
          if m = 0xda then Some [Seg m]
          else case seg_of m rest of
            None \<Rightarrow> None
          | Some sg \<Rightarrow> map_option (Cons sg) (jpeg_walk n next))"
| "jpeg_walk _ _ = None"

fun jpeg_header :: "u8 list \<Rightarrow> segment list option" where
  "jpeg_header (a # b # rest) = (if a = 0xff \<and> b = 0xd8 then jpeg_walk 16 rest else None)"
| "jpeg_header _ = None"

text \<open>What follows a header does not change how it is read.\<close>

lemma skip_append: "skip n xs = Some ys \<Longrightarrow> skip n (xs @ t) = Some (ys @ t)"
  by (induction n xs rule: skip.induct) simp_all

lemma seg_of_append: "seg_of m rest = Some sg \<Longrightarrow> seg_of m (rest @ t) = Some sg"
  by (auto simp: seg_of_def split: if_splits list.splits)

lemma jpeg_walk_append: "jpeg_walk n bs = Some l \<Longrightarrow> jpeg_walk n (bs @ t) = Some l"
proof (induction n bs arbitrary: l rule: jpeg_walk.induct)
  case (1 n f m hi lo rest)
  from "1.prems" obtain nxt
    where ok: "\<not> (f \<noteq> 0xff \<or> be16 hi lo < 2)" and s: "skip (be16 hi lo - 2) rest = Some nxt"
    by (auto split: if_splits option.splits)
  note s' = skip_append [OF s, of t]
  show ?case
  proof (cases "m = 0xda")
    case True
    with "1.prems" ok s s' show ?thesis by simp
  next
    case False
    with "1.prems" ok s obtain sg l' where g: "seg_of m rest = Some sg"
      and w: "jpeg_walk n nxt = Some l'" and l: "l = sg # l'"
      by (auto split: option.splits)
    from "1.IH" [OF ok s False g w] ok s' False seg_of_append [OF g, of t] l
    show ?thesis by simp
  qed
qed simp_all

lemma jpeg_header_append: "jpeg_header bs = Some l \<Longrightarrow> jpeg_header (bs @ t) = Some l"
  by (cases bs rule: jpeg_header.cases) (auto split: if_splits dest: jpeg_walk_append [of _ _ _ t])

definition frame_layout :: "segment list" where
  "frame_layout = [Seg 0xe0, Seg 0xdb, Seg 0xdb, Sof 600 350,
     Seg 0xc4, Seg 0xc4, Seg 0xc4, Seg 0xc4, Seg 0xda]"

text \<open>All 25 headers are well formed and announce the same layout: 600 by 350, baseline.\<close>

lemma frame_heads_layout: "list_all (\<lambda>h. jpeg_header h = Some frame_layout) frame_heads"
  by code_simp

lemmas frame_head_defs =
  frame_1_head_def frame_2_head_def frame_3_head_def frame_4_head_def frame_5_head_def
  frame_6_head_def frame_7_head_def frame_8_head_def frame_9_head_def frame_10_head_def
  frame_11_head_def frame_12_head_def frame_13_head_def frame_14_head_def frame_15_head_def
  frame_16_head_def frame_17_head_def frame_18_head_def frame_19_head_def frame_20_head_def
  frame_21_head_def frame_22_head_def frame_23_head_def frame_24_head_def frame_25_head_def

lemma length_frame_heads: "length frame_heads = FRAME_COUNT"
  by (simp add: frame_heads_def FRAME_COUNT_def)

lemma frame_layout_size:
  "Sof DUMMY_VIDEO_WIDTH DUMMY_VIDEO_HEIGHT \<in> set frame_layout"
  by (simp add: frame_layout_def DUMMY_VIDEO_WIDTH_def DUMMY_VIDEO_HEIGHT_def)

end
