(* ===== verification/Frame_Tails.thy ===== *)
theory Frame_Tails
  imports Video
begin

text \<open>
  The ends of the 25 JPEG arrays of \<open>v4l2/frames.h\<close>: the bytes of the last forty lines of each array,
  as the source lists them. Entropy-coded data marks a byte \<open>0xff\<close> by a zero after it, so that the
  end marker \<open>0xff 0xd9\<close> is the only marker in it; a scan checks this for each tail.
\<close>

section \<open>The last bytes\<close>

definition frame_1_tail :: "u8 list" where
  "frame_1_tail =
    [0x96, 0x28, 0x28, 0x57, 0xb2, 0x91, 0xa7, 0x21, 0xc8, 0x72, 0x1c, 0xaa,
     0x98, 0xba, 0x7f, 0x02, 0x9b, 0x75, 0xc7, 0x88, 0x2a, 0x3d, 0xe6, 0xfa,
     0xe8, 0xde, 0x8f, 0x79, 0xbe, 0xba, 0x89, 0xd3, 0x5f, 0x92, 0x3e, 0x8a,
     0x8f, 0xc5, 0xf7, 0x7e, 0xeb, 0xad, 0x6b, 0xe3, 0x68, 0x4b, 0x2f, 0x06,
     0xdc, 0x3a, 0x25, 0xcb, 0x71, 0xc6, 0xc6, 0xb9, 0xdf, 0x09, 0x93, 0x6b,
     0xbc, 0xdf, 0x3b, 0x50, 0x32, 0x0e, 0xaa, 0x29, 0x80, 0xa8, 0x39, 0xf6,
     0x0e, 0x59, 0x78, 0xd4, 0x07, 0x89, 0x1e, 0x54, 0xc4, 0x5b, 0xb7, 0x23,
     0x7b, 0x36, 0xd5, 0x5d, 0xd1, 0xc8, 0x89, 0x51, 0xe5, 0xd3, 0x8a, 0x72,
     0x74, 0xf3, 0x0c, 0xf8, 0x95, 0xba, 0x42, 0x2a, 0x18, 0x3b, 0xb5, 0x1d,
     0x3f, 0x75, 0x73, 0x4b, 0xbc, 0x1f, 0x1f, 0xae, 0x8d, 0x63, 0xde, 0x3f,
     0x5d, 0x40, 0xed, 0x48, 0x3d, 0x17, 0x7f, 0x45, 0xdb, 0xf8, 0x9e, 0xef,
     0xdd, 0x7b, 0xa5, 0x89, 0x9b, 0x50, 0x5f, 0xd8, 0xb8, 0x9a, 0xa9, 0x4e,
     0x5d, 0x0f, 0xf9, 0x02, 0xc6, 0x15, 0x0d, 0x1f, 0x1f, 0xf1, 0x06, 0x7c,
     0x40, 0x00, 0x73, 0x2a, 0x42, 0x06, 0x38, 0x64, 0x40, 0xfb, 0x21, 0xcd,
     0x49, 0x78, 0x57, 0x82, 0xf7, 0x46, 0x2e, 0x27, 0xba, 0xb3, 0xed, 0xa9,
     0x29, 0x76, 0xdd, 0x63, 0x2c, 0xdd, 0x10, 0x45, 0x92, 0x7c, 0x40, 0x33,
     0x32, 0xe7, 0xd2, 0x97, 0x48, 0x87, 0x40, 0x98, 0x7c, 0x2b, 0xc4, 0x0d,
     0x63, 0xde, 0x3f, 0x5d, 0x1a, 0xc7, 0xbc, 0x7e, 0xba, 0x8f, 0x22, 0x93,
     0xe8, 0xe0, 0xfc, 0x4f, 0x77, 0xee, 0xba, 0x47, 0xc3, 0x7f, 0x25, 0xdc,
     0x93, 0x84, 0xca, 0xbd, 0xeb, 0x73, 0x24, 0xc0, 0x9d, 0x63, 0x47, 0xc1,
     0x97, 0x78, 0xaf, 0xb8, 0xce, 0x55, 0x2e, 0x90, 0xfc, 0x04, 0xc7, 0xc0,
     0xd5, 0x66, 0x30, 0xbf, 0x66, 0x3b, 0x1f, 0x01, 0xde, 0x6a, 0xb6, 0xad,
     0xc6, 0x4d, 0x5e, 0x6e, 0x51, 0xd5, 0x20, 0xb6, 0x6e, 0x5f, 0x29, 0xa9,
     0x12, 0x18, 0x73, 0x5d, 0x41, 0x13, 0x86, 0x62, 0x22, 0x22, 0x05, 0x10,
     0x0f, 0x0a, 0xe4, 0x83, 0x58, 0xf7, 0x8f, 0xd7, 0x46, 0xb1, 0xef, 0x1f,
     0xae, 0xbe, 0xe4, 0x19, 0x83, 0x87, 0x25, 0xf3, 0xe8, 0xdf, 0xfe, 0xcf,
     0x77, 0xee, 0xbb, 0x13, 0x51, 0x3e, 0x50, 0xdd, 0x5f, 0xbf, 0x27, 0xfd,
     0x03, 0xd6, 0x9a, 0x8c, 0xcc, 0x9b, 0x7d, 0xd1, 0x39, 0xff, 0x00, 0x1a,
     0x55, 0x4f, 0xf4, 0x48, 0x05, 0x71, 0xf1, 0xac, 0x7b, 0xc6, 0x8d, 0x63,
     0xde, 0x34, 0x64, 0xfc, 0xee, 0x8f, 0xa3, 0x63, 0xf1, 0x3d, 0xdf, 0xba,
     0xeb, 0x8e, 0x61, 0x3d, 0xdc, 0xe2, 0xbf, 0x79, 0x4f, 0xfd, 0xaa, 0xd7,
     0xe6, 0x57, 0x24, 0x9a, 0xc7, 0xbc, 0x7e, 0xba, 0x35, 0x8f, 0x78, 0xfd,
     0x75, 0xde, 0x9d, 0x17, 0x1f, 0x46, 0x3f, 0xf6, 0x7b, 0xbf, 0x75, 0xd7,
     0x3b, 0x74, 0xcd, 0xf0, 0x5c, 0x84, 0xff, 0x00, 0x25, 0x1f, 0xe8, 0xd3,
     0x6d, 0xe1, 0x0c, 0x79, 0x84, 0xbf, 0x83, 0xfc, 0x87, 0xae, 0x4f, 0x45,
     0x43, 0x07, 0xac, 0x3f, 0x5d, 0x7e, 0xb3, 0x1e, 0xf1, 0xfa, 0xea, 0x46,
     0xbc, 0x0e, 0x4a, 0x38, 0xfb, 0x2b, 0x96, 0xff, 0x00, 0x6b, 0xc7, 0xc3,
     0xf7, 0x5d, 0x5c, 0x37, 0x4f, 0xf5, 0xbf, 0xf0, 0x9f, 0x96, 0x8a, 0xe5,
     0x13, 0x78, 0x6f, 0x68, 0x7e, 0xba, 0x2a, 0x4c, 0xfe, 0x0a, 0x5f, 0xa3,
     0x03, 0xf1, 0x3d, 0xdf, 0xba, 0xff, 0xd9]"

definition frame_2_tail :: "u8 list" where
  "frame_2_tail =
    [0xf7, 0xda, 0xfb, 0xbf, 0x55, 0xd9, 0x96, 0x28, 0x28, 0x57, 0xb2, 0x91,
     0xa7, 0x21, 0xc8, 0x72, 0x1c, 0xaa, 0x98, 0xba, 0x7f, 0x02, 0x9b, 0x75,
     0xc7, 0x88, 0x2a, 0x3d, 0xe6, 0xfa, 0xe8, 0xde, 0x8f, 0x79, 0xbe, 0xba,
     0xa9, 0xd3, 0x5f, 0x92, 0x9f, 0x45, 0x47, 0xde, 0xfb, 0xbf, 0x55, 0xd6,
     0xb5, 0xf1, 0xb4, 0x25, 0x97, 0x83, 0x6e, 0x1d, 0x12, 0xe5, 0xb8, 0xe3,
     0x63, 0x5c, 0xef, 0x84, 0xc9, 0xb5, 0xde, 0x6f, 0x9d, 0xa8, 0x19, 0x07,
     0x55, 0x14, 0xc0, 0x54, 0x1c, 0xfb, 0x07, 0x2c, 0xbc, 0x6a, 0x03, 0xc4,
     0x8f, 0x2a, 0x62, 0x2d, 0xdb, 0x91, 0xbd, 0x9b, 0x6a, 0xae, 0xe8, 0xe4,
     0x44, 0xa8, 0xf2, 0xe9, 0xc5, 0x39, 0x3a, 0x79, 0x86, 0x7c, 0x4a, 0xdd,
     0x21, 0x15, 0x0c, 0x1d, 0xda, 0x8e, 0x9f, 0xba, 0xb9, 0xa5, 0xde, 0x0f,
     0x8f, 0xd7, 0x46, 0xb1, 0xef, 0x1f, 0xae, 0xa8, 0x76, 0xa4, 0x1e, 0x8b,
     0xbf, 0xa2, 0xed, 0xfb, 0xcf, 0x77, 0xea, 0xbd, 0xd2, 0xc4, 0xcd, 0xa8,
     0x2f, 0xec, 0x5c, 0x4d, 0x54, 0xa7, 0x2e, 0x87, 0xfc, 0x81, 0x63, 0x0a,
     0x86, 0x8f, 0x8f, 0xf8, 0x83, 0x3e, 0x20, 0x00, 0x39, 0x95, 0x21, 0x03,
     0x1c, 0x32, 0x20, 0x7d, 0x90, 0xe6, 0xa4, 0xbc, 0x2b, 0xc1, 0x7b, 0xa3,
     0x17, 0x13, 0xdd, 0x59, 0xf6, 0xd4, 0x94, 0xbb, 0x6e, 0xb1, 0x96, 0x6e,
     0x88, 0x22, 0xc9, 0x3e, 0x20, 0x19, 0x99, 0x73, 0xe9, 0x4b, 0xa4, 0x43,
     0xa0, 0x4c, 0x3e, 0x15, 0xe2, 0x06, 0xb1, 0xef, 0x1f, 0xae, 0x8d, 0x63,
     0xde, 0x3f, 0x5d, 0x57, 0x91, 0x59, 0xf4, 0x70, 0x7d, 0xe7, 0xbb, 0xf5,
     0x5d, 0x23, 0xe1, 0xbf, 0x92, 0xee, 0x49, 0xc2, 0x65, 0x5e, 0xf5, 0xb9,
     0x92, 0x60, 0x4e, 0xb1, 0xa3, 0xe0, 0xcb, 0xbc, 0x57, 0xdc, 0x67, 0x2a,
     0x97, 0x48, 0x7e, 0x02, 0x63, 0xe0, 0x6a, 0xb3, 0x18, 0x5f, 0xb3, 0x1d,
     0x8f, 0x80, 0xef, 0x35, 0xdb, 0x56, 0xe3, 0x36, 0xaf, 0x37, 0x28, 0x6a,
     0x90, 0x5b, 0x37, 0x2f, 0x54, 0xd4, 0x89, 0x04, 0x73, 0x5d, 0x41, 0x13,
     0x86, 0x62, 0x22, 0x22, 0x05, 0x12, 0x87, 0x85, 0x72, 0x41, 0xac, 0x7b,
     0xc7, 0xeb, 0xa3, 0x58, 0xf7, 0x8f, 0xd7, 0x5e, 0xe4, 0x19, 0x83, 0x87,
     0x25, 0xe7, 0xd1, 0xbf, 0xfd, 0x9e, 0xef, 0xd5, 0x76, 0x26, 0xa2, 0x7c,
     0xa1, 0x35, 0x7e, 0xfc, 0x9f, 0xf5, 0x67, 0xad, 0x35, 0x19, 0x99, 0x36,
     0xfb, 0xa2, 0x73, 0xfe, 0x34, 0xaa, 0x9f, 0xea, 0x90, 0x0a, 0xe3, 0xe3,
     0x58, 0xf7, 0x8d, 0x1a, 0xc7, 0xbc, 0x6a, 0x64, 0xfc, 0x6e, 0xa7, 0xd1,
     0xb1, 0xf7, 0x9e, 0xef, 0xd5, 0x75, 0xc7, 0x30, 0x9e, 0xee, 0x71, 0x5f,
     0xbc, 0xa7, 0xfe, 0xd5, 0x6b, 0xf3, 0x2b, 0x92, 0x4d, 0x63, 0xde, 0x3f,
     0x5d, 0x1a, 0xc7, 0xbc, 0x7e, 0xba, 0xef, 0x4e, 0x8b, 0x8f, 0xa3, 0x1f,
     0xfb, 0x3d, 0xdf, 0xaa, 0xeb, 0x9d, 0xba, 0x7f, 0xe4, 0xb9, 0x49, 0xff,
     0x00, 0x55, 0x1f, 0xe8, 0xd3, 0x6d, 0xe1, 0x0c, 0x79, 0x84, 0xbf, 0x83,
     0xfc, 0x87, 0xae, 0x4f, 0x45, 0x43, 0x07, 0xac, 0x3f, 0x5d, 0x7e, 0xb3,
     0x1e, 0xf1, 0xfa, 0xea, 0xc6, 0xbc, 0x0e, 0x4a, 0xb8, 0xfb, 0x2b, 0x96,
     0xfe, 0x37, 0x8f, 0x9b, 0xf5, 0x5d, 0x5c, 0x37, 0x4f, 0xf5, 0xbf, 0xf0,
     0x9f, 0x96, 0x8a, 0xe5, 0x13, 0x78, 0x6f, 0x68, 0x7e, 0xba, 0x2a, 0xcc,
     0xfe, 0x65, 0x6f, 0xd1, 0x81, 0xf7, 0x9e, 0xef, 0xd5, 0x7f, 0xff, 0xd9]"

definition frame_3_tail :: "u8 list" where
  "frame_3_tail =
    [0x3d, 0x3f, 0xdc, 0xe0, 0x6f, 0xf2, 0xc4, 0x11, 0xf9, 0x2b, 0x4f, 0xf9,
     0x8f, 0x94, 0x6b, 0xdd, 0x43, 0xe5, 0x1a, 0xa1, 0x5b, 0xb3, 0x02, 0xa1,
     0xec, 0x7f, 0x3b, 0x6c, 0xbd, 0x9d, 0xdd, 0xbd, 0x8b, 0xea, 0xde, 0xbb,
     0xcf, 0xdb, 0x2a, 0xfc, 0x23, 0xff, 0x00, 0x48, 0xd4, 0xc8, 0xe4, 0x97,
     0x53, 0x7b, 0xb3, 0x1d, 0xc1, 0xfe, 0x1f, 0x4f, 0x7f, 0xae, 0x4a, 0xb9,
     0x60, 0xd4, 0x3d, 0xf4, 0x02, 0x86, 0x0e, 0xd1, 0xac, 0x3e, 0x3f, 0xb0,
     0x2d, 0xc4, 0xe9, 0xbc, 0x9c, 0xcd, 0x97, 0x50, 0x6f, 0x96, 0xfb, 0xbf,
     0xa8, 0x2f, 0x6d, 0x7d, 0x97, 0x67, 0x74, 0x57, 0x18, 0x9b, 0xc3, 0x79,
     0xc6, 0xf4, 0xd1, 0xbc, 0x37, 0x9c, 0x6f, 0x4d, 0x69, 0x9e, 0x64, 0xd9,
     0xfb, 0xdf, 0xd0, 0xfc, 0x6a, 0x4e, 0x7b, 0xb1, 0x76, 0x77, 0x45, 0x71,
     0x89, 0xbc, 0x37, 0x9c, 0x6f, 0x4d, 0x1b, 0xc3, 0x79, 0xc6, 0xf4, 0xd3,
     0xcc, 0x9b, 0x3f, 0x7b, 0xfa, 0x1f, 0x8d, 0x39, 0xee, 0xc5, 0xd9, 0xdd,
     0x15, 0xc6, 0x26, 0xf0, 0xde, 0x71, 0xbd, 0x34, 0x6f, 0x0d, 0xe7, 0x1b,
     0xd3, 0x5e, 0x7c, 0xc8, 0xb3, 0xf7, 0xcf, 0xfa, 0xff, 0x00, 0x1a, 0x73,
     0xfd, 0x8b, 0xb3, 0xf4, 0xbb, 0x2b, 0xdd, 0x64, 0xef, 0xae, 0x2f, 0xf7,
     0x86, 0xf3, 0x8d, 0xe9, 0xa3, 0x78, 0x6f, 0x38, 0xde, 0x9a, 0xf5, 0xe6,
     0x51, 0xbf, 0xbe, 0x7f, 0xd7, 0xf8, 0xd3, 0x9f, 0xec, 0x5d, 0xa3, 0xa6,
     0xe0, 0xb4, 0x9e, 0xbf, 0x5c, 0xae, 0x2f, 0x77, 0xa3, 0xe5, 0x37, 0xa6,
     0x8d, 0xe8, 0xf9, 0x4d, 0xe9, 0xaf, 0x7e, 0x65, 0xdb, 0xfb, 0xe7, 0xfd,
     0x7f, 0x8d, 0x78, 0xe7, 0x3b, 0x17, 0x67, 0xdd, 0x0a, 0xf7, 0x41, 0x3b,
     0xeb, 0x8b, 0xfd, 0xe1, 0xbc, 0xe3, 0x7a, 0x68, 0xde, 0x1b, 0xce, 0x37,
     0xa6, 0xbc, 0xf9, 0x94, 0x67, 0xef, 0x9f, 0xf5, 0xfe, 0x35, 0xef, 0x9e,
     0xec, 0x5d, 0x9f, 0xee, 0x3b, 0xe9, 0x4f, 0x63, 0xae, 0x2f, 0x37, 0x86,
     0xf3, 0x8d, 0xe9, 0xa3, 0x78, 0x6f, 0x38, 0xde, 0x9a, 0x79, 0x94, 0x67,
     0xef, 0x87, 0xfb, 0x3f, 0x1a, 0x73, 0xfd, 0x8b, 0xb4, 0x7d, 0xd9, 0x94,
     0xa1, 0x36, 0xe6, 0xae, 0x2e, 0x37, 0x86, 0xf3, 0x8d, 0xe9, 0xa3, 0x78,
     0x6f, 0x38, 0xde, 0x9a, 0xf7, 0xe6, 0x5d, 0x9f, 0xbd, 0xfd, 0x0f, 0xc6,
     0xa3, 0xe7, 0x0a, 0xed, 0x1f, 0x75, 0xdd, 0x45, 0x71, 0x75, 0x99, 0xbc,
     0xe3, 0x7a, 0x68, 0xcc, 0xde, 0x71, 0xbd, 0x35, 0x27, 0x99, 0xa6, 0x7e,
     0xf7, 0xf4, 0x3f, 0x12, 0xf3, 0x72, 0xbb, 0x45, 0xa2, 0xb8, 0xba, 0xe9,
     0x07, 0xb6, 0x1a, 0x33, 0x37, 0x9c, 0x6f, 0x4d, 0x1d, 0xc8, 0xcc, 0x67,
     0xfe, 0x5f, 0xd0, 0xfc, 0x49, 0x72, 0xbb, 0x45, 0xa2, 0xb8, 0xba, 0xc8,
     0x7c, 0xe1, 0xa3, 0x21, 0xf3, 0x86, 0x8d, 0xe4, 0x62, 0x21, 0xff, 0x00,
     0x2c, 0xff, 0x00, 0x67, 0xe2, 0x4b, 0x95, 0xda, 0x2d, 0x15, 0xc5, 0xce,
     0xf4, 0x7c, 0xa6, 0xf4, 0xd1, 0xbd, 0x1f, 0x29, 0xbd, 0x35, 0x27, 0x99,
     0xc8, 0xbf, 0x7a, 0xfa, 0x1f, 0x89, 0x7a, 0xce, 0x57, 0x68, 0xd4, 0x57,
     0x17, 0x3b, 0xd1, 0xf2, 0x9b, 0xd3, 0x46, 0xf4, 0x7c, 0xa6, 0xf4, 0xd7,
     0x87, 0xf2, 0x2f, 0x1b, 0xbf, 0xe5, 0x9f, 0xec, 0xfc, 0x49, 0x9c, 0xae,
     0xd1, 0xa8, 0xae, 0x2e, 0x77, 0xa3, 0xe5, 0x37, 0xa6, 0x8a, 0xf2, 0x39,
     0x16, 0x8f, 0xf7, 0xb3, 0xfd, 0x9f, 0x89, 0x33, 0x95, 0xff, 0xd9]"

definition frame_4_tail :: "u8 list" where
  "frame_4_tail =
    [0x2f, 0x93, 0xb1, 0xfe, 0x63, 0xee, 0xfe, 0xa4, 0xcf, 0x18, 0x3d, 0x0b,
     0xbd, 0x40, 0x28, 0xe7, 0xd4, 0x35, 0xf5, 0xa0, 0x3c, 0xc3, 0xe8, 0xae,
     0x0a, 0x75, 0x8f, 0x9c, 0x7d, 0x34, 0x6b, 0x1f, 0x38, 0xd0, 0xdf, 0x07,
     0x40, 0x7f, 0xee, 0x3e, 0xef, 0xea, 0x59, 0xf1, 0x8e, 0xa5, 0xde, 0xb6,
     0x80, 0xf3, 0x0f, 0xa2, 0x8d, 0x01, 0xe6, 0x1f, 0x45, 0x70, 0x53, 0xac,
     0x7c, 0xe3, 0xe9, 0xa3, 0x58, 0xf9, 0xc7, 0xd3, 0x5e, 0xfc, 0x9d, 0x8f,
     0x5f, 0xf7, 0x7f, 0x52, 0x3c, 0x63, 0xa9, 0x77, 0xad, 0xa0, 0x3c, 0xc3,
     0xe8, 0xa3, 0x40, 0x79, 0x87, 0xd1, 0x5c, 0x14, 0xeb, 0x1f, 0x3d, 0x1a,
     0xc7, 0xcf, 0x58, 0xf2, 0x78, 0x3f, 0xcc, 0x7d, 0xdf, 0xd4, 0x8f, 0x18,
     0xea, 0x5d, 0xeb, 0x68, 0x0f, 0x30, 0xfa, 0x28, 0xd0, 0x1e, 0x61, 0xf4,
     0x57, 0x05, 0x3a, 0xc7, 0xce, 0x3e, 0x9a, 0x35, 0x8f, 0x9c, 0x7d, 0x35,
     0x9f, 0x27, 0x7f, 0xfc, 0xff, 0x00, 0x77, 0xf5, 0x23, 0xc6, 0x3a, 0x97,
     0x7a, 0xda, 0x03, 0xcc, 0x3e, 0x8a, 0x34, 0x07, 0x98, 0x7d, 0x15, 0xc1,
     0x4e, 0xb1, 0xf3, 0x8f, 0xa6, 0x8d, 0x63, 0xe7, 0x1f, 0x4d, 0x1e, 0x4f,
     0x5b, 0xeb, 0xfe, 0xef, 0xea, 0x47, 0x8c, 0x75, 0x2e, 0xf5, 0x34, 0x8f,
     0x98, 0x6b, 0xeb, 0x4f, 0x70, 0xfc, 0xf5, 0xc1, 0x66, 0x5d, 0xe3, 0xe9,
     0xa3, 0x2f, 0x87, 0xd3, 0x59, 0x1e, 0x0f, 0x87, 0xaf, 0xfb, 0xbf, 0xa9,
     0x60, 0x54, 0x75, 0x2e, 0xf5, 0x74, 0x8f, 0x98, 0x68, 0xd2, 0x3e, 0x61,
     0xae, 0x09, 0xf5, 0x8f, 0x9c, 0x7d, 0x34, 0x6b, 0x1f, 0x38, 0xfa, 0x68,
     0xf2, 0x7a, 0xdf, 0x5f, 0xf7, 0x7f, 0x52, 0xf5, 0xe3, 0x47, 0xa1, 0x77,
     0xb1, 0xa4, 0x43, 0xb0, 0x6b, 0xe7, 0x40, 0x79, 0x87, 0xd1, 0x5c, 0x14,
     0xeb, 0x1f, 0x38, 0xfa, 0x68, 0xd6, 0x3e, 0x71, 0xf4, 0xd6, 0x3c, 0x9e,
     0x37, 0xfc, 0xc7, 0xdd, 0xfc, 0xd0, 0x6a, 0x6f, 0xc1, 0x77, 0xaf, 0xa7,
     0x4f, 0x60, 0xd0, 0x9a, 0x5a, 0xba, 0xc0, 0x6b, 0x82, 0x8d, 0x63, 0xe7,
     0x1a, 0x35, 0x88, 0x87, 0x58, 0xfa, 0x6b, 0x23, 0xc1, 0xeb, 0x41, 0xd6,
     0x7f, 0xbb, 0xfa, 0x96, 0x0d, 0x4f, 0x52, 0xef, 0x55, 0xcc, 0x5a, 0x12,
     0x08, 0x6e, 0xd6, 0x49, 0x35, 0x92, 0x38, 0x74, 0x8a, 0x72, 0xe6, 0x15,
     0x82, 0x5d, 0xf8, 0x22, 0x83, 0x91, 0x3a, 0x91, 0x63, 0xb8, 0x3f, 0xde,
     0x8f, 0xe4, 0x7c, 0x83, 0xd9, 0x5c, 0x32, 0xea, 0xf8, 0x7d, 0x35, 0x50,
     0x38, 0x8f, 0x0e, 0x3e, 0x9a, 0xf3, 0x5b, 0xe0, 0xde, 0x9a, 0xa6, 0x3c,
     0x8e, 0x92, 0xdd, 0x79, 0x7f, 0x34, 0xb7, 0x4b, 0x7d, 0xe1, 0x76, 0xa3,
     0x35, 0x6e, 0xbd, 0xb7, 0x5d, 0xee, 0xde, 0x20, 0xaa, 0x07, 0xf6, 0x3a,
     0xba, 0x8d, 0xf0, 0x08, 0x70, 0x1a, 0xf2, 0x57, 0x17, 0x3b, 0xc3, 0x79,
     0xc7, 0xd3, 0x55, 0x03, 0x98, 0xdc, 0x33, 0x37, 0xa6, 0xb5, 0xc3, 0xe0,
     0x69, 0x9a, 0xfe, 0xf6, 0x6d, 0xf5, 0x3f, 0x52, 0xf3, 0x9c, 0xae, 0xd1,
     0x68, 0xae, 0x2e, 0x77, 0xa6, 0xf3, 0x8f, 0xa6, 0xa9, 0xbc, 0x37, 0xb6,
     0x37, 0xa6, 0x8f, 0x23, 0x6c, 0xe1, 0x56, 0x7f, 0xd9, 0xfa, 0x91, 0x9c,
     0xae, 0xd1, 0xe8, 0xae, 0x2e, 0x45, 0x51, 0xf3, 0x88, 0x7c, 0xb4, 0x53,
     0xfc, 0x8f, 0xb0, 0x7f, 0xee, 0x8f, 0xfb, 0x3f, 0x52, 0x33, 0x95, 0xff,
     0xd9]"

definition frame_5_tail :: "u8 list" where
  "frame_5_tail =
    [0x21, 0x3c, 0x66, 0x3e, 0x56, 0xd7, 0xea, 0xfd, 0x57, 0xb6, 0x3f, 0x2a,
     0xef, 0x5b, 0x40, 0x79, 0x07, 0xd1, 0x40, 0x93, 0x87, 0x00, 0x1f, 0x45,
     0x70, 0x53, 0xac, 0x7c, 0xb4, 0x6b, 0x1f, 0x2d, 0x69, 0xcf, 0x83, 0xb6,
     0x9f, 0xfd, 0xff, 0x00, 0x87, 0xf7, 0x27, 0x78, 0xc7, 0x52, 0xef, 0x50,
     0x08, 0x39, 0xf5, 0x0f, 0xa2, 0xae, 0x02, 0x77, 0x0f, 0xa2, 0xb8, 0x29,
     0xd6, 0x3e, 0x51, 0xf4, 0xd1, 0xac, 0x7c, 0xa3, 0xe9, 0xaf, 0x2d, 0xf0,
     0x74, 0xd1, 0xff, 0x00, 0xe8, 0xfc, 0x3f, 0xb9, 0x1e, 0x30, 0x7a, 0x17,
     0x7a, 0xda, 0x03, 0xc8, 0x3e, 0x8a, 0x34, 0x07, 0x90, 0x7d, 0x15, 0xc1,
     0x4e, 0xb1, 0xf2, 0x8f, 0xa6, 0x8d, 0x63, 0xe5, 0x1f, 0x4d, 0x7b, 0xf2,
     0x7a, 0x3d, 0x7f, 0xe1, 0xfd, 0xc8, 0xf1, 0x8e, 0xa5, 0xde, 0xb6, 0x80,
     0xf2, 0x0f, 0xa2, 0x8d, 0x01, 0xe4, 0x1f, 0x45, 0x70, 0x53, 0xac, 0x7c,
     0xa3, 0xe9, 0xa3, 0x58, 0xf9, 0x47, 0xd3, 0x47, 0x93, 0xd1, 0xeb, 0xff,
     0x00, 0x0f, 0xee, 0x47, 0x8c, 0x75, 0x2e, 0xf5, 0xb4, 0x07, 0x90, 0x7d,
     0x14, 0x10, 0xbd, 0xc3, 0x9d, 0x70, 0x53, 0xac, 0x7c, 0xa3, 0xe9, 0xa3,
     0x58, 0xf9, 0x47, 0xd3, 0x47, 0x93, 0xb1, 0xeb, 0xff, 0x00, 0x0f, 0xee,
     0x47, 0x8c, 0x75, 0x2e, 0xf5, 0xb4, 0x07, 0x90, 0x7d, 0x14, 0x68, 0x0f,
     0x20, 0xfa, 0x2b, 0x82, 0x9d, 0x63, 0xe5, 0x1f, 0x4d, 0x1a, 0xc7, 0xca,
     0x3e, 0x9a, 0x3c, 0x9e, 0xb7, 0xd7, 0xfe, 0x1f, 0xdc, 0x8f, 0x18, 0xea,
     0x5d, 0xeb, 0x68, 0xcf, 0xb0, 0x6a, 0xe1, 0x20, 0xf9, 0x06, 0xb8, 0x27,
     0xd6, 0x3e, 0x51, 0xf4, 0xd1, 0xac, 0x7c, 0xa3, 0xe9, 0xac, 0xf9, 0x3d,
     0x6f, 0xaf, 0xfc, 0x3f, 0xb9, 0x02, 0xa4, 0xf4, 0x2e, 0xf6, 0x34, 0x8f,
     0x90, 0x68, 0xd2, 0x3e, 0x41, 0xae, 0x09, 0xf5, 0x8f, 0x94, 0x7d, 0x34,
     0x6b, 0x1f, 0x28, 0xfa, 0x68, 0xf2, 0x7c, 0xdf, 0x5f, 0xf8, 0x7f, 0x72,
     0xcf, 0x8d, 0x1e, 0x85, 0xde, 0xb1, 0x0b, 0xdc, 0x39, 0xd1, 0xa0, 0x3c,
     0x83, 0xe8, 0xae, 0x0a, 0x75, 0x8f, 0x94, 0x7d, 0x34, 0x6b, 0x1f, 0x28,
     0xfa, 0x6b, 0x1e, 0x4e, 0xc7, 0xaf, 0xfc, 0x3f, 0xb9, 0x63, 0xc6, 0x3a,
     0x97, 0x7a, 0xda, 0x43, 0xc8, 0x3e, 0x8a, 0x00, 0x99, 0x0f, 0x50, 0xfa,
     0x2b, 0x82, 0x91, 0x38, 0x88, 0x75, 0x8f, 0xa6, 0x8d, 0x43, 0xe5, 0x1a,
     0xcb, 0x7c, 0x1e, 0x36, 0xe3, 0xed, 0xff, 0x00, 0x0f, 0xee, 0x47, 0x8c,
     0x75, 0x2e, 0xf6, 0x8e, 0x4c, 0x83, 0xa8, 0x7d, 0x15, 0x69, 0x4a, 0x20,
     0x3c, 0x40, 0x6b, 0x82, 0x80, 0x3e, 0x5e, 0x5f, 0x4d, 0x53, 0x58, 0xe5,
     0xdb, 0xe9, 0xa9, 0x07, 0x61, 0x01, 0x76, 0x61, 0x37, 0xe1, 0xfd, 0xcb,
     0xc7, 0x2d, 0xd4, 0xbb, 0xd9, 0x20, 0x0f, 0x7f, 0xa2, 0x83, 0x80, 0xf9,
     0x07, 0xd1, 0x5c, 0x12, 0xe6, 0x3e, 0x51, 0xa3, 0x31, 0xf2, 0x8d, 0x7b,
     0xff, 0x00, 0xb1, 0x45, 0xad, 0xcb, 0x7e, 0x1f, 0xd5, 0x63, 0x95, 0x2b,
     0xbd, 0xc0, 0xe3, 0xe5, 0xab, 0x8b, 0xc3, 0xb0, 0x6b, 0x82, 0x3d, 0x79,
     0xf9, 0x7d, 0x35, 0x40, 0x36, 0x5e, 0x5f, 0x4d, 0x7b, 0x66, 0xc5, 0x86,
     0xff, 0x00, 0xee, 0xfc, 0x3f, 0xaa, 0x39, 0x5e, 0xa5, 0xde, 0xe7, 0x1e,
     0xfa, 0x2b, 0x82, 0x2c, 0xc7, 0xca, 0x34, 0x53, 0x3f, 0xec, 0xb1, 0xeb,
     0xbd, 0xdf, 0xaa, 0x39, 0x5e, 0xa5, 0xff, 0xd9]"

definition frame_6_tail :: "u8 list" where
  "frame_6_tail =
    [0xa3, 0xc9, 0xe3, 0x7d, 0x7f, 0xd9, 0xfd, 0x49, 0xbe, 0x31, 0xd4, 0xbb,
     0xd5, 0x02, 0xf1, 0xf1, 0x47, 0x2a, 0xae, 0x80, 0xf2, 0x0f, 0xaa, 0xb8,
     0x29, 0xd6, 0x3e, 0x51, 0xf5, 0xd5, 0x4a, 0x22, 0x6e, 0xd1, 0xaf, 0x03,
     0xc1, 0xd0, 0x1f, 0xee, 0x3e, 0xcf, 0xea, 0x47, 0x8c, 0x75, 0x2e, 0xf5,
     0x04, 0xbc, 0x43, 0x80, 0xfa, 0xaa, 0xa2, 0x5c, 0xfb, 0x07, 0xd5, 0x5c,
     0x14, 0xeb, 0x1f, 0x28, 0xd1, 0xac, 0x7c, 0xa3, 0x5e, 0x87, 0x83, 0xc1,
     0xfc, 0xc7, 0xd9, 0xfd, 0x48, 0xf1, 0x8e, 0xa5, 0xdb, 0x86, 0xcc, 0x27,
     0x06, 0x58, 0xd9, 0x8f, 0xf1, 0xa6, 0xe9, 0x28, 0x9d, 0xf0, 0xda, 0x44,
     0x07, 0xb7, 0x76, 0xe2, 0x02, 0x2b, 0x4f, 0xa8, 0x53, 0x38, 0x7e, 0x0d,
     0x3c, 0xda, 0x38, 0xf5, 0x0d, 0x70, 0x52, 0x07, 0x1e, 0x3c, 0x46, 0x8d,
     0x63, 0xe5, 0x1f, 0x5d, 0x36, 0x5d, 0x80, 0x12, 0x3a, 0xfc, 0xbf, 0xd9,
     0xfc, 0xd6, 0x3c, 0x63, 0xa9, 0x77, 0xab, 0x97, 0xc9, 0x1a, 0x32, 0xf9,
     0x23, 0x5c, 0x15, 0x6b, 0x1f, 0x28, 0xfa, 0xe8, 0xd6, 0x3e, 0x51, 0xf5,
     0xd2, 0x3c, 0x9d, 0x0f, 0xe6, 0x3e, 0xcf, 0xea, 0x59, 0xf1, 0x8e, 0xa5,
     0xde, 0xb6, 0x80, 0xf2, 0x0f, 0xaa, 0x8d, 0x01, 0xe4, 0x1f, 0x55, 0x70,
     0x53, 0xac, 0x7c, 0xb4, 0x6b, 0x1f, 0x2d, 0x7a, 0xf2, 0x78, 0x3f, 0x98,
     0xfb, 0x3f, 0xa9, 0x1e, 0x31, 0xd4, 0xbb, 0xd6, 0xd0, 0x1e, 0x41, 0xf5,
     0x51, 0xa0, 0x3c, 0x83, 0xea, 0xae, 0x0a, 0x75, 0x8f, 0x94, 0x7d, 0x74,
     0x6b, 0x1f, 0x28, 0xfa, 0xeb, 0x3e, 0x4f, 0x5b, 0xeb, 0xfe, 0xcf, 0xea,
     0x47, 0x8c, 0x75, 0x2e, 0xf6, 0x34, 0x8f, 0x90, 0x68, 0xd2, 0x3e, 0x41,
     0xae, 0x09, 0xf5, 0x8f, 0x94, 0x7d, 0x74, 0x6b, 0x1f, 0x28, 0xfa, 0xeb,
     0x3e, 0x4f, 0x5b, 0xeb, 0xfe, 0xcf, 0xea, 0x59, 0xf1, 0x9e, 0xa5, 0xde,
     0xc6, 0x91, 0xf2, 0x0d, 0x5b, 0xa0, 0x3c, 0x83, 0xea, 0xae, 0x0a, 0x75,
     0x8f, 0x94, 0x7d, 0x74, 0x6b, 0x1f, 0x28, 0xfa, 0xe8, 0x3e, 0x0f, 0x5b,
     0xeb, 0xfe, 0xcf, 0xea, 0x58, 0x35, 0x27, 0xa1, 0x77, 0xaf, 0xba, 0xf9,
     0x23, 0x55, 0x2a, 0x79, 0x0f, 0x50, 0xd7, 0x04, 0xfa, 0xc7, 0xca, 0x3e,
     0xba, 0x35, 0x8f, 0x94, 0x68, 0x6f, 0x83, 0xc6, 0xdc, 0x7e, 0xff, 0x00,
     0xec, 0xfe, 0xa5, 0x9f, 0x1a, 0x3d, 0x0b, 0xbd, 0x92, 0x14, 0x75, 0x93,
     0x80, 0xf5, 0xff, 0x00, 0x4d, 0x32, 0xfb, 0x00, 0x06, 0x7b, 0x33, 0xa1,
     0xd7, 0xc2, 0xe6, 0xb9, 0x8b, 0xea, 0xb8, 0x24, 0x6b, 0x88, 0xed, 0x43,
     0xe5, 0x1a, 0xa8, 0x28, 0x20, 0x1d, 0xbe, 0xba, 0x96, 0x36, 0x1c, 0x06,
     0x96, 0x89, 0xb7, 0xff, 0x00, 0xf3, 0xf9, 0xa5, 0xf2, 0xdd, 0x4b, 0xbd,
     0x82, 0x00, 0xf1, 0xe0, 0x3e, 0xaa, 0xa1, 0x83, 0x88, 0xf0, 0x1a, 0xe0,
     0x9c, 0x4e, 0x39, 0xd5, 0x4d, 0x99, 0x40, 0x38, 0x8d, 0x78, 0xff, 0x00,
     0xa1, 0x5b, 0x6b, 0x72, 0xdf, 0x67, 0xf3, 0x47, 0x2c, 0x57, 0x7b, 0x05,
     0x0c, 0xbb, 0x06, 0xaf, 0x0f, 0x9a, 0xb8, 0x24, 0xde, 0x8f, 0x7f, 0xae,
     0x8d, 0x7f, 0x3f, 0xae, 0xbd, 0xb3, 0x62, 0x72, 0xff, 0x00, 0xee, 0xfb,
     0x3f, 0xa9, 0x1c, 0xb7, 0x52, 0xef, 0x6f, 0x21, 0xf2, 0x0d, 0x15, 0xc1,
     0x16, 0x63, 0xe5, 0x1a, 0x29, 0xff, 0x00, 0xf4, 0x58, 0xf5, 0xde, 0xef,
     0xcd, 0x63, 0x95, 0x3d, 0x0b, 0xff, 0xd9]"

definition frame_7_tail :: "u8 list" where
  "frame_7_tail =
    [0x72, 0xdf, 0xa4, 0x7d, 0xdf, 0xe4, 0x99, 0xe3, 0x07, 0xa9, 0x77, 0xab,
     0xbb, 0x1e, 0xff, 0x00, 0x65, 0x1b, 0xb1, 0xef, 0xf6, 0x57, 0x05, 0x5a,
     0xc7, 0xca, 0x3e, 0xda, 0x35, 0x8f, 0x94, 0x7d, 0xb5, 0x91, 0xe0, 0xe1,
     0xbf, 0x3f, 0xf7, 0x7f, 0x92, 0xcf, 0x8c, 0x9e, 0xa5, 0xde, 0xb0, 0x13,
     0x87, 0x10, 0x1f, 0x65, 0x1a, 0x03, 0xc8, 0x3e, 0xca, 0xe0, 0xa7, 0x58,
     0xf9, 0x68, 0xd6, 0x3e, 0x5a, 0xd9, 0xbe, 0x0f, 0x1a, 0x3f, 0xfd, 0x1f,
     0x77, 0xf9, 0x23, 0xc6, 0x3b, 0x17, 0x6c, 0x65, 0x3f, 0x31, 0xe5, 0x24,
     0x31, 0x0f, 0xc3, 0xc2, 0xb8, 0x66, 0x53, 0x21, 0xf2, 0xb9, 0xb4, 0xb8,
     0xef, 0x72, 0xf4, 0x73, 0xa4, 0xb3, 0xf4, 0x85, 0x3e, 0x3a, 0x07, 0xc8,
     0x3e, 0xca, 0xe0, 0xaf, 0x58, 0xf9, 0x68, 0xd6, 0x3e, 0x51, 0xf6, 0xd6,
     0xd2, 0x78, 0x3c, 0x0f, 0xb7, 0xc3, 0xf0, 0x1f, 0x27, 0xf9, 0x2c, 0x78,
     0xc7, 0x62, 0xed, 0xbe, 0x61, 0x53, 0xff, 0x00, 0xba, 0x0f, 0x6c, 0x25,
     0xbd, 0x57, 0x47, 0xd2, 0xea, 0x60, 0xdb, 0xbd, 0x63, 0xa3, 0x3f, 0x0a,
     0xc5, 0x86, 0x7a, 0x7a, 0xb3, 0xcb, 0x86, 0x79, 0x67, 0x4f, 0x3e, 0x8e,
     0xe1, 0xae, 0x0a, 0x75, 0x08, 0xf6, 0x8d, 0x1a, 0xc7, 0xca, 0x3e, 0xda,
     0xdd, 0xde, 0x0f, 0xda, 0x40, 0x1b, 0xfe, 0x1f, 0xfc, 0xff, 0x00, 0x24,
     0x78, 0xc7, 0x62, 0xef, 0x50, 0xa5, 0x1c, 0xfa, 0x86, 0xae, 0xd3, 0xdc,
     0x3f, 0xa6, 0xb8, 0x2c, 0xf5, 0x8f, 0xb6, 0x8c, 0xbd, 0x3e, 0xda, 0xd0,
     0x78, 0x3e, 0x1f, 0x3f, 0xf7, 0x7f, 0x92, 0x05, 0x47, 0x62, 0xef, 0x57,
     0x48, 0xf9, 0x06, 0xa9, 0xba, 0xee, 0x1a, 0xe0, 0xa3, 0x58, 0xf9, 0x47,
     0xdb, 0x46, 0xb1, 0xf2, 0x8f, 0xb6, 0xb1, 0xe4, 0xf5, 0xbf, 0x3f, 0xf7,
     0x7f, 0x92, 0xc9, 0xa9, 0x27, 0x92, 0xef, 0x63, 0x48, 0xf9, 0x06, 0x8d,
     0x23, 0xe4, 0x1a, 0xe0, 0x9f, 0x58, 0xf9, 0x47, 0xdb, 0x46, 0xb1, 0xf2,
     0x8f, 0xb6, 0xb3, 0xe4, 0xf5, 0xbf, 0x3f, 0xf7, 0x7f, 0x92, 0xcf, 0x8c,
     0xf6, 0x2e, 0xf6, 0x34, 0x8f, 0x90, 0x6a, 0xdd, 0x01, 0xe4, 0x1f, 0x65,
     0x70, 0x53, 0xac, 0x7c, 0xa3, 0xed, 0xa3, 0x58, 0xf9, 0x47, 0xdb, 0x47,
     0x93, 0xd6, 0xfd, 0x23, 0xee, 0xfe, 0xeb, 0x06, 0xa7, 0xb1, 0x77, 0xb0,
     0x05, 0x1c, 0xba, 0x86, 0xad, 0x02, 0x64, 0x3d, 0x43, 0xec, 0xae, 0x0a,
     0x75, 0x8f, 0x94, 0x7d, 0xb4, 0x6b, 0x1f, 0x28, 0xfb, 0x68, 0xf2, 0x7a,
     0xdd, 0x3e, 0x1f, 0xee, 0xfe, 0xe8, 0x35, 0x3d, 0x8b, 0xbd, 0x8d, 0x23,
     0xe4, 0x1a, 0x34, 0x8f, 0x90, 0x6b, 0x82, 0x8d, 0x7e, 0x9f, 0x6d, 0x1a,
     0xfd, 0x3e, 0xda, 0x77, 0xf6, 0x1b, 0x7e, 0x7b, 0xee, 0xfe, 0xeb, 0x4d,
     0xf1, 0xea, 0x5d, 0xeb, 0xe4, 0x3e, 0x41, 0xa1, 0x43, 0x95, 0x12, 0x6a,
     0x38, 0x81, 0x4a, 0x5e, 0xb3, 0x1b, 0x80, 0x05, 0x70, 0x4d, 0x98, 0xf9,
     0x46, 0x8c, 0xc7, 0xca, 0x35, 0xb7, 0xf6, 0x2b, 0x7e, 0x7b, 0xee, 0xfe,
     0xe8, 0x13, 0x1e, 0xa5, 0xde, 0xe0, 0x0e, 0x7d, 0x83, 0x55, 0x02, 0xf0,
     0xed, 0xae, 0x09, 0x35, 0xfa, 0x7d, 0xb5, 0x41, 0x36, 0x7e, 0x5f, 0x6d,
     0x39, 0x9b, 0x17, 0x6e, 0x33, 0x7d, 0xdf, 0xdd, 0x1b, 0xde, 0xc5, 0xde,
     0xe6, 0x43, 0xe4, 0x1a, 0x2b, 0x82, 0x2c, 0xc7, 0xca, 0x34, 0x53, 0x3f,
     0xb2, 0xc7, 0xcf, 0x7d, 0x9f, 0xba, 0xc6, 0xf4, 0xf5, 0x2f, 0xff, 0xd9]"

definition frame_8_tail :: "u8 list" where
  "frame_8_tail =
    [0x2e, 0xcf, 0xdb, 0xbc, 0x51, 0x9b, 0x82, 0xaa, 0x91, 0xce, 0x92, 0xc4,
     0xe9, 0x14, 0xc5, 0x36, 0x93, 0x16, 0xa5, 0x0c, 0x3d, 0xc6, 0x52, 0x3b,
     0x12, 0x33, 0x97, 0x30, 0x26, 0xb7, 0x02, 0x91, 0x7f, 0x82, 0x7f, 0xc6,
     0xf2, 0x0f, 0x7f, 0x55, 0x70, 0xe4, 0x06, 0x36, 0x9c, 0xf5, 0x1b, 0xd7,
     0x49, 0xac, 0xd9, 0x67, 0xa8, 0x7d, 0x75, 0x6e, 0x8f, 0xc9, 0x03, 0xa9,
     0x9d, 0x99, 0x95, 0xa7, 0xc3, 0x27, 0xe3, 0x59, 0x13, 0x91, 0xc9, 0x77,
     0xaa, 0x05, 0x01, 0x0e, 0xa1, 0xf5, 0x51, 0xa0, 0x3c, 0x83, 0xea, 0xae,
     0x0a, 0x75, 0x8f, 0x94, 0x7d, 0x74, 0x6b, 0x1f, 0x28, 0xfa, 0xeb, 0xa2,
     0xf8, 0x3d, 0x1f, 0xc4, 0x7f, 0x4f, 0xe2, 0x59, 0xf3, 0x8e, 0xe5, 0xde,
     0xb6, 0x80, 0xf2, 0x0f, 0xaa, 0xaa, 0xd0, 0x21, 0xd8, 0x3e, 0xaa, 0xe0,
     0x9f, 0x58, 0xf9, 0x47, 0xd7, 0x46, 0xb1, 0xf2, 0x8f, 0xae, 0x8f, 0x83,
     0xc6, 0xff, 0x00, 0x11, 0xfd, 0x3f, 0x7a, 0xc8, 0xa9, 0xb7, 0x25, 0xde,
     0xc0, 0x10, 0x7c, 0x83, 0x55, 0x26, 0x4c, 0xbb, 0x06, 0xb8, 0x25, 0xd4,
     0x3e, 0x51, 0xa3, 0x50, 0x8f, 0x68, 0xd3, 0x19, 0xe4, 0xfd, 0xad, 0x20,
     0xef, 0xf8, 0x7f, 0xeb, 0xf7, 0xac, 0x1a, 0x93, 0xd1, 0x77, 0xae, 0xa2,
     0x5a, 0xc0, 0x78, 0x0d, 0x42, 0x9b, 0x0e, 0x35, 0x10, 0xb5, 0xf1, 0x0d,
     0xc8, 0x80, 0xe8, 0x79, 0x89, 0x57, 0x39, 0x83, 0xf2, 0x24, 0x95, 0x47,
     0xf5, 0xa4, 0x35, 0xc4, 0x9e, 0xa1, 0xf2, 0x8d, 0x1a, 0xc6, 0xa6, 0xcd,
     0x81, 0x68, 0xbf, 0xe7, 0xf8, 0xff, 0x00, 0xeb, 0xf7, 0xac, 0x79, 0xc7,
     0x72, 0xef, 0x5b, 0x40, 0x79, 0x07, 0xd5, 0x4b, 0x97, 0x71, 0xbe, 0x9a,
     0xe0, 0xa3, 0x58, 0xf9, 0x46, 0x8d, 0x63, 0xe5, 0x1f, 0x5d, 0x27, 0xe0,
     0xf4, 0x7c, 0xbf, 0xf4, 0xfe, 0x25, 0x9f, 0x38, 0xee, 0x5d, 0xed, 0x01,
     0x7b, 0x86, 0x83, 0x07, 0x70, 0xd7, 0x04, 0xc5, 0x30, 0x8e, 0x7c, 0x47,
     0xd7, 0x48, 0x06, 0x1e, 0x3c, 0x46, 0x9b, 0xfe, 0x02, 0x16, 0xb6, 0xff,
     0x00, 0xfa, 0x7f, 0x12, 0x3c, 0xe3, 0xb9, 0x77, 0xb5, 0xa0, 0x3c, 0x83,
     0xea, 0xa0, 0x49, 0xdc, 0x3e, 0xaa, 0xe0, 0x97, 0x50, 0xf9, 0x68, 0xd4,
     0x3e, 0x5a, 0x97, 0xf8, 0x0c, 0x5b, 0xf4, 0xff, 0x00, 0xd3, 0xf7, 0xa3,
     0xce, 0x3b, 0x97, 0x7b, 0x44, 0x01, 0xcb, 0xa8, 0x69, 0x72, 0xae, 0x09,
     0x75, 0xe7, 0xe5, 0xf5, 0xd2, 0x98, 0x72, 0xf2, 0xfa, 0xe9, 0x8d, 0xd8,
     0x9b, 0x0b, 0x6f, 0xbf, 0xa7, 0xef, 0x50, 0xdf, 0x77, 0x2e, 0xf7, 0x0a,
     0x5e, 0x1d, 0x55, 0x49, 0x8b, 0xc7, 0x85, 0x70, 0x46, 0x06, 0xe3, 0xdb,
     0x4b, 0xaf, 0xd3, 0xeb, 0xa7, 0x1d, 0x8c, 0x69, 0x16, 0xde, 0xff, 0x00,
     0x4f, 0xde, 0xb1, 0xbd, 0xee, 0x5d, 0xed, 0x64, 0x3e, 0x41, 0xa0, 0x40,
     0x44, 0x3b, 0x7d, 0x55, 0xc1, 0x26, 0xa1, 0xf2, 0xd1, 0xa8, 0x7c, 0xb5,
     0x13, 0xb1, 0x40, 0x8b, 0x6f, 0xbf, 0xa7, 0xef, 0x46, 0xf4, 0xae, 0xf7,
     0x00, 0xbe, 0x9a, 0x0c, 0x5e, 0x3c, 0x33, 0xae, 0x09, 0x37, 0x9e, 0x9f,
     0x5d, 0x1a, 0xfd, 0x3e, 0xba, 0x1b, 0xb1, 0x60, 0x0b, 0x6f, 0xbf, 0xa7,
     0xef, 0x59, 0xde, 0xf7, 0x2e, 0xf7, 0x34, 0x77, 0xd1, 0x5c, 0x11, 0x6b,
     0xee, 0x1f, 0x5d, 0x15, 0x2f, 0xf0, 0x6b, 0x7e, 0x57, 0xe6, 0xfb, 0xd6,
     0x37, 0xa7, 0xa2, 0xff, 0xd9]"

definition frame_9_tail :: "u8 list" where
  "frame_9_tail =
    [0x65, 0xa6, 0xc6, 0xeb, 0xb3, 0x9a, 0x2b, 0x8c, 0x4d, 0xe1, 0xbc, 0xe3,
     0x7a, 0xe8, 0xde, 0x1b, 0xce, 0x37, 0xae, 0xa9, 0x7f, 0x32, 0x6c, 0xfb,
     0x5f, 0xf4, 0x7e, 0x74, 0xed, 0xf7, 0x62, 0xec, 0xee, 0x8a, 0xe3, 0x13,
     0x78, 0x6f, 0x38, 0xde, 0xba, 0x37, 0x86, 0xf3, 0x8d, 0xeb, 0xa3, 0xe6,
     0x4d, 0x9f, 0x6b, 0xfe, 0x8f, 0xce, 0x8d, 0xf7, 0x62, 0xec, 0xee, 0x8d,
     0xe1, 0xbc, 0x95, 0xc6, 0x26, 0xf0, 0xde, 0x71, 0xbd, 0x74, 0x6f, 0x0d,
     0xe7, 0x1b, 0xd7, 0x47, 0xcc, 0x9b, 0x3e, 0xd7, 0xfd, 0x1f, 0x9d, 0x1b,
     0xee, 0xc5, 0xd9, 0xdd, 0x15, 0xc6, 0x26, 0xf0, 0xde, 0x71, 0xbd, 0x74,
     0x6f, 0x0d, 0xe7, 0x1b, 0xd7, 0x5a, 0xfc, 0xc8, 0xb3, 0xed, 0x9f, 0xfd,
     0x7f, 0x9d, 0x1b, 0xfe, 0xc5, 0xd9, 0xfa, 0x6a, 0x7b, 0x9d, 0x0a, 0xfc,
     0x9a, 0xe3, 0x0b, 0x7c, 0x3e, 0x53, 0x7a, 0xe8, 0xdf, 0x0f, 0x94, 0xde,
     0xba, 0xdf, 0xe6, 0x51, 0x9f, 0x6c, 0x3f, 0xc9, 0xf9, 0xd6, 0x9b, 0xce,
     0xc5, 0xd9, 0xef, 0x4b, 0xe5, 0x53, 0x69, 0xb2, 0x2a, 0x65, 0x53, 0x0e,
     0x2e, 0x65, 0x7e, 0x02, 0xd7, 0xf5, 0xd4, 0xa1, 0x7e, 0x50, 0x78, 0x65,
     0xd7, 0x1f, 0xc9, 0x5c, 0x85, 0xef, 0x0d, 0xe7, 0x1b, 0xd7, 0x55, 0xde,
     0x18, 0x3b, 0x47, 0xd7, 0x52, 0x61, 0xf0, 0x38, 0xd8, 0xe3, 0x74, 0x7e,
     0x37, 0x7c, 0xc4, 0x79, 0x9d, 0x5f, 0xc6, 0xb7, 0xdf, 0x76, 0x2e, 0xd1,
     0xb7, 0xbd, 0xf4, 0x9a, 0x8a, 0x7b, 0xa5, 0x71, 0x7b, 0xbd, 0x1f, 0x29,
     0xbd, 0x74, 0x6f, 0x47, 0xca, 0x6f, 0x5d, 0x27, 0xe6, 0x61, 0xbf, 0x6b,
     0x3f, 0xc9, 0xf9, 0xd6, 0x9b, 0xce, 0xc5, 0xda, 0x94, 0x44, 0xbb, 0xa8,
     0x87, 0xe9, 0x39, 0x6c, 0xae, 0xe9, 0x54, 0xbf, 0xfd, 0xf5, 0x53, 0xbf,
     0x61, 0xe2, 0x2a, 0x17, 0x6a, 0x5b, 0xa3, 0x7b, 0x8b, 0xd2, 0x07, 0x49,
     0x3f, 0x2f, 0x79, 0x6b, 0x84, 0xdd, 0xe1, 0xbc, 0xe3, 0x7a, 0xe8, 0xd6,
     0x23, 0xda, 0x23, 0x5d, 0x5c, 0x3f, 0xc1, 0x6b, 0xe9, 0x0f, 0x46, 0xac,
     0x91, 0xd5, 0x93, 0xf3, 0x20, 0x4a, 0x42, 0xef, 0x60, 0x38, 0x76, 0x0d,
     0x54, 0x44, 0x47, 0xb0, 0x6b, 0x82, 0x7d, 0x23, 0xe5, 0x1a, 0x34, 0x8f,
     0x94, 0x6b, 0xbb, 0xf2, 0x15, 0xbf, 0x5d, 0xfd, 0x3f, 0x8a, 0xdb, 0x7e,
     0x57, 0x7b, 0x5a, 0x44, 0x43, 0xb6, 0xaa, 0x40, 0xf4, 0x8d, 0x70, 0x4a,
     0x61, 0xd3, 0xe5, 0xf5, 0xd5, 0x72, 0xf4, 0xfa, 0xe9, 0x83, 0x62, 0x00,
     0x37, 0xdf, 0x7f, 0x4f, 0xe2, 0x8d, 0xf7, 0x62, 0xef, 0x68, 0xe5, 0xab,
     0x44, 0xa2, 0x3e, 0x5a, 0xe0, 0x97, 0x5f, 0xa7, 0xd7, 0x46, 0xbf, 0x4f,
     0xae, 0xb7, 0x7e, 0xc5, 0xb5, 0xdf, 0xf9, 0xbf, 0xa7, 0xf1, 0x46, 0xf7,
     0xb1, 0x77, 0xb7, 0x90, 0xf9, 0x06, 0x8c, 0x87, 0xbe, 0xb8, 0x24, 0xd7,
     0xe9, 0xf5, 0xd1, 0xaf, 0xd3, 0xeb, 0xa3, 0xe4, 0x67, 0xff, 0x00, 0x37,
     0xf4, 0xfe, 0x28, 0xde, 0xf6, 0x2e, 0xf6, 0xf4, 0xfa, 0x7d, 0x55, 0x5d,
     0x1d, 0xff, 0x00, 0x92, 0xb8, 0x22, 0xd7, 0xdc, 0x3e, 0xba, 0x35, 0xf7,
     0x0f, 0xae, 0xb3, 0xf2, 0x34, 0x7d, 0x6f, 0xf4, 0xfe, 0x28, 0xde, 0xf6,
     0x2e, 0xf7, 0x84, 0x07, 0xcb, 0x45, 0x70, 0x43, 0xaf, 0xb8, 0x7d, 0x74,
     0x56, 0xdf, 0x23, 0x9b, 0xf5, 0xbf, 0x77, 0xe2, 0xb1, 0xbd, 0xec, 0x5f,
     0xff, 0xd9]"

definition frame_10_tail :: "u8 list" where
  "frame_10_tail =
    [0xec, 0xe6, 0x8a, 0xe3, 0x13, 0x78, 0x6f, 0x38, 0xde, 0xba, 0x37, 0x86,
     0xf3, 0x8d, 0xeb, 0xaa, 0x57, 0xb8, 0x9b, 0x3e, 0x77, 0xf5, 0x3f, 0x3a,
     0x7e, 0xfb, 0xb9, 0x76, 0x77, 0x45, 0x71, 0x89, 0xbc, 0x37, 0x9c, 0x6f,
     0x5d, 0x1b, 0xc3, 0x79, 0xc6, 0xf5, 0xd1, 0xee, 0x26, 0xcf, 0x9d, 0xfd,
     0x4f, 0xce, 0x8d, 0xf7, 0x72, 0xec, 0xee, 0x8a, 0xe3, 0x13, 0x78, 0x6f,
     0x38, 0xde, 0xba, 0x37, 0x86, 0xf3, 0x8d, 0xeb, 0xa3, 0xdc, 0x4d, 0x9f,
     0x3b, 0xfa, 0x9f, 0x9d, 0x1b, 0xee, 0xe5, 0xd9, 0xdd, 0x15, 0xc6, 0x26,
     0xf0, 0xde, 0x71, 0xbd, 0x74, 0x6f, 0x0d, 0xe7, 0x1b, 0xd7, 0x5a, 0xfb,
     0x88, 0xb3, 0xe7, 0x9f, 0xfd, 0x7f, 0x9d, 0x1b, 0xfe, 0xe5, 0xd9, 0xfa,
     0x6a, 0x50, 0xaf, 0x6d, 0x71, 0x85, 0xbe, 0x1f, 0x29, 0xbd, 0x74, 0x6f,
     0x87, 0xca, 0x6f, 0x5d, 0x6d, 0xee, 0x26, 0xcf, 0x9e, 0x1f, 0xec, 0xfc,
     0xeb, 0x4d, 0xe7, 0x72, 0xec, 0xe6, 0x94, 0x4b, 0xb2, 0xb8, 0xc0, 0xde,
     0x1b, 0xce, 0x37, 0xae, 0x8d, 0xe1, 0xbc, 0xe3, 0x7a, 0xeb, 0x3e, 0xe2,
     0x4c, 0xf9, 0xd9, 0xfe, 0xcf, 0xce, 0xb7, 0xdf, 0xf7, 0x2e, 0xd1, 0xf7,
     0xbd, 0xf4, 0x9a, 0x8a, 0x7b, 0x65, 0x71, 0x7b, 0xbd, 0x1f, 0x29, 0xbd,
     0x74, 0x6f, 0x47, 0xca, 0x6f, 0x5d, 0x33, 0xdc, 0x61, 0xbf, 0x3b, 0x3f,
     0xd9, 0xf9, 0xd6, 0x9b, 0xce, 0xe5, 0xda, 0x52, 0x7e, 0xd9, 0x46, 0xe3,
     0xbe, 0xb8, 0xb4, 0xde, 0x1b, 0xce, 0x37, 0xae, 0x8d, 0xe1, 0xbc, 0xe3,
     0x7a, 0xe8, 0xf7, 0x17, 0x67, 0xce, 0xcf, 0xf6, 0x7e, 0x75, 0x8c, 0xe5,
     0x76, 0x9e, 0x9a, 0x74, 0x57, 0x16, 0x1b, 0xc3, 0x79, 0xc6, 0xf5, 0xd1,
     0xbc, 0x37, 0x9c, 0x6f, 0x5d, 0x6f, 0xee, 0x36, 0xcf, 0x9d, 0x9f, 0xec,
     0xfc, 0xc9, 0x6b, 0xaf, 0xbd, 0xad, 0x22, 0x9c, 0x48, 0x58, 0xf6, 0xc9,
     0x99, 0xa0, 0xe1, 0xd3, 0x96, 0x17, 0xd5, 0xb4, 0xf8, 0xa9, 0xa2, 0x99,
     0x94, 0x3e, 0x44, 0x95, 0x43, 0x59, 0xb2, 0x28, 0x0e, 0x45, 0x2a, 0x67,
     0x39, 0x84, 0xdd, 0x40, 0x50, 0x11, 0x1e, 0x14, 0xe8, 0x27, 0xa5, 0x3e,
     0x85, 0x71, 0x6a, 0x07, 0x30, 0xfb, 0xe1, 0xe1, 0xdf, 0x46, 0xf0, 0xde,
     0x70, 0xfa, 0xea, 0x43, 0xbc, 0x11, 0x34, 0xc4, 0xd8, 0xbc, 0x6b, 0xc9,
     0xbf, 0xc0, 0xeb, 0x6f, 0xe6, 0x59, 0x5d, 0xa5, 0x7d, 0xf6, 0x85, 0x7b,
     0x6b, 0x8b, 0x4d, 0x63, 0xe5, 0x1f, 0x5d, 0x1a, 0xc7, 0xca, 0x3e, 0xba,
     0x5f, 0xb8, 0xf3, 0x3e, 0x77, 0xf5, 0x3f, 0x3a, 0xc2, 0xed, 0x2e, 0x84,
     0xbb, 0x2b, 0x8b, 0x4d, 0xe1, 0xbc, 0xe1, 0xf5, 0xd1, 0xac, 0xde, 0x51,
     0xf5, 0xd1, 0xee, 0x3c, 0xcf, 0x9d, 0xfd, 0x4f, 0xcc, 0x85, 0xda, 0x5e,
     0xeb, 0xba, 0xb2, 0x90, 0x17, 0x5b, 0xfb, 0x65, 0x72, 0xaa, 0xcd, 0x73,
     0x17, 0xce, 0x4c, 0xdd, 0x22, 0x1b, 0xd2, 0x15, 0xc5, 0x06, 0xb3, 0x79,
     0x46, 0x80, 0x50, 0xc1, 0xda, 0x3e, 0xba, 0x6b, 0x3c, 0x11, 0xe4, 0x21,
     0xcc, 0xac, 0x20, 0x8f, 0xe4, 0xfc, 0xcb, 0x3a, 0xae, 0xed, 0x2c, 0xdc,
     0x4f, 0x65, 0x73, 0x82, 0x69, 0x2b, 0xf6, 0xb3, 0xe3, 0xfd, 0xec, 0xde,
     0x29, 0x87, 0xe0, 0x8f, 0xe8, 0x1e, 0x34, 0x57, 0x09, 0x9b, 0xc1, 0xed,
     0x11, 0x1f, 0x96, 0x8a, 0xb3, 0x41, 0xb1, 0x52, 0x31, 0x99, 0x5f, 0x51,
     0x98, 0xf5, 0xc9, 0xf9, 0x93, 0x44, 0xa5, 0x7f, 0xff, 0xd9]"

definition frame_11_tail :: "u8 list" where
  "frame_11_tail =
    [0x7b, 0xae, 0xbf, 0x96, 0x7f, 0x96, 0xa6, 0x67, 0x24, 0xe2, 0x85, 0x1d,
     0x95, 0xe5, 0x12, 0xfd, 0x39, 0xb5, 0xf1, 0x70, 0x26, 0xb1, 0xbb, 0x4c,
     0x26, 0x72, 0x0b, 0x07, 0xf1, 0x54, 0x20, 0x07, 0x70, 0x57, 0x2b, 0xa5,
     0x37, 0x1a, 0xa6, 0xf0, 0xc0, 0x1d, 0x62, 0x15, 0x4b, 0x8e, 0xec, 0x18,
     0xc4, 0xa9, 0x7e, 0x0c, 0x66, 0xca, 0x2e, 0x0d, 0xf2, 0xdf, 0x77, 0x94,
     0x21, 0xba, 0x1b, 0xae, 0xce, 0xe8, 0xae, 0x31, 0x37, 0x86, 0xf4, 0x8d,
     0xed, 0xa3, 0x78, 0x6f, 0x48, 0xde, 0xda, 0xe3, 0x3e, 0x24, 0x99, 0xfc,
     0xd9, 0xfe, 0xcf, 0xc6, 0x9f, 0xd3, 0xf6, 0x2e, 0xce, 0xe9, 0x46, 0xe9,
     0xef, 0x14, 0xae, 0x30, 0x37, 0x86, 0xf4, 0x8d, 0xed, 0xa3, 0x78, 0x6f,
     0x48, 0xde, 0xda, 0xc7, 0xc4, 0x9b, 0x3f, 0x9b, 0xfa, 0x9f, 0x8d, 0x1d,
     0x37, 0x62, 0xed, 0x0d, 0xe5, 0x1b, 0xc2, 0xf3, 0x7a, 0xe2, 0xf8, 0x0e,
     0x6c, 0xc7, 0xa4, 0x61, 0xcb, 0xbe, 0xa9, 0xbd, 0x37, 0xa4, 0x3e, 0xda,
     0xc8, 0xee, 0x28, 0xcb, 0xfe, 0xd9, 0xff, 0x00, 0xe7, 0xf8, 0xd2, 0xf3,
     0x9b, 0x6a, 0xbb, 0x46, 0xde, 0xf7, 0xd2, 0x6e, 0x14, 0xae, 0x2f, 0x77,
     0xa3, 0xe7, 0x37, 0xb6, 0x8d, 0xe8, 0xf9, 0xcd, 0xed, 0xad, 0xcf, 0x71,
     0x56, 0x1f, 0xf9, 0x67, 0xfb, 0x3f, 0x1a, 0xcf, 0x49, 0xd8, 0xbb, 0x42,
     0x4d, 0xb9, 0xa9, 0x44, 0xdb, 0x98, 0x7c, 0xaa, 0xe2, 0xe3, 0x78, 0x6f,
     0x48, 0xde, 0xda, 0x37, 0x86, 0xf4, 0x8d, 0xed, 0xa1, 0xbd, 0xc5, 0x98,
     0xdf, 0xf9, 0x67, 0xfb, 0x3f, 0x1a, 0x1d, 0x21, 0x2b, 0xb3, 0xf5, 0x35,
     0x6f, 0x28, 0x4b, 0xb2, 0xb8, 0xc0, 0xde, 0x1b, 0xd2, 0x37, 0xb6, 0x8d,
     0xe1, 0xbd, 0x23, 0x7b, 0x6b, 0x4f, 0x89, 0x46, 0x7f, 0x38, 0x7f, 0xb3,
     0xf1, 0xad, 0xfa, 0x6e, 0xc5, 0xda, 0x3e, 0xf7, 0xbe, 0x94, 0xe7, 0x05,
     0xf2, 0x6b, 0x8b, 0x63, 0x28, 0x21, 0xc3, 0x33, 0x7b, 0x6a, 0xdd, 0xe1,
     0xbd, 0x23, 0x7b, 0x69, 0x9f, 0x13, 0x0d, 0xfe, 0x6c, 0xff, 0x00, 0x67,
     0xe3, 0x4b, 0x2f, 0xbf, 0x05, 0xda, 0x7a, 0xbd, 0xb5, 0x8f, 0xba, 0xee,
     0xae, 0x2e, 0x37, 0x86, 0xf4, 0x8d, 0xed, 0xa3, 0x78, 0x6f, 0x48, 0xde,
     0xda, 0x3e, 0x25, 0xd9, 0xfc, 0xd9, 0xfe, 0xcf, 0xc6, 0x8c, 0xe5, 0x76,
     0x9e, 0x9a, 0x74, 0x57, 0x16, 0x1b, 0xc3, 0x7a, 0x46, 0xf6, 0xd1, 0xbc,
     0x37, 0xa4, 0x6f, 0x6d, 0x6f, 0xf1, 0x36, 0xcf, 0xe6, 0xcf, 0xf6, 0x7e,
     0x24, 0xb5, 0xda, 0x7d, 0x15, 0xc5, 0x86, 0xf0, 0xde, 0x91, 0xbd, 0xb4,
     0x6f, 0x0d, 0xe9, 0x1b, 0xdb, 0x47, 0xc4, 0xdb, 0x3f, 0x9b, 0xfa, 0x9f,
     0x8d, 0x0b, 0xb4, 0xfa, 0x37, 0x5d, 0xd5, 0xc5, 0x96, 0x43, 0xe9, 0x0d,
     0x19, 0x0f, 0xa4, 0x34, 0xcf, 0x89, 0xb6, 0x7f, 0x34, 0x7f, 0xb3, 0xf1,
     0xac, 0x59, 0x76, 0x9b, 0x49, 0xd7, 0x16, 0x9b, 0xc3, 0x7a, 0x46, 0xf6,
     0xd1, 0xbc, 0x37, 0xa4, 0x6f, 0x6d, 0x2f, 0xe2, 0x6d, 0x9f, 0xcd, 0xfd,
     0x4f, 0xc6, 0xb2, 0xbb, 0x4b, 0x57, 0xb6, 0x8a, 0xe2, 0xd3, 0x59, 0xbc,
     0xe3, 0xed, 0xa3, 0x78, 0x6f, 0x48, 0xde, 0xda, 0x1d, 0xdc, 0x69, 0x87,
     0xfe, 0x5f, 0xd4, 0xfc, 0x68, 0x5d, 0xa5, 0xd1, 0x5c, 0x5a, 0x6f, 0x0d,
     0xe9, 0x1b, 0xdb, 0x45, 0x1f, 0x13, 0x6c, 0xfe, 0x6c, 0xff, 0x00, 0x67,
     0xe2, 0x42, 0xff, 0xd9]"

definition frame_12_tail :: "u8 list" where
  "frame_12_tail =
    [0x19, 0x2d, 0x97, 0xb3, 0xef, 0x59, 0x5e, 0xeb, 0xaf, 0xe5, 0x9f, 0xe5,
     0xa9, 0x99, 0xc9, 0x38, 0xa1, 0x47, 0x65, 0x79, 0x44, 0xbe, 0xdc, 0xda,
     0xf8, 0xb8, 0x13, 0x58, 0xdd, 0xa6, 0x13, 0x39, 0x05, 0x83, 0xf8, 0x2a,
     0x10, 0x03, 0xb8, 0x2b, 0x95, 0xd2, 0x9b, 0x8d, 0x53, 0x78, 0x60, 0x0e,
     0xb1, 0x0a, 0xa5, 0xc7, 0x76, 0x0c, 0x62, 0x54, 0xbd, 0xec, 0x66, 0xca,
     0x2e, 0x0d, 0xf2, 0xdf, 0x77, 0x9c, 0x21, 0xba, 0x1b, 0xae, 0xce, 0xe8,
     0xae, 0x31, 0x37, 0x86, 0xf4, 0x8d, 0xed, 0xa3, 0x78, 0x6f, 0x48, 0xde,
     0xda, 0xe3, 0x3e, 0x44, 0x99, 0xfc, 0x59, 0xfe, 0x8f, 0xc6, 0x9f, 0xd3,
     0xf6, 0x2e, 0xce, 0xe9, 0x46, 0xe9, 0xef, 0x14, 0xae, 0x30, 0x37, 0x86,
     0xf4, 0x8d, 0xed, 0xa3, 0x78, 0x6f, 0x48, 0xde, 0xda, 0xc7, 0xc8, 0x9b,
     0x3f, 0x8b, 0xfb, 0x1f, 0x8d, 0x1d, 0x37, 0x62, 0xed, 0x0d, 0xe5, 0x1b,
     0xc2, 0xf3, 0x7a, 0xe2, 0xf8, 0x0e, 0x6c, 0xc7, 0xa4, 0x61, 0xcb, 0xbe,
     0xa9, 0xbd, 0x37, 0xa4, 0x3e, 0xda, 0xc8, 0xee, 0x28, 0xcb, 0xfe, 0xb9,
     0xff, 0x00, 0xe7, 0xf8, 0xd2, 0xf3, 0x9b, 0x6a, 0xbb, 0x46, 0xde, 0xf7,
     0xd2, 0x6e, 0x14, 0xae, 0x2f, 0x77, 0xa3, 0xe7, 0x37, 0xb6, 0x8d, 0xe8,
     0xf9, 0xcd, 0xed, 0xad, 0xcf, 0x71, 0x56, 0x1f, 0xfb, 0x67, 0xfa, 0x3f,
     0x1a, 0xcf, 0x49, 0xd8, 0xbb, 0x42, 0x4d, 0xb9, 0xa9, 0x44, 0xdb, 0x98,
     0x7c, 0xaa, 0xe2, 0xe3, 0x78, 0x6f, 0x48, 0xde, 0xda, 0x37, 0x86, 0xf4,
     0x8d, 0xed, 0xa1, 0xbd, 0xc5, 0x98, 0xdf, 0xfb, 0x67, 0xfa, 0x3f, 0x1a,
     0x1d, 0x21, 0x2b, 0xb3, 0xf5, 0x35, 0x6f, 0x28, 0x4b, 0xb2, 0xb8, 0xc0,
     0xde, 0x1b, 0xd2, 0x37, 0xb6, 0x8d, 0xe1, 0xbd, 0x23, 0x7b, 0x6b, 0x4f,
     0x91, 0x46, 0x7f, 0x18, 0x7f, 0xa3, 0xf1, 0xad, 0xfa, 0x6e, 0xc5, 0xda,
     0x3e, 0xf7, 0xbe, 0x94, 0xe7, 0x05, 0xf2, 0x6b, 0x8b, 0x63, 0x28, 0x21,
     0xc3, 0x33, 0x7b, 0x6a, 0xdd, 0xe1, 0xbd, 0x23, 0x7b, 0x69, 0x9f, 0x23,
     0x0d, 0xfe, 0x2c, 0xff, 0x00, 0x47, 0xe3, 0x4b, 0x2f, 0xbf, 0x05, 0xda,
     0x7a, 0xbd, 0xb5, 0x8f, 0xba, 0xee, 0xae, 0x2e, 0x37, 0x86, 0xf4, 0x8d,
     0xed, 0xa3, 0x78, 0x6f, 0x48, 0xde, 0xda, 0x3e, 0x45, 0xd9, 0xfc, 0x59,
     0xfe, 0x8f, 0xc6, 0x8c, 0xe5, 0x76, 0x9e, 0x9a, 0x74, 0x57, 0x16, 0x1b,
     0xc3, 0x7a, 0x46, 0xf6, 0xd1, 0xbc, 0x37, 0xa4, 0x6f, 0x6d, 0x6f, 0xf2,
     0x36, 0xcf, 0xe2, 0xcf, 0xf4, 0x7e, 0x24, 0xb5, 0xda, 0x7d, 0x15, 0xc5,
     0x86, 0xf0, 0xde, 0x91, 0xbd, 0xb4, 0x6f, 0x0d, 0xe9, 0x1b, 0xdb, 0x47,
     0xc8, 0xdb, 0x3f, 0x8b, 0xfb, 0x1f, 0x8d, 0x0b, 0xb4, 0xfa, 0x37, 0x5d,
     0xd5, 0xc5, 0x96, 0x43, 0xe9, 0x0d, 0x19, 0x0f, 0xa4, 0x34, 0xcf, 0x91,
     0xb6, 0x7f, 0x14, 0x7f, 0xa3, 0xf1, 0xac, 0x59, 0x76, 0x9b, 0x49, 0xd7,
     0x16, 0x9b, 0xc3, 0x7a, 0x46, 0xf6, 0xd1, 0xbc, 0x37, 0xa4, 0x6f, 0x6d,
     0x2f, 0xe4, 0x6d, 0x9f, 0xc5, 0xfd, 0x8f, 0xc6, 0xb2, 0xbb, 0x4b, 0x57,
     0xb6, 0x8a, 0xe2, 0xd3, 0x59, 0xbc, 0xe3, 0xed, 0xa3, 0x78, 0x6f, 0x48,
     0xde, 0xda, 0x1d, 0xdc, 0x69, 0x87, 0xfe, 0xdf, 0xd8, 0xfc, 0x68, 0x5d,
     0xa5, 0xd1, 0x5c, 0x5a, 0x6f, 0x0d, 0xe9, 0x1b, 0xdb, 0x45, 0x1f, 0x23,
     0x6c, 0xfe, 0x2c, 0xff, 0x00, 0x47, 0xe2, 0x42, 0xff, 0xd9]"

definition frame_13_tail :: "u8 list" where
  "frame_13_tail =
    [0x3f, 0x98, 0xfa, 0x3f, 0x99, 0x3f, 0xca, 0x3b, 0x97, 0x7a, 0x9a, 0x04,
     0x7b, 0x07, 0xd9, 0x51, 0xfe, 0x31, 0xe1, 0xc7, 0x3c, 0x45, 0x49, 0x86,
     0x64, 0x1d, 0xf2, 0x65, 0xd4, 0xba, 0x79, 0x79, 0x45, 0x00, 0xf2, 0x83,
     0xbc, 0x3b, 0x7b, 0xab, 0x86, 0xbd, 0x63, 0xe7, 0x1f, 0x6d, 0x00, 0xa0,
     0x80, 0xe7, 0x98, 0xd4, 0x5a, 0x9e, 0x8b, 0xe1, 0x9e, 0x33, 0x1b, 0xe7,
     0xe3, 0xcf, 0x2f, 0x0f, 0xa4, 0x83, 0x51, 0x7e, 0x4b, 0xb3, 0xfd, 0xe1,
     0x7d, 0x3a, 0x73, 0x9c, 0x15, 0x3a, 0xe2, 0xfc, 0xca, 0x09, 0x7b, 0x4d,
     0xed, 0xaa, 0x45, 0x53, 0x0f, 0xc2, 0x37, 0xb6, 0xab, 0xe3, 0xa1, 0x46,
     0x8f, 0xfc, 0xbf, 0xff, 0x00, 0x9f, 0xe7, 0x4a, 0x32, 0x5f, 0x92, 0xeb,
     0xcf, 0x64, 0x45, 0x53, 0x67, 0x61, 0xdd, 0x4c, 0x12, 0xe8, 0xa3, 0x15,
     0x7f, 0x5c, 0xcc, 0xd3, 0x2f, 0xa2, 0x41, 0x95, 0x59, 0x60, 0x00, 0xf5,
     0x6f, 0x6a, 0x4f, 0xd7, 0xe3, 0x2b, 0x8b, 0xd0, 0x54, 0x43, 0xcf, 0xed,
     0xa0, 0xaa, 0x18, 0x47, 0xca, 0x1f, 0x6d, 0x4a, 0xa9, 0xe8, 0x75, 0xb3,
     0x3c, 0xc8, 0x6a, 0xed, 0x7f, 0xfd, 0x3f, 0x32, 0x37, 0x9d, 0xcb, 0xb4,
     0xb2, 0x7b, 0xd5, 0x26, 0x8f, 0x19, 0x5c, 0x5b, 0x66, 0x6f, 0x48, 0xde,
     0xda, 0x33, 0x37, 0xa4, 0x6f, 0x6d, 0x2f, 0xe2, 0x69, 0x9f, 0xcd, 0xfd,
     0x0f, 0xcc, 0xb4, 0xb9, 0x5d, 0xa4, 0xfd, 0xea, 0x9b, 0xae, 0x2e, 0x77,
     0xa6, 0xf4, 0x87, 0xdb, 0x49, 0xbc, 0x37, 0xa4, 0x6f, 0x6d, 0x68, 0x7a,
     0x16, 0x63, 0xbf, 0xf2, 0xcf, 0xf6, 0x7e, 0x75, 0xb6, 0x72, 0xbb, 0x47,
     0x4d, 0x4a, 0x73, 0x7b, 0xdf, 0x5c, 0x5a, 0x6f, 0x0d, 0xe9, 0x1b, 0xdb,
     0x46, 0xf0, 0xde, 0x91, 0xbd, 0xb4, 0x7c, 0x4b, 0xb7, 0xf9, 0xc3, 0xfd,
     0x9f, 0x9d, 0x19, 0xca, 0xed, 0x2e, 0x9b, 0x57, 0xb6, 0xb8, 0xb8, 0xde,
     0x1b, 0xd2, 0x37, 0xb6, 0x8d, 0xe1, 0xbd, 0x23, 0x7b, 0x68, 0xf8, 0x98,
     0x6f, 0xf3, 0x87, 0xfb, 0x3f, 0x3a, 0x33, 0x95, 0xda, 0x5a, 0x69, 0xd1,
     0x5c, 0x5b, 0x66, 0x6f, 0x48, 0x7d, 0xb4, 0x66, 0x6f, 0x48, 0xde, 0xda,
     0xdf, 0xe2, 0x6d, 0x9f, 0xcd, 0x9f, 0xec, 0xfc, 0xcb, 0x5b, 0x95, 0xda,
     0x4d, 0x39, 0x5c, 0x58, 0x6f, 0x0d, 0xe9, 0x1b, 0xdb, 0x46, 0xf0, 0xde,
     0x91, 0xbd, 0xb4, 0x7c, 0x4d, 0xb3, 0xf9, 0xb3, 0xfd, 0x9f, 0x99, 0x6a,
     0xbb, 0x1b, 0xda, 0x02, 0x3c, 0xd2, 0x18, 0x17, 0x7d, 0x21, 0xfb, 0x35,
     0xb7, 0x26, 0x9f, 0xb5, 0x92, 0xc1, 0x4e, 0x60, 0x1a, 0x85, 0x79, 0x80,
     0xf6, 0x2a, 0xbe, 0x9d, 0xb7, 0x16, 0x6f, 0x6b, 0x24, 0x2b, 0x8e, 0x0d,
     0xe1, 0xbd, 0x21, 0xf6, 0xd1, 0xbc, 0x37, 0xa4, 0x3e, 0xda, 0xdf, 0xe2,
     0x76, 0x3d, 0xde, 0x4f, 0x2a, 0xe7, 0x7f, 0x33, 0xf3, 0x21, 0x76, 0x97,
     0xbd, 0xef, 0xa3, 0x7b, 0xdf, 0x5c, 0x5a, 0x6f, 0x0d, 0xe9, 0x1b, 0xdb,
     0x46, 0xf0, 0xde, 0x91, 0xbd, 0xb5, 0xa7, 0xc4, 0xd3, 0x3f, 0x9b, 0xfa,
     0x1f, 0x99, 0x0b, 0xb4, 0xba, 0x6f, 0x7b, 0xdf, 0x5c, 0x5c, 0x6f, 0x0d,
     0xe9, 0x1b, 0xdb, 0x46, 0xf0, 0xde, 0x91, 0xbd, 0xb5, 0xa7, 0xc4, 0xbb,
     0x3f, 0x9b, 0x3f, 0xd9, 0xf9, 0xd0, 0xbb, 0x47, 0x4b, 0xb2, 0x8a, 0xe2,
     0xe3, 0x78, 0x6f, 0x48, 0xde, 0xda, 0x28, 0xf8, 0x98, 0x6f, 0xf3, 0x87,
     0xfb, 0x3f, 0x3a, 0x66, 0x72, 0xbf, 0xff, 0xd9]"

definition frame_14_tail :: "u8 list" where
  "frame_14_tail =
    [0xe6, 0x2d, 0xff, 0x00, 0x1f, 0xcc, 0xae, 0xaa, 0x06, 0xf3, 0xb9, 0x77,
     0x81, 0x1a, 0x90, 0x91, 0x3e, 0x20, 0x35, 0xe9, 0x14, 0xa3, 0x98, 0x70,
     0x1f, 0x55, 0x70, 0x58, 0x65, 0x04, 0xc3, 0xd6, 0x34, 0x01, 0x84, 0xdd,
     0xb5, 0x21, 0x9e, 0x0e, 0x9a, 0xd0, 0x06, 0xff, 0x00, 0x87, 0xfb, 0x7f,
     0x32, 0x64, 0x2e, 0xdd, 0xb6, 0xcb, 0xb7, 0x1d, 0x9d, 0x72, 0x8e, 0xda,
     0x33, 0x1f, 0x63, 0x88, 0x1e, 0x2d, 0x5b, 0x9e, 0x36, 0x57, 0xf8, 0x4b,
     0xc1, 0xc7, 0xa6, 0x60, 0xf5, 0xb6, 0xcf, 0xe5, 0xa7, 0x9c, 0x48, 0x19,
     0xf5, 0x57, 0x04, 0xda, 0x84, 0x3b, 0x46, 0x80, 0xcc, 0x7b, 0x46, 0xa7,
     0x49, 0xb0, 0x8c, 0x26, 0xfb, 0xef, 0xb3, 0xf8, 0xa6, 0xef, 0xfb, 0x97,
     0x7b, 0x40, 0x00, 0x01, 0x52, 0x18, 0xb9, 0x8f, 0x50, 0xd7, 0x05, 0x02,
     0x22, 0x51, 0xcb, 0x3a, 0x35, 0x0f, 0x9c, 0x6b, 0x49, 0x76, 0x0d, 0xaf,
     0x00, 0x6f, 0xed, 0xff, 0x00, 0x1f, 0xc5, 0x02, 0x7e, 0xe5, 0xde, 0x7c,
     0x9c, 0x4b, 0x79, 0xc6, 0x0a, 0xb6, 0x72, 0x91, 0x54, 0x45, 0x50, 0xc8,
     0xc5, 0x30, 0x7f, 0xfb, 0x90, 0xf7, 0xd3, 0x3d, 0x7d, 0x61, 0x93, 0x8b,
     0x34, 0xe6, 0x55, 0x20, 0x3a, 0xd1, 0xda, 0xba, 0x2a, 0xf6, 0x97, 0x3e,
     0xc3, 0x07, 0xe9, 0xea, 0x1a, 0xe2, 0x44, 0x4c, 0x22, 0x3d, 0x63, 0x51,
     0x29, 0x84, 0x04, 0x38, 0x8f, 0xae, 0xaa, 0xb1, 0x0f, 0x05, 0x70, 0x55,
     0xb3, 0x2b, 0xe7, 0xb1, 0x1c, 0xf2, 0xfe, 0x64, 0x19, 0xfb, 0x97, 0x68,
     0xd4, 0x6f, 0x7b, 0xeb, 0x8b, 0x9d, 0xe8, 0xf9, 0xcd, 0xeb, 0xa3, 0x7a,
     0x3e, 0x73, 0x7a, 0xea, 0x8f, 0xf6, 0x30, 0xdf, 0xf5, 0x67, 0xfe, 0x9f,
     0x9d, 0x2f, 0x79, 0xdc, 0xbb, 0x46, 0xa4, 0xfe, 0xfb, 0x5c, 0x5e, 0x6f,
     0x0d, 0xef, 0x8d, 0xeb, 0xa3, 0x78, 0x6f, 0x7c, 0x6f, 0x5d, 0x07, 0xc0,
     0xb3, 0x0f, 0xf9, 0xb3, 0xff, 0x00, 0x4f, 0xce, 0xb1, 0x9f, 0xb9, 0x76,
     0x96, 0x9a, 0x66, 0xa3, 0x75, 0xdd, 0x5c, 0x5a, 0x6f, 0x0d, 0xef, 0x8d,
     0xeb, 0xa3, 0x78, 0x6f, 0x7c, 0x6f, 0x5d, 0x1f, 0xb1, 0x78, 0xff, 0x00,
     0xd5, 0xfd, 0x8f, 0xce, 0x96, 0xbb, 0x4b, 0x51, 0x4d, 0xdd, 0x09, 0x76,
     0x57, 0x16, 0x9b, 0xc3, 0x7b, 0xe3, 0x7a, 0xe8, 0xde, 0x1b, 0xdf, 0x1b,
     0xd7, 0x59, 0xfd, 0x8b, 0xb3, 0xfd, 0x59, 0xff, 0x00, 0xa7, 0xe7, 0x42,
     0xed, 0x2f, 0x77, 0xbc, 0xac, 0x50, 0xb0, 0x03, 0x9b, 0x72, 0x81, 0xb9,
     0xd3, 0xab, 0xfe, 0x19, 0x5c, 0xcd, 0x4c, 0x5e, 0xc2, 0xef, 0x6d, 0x98,
     0x07, 0x19, 0xff, 0x00, 0x0b, 0x71, 0xc2, 0xb9, 0x63, 0xde, 0x1b, 0xdf,
     0x0f, 0xae, 0x8d, 0x66, 0xf3, 0x8f, 0xae, 0xa7, 0xd3, 0xf8, 0x24, 0x6c,
     0x4c, 0x7b, 0x3c, 0x6a, 0xf9, 0x85, 0xbc, 0x8f, 0xcc, 0xb2, 0xbb, 0x4b,
     0x4b, 0xb2, 0x8a, 0xe2, 0xd3, 0x78, 0x6f, 0x7c, 0x3e, 0xba, 0x8e, 0xf0,
     0xde, 0xf8, 0xde, 0xba, 0xaf, 0x77, 0x81, 0x66, 0xff, 0x00, 0xab, 0x3f,
     0xf4, 0xfc, 0xeb, 0x0b, 0xb4, 0xaa, 0x2b, 0x8b, 0x4d, 0xe1, 0xbd, 0xf1,
     0xbd, 0x74, 0x6f, 0x0d, 0xef, 0x8d, 0xeb, 0xa3, 0xf6, 0x30, 0xdf, 0xf5,
     0x67, 0xfe, 0x9f, 0x9d, 0x0b, 0xb4, 0xba, 0x2b, 0x8b, 0x4d, 0xe1, 0xbd,
     0xf1, 0xbd, 0x74, 0x53, 0x3f, 0x63, 0x6c, 0xff, 0x00, 0x56, 0x7f, 0xe9,
     0xf9, 0x90, 0xbf, 0xff, 0xd9]"

definition frame_15_tail :: "u8 list" where
  "frame_15_tail =
    [0x2b, 0xe0, 0xa7, 0x58, 0xf7, 0x8f, 0xb6, 0x8d, 0x63, 0xde, 0x3e, 0xda,
     0xcb, 0xe0, 0xec, 0x7f, 0x51, 0xfe, 0x3f, 0x89, 0x1e, 0x71, 0xdc, 0xbe,
     0xf5, 0x4c, 0x4c, 0x83, 0x80, 0x0f, 0xb2, 0xa8, 0x52, 0xe6, 0x3d, 0x43,
     0xec, 0xaf, 0x82, 0xbd, 0x63, 0xde, 0x3e, 0xda, 0x35, 0x8f, 0x78, 0xd6,
     0x2e, 0xf2, 0x72, 0xd2, 0xec, 0xde, 0x71, 0xfe, 0x3f, 0x89, 0x1e, 0x73,
     0xa5, 0xac, 0xbe, 0xf5, 0xb4, 0x80, 0x76, 0x0d, 0x54, 0x03, 0x2e, 0xc1,
     0xf6, 0x57, 0xc1, 0x46, 0xb1, 0xef, 0x1a, 0x35, 0x8f, 0x78, 0xd3, 0x07,
     0x93, 0xdb, 0x1f, 0x8c, 0x7f, 0x8f, 0xe2, 0x47, 0x9c, 0x77, 0x2f, 0xbd,
     0xa4, 0xcb, 0xa8, 0x4b, 0xc0, 0x6a, 0x27, 0xd8, 0xfe, 0xf0, 0x91, 0xc4,
     0x1c, 0x2a, 0x91, 0x99, 0x7f, 0x24, 0xe6, 0x51, 0x37, 0x97, 0x5d, 0xc2,
     0x48, 0xf5, 0x17, 0x10, 0x13, 0xa6, 0xc9, 0x29, 0x77, 0x68, 0x37, 0x4f,
     0x30, 0xeb, 0x29, 0x53, 0x48, 0x00, 0xb9, 0xf1, 0xd3, 0x97, 0x1a, 0xf8,
     0x7d, 0xd4, 0x3d, 0xe3, 0x46, 0xa1, 0xef, 0x1a, 0xb1, 0xf9, 0x88, 0xdc,
     0x85, 0x9b, 0xee, 0x3f, 0xdb, 0xf7, 0xa8, 0xf3, 0x8e, 0xe5, 0xf7, 0xb0,
     0x42, 0x64, 0x3d, 0x43, 0x4e, 0x66, 0x1a, 0xbc, 0x2b, 0xe0, 0x8c, 0x4e,
     0x22, 0x1d, 0xbe, 0xda, 0x35, 0x0e, 0x5d, 0x63, 0x44, 0x7b, 0x08, 0xd6,
     0x0b, 0x6f, 0xbf, 0xc7, 0xef, 0x47, 0x9c, 0x77, 0x2f, 0xbd, 0xc5, 0x0b,
     0xc3, 0xa8, 0x69, 0xac, 0x87, 0xb8, 0x6b, 0xe0, 0xa3, 0x50, 0x87, 0x6d,
     0x1a, 0x87, 0xbc, 0x6a, 0x1f, 0xb0, 0x41, 0xda, 0xef, 0xed, 0xff, 0x00,
     0x5f, 0xbd, 0x4f, 0x9c, 0x77, 0x2f, 0xbd, 0x7d, 0x23, 0x9f, 0x6d, 0x28,
     0x49, 0x91, 0x7c, 0x6b, 0xe0, 0x9b, 0x50, 0xf7, 0x8d, 0x53, 0x31, 0xef,
     0x1a, 0x86, 0xec, 0x0b, 0x05, 0xff, 0x00, 0x4e, 0x7e, 0x6f, 0xde, 0xa3,
     0xce, 0x0f, 0x45, 0xf7, 0xb2, 0x52, 0xe4, 0x4e, 0xaa, 0x8a, 0xb6, 0x5b,
     0xb1, 0xa5, 0xec, 0xb9, 0x6c, 0x56, 0x56, 0x56, 0x3d, 0x76, 0x05, 0x9c,
     0xbf, 0x9f, 0xc9, 0xb1, 0xde, 0x65, 0xf5, 0x53, 0x63, 0xb7, 0x68, 0x42,
     0x2c, 0x5c, 0x84, 0x7a, 0x22, 0x29, 0x98, 0x03, 0x3c, 0x87, 0xa3, 0xd5,
     0x5f, 0x0f, 0xc1, 0xc4, 0x3b, 0x7d, 0xb4, 0x18, 0x74, 0xf7, 0xfb, 0x6a,
     0xcc, 0x5b, 0x14, 0xd6, 0x30, 0xb3, 0x7b, 0xc7, 0xfb, 0x7e, 0xf5, 0x8e,
     0xfb, 0xb9, 0x7d, 0xed, 0x01, 0x78, 0xf8, 0x55, 0x0c, 0x4c, 0xcd, 0x9f,
     0x1a, 0xf8, 0x25, 0xd7, 0xf2, 0xfb, 0x68, 0xd7, 0xf2, 0xfb, 0x68, 0x76,
     0xc4, 0xb4, 0x8b, 0x6f, 0x7f, 0xc7, 0xef, 0x46, 0xf7, 0xb9, 0x7d, 0xec,
     0x18, 0xbc, 0x3a, 0x86, 0xa9, 0xa4, 0x7b, 0x87, 0xd9, 0x5f, 0x05, 0x1a,
     0xfe, 0x5f, 0x6d, 0x50, 0x4c, 0x23, 0xda, 0x3e, 0xda, 0x43, 0xb6, 0x10,
     0x1f, 0xdf, 0xff, 0x00, 0x8f, 0xde, 0x8d, 0xf7, 0x72, 0xfb, 0xda, 0x28,
     0x08, 0x87, 0x50, 0xd5, 0x40, 0xb9, 0x8f, 0x10, 0xfc, 0x95, 0xf0, 0x49,
     0xa8, 0x7b, 0xc6, 0x8d, 0x42, 0x3d, 0xa3, 0x52, 0x36, 0x10, 0x0b, 0x5e,
     0x7f, 0xf1, 0xfb, 0xd6, 0x5e, 0x70, 0x7a, 0x2f, 0xbc, 0xd9, 0x9b, 0x55,
     0x84, 0xf2, 0x7a, 0x5d, 0xb5, 0x49, 0x5f, 0x1d, 0x3c, 0x7d, 0xbd, 0x74,
     0x57, 0xc1, 0xa0, 0x00, 0x87, 0x68, 0xd1, 0x49, 0x97, 0xc9, 0xcd, 0x3c,
     0x8e, 0xce, 0xe7, 0x8f, 0x9b, 0xf7, 0xa8, 0xdf, 0x77, 0x2f, 0xff, 0xd9]"

definition frame_16_tail :: "u8 list" where
  "frame_16_tail =
    [0x63, 0xde, 0x3e, 0xda, 0x35, 0x8f, 0x78, 0xfb, 0x6b, 0x2f, 0x83, 0xb1,
     0xfd, 0x47, 0xf8, 0xfe, 0x24, 0x79, 0xc7, 0x72, 0xfb, 0xd5, 0x31, 0x32,
     0x0e, 0x00, 0x3e, 0xca, 0xa1, 0x4b, 0x98, 0xf5, 0x0f, 0xb2, 0xbe, 0x0a,
     0xf5, 0x8f, 0x78, 0xfb, 0x68, 0xd6, 0x3d, 0xe3, 0x58, 0xbb, 0xc9, 0xcb,
     0x4b, 0xb3, 0x79, 0xc7, 0xf8, 0xfe, 0x24, 0x79, 0xce, 0x96, 0xb2, 0xfb,
     0xd6, 0xd2, 0x01, 0xd8, 0x35, 0x50, 0x0c, 0xbb, 0x07, 0xd9, 0x5f, 0x05,
     0x1a, 0xc7, 0xbc, 0x68, 0xd6, 0x3d, 0xe3, 0x4c, 0x1e, 0x4f, 0x6c, 0x7e,
     0x31, 0xfe, 0x3f, 0x89, 0x1e, 0x71, 0xdc, 0xbe, 0xf6, 0x93, 0x2e, 0xa1,
     0x2f, 0x01, 0xa8, 0x9f, 0x63, 0xfb, 0xc2, 0x47, 0x10, 0x70, 0xaa, 0x46,
     0x65, 0xfc, 0x93, 0x99, 0x44, 0xde, 0x5d, 0x77, 0x09, 0x23, 0xd4, 0x5c,
     0x40, 0x4e, 0x9b, 0x24, 0xa5, 0xdd, 0xa0, 0xdd, 0x3c, 0xc3, 0xac, 0xa5,
     0x4d, 0x20, 0x02, 0xe7, 0xc7, 0x4e, 0x5c, 0x6b, 0xe1, 0xf7, 0x50, 0xf7,
     0x8d, 0x1a, 0x87, 0xbc, 0x6a, 0xc7, 0xe6, 0x23, 0x72, 0x16, 0x6f, 0xb8,
     0xff, 0x00, 0x6f, 0xde, 0xa3, 0xce, 0x3b, 0x97, 0xde, 0xc1, 0x09, 0x90,
     0xf5, 0x0d, 0x39, 0x98, 0x6a, 0xf0, 0xaf, 0x82, 0x31, 0x38, 0x88, 0x76,
     0xfb, 0x68, 0xd4, 0x39, 0x75, 0x8d, 0x11, 0xec, 0x23, 0x58, 0x2d, 0xbe,
     0xff, 0x00, 0x1f, 0xbd, 0x1e, 0x71, 0xdc, 0xbe, 0xf7, 0x14, 0x2f, 0x0e,
     0xa1, 0xa6, 0xb2, 0x1e, 0xe1, 0xaf, 0x82, 0x8d, 0x42, 0x1d, 0xb4, 0x6a,
     0x1e, 0xf1, 0xa8, 0x7e, 0xc1, 0x07, 0x6b, 0xbf, 0xb7, 0xfc, 0x7e, 0xf5,
     0x3e, 0x71, 0xdc, 0xbe, 0xf5, 0xf4, 0x8e, 0x7d, 0xb4, 0xa1, 0x26, 0x45,
     0xf1, 0xaf, 0x82, 0x6d, 0x43, 0xde, 0x35, 0x4c, 0xc7, 0xbc, 0x6a, 0x1b,
     0xb0, 0x2c, 0x17, 0xfd, 0x39, 0xf9, 0xbf, 0x7a, 0x8f, 0x38, 0x3d, 0x17,
     0xde, 0xc9, 0x4b, 0x91, 0x3a, 0xaa, 0x2a, 0xd9, 0x6e, 0xc6, 0x97, 0xb2,
     0xe5, 0xb1, 0x59, 0x59, 0x58, 0xf5, 0xd8, 0x16, 0x72, 0xfe, 0x7f, 0x26,
     0xc7, 0x79, 0x97, 0xd5, 0x4d, 0x8e, 0xdd, 0xa1, 0x08, 0xb1, 0x72, 0x11,
     0xe8, 0x88, 0xa6, 0x60, 0x0c, 0xf2, 0x1e, 0x8f, 0x55, 0x7c, 0x3f, 0x07,
     0x10, 0xed, 0xf6, 0xd0, 0x61, 0xd3, 0xdf, 0xed, 0xab, 0x31, 0x6c, 0x53,
     0x58, 0xc2, 0xcd, 0xef, 0x1f, 0xed, 0xfb, 0xd6, 0x3b, 0xee, 0xe5, 0xf7,
     0xb4, 0x05, 0xe3, 0xe1, 0x54, 0x31, 0x33, 0x36, 0x7c, 0x6b, 0xe0, 0x97,
     0x5f, 0xcb, 0xed, 0xa3, 0x5f, 0xcb, 0xed, 0xa1, 0xdb, 0x12, 0xd2, 0x2d,
     0xbd, 0xff, 0x00, 0x1f, 0xbd, 0x1b, 0xde, 0xe5, 0xf7, 0xb0, 0x62, 0xf0,
     0xea, 0x1a, 0xa6, 0x91, 0xee, 0x1f, 0x65, 0x7c, 0x14, 0x6b, 0xf9, 0x7d,
     0xb5, 0x41, 0x30, 0x8f, 0x68, 0xfb, 0x69, 0x0e, 0xd8, 0x40, 0x7f, 0x7f,
     0xfe, 0x3f, 0x7a, 0x37, 0xdd, 0xcb, 0xef, 0x68, 0xa0, 0x22, 0x1d, 0x43,
     0x55, 0x02, 0xe6, 0x3c, 0x43, 0xf2, 0x57, 0xc1, 0x26, 0xa1, 0xef, 0x1a,
     0x35, 0x08, 0xf6, 0x8d, 0x48, 0xd8, 0x40, 0x2d, 0x79, 0xff, 0x00, 0xc7,
     0xef, 0x59, 0x79, 0xc1, 0xe8, 0xbe, 0xf3, 0x66, 0x6d, 0x56, 0x13, 0xc9,
     0xe9, 0x76, 0xd5, 0x25, 0x7c, 0x74, 0xf1, 0xf6, 0xf5, 0xd1, 0x5f, 0x06,
     0x80, 0x02, 0x1d, 0xa3, 0x45, 0x26, 0x5f, 0x27, 0x34, 0xf2, 0x3b, 0x3b,
     0x9e, 0x3e, 0x6f, 0xde, 0xa3, 0x7d, 0xdc, 0xbf, 0xff, 0xd9]"

definition frame_17_tail :: "u8 list" where
  "frame_17_tail =
    [0x4d, 0x67, 0x95, 0xd3, 0xcc, 0x58, 0x6f, 0x7b, 0x5a, 0xfe, 0x3c, 0xf9,
     0xae, 0xf3, 0x51, 0x36, 0xf1, 0x32, 0x1b, 0x21, 0xe9, 0x05, 0x56, 0x62,
     0xf0, 0xe0, 0x03, 0x5c, 0x15, 0x09, 0xc4, 0x07, 0xac, 0x68, 0x03, 0x08,
     0x8f, 0x58, 0xd6, 0xf0, 0x7b, 0x9d, 0x0b, 0x5b, 0xca, 0x3f, 0x0f, 0xee,
     0x5d, 0x80, 0xa8, 0x3c, 0xc2, 0xef, 0x53, 0x40, 0xf7, 0x0f, 0xc5, 0x55,
     0x01, 0x3c, 0x06, 0xb8, 0x29, 0x13, 0x88, 0xf6, 0x8d, 0x1a, 0xc7, 0xbc,
     0x7e, 0x3a, 0x81, 0xee, 0x72, 0xd1, 0xff, 0x00, 0xd8, 0xfc, 0x3f, 0xb9,
     0x4f, 0x94, 0x1e, 0xc5, 0xde, 0xb6, 0x80, 0xee, 0x1f, 0x8a, 0x8d, 0x01,
     0xdc, 0x3f, 0x15, 0x70, 0x53, 0xac, 0x7b, 0xc7, 0xe3, 0xa3, 0x58, 0xf7,
     0x8f, 0xc7, 0x59, 0x7b, 0xdd, 0x8f, 0xac, 0x7e, 0x1f, 0xdc, 0x8f, 0x28,
     0xee, 0x5d, 0xeb, 0x68, 0x0e, 0xe1, 0xf8, 0xa8, 0xd0, 0x1d, 0xc3, 0xf1,
     0x57, 0x05, 0x3a, 0xc7, 0xbc, 0x7e, 0x3a, 0x35, 0x8f, 0x78, 0xfc, 0x75,
     0x97, 0xbd, 0xeb, 0x7e, 0x9f, 0xf0, 0xfe, 0xe4, 0x79, 0x47, 0x72, 0xef,
     0x5b, 0x77, 0xe0, 0x34, 0x68, 0x0e, 0xe1, 0xf8, 0xab, 0x82, 0x9d, 0x43,
     0xde, 0x34, 0x6b, 0x1e, 0xf1, 0xf8, 0xe8, 0xf7, 0xbd, 0x6f, 0x29, 0xff,
     0x00, 0x0f, 0xee, 0x47, 0x94, 0x77, 0x2e, 0xf6, 0x48, 0x5c, 0xf4, 0xf0,
     0x1e, 0xb0, 0xa8, 0x6b, 0x60, 0xe2, 0xe7, 0xb3, 0xb9, 0xb8, 0x0f, 0xfb,
     0x6c, 0xba, 0xbf, 0xff, 0x00, 0x45, 0x25, 0x5c, 0x45, 0xea, 0x1e, 0xf1,
     0xa3, 0x50, 0x87, 0x68, 0xd3, 0xff, 0x00, 0x90, 0xdb, 0x97, 0x2e, 0xfb,
     0xf0, 0xfe, 0xaa, 0x3c, 0xa3, 0xb9, 0x77, 0xb0, 0x42, 0x64, 0x3d, 0x43,
     0x4e, 0x66, 0x1a, 0xbc, 0x2b, 0x82, 0x31, 0x38, 0x88, 0x76, 0xfc, 0x74,
     0x6a, 0x1c, 0xba, 0xc6, 0xa6, 0x3d, 0x83, 0x6b, 0x05, 0xb7, 0xdf, 0x87,
     0xf5, 0x47, 0x94, 0x77, 0x2e, 0xf7, 0x14, 0x2f, 0x80, 0xd3, 0x59, 0x0f,
     0x70, 0xd7, 0x05, 0x1a, 0x84, 0x3b, 0x68, 0xd4, 0x3d, 0xe3, 0x50, 0xfd,
     0x82, 0x0e, 0xd7, 0x7f, 0x6f, 0xfa, 0xfe, 0xaa, 0x7c, 0xa3, 0xb9, 0x77,
     0xae, 0x09, 0xe4, 0x3d, 0x55, 0x58, 0x14, 0x2b, 0x82, 0x5d, 0x63, 0xde,
     0x3f, 0x1d, 0x1a, 0x87, 0xbc, 0x68, 0x66, 0xc0, 0xb1, 0x9f, 0xef, 0x7e,
     0x1f, 0xd5, 0x41, 0xa8, 0xee, 0x5d, 0xed, 0xea, 0x0e, 0xe1, 0xa5, 0x02,
     0xe7, 0xde, 0x1f, 0x05, 0x70, 0x47, 0xa8, 0x7b, 0xc6, 0x8d, 0x63, 0x4c,
     0xfe, 0x46, 0x1c, 0xe6, 0xfc, 0x3f, 0xaa, 0x9f, 0x28, 0xee, 0x5d, 0xee,
     0x09, 0x7f, 0xf1, 0x95, 0x20, 0x93, 0x3e, 0xca, 0xe0, 0x8f, 0x31, 0xef,
     0x1a, 0x5d, 0x43, 0xde, 0x34, 0x1d, 0x84, 0x07, 0xfd, 0xef, 0xc3, 0xfa,
     0xa3, 0xca, 0x3b, 0x97, 0x7b, 0x7b, 0xbf, 0x01, 0xa4, 0xdd, 0xf8, 0x0d,
     0x70, 0x49, 0x98, 0xf7, 0x8d, 0x2e, 0xa1, 0xef, 0x1a, 0xc1, 0xdb, 0x00,
     0xdf, 0xa6, 0xfc, 0x3f, 0xb9, 0x1e, 0x51, 0xdc, 0xbb, 0xd9, 0xdd, 0xfa,
     0xfe, 0x2a, 0x37, 0x7e, 0xbf, 0x8a, 0xb8, 0x26, 0xd4, 0x3d, 0xe3, 0x46,
     0xa1, 0xef, 0x1a, 0x5f, 0xf2, 0x03, 0x7e, 0x9f, 0xf0, 0xfe, 0xe4, 0x79,
     0x47, 0x72, 0xef, 0x5f, 0x72, 0x3d, 0xc3, 0xf1, 0x51, 0x5c, 0x14, 0x6b,
     0x1e, 0xf1, 0xf8, 0xe8, 0xa5, 0xfb, 0xde, 0x33, 0xe9, 0xcf, 0xdd, 0xfd,
     0xca, 0x3c, 0xa0, 0xf6, 0x2f, 0xff, 0xd9]"

definition frame_18_tail :: "u8 list" where
  "frame_18_tail =
    [0x17, 0xbf, 0x9b, 0x7f, 0xfd, 0x82, 0xcb, 0x74, 0x37, 0x5d, 0x9d, 0x51,
     0x5c, 0x62, 0x6f, 0x0d, 0xf0, 0x8d, 0xeb, 0xa3, 0x78, 0x6f, 0x84, 0x6f,
     0x5d, 0x71, 0xde, 0x44, 0xd9, 0xfb, 0xdf, 0xdc, 0xfc, 0xe9, 0xfb, 0xee,
     0xc5, 0xd9, 0xdd, 0x15, 0xc6, 0x26, 0xf0, 0xdf, 0x08, 0xde, 0xba, 0x37,
     0x86, 0xf8, 0x46, 0xf5, 0xd1, 0xe4, 0x4d, 0x9f, 0xbd, 0xfd, 0xcf, 0xce,
     0x8d, 0xf7, 0x62, 0xec, 0xee, 0x8a, 0xe3, 0x13, 0x78, 0x6f, 0x84, 0x6f,
     0x5d, 0x1b, 0xc3, 0x7c, 0x23, 0x7a, 0xe8, 0xf2, 0x26, 0xcf, 0xde, 0xfe,
     0xe7, 0xe7, 0x46, 0xfb, 0xb1, 0x76, 0x77, 0x45, 0x71, 0x89, 0xbc, 0x37,
     0xc2, 0x37, 0xae, 0x8d, 0xe1, 0xbe, 0x11, 0xbd, 0x75, 0xaf, 0x91, 0x16,
     0x7e, 0xf9, 0xff, 0x00, 0xe7, 0xf9, 0xd1, 0xbf, 0xec, 0x5d, 0x9f, 0xa6,
     0xa5, 0x0a, 0xf6, 0xd7, 0x18, 0x5b, 0xe1, 0xef, 0x37, 0xae, 0x8d, 0xf0,
     0xf7, 0x9b, 0xd7, 0x5b, 0x79, 0x13, 0x67, 0xef, 0x87, 0xf9, 0x3f, 0x3a,
     0xd3, 0x79, 0xd8, 0xbb, 0x39, 0xa5, 0x12, 0xec, 0xae, 0x30, 0x37, 0x86,
     0xf8, 0x46, 0xf5, 0xd1, 0xbc, 0x37, 0xc2, 0x37, 0xae, 0xb3, 0xe4, 0x49,
     0x9f, 0xbd, 0x9f, 0xe4, 0xfc, 0xeb, 0x7d, 0xff, 0x00, 0x62, 0xed, 0x0d,
     0x5e, 0xda, 0xf7, 0xda, 0xd7, 0x2b, 0xbb, 0x4e, 0x5c, 0xae, 0x5b, 0x1b,
     0x3f, 0x7a, 0xa2, 0x7d, 0x8a, 0x07, 0x70, 0xd7, 0x15, 0xc0, 0xb1, 0xbb,
     0xcc, 0x3f, 0x2d, 0x1b, 0xd1, 0xef, 0x37, 0xae, 0x9a, 0x3c, 0x0c, 0x06,
     0xb8, 0x39, 0xb5, 0x84, 0x11, 0xff, 0x00, 0x4f, 0xce, 0xb4, 0xde, 0xf6,
     0x2e, 0xf0, 0x2d, 0x2b, 0xad, 0x9d, 0xe2, 0xc3, 0x7c, 0xd4, 0xdd, 0x22,
     0x70, 0x51, 0x31, 0xf3, 0x93, 0x1f, 0xfd, 0x76, 0xd7, 0xd5, 0xd0, 0x1d,
     0xc3, 0x5c, 0x14, 0x89, 0xc4, 0x7b, 0x47, 0xd7, 0x46, 0xb1, 0xef, 0x1f,
     0x5d, 0x74, 0x90, 0xf8, 0x3a, 0xca, 0xc0, 0x1d, 0x51, 0x73, 0xd7, 0x97,
     0xf3, 0x26, 0xf8, 0xc9, 0xea, 0x5d, 0xeb, 0x68, 0x0e, 0xe1, 0xf5, 0x51,
     0xa0, 0x3b, 0x87, 0xd5, 0x5c, 0x14, 0xeb, 0x1e, 0xf1, 0xf5, 0xd1, 0xac,
     0x7b, 0xc7, 0xd7, 0x5b, 0xf9, 0x3d, 0x1f, 0x5f, 0xf7, 0x7f, 0x32, 0x3c,
     0x63, 0xb1, 0x77, 0xad, 0xa0, 0x3b, 0x87, 0xd5, 0x46, 0x80, 0xee, 0x1f,
     0x55, 0x70, 0x53, 0xac, 0x7b, 0xc7, 0xd7, 0x46, 0xb1, 0xef, 0x1f, 0x5d,
     0x1e, 0x4f, 0x5b, 0xf5, 0xff, 0x00, 0x77, 0xf3, 0x23, 0xc6, 0x3b, 0x17,
     0x7a, 0xda, 0x03, 0xb8, 0x7d, 0x54, 0x68, 0x0e, 0xe1, 0xf5, 0x57, 0x05,
     0x3a, 0xc7, 0xbc, 0x7d, 0x74, 0x6b, 0x1e, 0xf1, 0xf5, 0xd1, 0xe4, 0xf5,
     0xbf, 0x5f, 0xf7, 0x7f, 0x32, 0x3c, 0x63, 0xb1, 0x77, 0xaf, 0xba, 0xf0,
     0x1a, 0x37, 0x5e, 0x03, 0x5c, 0x14, 0x6b, 0x1e, 0xf1, 0xf5, 0xd1, 0xac,
     0x7b, 0xc7, 0xd7, 0x47, 0x93, 0xc6, 0xfd, 0x7f, 0xdd, 0xfc, 0xc8, 0xf1,
     0x8e, 0xc5, 0xde, 0xbe, 0xeb, 0xc0, 0x6a, 0x9a, 0x03, 0xb8, 0x7d, 0x55,
     0xc1, 0x4e, 0xb1, 0xef, 0x1f, 0x5d, 0x1a, 0xc7, 0xbc, 0x7d, 0x74, 0x79,
     0x3a, 0x6f, 0xd7, 0xfd, 0xdf, 0xcc, 0x8f, 0x18, 0xec, 0x5d, 0xeb, 0x68,
     0x0e, 0xe1, 0xf5, 0x51, 0x5c, 0x14, 0xeb, 0x1e, 0xf1, 0xf5, 0xd1, 0x47,
     0x93, 0xc6, 0xfd, 0x7f, 0xdd, 0xfc, 0xcb, 0x1e, 0x30, 0x7a, 0x97, 0xff,
     0xd9]"

definition frame_19_tail :: "u8 list" where
  "frame_19_tail =
    [0x5e, 0x38, 0xd5, 0xbd, 0x8d, 0x00, 0xeb, 0x2f, 0xc3, 0xee, 0xbc, 0xb2,
     0xf5, 0x6e, 0xdf, 0x4d, 0x8a, 0x7b, 0x79, 0xa9, 0x78, 0x54, 0x67, 0xd2,
     0xea, 0xd3, 0x28, 0x95, 0x89, 0xc3, 0xe4, 0xf9, 0x11, 0x63, 0x9f, 0x59,
     0x8f, 0x1d, 0x86, 0x91, 0x90, 0x13, 0x65, 0xd4, 0x14, 0x54, 0x25, 0x43,
     0x75, 0x14, 0x49, 0x15, 0x38, 0xca, 0x8a, 0x38, 0x90, 0xb8, 0x3a, 0x72,
     0x52, 0x64, 0x43, 0xe1, 0x5a, 0xb6, 0xf5, 0xcb, 0x54, 0xac, 0x3c, 0xe2,
     0x36, 0xcf, 0x94, 0xa1, 0x8c, 0x38, 0x71, 0xf5, 0xfd, 0xd5, 0xd2, 0x43,
     0x32, 0x50, 0x1e, 0xf5, 0x11, 0x44, 0x52, 0xee, 0x45, 0x4d, 0x71, 0xe4,
     0xe3, 0x55, 0x22, 0xef, 0xd3, 0x5c, 0x7d, 0x4d, 0x50, 0xb4, 0xd7, 0x1b,
     0xc9, 0xd8, 0x9a, 0x67, 0x9c, 0xc5, 0xda, 0xf9, 0x7d, 0xd7, 0xbc, 0xac,
     0xbd, 0x43, 0x53, 0xe1, 0x94, 0x38, 0xfb, 0x4d, 0xd3, 0x90, 0xf1, 0x91,
     0x3c, 0xf3, 0xc5, 0xe7, 0x3c, 0xe1, 0x92, 0x91, 0xb8, 0xbe, 0xb2, 0x25,
     0x55, 0xc4, 0x85, 0x97, 0x97, 0xf3, 0xb3, 0x52, 0xfc, 0x85, 0x6f, 0x42,
     0x75, 0xd8, 0xbd, 0x70, 0x55, 0xc9, 0x93, 0x07, 0xfe, 0x0f, 0x88, 0x3a,
     0x71, 0x5d, 0x4f, 0x0d, 0xe5, 0xaa, 0x36, 0x1f, 0x3c, 0xd1, 0x7b, 0x91,
     0x71, 0xe5, 0xa7, 0x55, 0x25, 0xef, 0xef, 0xc7, 0xd4, 0x45, 0x45, 0xef,
     0xc4, 0x94, 0xdd, 0x92, 0x8e, 0x29, 0x43, 0xdf, 0x26, 0x60, 0x39, 0x5b,
     0xee, 0xa3, 0x91, 0xa5, 0xcc, 0x2d, 0x06, 0xc5, 0x7b, 0x71, 0xb7, 0xed,
     0xf8, 0x76, 0xbd, 0x0e, 0x1d, 0x3a, 0x9b, 0x1d, 0xa8, 0x70, 0x20, 0x32,
     0x31, 0xe2, 0xc7, 0x6f, 0xcd, 0x65, 0xb0, 0x4d, 0x04, 0x53, 0xd8, 0x9f,
     0x6e, 0x16, 0x7d, 0x29, 0x33, 0x71, 0xeb, 0x2e, 0xdf, 0x6a, 0x83, 0x46,
     0x90, 0x6d, 0x5c, 0x95, 0xe6, 0xcb, 0x86, 0xe3, 0x7e, 0x75, 0x36, 0x3a,
     0x2e, 0x8e, 0xc9, 0x5f, 0x04, 0x2e, 0x7b, 0x1b, 0x45, 0xf3, 0x8d, 0x75,
     0xee, 0x05, 0xc7, 0x8d, 0x85, 0x25, 0x45, 0xef, 0x5f, 0xb7, 0x19, 0xbd,
     0x7d, 0x2b, 0xf6, 0xe2, 0xe2, 0x1d, 0x6d, 0x12, 0x13, 0x80, 0x03, 0xbc,
     0x9f, 0x0f, 0xba, 0xf5, 0xff, 0x00, 0x9a, 0x99, 0x91, 0x17, 0xa3, 0x5e,
     0x4b, 0xd0, 0xed, 0xea, 0x30, 0x47, 0xf2, 0xf4, 0x98, 0x29, 0x0e, 0x97,
     0x1f, 0x99, 0x84, 0x74, 0x14, 0xd0, 0xe4, 0xb8, 0x9d, 0xea, 0x00, 0xab,
     0xaf, 0x3e, 0x66, 0x6a, 0x83, 0xe2, 0xb8, 0xab, 0xf4, 0xfa, 0x7b, 0x74,
     0x3a, 0x7f, 0x08, 0x4d, 0xd2, 0xef, 0x22, 0x71, 0xc2, 0xd5, 0xd7, 0x8d,
     0x7b, 0xdc, 0x25, 0xf1, 0x22, 0x5e, 0x6a, 0xbf, 0x67, 0x2c, 0x79, 0xa1,
     0x37, 0x17, 0x5d, 0x35, 0x5c, 0x7e, 0x75, 0x5f, 0x4a, 0xe3, 0x45, 0x3c,
     0x58, 0x2b, 0x58, 0x2d, 0x9b, 0xe1, 0xf7, 0x5e, 0x93, 0x1c, 0xaa, 0x17,
     0x5c, 0xf3, 0x3f, 0x95, 0x82, 0x08, 0xff, 0x00, 0x83, 0xed, 0x6b, 0x8f,
     0x32, 0x9b, 0xd7, 0xd3, 0x8c, 0xde, 0xbe, 0x9c, 0x62, 0x93, 0xf0, 0xaf,
     0xf7, 0x7c, 0x17, 0xa6, 0xb7, 0x7c, 0x71, 0xae, 0xe4, 0x81, 0x75, 0xa7,
     0x7e, 0x66, 0x3c, 0xcd, 0xea, 0xbe, 0x95, 0xc6, 0x6a, 0xbe, 0x95, 0xc6,
     0x2d, 0xbf, 0x0c, 0xff, 0x00, 0x77, 0xc1, 0x7a, 0x53, 0x91, 0xf1, 0x3e,
     0x8a, 0x63, 0x31, 0xe6, 0xbb, 0x6a, 0xfa, 0x57, 0x19, 0x8c, 0xc8, 0xb3,
     0xf0, 0xcf, 0xf7, 0x2f, 0xff, 0xd9]"

definition frame_20_tail :: "u8 list" where
  "frame_20_tail =
    [0x3b, 0xd7, 0x1f, 0x37, 0x29, 0x78, 0xe3, 0x56, 0xf6, 0x34, 0x03, 0xac,
     0xbf, 0x0f, 0xba, 0xf2, 0xcb, 0xd5, 0xbb, 0x7d, 0x36, 0x29, 0xed, 0xe6,
     0xa5, 0xe1, 0x51, 0x9f, 0x4b, 0xab, 0x4c, 0xa2, 0x56, 0x27, 0x0f, 0x93,
     0xe4, 0x45, 0x8e, 0x7d, 0x66, 0x3c, 0x76, 0x1a, 0x46, 0x40, 0x4d, 0x97,
     0x50, 0x51, 0x50, 0x95, 0x0d, 0xd4, 0x51, 0x24, 0x54, 0xe3, 0x2a, 0x28,
     0xe2, 0x42, 0xe0, 0xe9, 0xc9, 0x49, 0x91, 0x0f, 0x85, 0x6a, 0xdb, 0xd7,
     0x2d, 0x52, 0xb0, 0xf3, 0x88, 0xdb, 0x3e, 0x52, 0x86, 0x30, 0xe1, 0xc7,
     0xd7, 0xf7, 0x57, 0x49, 0x0c, 0xc9, 0x40, 0x7b, 0xd4, 0x45, 0x11, 0x4b,
     0xb9, 0x15, 0x35, 0xc7, 0x93, 0x8d, 0x54, 0x8b, 0xbf, 0x4d, 0x71, 0xf5,
     0x35, 0x42, 0xd3, 0x5c, 0x6f, 0x27, 0x62, 0x69, 0x9e, 0x73, 0x17, 0x6b,
     0xe5, 0xf7, 0x5e, 0xf2, 0xb2, 0xf5, 0x0d, 0x4f, 0x86, 0x50, 0xe3, 0xed,
     0x37, 0x4e, 0x43, 0xc6, 0x44, 0xf3, 0xcf, 0x17, 0x9c, 0xf3, 0x86, 0x4a,
     0x46, 0xe2, 0xfa, 0xc8, 0x95, 0x57, 0x12, 0x16, 0x5e, 0x5f, 0xce, 0xcd,
     0x4b, 0xf2, 0x15, 0xbd, 0x09, 0xd7, 0x62, 0xf5, 0xc1, 0x57, 0x26, 0x4c,
     0x1f, 0xf8, 0x3e, 0x20, 0xe9, 0xc5, 0x75, 0x3c, 0x37, 0x96, 0xa8, 0xd8,
     0x7c, 0xf3, 0x45, 0xee, 0x45, 0xc7, 0x96, 0x9d, 0x54, 0x97, 0xbf, 0xbf,
     0x1f, 0x51, 0x15, 0x17, 0xbf, 0x12, 0x53, 0x76, 0x4a, 0x38, 0xa5, 0x0f,
     0x7c, 0x99, 0x80, 0xe5, 0x6f, 0xba, 0x8e, 0x46, 0x97, 0x30, 0xb4, 0x1b,
     0x15, 0xed, 0xc6, 0xdf, 0xb7, 0xe1, 0xda, 0xf4, 0x38, 0x74, 0xea, 0x6c,
     0x76, 0xa1, 0xc0, 0x80, 0xc8, 0xc7, 0x8b, 0x1d, 0xbf, 0x35, 0x96, 0xc1,
     0x34, 0x11, 0x4f, 0x62, 0x7d, 0xb8, 0x59, 0xf4, 0xa4, 0xcd, 0xc7, 0xac,
     0xbb, 0x7d, 0xaa, 0x0d, 0x1a, 0x41, 0xb5, 0x72, 0x57, 0x9b, 0x2e, 0x1b,
     0x8d, 0xf9, 0xd4, 0xd8, 0xe8, 0xba, 0x3b, 0x25, 0x7c, 0x10, 0xb9, 0xec,
     0x6d, 0x17, 0xce, 0x35, 0xd7, 0xb8, 0x17, 0x1e, 0x36, 0x14, 0x95, 0x17,
     0xbd, 0x7e, 0xdc, 0x66, 0xf5, 0xf4, 0xaf, 0xdb, 0x8b, 0x88, 0x75, 0xb4,
     0x48, 0x4e, 0x00, 0x0e, 0xf2, 0x7c, 0x3e, 0xeb, 0xd7, 0xfe, 0x6a, 0x66,
     0x44, 0x5e, 0x8d, 0x79, 0x2f, 0x43, 0xb7, 0xa8, 0xc1, 0x1f, 0xcb, 0xd2,
     0x60, 0xa4, 0x3a, 0x5c, 0x7e, 0x66, 0x11, 0xd0, 0x53, 0x43, 0x92, 0xe2,
     0x77, 0xa8, 0x02, 0xae, 0xbc, 0xf9, 0x99, 0xaa, 0x0f, 0x8a, 0xe2, 0xaf,
     0xd3, 0xe9, 0xed, 0xd0, 0xe9, 0xfc, 0x21, 0x37, 0x4b, 0xbc, 0x89, 0xc7,
     0x0b, 0x57, 0x5e, 0x35, 0xef, 0x70, 0x97, 0xc4, 0x89, 0x79, 0xaa, 0xfd,
     0x9c, 0xb1, 0xe6, 0x84, 0xdc, 0x5d, 0x74, 0xd5, 0x71, 0xf9, 0xd5, 0x7d,
     0x2b, 0x8d, 0x14, 0xf1, 0x60, 0xad, 0x60, 0xb6, 0x6f, 0x87, 0xdd, 0x7a,
     0x4c, 0x72, 0xa8, 0x5d, 0x73, 0xcc, 0xfe, 0x56, 0x08, 0x23, 0xfe, 0x0f,
     0xb5, 0xae, 0x3c, 0xca, 0x6f, 0x5f, 0x4e, 0x33, 0x7a, 0xfa, 0x71, 0x8a,
     0x4f, 0xc2, 0xbf, 0xdd, 0xf0, 0x5e, 0x9a, 0xdd, 0xf1, 0xc6, 0xbb, 0x92,
     0x05, 0xd6, 0x9d, 0xf9, 0x98, 0xf3, 0x37, 0xaa, 0xfa, 0x57, 0x19, 0xaa,
     0xfa, 0x57, 0x18, 0xb6, 0xfc, 0x33, 0xfd, 0xdf, 0x05, 0xe9, 0x4e, 0x47,
     0xc4, 0xfa, 0x29, 0x8c, 0xc7, 0x9a, 0xed, 0xab, 0xe9, 0x5c, 0x66, 0x33,
     0x22, 0xcf, 0xc3, 0x3f, 0xdc, 0xbf, 0xff, 0xd9]"

definition frame_21_tail :: "u8 list" where
  "frame_21_tail =
    [0xc1, 0x68, 0x5f, 0x64, 0x3e, 0x9f, 0x49, 0xc0, 0xd8, 0x8b, 0xf2, 0x59,
     0xf5, 0xe3, 0xca, 0x8a, 0x2a, 0x92, 0xaf, 0x35, 0xc6, 0x2e, 0xa2, 0xbd,
     0xeb, 0x8d, 0x9b, 0xd9, 0x00, 0x09, 0x3c, 0x5d, 0xff, 0x00, 0xdb, 0xf5,
     0x5b, 0xdc, 0xda, 0xcb, 0xd4, 0x76, 0x38, 0xe6, 0x4c, 0x66, 0x97, 0x0d,
     0xd9, 0x0f, 0x9f, 0x09, 0x96, 0x47, 0x71, 0x17, 0xc9, 0x4f, 0xab, 0xbf,
     0xd9, 0xe3, 0x8f, 0x2e, 0x9b, 0x95, 0x3c, 0x57, 0x18, 0xa4, 0xab, 0xe2,
     0xb8, 0xd3, 0xfb, 0x34, 0x5e, 0xfc, 0x5f, 0xfd, 0x7e, 0xab, 0xc5, 0xeb,
     0x5f, 0xa9, 0xd3, 0xfa, 0x3f, 0xe5, 0xbd, 0xa9, 0xef, 0xac, 0xfc, 0x9d,
     0x55, 0xbf, 0xee, 0x06, 0x27, 0x54, 0x89, 0xef, 0xf9, 0xa6, 0x0c, 0x41,
     0x57, 0xd9, 0x69, 0xcd, 0x35, 0xda, 0x02, 0xe7, 0x05, 0x0c, 0xbb, 0x90,
     0xdf, 0x35, 0x5e, 0xec, 0x35, 0x21, 0xdd, 0x14, 0xba, 0x84, 0x3e, 0xb4,
     0xc5, 0x66, 0x88, 0xec, 0x6d, 0xbb, 0xb8, 0xc3, 0x54, 0x8c, 0x41, 0xa7,
     0x7e, 0xaa, 0xbb, 0xf9, 0x63, 0xc6, 0xa2, 0x92, 0xaf, 0x8e, 0x33, 0x72,
     0xe9, 0xde, 0xb8, 0x8e, 0xa3, 0xb0, 0xf1, 0xcd, 0x6c, 0xd3, 0x11, 0x6f,
     0x0f, 0xaa, 0xc6, 0xe8, 0xbd, 0x5b, 0xe7, 0x46, 0x6a, 0x52, 0xf3, 0x52,
     0xe8, 0x81, 0x1e, 0x83, 0x35, 0x8a, 0xa5, 0x2a, 0xde, 0x27, 0xb8, 0xd3,
     0x23, 0x92, 0x1b, 0x0f, 0x4b, 0x34, 0x40, 0xe1, 0xb6, 0x69, 0xc8, 0xd1,
     0xb6, 0xf7, 0xee, 0x21, 0xe5, 0xbd, 0xcd, 0x11, 0x57, 0x45, 0xc0, 0x9c,
     0x87, 0x38, 0x6d, 0xe3, 0xcb, 0xa6, 0xe5, 0xf4, 0xae, 0x31, 0x49, 0x57,
     0xc5, 0x71, 0x23, 0x7b, 0x10, 0xd6, 0x80, 0xd1, 0x2e, 0x83, 0xc3, 0xea,
     0xb1, 0x7a, 0xeb, 0xe8, 0x6f, 0x95, 0x7e, 0xf9, 0x2b, 0x1e, 0xfe, 0x67,
     0xb5, 0xf6, 0x1c, 0x3e, 0x24, 0x7a, 0x08, 0x97, 0xdd, 0x0f, 0x98, 0x3d,
     0x31, 0x3d, 0x5d, 0xed, 0xb6, 0xbe, 0x8e, 0x21, 0x27, 0x7a, 0x62, 0xca,
     0x63, 0xc4, 0x0a, 0x38, 0xa8, 0x98, 0xc4, 0x75, 0x51, 0x3b, 0xd7, 0xf2,
     0xe2, 0xdd, 0x47, 0x4a, 0xca, 0x68, 0x44, 0x2c, 0x1a, 0x04, 0x92, 0xa7,
     0x07, 0x33, 0x3f, 0x3b, 0x9f, 0xf2, 0xfa, 0xaf, 0x63, 0xd1, 0xaf, 0x0f,
     0xd1, 0x83, 0x3e, 0x1d, 0x8f, 0x14, 0xf7, 0x5b, 0x76, 0x37, 0x10, 0x85,
     0xc1, 0xf3, 0x27, 0x54, 0xbc, 0xc5, 0x73, 0x5f, 0x10, 0x60, 0x54, 0xc4,
     0x7d, 0x2e, 0x29, 0xaf, 0xdc, 0xd3, 0x09, 0x7e, 0x99, 0x99, 0x92, 0xce,
     0x60, 0x5e, 0x8d, 0x5b, 0x54, 0xd7, 0x77, 0xc0, 0xa2, 0x71, 0x1b, 0xab,
     0x48, 0x1f, 0xba, 0x3c, 0x5b, 0x57, 0xab, 0x02, 0xa7, 0x80, 0xa2, 0x7c,
     0x21, 0x78, 0x2a, 0xec, 0x4e, 0x7a, 0xed, 0xf2, 0x91, 0xbd, 0x7d, 0x2b,
     0x8c, 0xdf, 0xcb, 0x9e, 0xab, 0xf5, 0xe0, 0x9b, 0x95, 0x14, 0x78, 0x10,
     0x61, 0xbe, 0x7f, 0x97, 0xd5, 0x7a, 0x5f, 0x99, 0x31, 0xb8, 0x8d, 0xec,
     0xec, 0x07, 0xc9, 0x1c, 0x64, 0x39, 0x0d, 0xcd, 0xf3, 0x71, 0xe6, 0x83,
     0x7a, 0xfa, 0x71, 0x9b, 0xd7, 0xd3, 0x8f, 0x11, 0x3e, 0xaa, 0xff, 0x00,
     0x77, 0xc9, 0x7a, 0x6f, 0xe1, 0x7a, 0xb1, 0xc7, 0x8f, 0x32, 0x7a, 0xaf,
     0xa5, 0x71, 0x9a, 0xaf, 0xa5, 0x71, 0x8b, 0x6f, 0x56, 0x7f, 0xbb, 0xe4,
     0xbd, 0x30, 0x48, 0x41, 0x6f, 0x77, 0xd1, 0xc6, 0x63, 0xcd, 0x0e, 0xd5,
     0xf4, 0xae, 0x33, 0x19, 0x91, 0x67, 0xab, 0x3f, 0xdc, 0xbf, 0xff, 0xd9]"

definition frame_22_tail :: "u8 list" where
  "frame_22_tail =
    [0x68, 0x9e, 0x95, 0x5e, 0xf5, 0x5f, 0x15, 0xf1, 0x5e, 0x78, 0xe4, 0xc7,
     0x96, 0xfd, 0x57, 0xd2, 0xb8, 0xcd, 0x57, 0xd2, 0xb8, 0xf5, 0xdd, 0x8f,
     0x07, 0xfe, 0x6f, 0xfb, 0x7e, 0xab, 0xc5, 0xea, 0x93, 0x2e, 0xf2, 0xde,
     0x46, 0x72, 0x66, 0x05, 0x3a, 0xd7, 0x6b, 0x70, 0x46, 0x99, 0xf0, 0xd5,
     0x67, 0x87, 0x97, 0x55, 0x82, 0x9e, 0x7f, 0x3f, 0x02, 0x71, 0x7e, 0x0c,
     0x7d, 0xa6, 0xbe, 0x18, 0x78, 0x65, 0x3b, 0x91, 0xe6, 0x59, 0x7d, 0x7e,
     0x16, 0xce, 0xa7, 0x58, 0x9d, 0x36, 0xa5, 0x17, 0x68, 0xed, 0x0e, 0xae,
     0xf4, 0x93, 0x26, 0x76, 0xa7, 0x80, 0xab, 0x7b, 0x15, 0x13, 0xd7, 0x8f,
     0x1d, 0x8a, 0x4b, 0xeb, 0xfb, 0x71, 0x9b, 0x97, 0xd2, 0xb8, 0x82, 0xa3,
     0xb1, 0x21, 0xf1, 0xf0, 0xf8, 0xd6, 0xff, 0x00, 0xc7, 0xea, 0xb0, 0x68,
     0x6e, 0xbd, 0x93, 0xdd, 0x17, 0x24, 0x7b, 0x2e, 0xdb, 0x9f, 0x59, 0x94,
     0x5b, 0x23, 0x52, 0xa3, 0xb9, 0x29, 0xcf, 0xcc, 0x4d, 0x51, 0x13, 0xd6,
     0x4b, 0xa0, 0xa2, 0x78, 0xaa, 0xa2, 0x62, 0xad, 0xd0, 0xe3, 0xb9, 0x0e,
     0x8d, 0x14, 0x24, 0x7e, 0xc9, 0xe1, 0xa1, 0x3d, 0xf9, 0x45, 0xe6, 0x5f,
     0xc2, 0x55, 0xc7, 0x97, 0xcd, 0xcb, 0xe9, 0x5c, 0x66, 0xf5, 0xd7, 0xbd,
     0x71, 0x1d, 0x3f, 0x61, 0x44, 0x60, 0x8e, 0x35, 0xef, 0xfe, 0x3f, 0x55,
     0x8e, 0xd4, 0xdd, 0x7a, 0x8b, 0x90, 0xe3, 0x8d, 0xb6, 0x20, 0xc3, 0x0e,
     0xcd, 0x92, 0xf3, 0x82, 0xcc, 0x78, 0xed, 0xfd, 0xf6, 0x53, 0xc6, 0xba,
     0x03, 0x43, 0xeb, 0x22, 0xe5, 0xea, 0xef, 0x5e, 0x49, 0x8b, 0x79, 0xd1,
     0xfb, 0x28, 0xdb, 0xc9, 0xbc, 0xbf, 0x6a, 0x01, 0xba, 0xd4, 0xaa, 0xac,
     0xc7, 0x3a, 0xe5, 0x52, 0x53, 0x7e, 0x6c, 0x89, 0x04, 0x88, 0x8b, 0xb7,
     0xf6, 0xb0, 0x44, 0x46, 0xc1, 0x3e, 0x48, 0x6b, 0xde, 0xab, 0x8f, 0x17,
     0x0a, 0x6a, 0xbe, 0x2b, 0x8f, 0xd5, 0x71, 0x55, 0x7b, 0xd7, 0x4f, 0x46,
     0x2c, 0x58, 0x3e, 0x08, 0xca, 0x02, 0x48, 0x76, 0x67, 0x1e, 0x76, 0xb7,
     0xcd, 0x2f, 0xad, 0xa2, 0x35, 0x00, 0x37, 0x35, 0x82, 0xf6, 0xcd, 0x7e,
     0x5e, 0x94, 0xfc, 0xbb, 0xb3, 0xaa, 0x35, 0xca, 0xa3, 0xfc, 0x08, 0x14,
     0xd6, 0x55, 0xe7, 0x8b, 0xbd, 0x7d, 0x42, 0x29, 0xe2, 0x64, 0xba, 0x08,
     0x8f, 0x89, 0x2a, 0x26, 0x02, 0xf2, 0xed, 0xc7, 0x29, 0xf6, 0x7c, 0xab,
     0xa2, 0xe1, 0xe1, 0x40, 0xa9, 0x56, 0xdb, 0xf2, 0xa5, 0x40, 0x9c, 0x2e,
     0x54, 0xf6, 0x05, 0xb5, 0x56, 0xa3, 0xeb, 0xf2, 0x59, 0x6b, 0x92, 0xaf,
     0x89, 0xab, 0x85, 0xf1, 0xf1, 0xe3, 0x33, 0x7a, 0xfa, 0x57, 0xed, 0xc6,
     0x6f, 0x5f, 0x4a, 0xfd, 0xb8, 0x7f, 0x9d, 0x2d, 0xfe, 0xdf, 0x1f, 0x9f,
     0xe1, 0xf5, 0x5e, 0x99, 0xeb, 0x15, 0xc7, 0xb3, 0x1e, 0xe0, 0xf2, 0xbb,
     0xfc, 0x5e, 0xa7, 0xc4, 0x57, 0xa0, 0xb2, 0xe0, 0xec, 0x52, 0x52, 0xd7,
     0xe1, 0xcc, 0x57, 0xb8, 0x95, 0x17, 0xb2, 0x2b, 0xe6, 0x8f, 0x3e, 0xf5,
     0xc7, 0x19, 0xfd, 0xf7, 0x1e, 0x67, 0xf5, 0xc6, 0x6b, 0x88, 0xd1, 0x7f,
     0x65, 0x0f, 0xcd, 0xf0, 0x5e, 0x99, 0x23, 0x7c, 0x7c, 0x72, 0x63, 0xcc,
     0xa6, 0xf5, 0xf4, 0xe3, 0x37, 0xaf, 0xa7, 0x18, 0xb3, 0xec, 0xaf, 0xf2,
     0xf8, 0x2f, 0x4c, 0xee, 0x36, 0x38, 0xcc, 0x79, 0x99, 0xda, 0xbe, 0x95,
     0xc6, 0x63, 0x32, 0x2d, 0xbe, 0xcc, 0xff, 0x00, 0x25, 0xff, 0xd9]"

definition frame_23_tail :: "u8 list" where
  "frame_23_tail =
    [0x54, 0x9c, 0x48, 0x34, 0xd1, 0xf3, 0xb6, 0xbc, 0x48, 0xbf, 0x0a, 0xa9,
     0xf3, 0x5b, 0x14, 0x57, 0x17, 0xea, 0x69, 0xe3, 0x8a, 0xdf, 0x0e, 0x1b,
     0x34, 0xba, 0x7c, 0x78, 0xf1, 0xc8, 0x8c, 0x19, 0x1f, 0x39, 0xc2, 0xd4,
     0xdc, 0x5e, 0xf5, 0x22, 0x55, 0xef, 0x22, 0x5d, 0x55, 0x57, 0xc5, 0x55,
     0x71, 0xe5, 0xd5, 0x35, 0x2f, 0x15, 0xc6, 0x6a, 0xa1, 0xe2, 0xab, 0xae,
     0x3c, 0x6f, 0x08, 0x34, 0x33, 0x27, 0x6b, 0xfe, 0xdf, 0xd5, 0x7a, 0xe3,
     0x75, 0xea, 0x3b, 0x1a, 0xf5, 0x08, 0xf5, 0x2a, 0xa3, 0x61, 0x02, 0x8d,
     0xc2, 0x3a, 0xc4, 0xf1, 0x70, 0x62, 0xf1, 0x05, 0x49, 0xb6, 0x76, 0x34,
     0x46, 0x4e, 0x9a, 0x27, 0x3d, 0x80, 0x00, 0xa4, 0xbe, 0x9e, 0x49, 0xe3,
     0x8f, 0x2e, 0xfa, 0xaf, 0xa5, 0x71, 0xf5, 0x0b, 0xdb, 0x8c, 0x6f, 0x08,
     0x34, 0x10, 0x7b, 0x5f, 0xf6, 0xfe, 0xab, 0x5b, 0x2f, 0x59, 0xf6, 0xdf,
     0x45, 0xf8, 0xf7, 0x05, 0xbf, 0x02, 0x79, 0xdd, 0x77, 0x0f, 0xe3, 0xf1,
     0x59, 0x95, 0xb4, 0x63, 0xc4, 0x0d, 0xbc, 0x40, 0x42, 0xd3, 0xe2, 0xd7,
     0xbb, 0x5c, 0x72, 0x5d, 0x1d, 0x18, 0xe0, 0xdb, 0xf6, 0xa5, 0x52, 0x7f,
     0xbe, 0x8b, 0x8f, 0x7c, 0x08, 0x2f, 0xca, 0x12, 0x2e, 0xab, 0xb3, 0x56,
     0xda, 0x23, 0x4d, 0x53, 0x83, 0xcd, 0x35, 0x4e, 0x69, 0xaf, 0x3c, 0x79,
     0x2d, 0x23, 0x5d, 0x7b, 0xd7, 0x18, 0x24, 0xbb, 0xbb, 0xd7, 0x10, 0xff,
     0x00, 0x26, 0xc9, 0x9b, 0x37, 0xa4, 0x69, 0xd3, 0x28, 0xf9, 0xaf, 0x79,
     0x59, 0x7a, 0x8a, 0x86, 0xe1, 0x39, 0x0a, 0x39, 0x17, 0x9e, 0x6d, 0x89,
     0x17, 0xb5, 0x51, 0x35, 0xfd, 0x38, 0xe4, 0xc7, 0x96, 0xfd, 0x57, 0xd2,
     0xb8, 0xcd, 0x57, 0xd2, 0xb8, 0xdf, 0xf9, 0x38, 0x7f, 0x77, 0xfd, 0xbf,
     0xaa, 0xf2, 0xcb, 0xd7, 0x87, 0x43, 0x6c, 0xa3, 0xf2, 0xe5, 0x53, 0xdf,
     0xe4, 0xf1, 0xfc, 0x59, 0x9e, 0x2c, 0x5a, 0x0b, 0x65, 0xf2, 0xb5, 0xec,
     0x3d, 0x33, 0xd8, 0x5c, 0xdb, 0x6d, 0x7e, 0x6e, 0xf2, 0xf9, 0x69, 0x8b,
     0x21, 0x8f, 0x10, 0x2a, 0x4a, 0x9e, 0x38, 0xfa, 0x4e, 0xaf, 0xa5, 0x71,
     0x6f, 0xa3, 0xa6, 0x8e, 0x9a, 0x16, 0xc3, 0x18, 0xd0, 0x24, 0xb5, 0x38,
     0x39, 0x99, 0xe5, 0xee, 0x7f, 0xc3, 0xf5, 0x5e, 0xce, 0x6b, 0x1c, 0x3c,
     0xcc, 0xcd, 0x06, 0x37, 0xb4, 0xd3, 0xb4, 0xdb, 0x19, 0xe5, 0x78, 0x5c,
     0xda, 0x85, 0xc4, 0xaa, 0x38, 0xd2, 0x8e, 0x82, 0xbe, 0x1c, 0x06, 0x5c,
     0x5d, 0x74, 0xf9, 0x6f, 0xa2, 0x7e, 0x4f, 0x15, 0x8f, 0xa4, 0xe6, 0x64,
     0x39, 0x55, 0xba, 0x26, 0x0c, 0x07, 0x7f, 0x1f, 0x98, 0xe2, 0xc5, 0x83,
     0xf2, 0xd1, 0x90, 0x1e, 0x4a, 0xf2, 0xa7, 0xcd, 0x1f, 0x39, 0x7d, 0x2b,
     0xa2, 0x78, 0xe3, 0xcb, 0x06, 0xf5, 0x4f, 0x15, 0xc7, 0xe9, 0x0b, 0x7f,
     0xa7, 0xef, 0xc4, 0xea, 0x38, 0xf0, 0x30, 0xc3, 0x7c, 0xff, 0x00, 0x0f,
     0xd5, 0x7a, 0x59, 0xa5, 0xd2, 0xdb, 0xa1, 0xd3, 0xc6, 0x2b, 0x5b, 0xfb,
     0x1e, 0x71, 0x17, 0x68, 0xdc, 0x5f, 0x12, 0x25, 0xf1, 0x22, 0x5e, 0x6a,
     0xbe, 0x9c, 0x6c, 0x36, 0xd8, 0xb8, 0xe6, 0x3c, 0xce, 0x6f, 0x5f, 0x4e,
     0x33, 0x7a, 0xfa, 0x71, 0x88, 0x8f, 0xa2, 0xbf, 0xcb, 0xe0, 0xbd, 0x35,
     0xb8, 0xdf, 0xc1, 0xe3, 0x31, 0xe6, 0x53, 0x7a, 0xfa, 0x71, 0x98, 0xc5,
     0x9f, 0x45, 0x7f, 0x97, 0xc1, 0x7f, 0xff, 0xd9]"

definition frame_24_tail :: "u8 list" where
  "frame_24_tail =
    [0x54, 0x9c, 0x48, 0x34, 0xd1, 0xf3, 0xb6, 0xbc, 0x48, 0xbf, 0x0a, 0xa9,
     0xf3, 0x5b, 0x14, 0x57, 0x17, 0xea, 0x69, 0xe3, 0x8a, 0xdf, 0x0e, 0x1b,
     0x34, 0xba, 0x7c, 0x78, 0xf1, 0xc8, 0x8c, 0x19, 0x1f, 0x39, 0xc2, 0xd4,
     0xdc, 0x5e, 0xf5, 0x22, 0x55, 0xef, 0x22, 0x5d, 0x55, 0x57, 0xc5, 0x55,
     0x71, 0xe5, 0xd5, 0x35, 0x2f, 0x15, 0xc6, 0x6a, 0xa1, 0xe2, 0xab, 0xae,
     0x3c, 0x6f, 0x08, 0x34, 0x33, 0x27, 0x6b, 0xfe, 0xdf, 0xd5, 0x7a, 0xe3,
     0x75, 0xea, 0x3b, 0x1a, 0xf5, 0x08, 0xf5, 0x2a, 0xa3, 0x61, 0x02, 0x8d,
     0xc2, 0x3a, 0xc4, 0xf1, 0x70, 0x62, 0xf1, 0x05, 0x49, 0xb6, 0x76, 0x34,
     0x46, 0x4e, 0x9a, 0x27, 0x3d, 0x80, 0x00, 0xa4, 0xbe, 0x9e, 0x49, 0xe3,
     0x8f, 0x2e, 0xfa, 0xaf, 0xa5, 0x71, 0xf5, 0x0b, 0xdb, 0x8c, 0x6f, 0x08,
     0x34, 0x10, 0x7b, 0x5f, 0xf6, 0xfe, 0xab, 0x5b, 0x2f, 0x59, 0xf6, 0xdf,
     0x45, 0xf8, 0xf7, 0x05, 0xbf, 0x02, 0x79, 0xdd, 0x77, 0x0f, 0xe3, 0xf1,
     0x59, 0x95, 0xb4, 0x63, 0xc4, 0x0d, 0xbc, 0x40, 0x42, 0xd3, 0xe2, 0xd7,
     0xbb, 0x5c, 0x72, 0x5d, 0x1d, 0x18, 0xe0, 0xdb, 0xf6, 0xa5, 0x52, 0x7f,
     0xbe, 0x8b, 0x8f, 0x7c, 0x08, 0x2f, 0xca, 0x12, 0x2e, 0xab, 0xb3, 0x56,
     0xda, 0x23, 0x4d, 0x53, 0x83, 0xcd, 0x35, 0x4e, 0x69, 0xaf, 0x3c, 0x79,
     0x2d, 0x23, 0x5d, 0x7b, 0xd7, 0x18, 0x24, 0xbb, 0xbb, 0xd7, 0x10, 0xff,
     0x00, 0x26, 0xc9, 0x9b, 0x37, 0xa4, 0x69, 0xd3, 0x28, 0xf9, 0xaf, 0x79,
     0x59, 0x7a, 0x8a, 0x86, 0xe1, 0x39, 0x0a, 0x39, 0x17, 0x9e, 0x6d, 0x89,
     0x17, 0xb5, 0x51, 0x35, 0xfd, 0x38, 0xe4, 0xc7, 0x96, 0xfd, 0x57, 0xd2,
     0xb8, 0xcd, 0x57, 0xd2, 0xb8, 0xdf, 0xf9, 0x38, 0x7f, 0x77, 0xfd, 0xbf,
     0xaa, 0xf2, 0xcb, 0xd7, 0x87, 0x43, 0x6c, 0xa3, 0xf2, 0xe5, 0x53, 0xdf,
     0xe4, 0xf1, 0xfc, 0x59, 0x9e, 0x2c, 0x5a, 0x0b, 0x65, 0xf2, 0xb5, 0xec,
     0x3d, 0x33, 0xd8, 0x5c, 0xdb, 0x6d, 0x7e, 0x6e, 0xf2, 0xf9, 0x69, 0x8b,
     0x21, 0x8f, 0x10, 0x2a, 0x4a, 0x9e, 0x38, 0xfa, 0x4e, 0xaf, 0xa5, 0x71,
     0x6f, 0xa3, 0xa6, 0x8e, 0x9a, 0x16, 0xc3, 0x18, 0xd0, 0x24, 0xb5, 0x38,
     0x39, 0x99, 0xe5, 0xee, 0x7f, 0xc3, 0xf5, 0x5e, 0xce, 0x6b, 0x1c, 0x3c,
     0xcc, 0xcd, 0x06, 0x37, 0xb4, 0xd3, 0xb4, 0xdb, 0x19, 0xe5, 0x78, 0x5c,
     0xda, 0x85, 0xc4, 0xaa, 0x38, 0xd2, 0x8e, 0x82, 0xbe, 0x1c, 0x06, 0x5c,
     0x5d, 0x74, 0xf9, 0x6f, 0xa2, 0x7e, 0x4f, 0x15, 0x8f, 0xa4, 0xe6, 0x64,
     0x39, 0x55, 0xba, 0x26, 0x0c, 0x07, 0x7f, 0x1f, 0x98, 0xe2, 0xc5, 0x83,
     0xf2, 0xd1, 0x90, 0x1e, 0x4a, 0xf2, 0xa7, 0xcd, 0x1f, 0x39, 0x7d, 0x2b,
     0xa2, 0x78, 0xe3, 0xcb, 0x06, 0xf5, 0x4f, 0x15, 0xc7, 0xe9, 0x0b, 0x7f,
     0xa7, 0xef, 0xc4, 0xea, 0x38, 0xf0, 0x30, 0xc3, 0x7c, 0xff, 0x00, 0x0f,
     0xd5, 0x7a, 0x59, 0xa5, 0xd2, 0xdb, 0xa1, 0xd3, 0xc6, 0x2b, 0x5b, 0xfb,
     0x1e, 0x71, 0x17, 0x68, 0xdc, 0x5f, 0x12, 0x25, 0xf1, 0x22, 0x5e, 0x6a,
     0xbe, 0x9c, 0x6c, 0x36, 0xd8, 0xb8, 0xe6, 0x3c, 0xce, 0x6f, 0x5f, 0x4e,
     0x33, 0x7a, 0xfa, 0x71, 0x88, 0x8f, 0xa2, 0xbf, 0xcb, 0xe0, 0xbd, 0x35,
     0xb8, 0xdf, 0xc1, 0xe3, 0x31, 0xe6, 0x53, 0x7a, 0xfa, 0x71, 0x98, 0xc5,
     0x9f, 0x45, 0x7f, 0x97, 0xc1, 0x7f, 0xff, 0xd9]"

definition frame_25_tail :: "u8 list" where
  "frame_25_tail =
    [0x61, 0xbf, 0x27, 0x8f, 0x69, 0x48, 0x25, 0x4a, 0x47, 0x37, 0x9b, 0x84,
     0x9a, 0xed, 0x2e, 0x0a, 0xf6, 0x01, 0x55, 0x35, 0x12, 0x27, 0x55, 0x31,
     0xe5, 0x23, 0x72, 0xfa, 0x71, 0x88, 0xaa, 0xab, 0xdf, 0x88, 0xe3, 0xec,
     0x70, 0x6f, 0xff, 0x00, 0x6f, 0xfc, 0x7f, 0x55, 0x23, 0x9f, 0x71, 0x65,
     0xea, 0x3f, 0x19, 0x8f, 0x2d, 0xfa, 0xaf, 0xa5, 0x71, 0x9a, 0xaf, 0xa5,
     0x71, 0xe7, 0xf0, 0x68, 0xff, 0x00, 0x17, 0xfe, 0x3f, 0xaa, 0xd1, 0x7a,
     0x8c, 0xb5, 0xe9, 0xf5, 0x8c, 0xc0, 0xaa, 0x54, 0x58, 0xa0, 0xd1, 0xa4,
     0x54, 0x7c, 0x94, 0xe3, 0x6d, 0xc8, 0x78, 0xa4, 0x33, 0x1d, 0xad, 0x49,
     0x17, 0xcd, 0xde, 0x48, 0xa6, 0x88, 0xa8, 0xa2, 0xaa, 0x28, 0xa8, 0x84,
     0x8a, 0x9d, 0xf8, 0x20, 0x8f, 0x92, 0xf7, 0xd3, 0x89, 0xfe, 0xc7, 0xe2,
     0x87, 0xd2, 0xac, 0x31, 0xfc, 0xc8, 0xb8, 0xf2, 0xaa, 0xba, 0x8f, 0x8a,
     0xe3, 0xf8, 0x84, 0x4a, 0xbd, 0xeb, 0xf6, 0xe3, 0xd3, 0xd8, 0xef, 0xbb,
     0x28, 0x03, 0xfc, 0xbf, 0xf9, 0x2c, 0x5e, 0xa4, 0xea, 0x94, 0x7a, 0xa5,
     0xad, 0x5c, 0x76, 0x9d, 0x59, 0x80, 0x10, 0x26, 0x03, 0x2d, 0xc8, 0x11,
     0x6e, 0x50, 0xc9, 0x07, 0x1b, 0x35, 0x71, 0x11, 0x50, 0x91, 0x13, 0x9e,
     0xad, 0x9a, 0x2a, 0x2a, 0x63, 0x5e, 0x3c, 0xb7, 0xea, 0xbe, 0x95, 0xc6,
     0x6a, 0xbe, 0x95, 0xc7, 0x9f, 0xc1, 0xa3, 0xfc, 0x5f, 0xf8, 0xfe, 0xab,
     0xcb, 0x2f, 0x51, 0x15, 0x09, 0xbd, 0x4e, 0x3e, 0xee, 0x13, 0xaf, 0x99,
     0x92, 0x36, 0xdb, 0x2d, 0x8e, 0xae, 0xc8, 0x70, 0x95, 0x04, 0x00, 0x13,
     0xc4, 0x88, 0x95, 0x05, 0x13, 0xd2, 0xb8, 0xb7, 0x9d, 0x1c, 0xf2, 0x8d,
     0xcc, 0x9b, 0xcb, 0x76, 0xa0, 0x4d, 0x36, 0x9d, 0xac, 0x4f, 0x71, 0x67,
     0x55, 0x1c, 0x6f, 0xb4, 0x9c, 0x73, 0x44, 0xf8, 0x31, 0x5f, 0x10, 0x6c,
     0x50, 0x1b, 0x1f, 0x4a, 0x06, 0xbe, 0x38, 0xf1, 0x78, 0xa6, 0xab, 0xe2,
     0xb8, 0xcd, 0x57, 0x6f, 0x7a, 0xf2, 0xc3, 0xbc, 0x1f, 0x02, 0x65, 0x01,
     0x73, 0x83, 0xb3, 0x13, 0xce, 0xd6, 0xf9, 0xa0, 0x2b, 0x68, 0x8d, 0x40,
     0xcb, 0x9a, 0xc3, 0xc9, 0x7b, 0x77, 0xaa, 0x54, 0x23, 0xd1, 0xe9, 0xf2,
     0x25, 0x4d, 0x75, 0xa8, 0xf0, 0xe3, 0x36, 0x4e, 0x48, 0x71, 0xcf, 0x31,
     0xb6, 0xc5, 0x35, 0x22, 0x2f, 0x52, 0x26, 0xba, 0xe1, 0x1f, 0x43, 0x87,
     0xfa, 0x97, 0xe4, 0xbd, 0x46, 0xac, 0xe9, 0x4d, 0x07, 0xaa, 0xa3, 0xc1,
     0xa7, 0xb3, 0x2b, 0xef, 0xd0, 0x60, 0x0e, 0xe1, 0x83, 0x11, 0x74, 0xee,
     0xe1, 0xb2, 0x7b, 0x97, 0xc7, 0x71, 0xae, 0xbc, 0xd3, 0x1e, 0x3e, 0x78,
     0xab, 0xeb, 0xfb, 0x71, 0x9c, 0x55, 0xf5, 0xfd, 0xb8, 0x79, 0x72, 0x96,
     0xfd, 0x00, 0x3e, 0xff, 0x00, 0xc3, 0xf5, 0x5e, 0x99, 0xb3, 0x06, 0xa8,
     0xe5, 0x72, 0xa9, 0xe4, 0x16, 0x0c, 0x9a, 0x67, 0x6a, 0x39, 0x52, 0x78,
     0x7b, 0xf6, 0x2f, 0x9a, 0xc2, 0x2a, 0x77, 0x11, 0x77, 0x97, 0xa0, 0x3e,
     0x96, 0x35, 0xb6, 0xdb, 0x71, 0xdb, 0x11, 0x68, 0x04, 0x40, 0x3b, 0x22,
     0x23, 0xc9, 0x31, 0xe6, 0x73, 0x7a, 0xfa, 0x71, 0x9b, 0xd7, 0xd3, 0x8f,
     0x11, 0x63, 0x0a, 0xfe, 0xaf, 0x82, 0xf4, 0xc7, 0x0e, 0x96, 0xcc, 0x77,
     0x0c, 0xfb, 0x7b, 0xcf, 0xce, 0xc6, 0x63, 0xcc, 0xde, 0xab, 0xe9, 0x5c,
     0x66, 0x31, 0x6d, 0xf4, 0x67, 0xf5, 0x2f, 0xff, 0xd9]"

definition frame_tails :: "u8 list list" where
  "frame_tails =
     [frame_1_tail, frame_2_tail, frame_3_tail, frame_4_tail, frame_5_tail,
      frame_6_tail, frame_7_tail, frame_8_tail, frame_9_tail, frame_10_tail,
      frame_11_tail, frame_12_tail, frame_13_tail, frame_14_tail, frame_15_tail,
      frame_16_tail, frame_17_tail, frame_18_tail, frame_19_tail, frame_20_tail,
      frame_21_tail, frame_22_tail, frame_23_tail, frame_24_tail, frame_25_tail]"

section \<open>Entropy-coded data up to the end marker\<close>

fun scan_ok :: "u8 list \<Rightarrow> bool" where
  "scan_ok [] = False"
| "scan_ok [b] = False"
| "scan_ok (a # b # rest) =
     (if a = 0xff then (if b = 0 then scan_ok rest else b = 0xd9 \<and> rest = [])
      else scan_ok (b # rest))"

lemma scan_ok_ends: "scan_ok bs \<Longrightarrow> \<exists>cs. bs = cs @ [0xff, 0xd9]"
proof (induction bs rule: scan_ok.induct)
  case (3 a b rest)
  show ?case
  proof (cases "a = 0xff")
    case True
    show ?thesis
    proof (cases "b = 0")
      case b: True
      with 3 True obtain cs where "rest = cs @ [0xff, 0xd9]" by auto
      then show ?thesis by (intro exI [of _ "a # b # cs"]) simp
    next
      case False
      with 3(3) True show ?thesis by auto
    qed
  next
    case False
    with 3 obtain cs where "b # rest = cs @ [0xff, 0xd9]" by auto
    then show ?thesis by (intro exI [of _ "a # cs"]) simp
  qed
qed simp_all

lemmas frame_tail_defs =
  frame_1_tail_def frame_2_tail_def frame_3_tail_def frame_4_tail_def frame_5_tail_def
  frame_6_tail_def frame_7_tail_def frame_8_tail_def frame_9_tail_def frame_10_tail_def
  frame_11_tail_def frame_12_tail_def frame_13_tail_def frame_14_tail_def frame_15_tail_def
  frame_16_tail_def frame_17_tail_def frame_18_tail_def frame_19_tail_def frame_20_tail_def
  frame_21_tail_def frame_22_tail_def frame_23_tail_def frame_24_tail_def frame_25_tail_def

lemma scan_1: "list_all scan_ok [frame_1_tail, frame_2_tail, frame_3_tail, frame_4_tail, frame_5_tail]"
  by code_simp

lemma scan_2: "list_all scan_ok [frame_6_tail, frame_7_tail, frame_8_tail, frame_9_tail, frame_10_tail]"
  by code_simp

lemma scan_3: "list_all scan_ok [frame_11_tail, frame_12_tail, frame_13_tail, frame_14_tail, frame_15_tail]"
  by code_simp

lemma scan_4: "list_all scan_ok [frame_16_tail, frame_17_tail, frame_18_tail, frame_19_tail, frame_20_tail]"
  by code_simp

lemma scan_5: "list_all scan_ok [frame_21_tail, frame_22_tail, frame_23_tail, frame_24_tail, frame_25_tail]"
  by code_simp

lemma frame_tails_scan: "list_all scan_ok frame_tails"
  using scan_1 scan_2 scan_3 scan_4 scan_5
  by (simp only: frame_tails_def list.pred_inject simp_thms)

text \<open>A tail has at most the 480 bytes of forty full lines.\<close>

lemma frame_tails_short: "list_all (\<lambda>t. length t \<le> 480) frame_tails"
  by (simp add: frame_tails_def frame_tail_defs)

lemma length_frame_tails: "length frame_tails = FRAME_COUNT"
  by (simp add: frame_tails_def FRAME_COUNT_def)

end
