(* ===== verification/Frame_Files.thy ===== *)
theory Frame_Files
  imports Frames Frame_Tails Video_Steps
begin

text \<open>
  The arrays of \<open>v4l2/frames.h\<close> as pictures: an assignment of bytes to the frames that has the
  listed sizes, headers and tails is a sequence of complete JPEG pictures of the size the driver
  announces, and this is what a viewer finds in the buffers.
\<close>

section \<open>The real arrays\<close>

definition frames_real :: "(nat \<Rightarrow> u8 list) \<Rightarrow> bool" where
  "frames_real fr \<longleftrightarrow> frames_ok fr \<and>
     (\<forall>i < FRAME_COUNT. take (length (frame_heads ! i)) (fr i) = frame_heads ! i \<and>
        drop (length (fr i) - length (frame_tails ! i)) (fr i) = frame_tails ! i)"

lemma frames_real_ok: "frames_real fr \<Longrightarrow> frames_ok fr"
  by (simp add: frames_real_def)

lemma frames_real_header:
  assumes "frames_real fr" and "i < FRAME_COUNT"
  shows "jpeg_header (fr i) = Some frame_layout"
proof -
  have "jpeg_header (frame_heads ! i) = Some frame_layout"
    using frame_heads_layout assms(2) by (simp add: list_all_length length_frame_heads)
  moreover have "fr i = frame_heads ! i @ drop (length (frame_heads ! i)) (fr i)"
    using assms append_take_drop_id [of "length (frame_heads ! i)" "fr i"]
    by (simp add: frames_real_def)
  ultimately show ?thesis by (metis jpeg_header_append)
qed

text \<open>Every array ends with the marker that ends a picture.\<close>

lemma frames_real_end:
  assumes "frames_real fr" and "i < FRAME_COUNT"
  shows "\<exists>cs. fr i = cs @ [0xff, 0xd9]"
proof -
  have "scan_ok (frame_tails ! i)"
    using frame_tails_scan assms(2) by (simp add: list_all_length length_frame_tails)
  then obtain cs where "frame_tails ! i = cs @ [0xff, 0xd9]" using scan_ok_ends by blast
  moreover have "fr i = take (length (fr i) - length (frame_tails ! i)) (fr i) @ frame_tails ! i"
    using assms append_take_drop_id [of "length (fr i) - length (frame_tails ! i)" "fr i"]
    by (simp add: frames_real_def)
  ultimately show ?thesis by (metis append.assoc)
qed

text \<open>A buffer that was filled holds one complete picture of the announced size.\<close>

definition shows_picture :: "frame_buf \<Rightarrow> bool" where
  "shows_picture buf \<longleftrightarrow> (\<exists>m. plane_mem buf = Some m \<and>
     jpeg_header (take (payload buf) m) = Some frame_layout \<and>
     (\<exists>cs. take (payload buf) m = cs @ [0xff, 0xd9]))"

lemma fill_buf_picture:
  assumes "frames_real fr" and "plane_mem buf = Some m" and "fill_buf fr s buf = Some buf'"
  shows "shows_picture buf'"
  using fill_buf_content [OF frames_real_ok [OF assms(1)] assms(2,3)]
    frames_real_header [OF assms(1), of "frame_index s"]
    frames_real_end [OF assms(1), of "frame_index s"]
  by (auto simp: shows_picture_def)

text \<open>An assignment like this exists: fill the gap between head and tail with zeroes.\<close>

definition frames_example :: "nat \<Rightarrow> u8 list" where
  "frames_example i = frame_heads ! i @
     replicate (frame_lens ! i - (length (frame_heads ! i) + length (frame_tails ! i))) 0 @
     frame_tails ! i"

lemma frame_heads_short: "list_all (\<lambda>h. length h \<le> 480) frame_heads"
  by (simp add: frame_heads_def frame_head_defs)

lemma frames_example_real: "frames_real frames_example"
proof -
  have fit: "length (frame_heads ! i) + length (frame_tails ! i) \<le> frame_lens ! i"
    if i: "i < FRAME_COUNT" for i
  proof -
    have "\<forall>l\<in>set frame_lens. 960 \<le> l" by (simp add: frame_lens_def)
    then have "960 \<le> frame_lens ! i" using i by simp
    moreover have "length (frame_heads ! i) \<le> 480" "length (frame_tails ! i) \<le> 480"
      using frame_heads_short frame_tails_short i
      by (simp_all add: list_all_length length_frame_heads length_frame_tails)
    ultimately show ?thesis by linarith
  qed
  have "length (frames_example i) = frame_lens ! i" if "i < FRAME_COUNT" for i
    using fit [OF that] by (simp add: frames_example_def)
  moreover have "take (length (frame_heads ! i)) (frames_example i) = frame_heads ! i" for i
    by (simp add: frames_example_def)
  moreover have "drop (length (frames_example i) - length (frame_tails ! i)) (frames_example i) =
      frame_tails ! i" for i
    by (simp add: frames_example_def)
  ultimately show ?thesis unfolding frames_real_def frames_ok_def by blast
qed

end
