(* ===== verification/Spec2Isabelle.thy ===== *)
theory Spec2Isabelle
  imports Static_Call Firmware Gpio Regulator Spi I2c_Transfer I2c_Module Video_Show
    Fb_Dirty Drm_Module Net_Module Bus Fbcat_Main Screen_Path Fb_Flush Fb_Rectangle_Spec
    Frame_Files
begin

text \<open>
  A verification library for the dummy Linux drivers of this repository and for the C programs that
  test them.

  The program. Every directory holds one driver that has no hardware behind it: it registers with a
  kernel subsystem, answers the subsystem's callbacks and unregisters. All drivers are copies of
  \<open>template/template.c\<close>: a device number, a class and a device, acquired in this order and released
  in the opposite one by a chain of labels. Around this frame \<open>static_call\<close>, \<open>firmware\<close>, \<open>gpio\<close>,
  \<open>regulator\<close>, \<open>spi\<close>, \<open>i2c\<close>, \<open>v4l2\<close>, \<open>fbdev\<close> and \<open>drm\<close> add their subsystem; \<open>net\<close> and the
  two \<open>bus\<close> examples have a frame of their own. The framebuffer of \<open>fbdev\<close> (or of \<open>drm\<close>) is
  written by \<open>fb_str\<close> and \<open>fb_rectangle\<close> and read by \<open>fbcat\<close>; the video device of \<open>v4l2\<close> plays the
  25 pictures of \<open>frames.h\<close>.

  The kernel. Its functions are not in the repository, so a kernel is a parameter that answers the
  \<open>n\<close>-th call of a run (\<open>Kernel\<close>). A handler is a program of the state monad over a world: the
  driver's own state (a record with the fields of its C structure) and the history of the calls with
  their answers. A ledger reads the history and tells which resources are held; it is undefined as
  soon as something is released that is not held. What a lemma needs of the answers (that a call
  succeeds, or that it fails as documented) is a hypothesis with a name.

  The theories, in the order they build on each other:

  \<^item> \<open>Prelude\<close>: integer types, error numbers, symbolic execution, decimal output.
  \<^item> \<open>Kernel\<close>, \<open>Chrdev\<close>, \<open>Module_Driver\<close>: calls and answers, ledgers, the labels \<open>out_dev\<close>,
    \<open>out_class\<close>, \<open>out_dev_num\<close>, and the contract between a register and an unregister function as a
    locale. A session is a list of load and unload requests; the locale proves that its account of
    resources stays exact, and every driver below interprets it. A second locale adds the callbacks
    a loaded driver serves; a life is a list of requests and callbacks. A third is for drivers that
    are called through a table of function pointers, and gives the second.
  \<^item> \<open>Template\<close> (also \<open>hello/hello.c\<close>), \<open>Static_Call\<close>, \<open>Firmware\<close>, \<open>Gpio\<close>, \<open>Regulator\<close> (also
    \<open>consumer.c\<close>), \<open>Spi\<close>: one driver each, with its handlers and its register and unregister
    functions.
  \<^item> \<open>I2c\<close>, \<open>I2c_Transfer\<close>, \<open>I2c_Module\<close>: the adapter of \<open>i2c/i2c.c\<close>. Message buffers live in a
    memory, so that overlapping buffers are modelled; the interrupt loop is solved in closed form.
  \<^item> \<open>Video\<close>, \<open>Video_Stream\<close>, \<open>Video_Steps\<close>, \<open>Video_Module\<close>: \<open>v4l2/video.c\<close>. The timer handler is
    split where it drops its lock; \<open>Video_Steps\<close> lets the operations of the videobuf2 core run in
    between, as an inductive relation with an invariant, and \<open>Video_Stream\<close> states the contract of
    a videobuf2 driver as a locale. \<open>Video_Tables\<close> holds the tables of functions, \<open>Video_Module\<close> the
    ioctls, loading and unloading. \<open>Video_Life\<close> puts them together: every call of a life, from loading
    to unloading, goes through the tables, and a wrong entry is a fault; \<open>Video_Show\<close> follows such a
    life up to the pictures. What the kernel refuses (unloading an open device, starting twice)
    and the size of the memory it maps are its documented behaviour.
  \<^item> \<open>Frames\<close>, \<open>Frame_Tails\<close>, \<open>Frame_Files\<close>: the 25 JPEG arrays of \<open>v4l2/frames.h\<close>, their headers
    and their last lines byte by byte.
  \<^item> \<open>Fbdev\<close>, \<open>Fbdev_Module\<close>, \<open>Fb_Dirty\<close>: \<open>fbdev/dummy-fb.c\<close>, its drawing and colour operations,
    allocation and unwinding, and the area its deferred io reports.
  \<^item> \<open>Drm_Tables\<close>, \<open>Drm\<close>, \<open>Drm_Module\<close>: \<open>drm/drm_simple_display_pipe/drm.c\<close>. \<open>Net\<close>, \<open>Net_Module\<close>: \<open>net/net.c\<close>.
    \<open>Bus\<close>: \<open>bus/basic_bus\<close> and \<open>bus/dummy_bus\<close>.
  \<^item> \<open>Fbcat\<close>, \<open>Fbcat_Spec\<close>, \<open>Fbcat_Main\<close>, \<open>Fb_Str\<close>, \<open>Fb_Str_Spec\<close>, \<open>Fb_Rectangle\<close>, \<open>Fb_Rectangle_Spec\<close>: the
    programs under \<open>tests\<close>, each as a function from its arguments and the answers of its environment
    to its outcome; an access outside the mapped screen is the outcome \<open>Crash\<close>.
  \<^item> \<open>Font\<close>: the table \<open>fontdata_8x16\<close> of \<open>fb_str.c\<close> and what distinguishes its glyphs. The drawing
    functions take the table as an argument, so that most lemmas hold for any font.
  \<^item> \<open>Rgb565\<close>, \<open>Screen_Path\<close>, \<open>Fb_Text\<close>, \<open>Fb_Bounds\<close>, \<open>Fb_Flush\<close>: the driver and the programs
    together, up to reading a text from the picture of the screen, where \<open>fb_str\<close> leaves the screen,
    and that what it draws lies in the area the driver reports.

  What is shown. Loading and unloading: for each driver, that any session that ends with an unload
  gives back what it took, and where the code does not do so, exactly what is left or released twice.
  Streaming: no buffer is lost, duplicated or reordered in any interleaving, the handler never leaves
  its buffer, the pictures come in order, and a whole life of the driver is free of faults and ends
  with nothing held and no timer armed. Screens: what a pixel, a glyph, a string and a rectangle
  change, which area is reported as dirty, what file a dump is, and that a colour written by one
  program is read back by the other within the precision of 16 bits, and that a text written by one
  can be read, character by character, from the picture made by the other. Transfers: which bytes change,
  that the waits end, what the address registers hold. Devices: how many network devices a load
  leaves, which driver a bus binds.

  Bounds. Integers have the width of the C types and wrap. Loops over arrays and lists are
  structural recursion; the interrupt loop of \<open>i2c.c\<close> runs by the counter it decrements. The walk over a JPEG header has
  fuel for 16 segments; the longest header of \<open>frames.h\<close> needs fewer. The only loop that may not
  end is the one of \<open>fb_rectangle\<close>, a partial function; it is shown to end when the clock runs. A
  hypothesis on a geometry (\<open>geometry_ok\<close>, \<open>mono_ok\<close>, \<open>screen_ok\<close>, \<open>bench_fits\<close>) says that products of 32
  bits do not wrap; the screen of the driver satisfies each.

  Not modelled. Debug output (\<open>debug\<close>, \<open>DRM_DEBUG_KMS\<close>) and what the programs print about themselves
  have no effect on the state. Locks are
  modelled as the calls they are where releasing them matters (\<open>net\<close>, \<open>drm\<close>) and as the boundaries
  of atomic steps in \<open>video.c\<close>; everything behind a kernel call, the videobuf2, DRM and fbdev cores
  among it, is the parameter. The tables that wire handlers to a subsystem are part of the driver's
  state in \<open>gpio\<close>, \<open>regulator\<close>, \<open>spi\<close>, \<open>fbdev\<close>, \<open>drm\<close> and \<open>v4l2\<close>, and a callback is dispatched through them; in the
  other drivers a callback is dispatched to its handler directly (\<open>i2c_serve\<close>, \<open>net_serve\<close>). Entries
  that are functions of the kernel are names only. Of
  \<open>frames.h\<close> the entropy-coded middle of each array is an arbitrary list of bytes, because nothing in
  the driver looks at it and its meaning is that of the JPEG format. The quotient that \<open>fb_rectangle\<close> prints is kept as its dividend
  and divisor. The makefiles, the shell script \<open>fbgrab\<close>, the Python viewer \<open>fbview.py\<close> and the Rust
  program \<open>spi-test\<close> are not part of the C code.
\<close>

section \<open>Kernels for the witnesses\<close>

text \<open>
  A kernel that grants every request: a zero \<open>int\<close>, an ordinary address and an ordinary output.
  \<open>refusing P\<close> answers the calls of \<open>P\<close> with \<open>-EINVAL\<close> and an error pointer instead.
\<close>

definition granting :: "'c kernel" where
  "granting n c = \<lparr>r_int = 0, r_ptr = 0x1000, r_out = 0x2000\<rparr>"

definition refusing :: "('c \<Rightarrow> bool) \<Rightarrow> 'c kernel" where
  "refusing P n c =
     (if P c then \<lparr>r_int = - EINVAL, r_ptr = - 22, r_out = 0\<rparr> else granting n c)"

lemma granting_simps [simp]:
  "r_int (granting n c) = 0" "r_ptr (granting n c) = 0x1000" "r_out (granting n c) = 0x2000"
  by (simp_all add: granting_def)

lemma refusing_simps [simp]:
  "r_int (refusing P n c) = (if P c then - EINVAL else 0)"
  "r_ptr (refusing P n c) = (if P c then - 22 else 0x1000)"
  "r_out (refusing P n c) = (if P c then 0 else 0x2000)"
  by (simp_all add: refusing_def)

lemma IS_ERR_cases [simp]: "\<not> IS_ERR 0x1000" "IS_ERR (- 22)"
  by (simp_all add: IS_ERR_def)

lemma granting_good [simp]:
  "alloc_succeeds granting" "alloc_documented granting" "link_documented granting"
  "fb_registers granting" "drm_steps_succeed granting" "video_steps_succeed granting"
  "spi_steps_succeed granting" "adapter_added granting" "bus_documented granting"
  "regulator_registers granting" "supply_found granting"
  by (simp_all add: alloc_succeeds_def alloc_documented_def link_documented_def fb_registers_def
      drm_steps_succeed_def drm_init_succeeds_def video_steps_succeed_def spi_steps_succeed_def adapter_added_def
      bus_documented_def regulator_registers_def supply_found_def Let_def)

text \<open>A run that has made no call yet.\<close>

abbreviation fresh :: "'d \<Rightarrow> ('c, 'd) world" where
  "fresh d \<equiv> \<lparr>hist = [], dv = d\<rparr>"


section \<open>Loading and unloading\<close>

text \<open>
  C5. Loading \<open>net\<close> either registers exactly as many devices as \<open>numdummies\<close> asks for (none for a
  negative number) and returns 0, or returns a negative error and leaves nothing behind: no device,
  no link, no lock.
\<close>

theorem net_load_exact:
  assumes "link_documented K" and "net_acct (hist w) = Some rs" and "dv w = net_d0"
  shows "case run_state (dummy_init_module numdummies K) w of (r, w') \<Rightarrow>
    (r = 0 \<and> net_acct (hist w') = Some (dev_items (link_ops (dv w')) @ Owned Link # rs) \<and>
      length (link_ops (dv w')) = nat (sint numdummies)) \<or>
    (is_neg r \<and> net_acct (hist w') = Some rs)"
proof -
  obtain r w' where run: "run_state (dummy_init_module numdummies K) w = (r, w')"
    by (metis surj_pair)
  from init_module_run [OF assms run] run show ?thesis
    by (auto simp: net_holds_def wanted_def)
qed

theorem net_load_exact_witness:
  "case run_state (dummy_init_module 3 granting) (fresh net_d0) of (r, w') \<Rightarrow>
    (r = 0 \<and> net_acct (hist w') = Some (dev_items (link_ops (dv w')) @ Owned Link # []) \<and>
      length (link_ops (dv w')) = nat (sint (3 :: c_int))) \<or>
    (is_neg r \<and> net_acct (hist w') = Some [])"
  by (rule net_load_exact) simp_all

text \<open>
  C20. Whatever the order of loads, unloads and calls of the device's operations, and whichever
  registrations the kernel refuses, a life of \<open>net\<close> that ends with an unload leaves no device, link
  or lock.
\<close>

theorem net_session:
  assumes "link_documented K" and "net_acct (hist w) = Some rs"
  shows "case life (dummy_init_module n K) (dummy_cleanup_module K) net_d0 (net_serve load valid K)
      (events @ [Module Rmmod]) (False, w) of (l, w') \<Rightarrow> \<not> l \<and> net_acct (hist w') = Some rs"
  using assms by (rule net_served.life_clean)

theorem net_session_witness:
  "case life (dummy_init_module 2 granting) (dummy_cleanup_module granting) net_d0
      (net_serve (\<lambda>_. (0, 0)) (\<lambda>_. True) granting)
      ([Module Insmod, Callback (Ndo_start_xmit 7 64 0x1000), Module Insmod] @ [Module Rmmod])
      (False, fresh net_d0) of (l, w') \<Rightarrow>
    \<not> l \<and> net_acct (hist w') = Some []"
  by (rule net_session) simp_all





text \<open>
  C34. When \<open>drm_dev_register\<close> is refused, the error path drops the reference of the DRM device by
  hand and then destroys the parent, which drops it a second time.
\<close>

theorem drm_refused_double_put:
  assumes "drm_refused K" and "drm_acct (hist w) = Some rs"
    and "\<forall>p. Owned (Drm_ref p) \<notin> set rs"
  shows "case run_state (dummy_drm_register K) w of (r, w') \<Rightarrow>
    r = - ENODEV \<and> drm_acct (hist w') = None"
proof -
  obtain r w' where run: "run_state (dummy_drm_register K) w = (r, w')" by (metis surj_pair)
  from drm_register_refused [OF assms run] run show ?thesis by simp
qed

abbreviation refuse_drm :: "drm_kernel" where
  "refuse_drm \<equiv> refusing (\<lambda>c. case c of Sub (Drm_dev_register p) \<Rightarrow> True | _ \<Rightarrow> False)"

theorem drm_refused_double_put_witness:
  "case run_state (dummy_drm_register refuse_drm) (fresh drm_d0) of (r, w') \<Rightarrow>
    r = - ENODEV \<and> drm_acct (hist w') = None"
  by (rule drm_refused_double_put [where rs = "[]"])
    (simp_all add: drm_refused_def drm_init_succeeds_def alloc_succeeds_def)

section \<open>The framebuffer\<close>




text \<open>
  C36. The tables themselves are never freed: after \<open>n\<close> cycles of a load that succeeds and an unload,
  exactly \<open>2 * n\<close> of them are still allocated, and nothing else.
\<close>

theorem fb_tables_leak:
  assumes "fb_registers K" and "fb_acct True (hist w) = Some rs"
    and "\<forall>w. \<not> is_neg (fst (run_state (dummy_fb_drv_register hz K) w))"
  shows "case mod_session (dummy_fb_drv_register hz K) (dummy_fb_drv_unregister K) dfb
      (concat (replicate n [Insmod, Rmmod])) (False, w) of (l, w') \<Rightarrow>
    \<exists>ts. fb_acct True (hist w') = Some (ts @ rs) \<and> length ts = 2 * n \<and>
      (\<forall>x\<in>set ts. \<exists>p. x = Owned (Table p))"
proof -
  obtain l w' where run: "mod_session (dummy_fb_drv_register hz K) (dummy_fb_drv_unregister K) dfb
      (concat (replicate n [Insmod, Rmmod])) (False, w) = (l, w')"
    by (metis surj_pair)
  from fb_cycles_leak [OF assms(1,2) run] assms(3) run show ?thesis by simp
qed

theorem fb_tables_leak_witness:
  "case mod_session (dummy_fb_drv_register 250 granting) (dummy_fb_drv_unregister granting) dfb
      (concat (replicate 3 [Insmod, Rmmod])) (False, fresh dfb) of (l, w') \<Rightarrow>
    \<exists>ts. fb_acct True (hist w') = Some (ts @ []) \<and> length ts = 2 * 3 \<and>
      (\<forall>x\<in>set ts. \<exists>p. x = Owned (Table p))"
  by (rule fb_tables_leak) (simp_all add: dummy_fb_drv_register_def fb_alloc_defs)



text \<open>
  C24. Setting colour register \<open>regno\<close> below 16 on the driver's screen stores the RGB565 value of the
  three 16-bit channels and no other register changes; registers from 16 on are refused with 1.
\<close>

theorem fb_setcolreg_rgb565:
  assumes "var_info (dv w) = fill_var" and "fix_info (dv w) = fill_fix"
    and "length (pseudo_palette (dv w)) = 16"
  shows "case run_state (dummy_fb_setcolreg K regno r g b t) w of (res, w') \<Rightarrow>
    if regno < 16
    then res = 0 \<and> (\<forall>i < 16. pseudo_palette (dv w') ! i =
      (if i = unat regno
       then rgb565 (push_bit 16 (drop_bit 8 r AND 0xff) OR push_bit 8 (drop_bit 8 g AND 0xff) OR
              (drop_bit 8 b AND 0xff))
       else pseudo_palette (dv w) ! i))
    else res = 1 \<and> dv w' = dv w"
proof -
  have "visual fill_fix = FB_VISUAL_TRUECOLOR" by (simp add: fill_fix_def)
  moreover have "regno < 16 \<Longrightarrow> \<not> 256 \<le> regno"
    by (simp add: word_less_nat_alt word_le_nat_alt)
  ultimately show ?thesis
    using assms
    by (auto simp: dummy_fb_setcolreg_def pack_colour_rgb565 nth_list_update)
qed

theorem fb_setcolreg_rgb565_witness:
  "case run_state (dummy_fb_setcolreg granting 3 0xffff 0x8000 0 0)
      (fresh (dfb\<lparr>var_info := fill_var, fix_info := fill_fix\<rparr>)) of (res, w') \<Rightarrow>
    if (3 :: u32) < 16
    then res = 0 \<and> (\<forall>i < 16. pseudo_palette (dv w') ! i =
      (if i = unat (3 :: u32)
       then rgb565 (push_bit 16 (drop_bit 8 0xffff AND 0xff) OR push_bit 8 (drop_bit 8 0x8000 AND 0xff) OR
              (drop_bit 8 0 AND 0xff))
       else pseudo_palette (dv (fresh (dfb\<lparr>var_info := fill_var, fix_info := fill_fix\<rparr>)
              :: (fb_call kcall, dummy_fb) world)) ! i))
    else res = 1 \<and> dv w' = dv (fresh (dfb\<lparr>var_info := fill_var, fix_info := fill_fix\<rparr>)
              :: (fb_call kcall, dummy_fb) world)"
  by (rule fb_setcolreg_rgb565) (simp_all add: dfb_def)

section \<open>Video streaming\<close>

text \<open>
  C1. In every interleaving of the timer handler with the operations of videobuf2, buffers are
  conserved and kept in order: the completed buffers, then the one the handler works on, then the
  queued ones, are exactly the buffers handed to \<open>buf_queue\<close>, and no buffer is owned twice. The
  timer is armed exactly while the queue streams and no handler runs.
\<close>

theorem video_conservation:
  assumes "vreach fr s" and "frames_ok fr"
  shows "map fst (rev (done_log (vd s))) @ vowned s = rev (qlog s) \<and> distinct (vowned s) \<and>
    timer_armed (vd s) = (streaming s \<and> inflight s = None)"
  using vreach_vinv [OF assms] by (simp add: vinv_def)

text \<open>The four steps of a stream that queues a buffer, starts, and whose timer expires.\<close>

definition blank_buf :: frame_buf where
  "blank_buf = \<lparr>plane_size = DUMMY_VIDEO_PLANE_SIZE,
     plane_mem = Some (replicate DUMMY_VIDEO_PLANE_SIZE 0), payload = 0, vb_sequence = 0,
     timestamp = 0\<rparr>"

definition example_stream :: vsys where
  "example_stream = \<lparr>vd = \<lparr>queued_bufs = [], timer_armed = False, sequence = 0,
     bufs = (\<lambda>_. blank_buf), done_log = []\<rparr>, inflight = Some 4, streaming = True, qlog = [4]\<rparr>"

lemma blank_buf_ok [simp]: "dummy_video_buf_prepare blank_buf = 0" "plane_ok blank_buf"
  "plane_mem blank_buf = Some (replicate DUMMY_VIDEO_PLANE_SIZE 0)"
  by (simp_all add: blank_buf_def dummy_video_buf_prepare_def plane_ok_def)

lemma example_reach: "vreach fr example_stream"
proof -
  define s0 where "s0 = vinit (\<lambda>_. blank_buf)"
  have 0: "vreach fr s0" unfolding s0_def
    by (rule vreach.init) (simp add: planes_mapped_def blank_buf_def)
  define s1 where "s1 = s0\<lparr>vd := dummy_video_buf_queue 4 (vd s0), qlog := 4 # qlog s0\<rparr>"
  have 1: "vreach fr s1" unfolding s1_def
    by (rule vreach.step [OF 0]) (rule vstep.queue, simp_all add: s0_def vinit_def vowned_def)
  define s2 where "s2 = s1\<lparr>vd := snd (dummy_video_start_streaming (vd s1)), streaming := True\<rparr>"
  have 2: "vreach fr s2" unfolding s2_def
    by (rule vreach.step [OF 1]) (rule vstep.start, simp add: s1_def s0_def vinit_def)
  have "vstep fr s2 example_stream"
  proof -
    have "vstep fr s2 (s2\<lparr>vd := (vd s2)\<lparr>queued_bufs := [], timer_armed := False\<rparr>, inflight := Some 4\<rparr>)"
      by (rule vstep.expire [of _ 4 "(vd s2)\<lparr>queued_bufs := []\<rparr>", simplified])
        (simp_all add: s2_def s1_def s0_def vinit_def timer_take_def dummy_video_buf_queue_def
          dummy_video_start_streaming_def)
    then show ?thesis
      by (simp add: s2_def s1_def s0_def vinit_def dummy_video_buf_queue_def
          dummy_video_start_streaming_def example_stream_def)
  qed
  with 2 show ?thesis by (rule vreach.step)
qed

theorem video_conservation_witness:
  "map fst (rev (done_log (vd example_stream))) @ vowned example_stream = rev (qlog example_stream) \<and>
    distinct (vowned example_stream) \<and>
    timer_armed (vd example_stream) = (streaming example_stream \<and> inflight example_stream = None)"
  by (rule video_conservation [OF example_reach frames_real_ok [OF frames_example_real]])

text \<open>
  C15. The unlocked part of the timer handler can always finish: in every reachable state the copy of
  the frame into the buffer it took stays inside both, and one step completes the buffer.
\<close>

theorem video_handler_finishes:
  assumes "vreach fr s" and "frames_ok fr" and "inflight s = Some b"
  shows "\<exists>d. timer_finish fr now b (vd s) = Some d \<and>
    vstep fr s (s\<lparr>vd := d, inflight := None\<rparr>) \<and>
    done_log d = (b, VB2_BUF_STATE_DONE) # done_log (vd s)"
proof -
  from vreach_finish [OF assms] obtain d where d: "timer_finish fr now b (vd s) = Some d" by blast
  moreover from this have "done_log d = (b, VB2_BUF_STATE_DONE) # done_log (vd s)"
    by (auto simp: timer_finish_def split: option.splits)
  ultimately show ?thesis using vstep.finish [OF assms(3) d] by blast
qed

theorem video_handler_finishes_witness:
  "\<exists>d. timer_finish frames_example 77 4 (vd example_stream) = Some d \<and>
    vstep frames_example example_stream (example_stream\<lparr>vd := d, inflight := None\<rparr>) \<and>
    done_log d = (4, VB2_BUF_STATE_DONE) # done_log (vd example_stream)"
  by (rule video_handler_finishes [OF example_reach frames_real_ok [OF frames_example_real]])
    (simp add: example_stream_def)

text \<open>
  C8. Successive expirations of the timer complete the queued buffers in order, one each; the
  \<open>k\<close>-th shows frame number \<open>sequence + k\<close> of the cyclic animation, with its number, its time and
  the length of the picture, and no other buffer changes.
\<close>

theorem video_frames_in_order:
  assumes "frames_ok fr"
    and "\<forall>b\<in>set (queued_bufs d). plane_ok (bufs d b) \<and> plane_mem (bufs d b) \<noteq> None"
    and "distinct (queued_bufs d)" and "sequence d = of_nat s"
    and "length ts \<le> length (queued_bufs d)" and "s + length ts \<le> 2 ^ 31"
  shows "\<exists>d'. ticks fr ts d = Some d' \<and>
    queued_bufs d' = drop (length ts) (queued_bufs d) \<and>
    done_log d' = rev (map (\<lambda>b. (b, VB2_BUF_STATE_DONE)) (take (length ts) (queued_bufs d)))
      @ done_log d \<and>
    (\<forall>k < length ts. shows_frame fr (s + k) (ts ! k) (bufs d' (queued_bufs d ! k))) \<and>
    (\<forall>c. c \<notin> set (take (length ts) (queued_bufs d)) \<longrightarrow> bufs d' c = bufs d c)"
  using assms by (rule ticks_frames)

definition two_queued :: dummy_video where
  "two_queued = \<lparr>queued_bufs = [2, 5], timer_armed = True, sequence = 24, bufs = (\<lambda>_. blank_buf),
     done_log = []\<rparr>"

theorem video_frames_in_order_witness:
  "\<exists>d'. ticks frames_example [10, 20] two_queued = Some d' \<and>
    queued_bufs d' = drop (length [10, 20 :: u64]) (queued_bufs two_queued) \<and>
    done_log d' = rev (map (\<lambda>b. (b, VB2_BUF_STATE_DONE))
      (take (length [10, 20 :: u64]) (queued_bufs two_queued))) @ done_log two_queued \<and>
    (\<forall>k < length [10, 20 :: u64]. shows_frame frames_example (24 + k) ([10, 20] ! k)
      (bufs d' (queued_bufs two_queued ! k))) \<and>
    (\<forall>c. c \<notin> set (take (length [10, 20 :: u64]) (queued_bufs two_queued)) \<longrightarrow>
      bufs d' c = bufs two_queued c)"
  by (rule video_frames_in_order [OF frames_real_ok [OF frames_example_real]])
    (simp_all add: two_queued_def)

text \<open>
  C14. The device delivers what it announces. With the arrays of \<open>frames.h\<close> the driver fills a buffer
  that passed \<open>buf_prepare\<close> with one complete JPEG picture: a well-formed header and the end marker
  as its last two bytes. The picture fits in the image size that format negotiation answers and
  its header has the width and height negotiated; the enumerations name this format and this size
  first and nothing after them.
\<close>

theorem video_delivers_announced:
  assumes "frames_real fr" and "plane_ok vbuf" and "plane_mem vbuf = Some m"
  shows "let f = snd (dummy_video_s_fmt_vid_cap pix) in
    (\<exists>vbuf'. fill_buf fr s vbuf = Some vbuf' \<and> shows_picture vbuf' \<and>
       payload vbuf' \<le> unat (sizeimage f)) \<and>
    Sof (unat (width f)) (unat (height f)) \<in> set frame_layout \<and>
    dummy_video_enum_fmt_vid_cap d =
      (if fmt_index d = 0
       then (0, d\<lparr>description := ''motion jpeg'', fmt_pixelformat := pixelformat f\<rparr>)
       else (- EINVAL, d)) \<and>
    dummy_video_enum_framesizes z =
      (if fsize_index z = 0
       then (0, z\<lparr>fsize_type := V4L2_FRMSIZE_TYPE_DISCRETE, fsize_width := width f,
                 fsize_height := height f\<rparr>)
       else (- EINVAL, z))"
proof -
  from fill_buf_safe [OF frames_real_ok [OF assms(1)] assms(2)] obtain vbuf'
    where vbuf': "fill_buf fr s vbuf = Some vbuf'" by blast
  have "payload vbuf' \<le> DUMMY_VIDEO_PLANE_SIZE"
    using fill_buf_content [OF frames_real_ok [OF assms(1)] assms(3) vbuf']
      frame_lens_fit [OF frame_index_less] by simp
  moreover have "unat (width (snd (dummy_video_s_fmt_vid_cap pix))) = DUMMY_VIDEO_WIDTH"
    "unat (height (snd (dummy_video_s_fmt_vid_cap pix))) = DUMMY_VIDEO_HEIGHT"
    by (simp_all add: format_defs)
  ultimately show ?thesis
    using fill_buf_picture [OF assms(1,3) vbuf'] vbuf' frame_layout_size s_fmt_sizeimage [of pix]
    by (simp add: Let_def dummy_video_enum_fmt_vid_cap_def dummy_video_enum_framesizes_def
        format_defs strscpy_def word_neq_0_conv)
qed

theorem video_delivers_announced_witness:
  "\<exists>vbuf'. fill_buf frames_example 30 blank_buf = Some vbuf' \<and> shows_picture vbuf' \<and>
    payload vbuf' \<le> 420000"
proof -
  let ?pix = "\<lparr>width = 1, height = 1, pixelformat = 0, field = 0, bytesperline = 0, sizeimage = 0,
    colorspace = 0\<rparr> :: v4l2_pix_format"
  have "unat (sizeimage (snd (dummy_video_s_fmt_vid_cap ?pix))) = 420000"
    by (simp add: s_fmt_sizeimage) (simp add: format_defs)
  with video_delivers_announced [OF frames_example_real blank_buf_ok(2,3), of ?pix 30]
  show ?thesis by (auto simp: Let_def)
qed

text \<open>
  C7. Stopping returns everything: after any sequence of operations followed by a stop the driver
  owns no buffer, and it has returned, in order and exactly once, the buffers it held before and
  those that passed \<open>buf_prepare\<close> since.
\<close>

theorem video_stop_returns_all:
  assumes "frames_ok fr" and "video_ok d"
  shows "\<exists>d'. run_ops (video_step fr) (xs @ [Streamoff]) d = Some d' \<and> queued_bufs d' = [] \<and>
    map fst (rev (done_log d')) = map fst (rev (done_log d)) @ queued_bufs d @
      accepted (\<lambda>b. DUMMY_VIDEO_PLANE_SIZE \<le> plane_size (bufs d b)) xs"
proof -
  from dummy_vb2.run_total [of fr d "xs @ [Streamoff]"] assms obtain d'
    where run: "run_ops (video_step fr) (xs @ [Streamoff]) d = Some d'" by blast
  have "(\<lambda>b. dummy_video_buf_prepare (bufs d b) = 0) =
      (\<lambda>b. DUMMY_VIDEO_PLANE_SIZE \<le> plane_size (bufs d b))"
    by (simp add: dummy_video_buf_prepare_def not_less fun_eq_iff)
  with run dummy_vb2.run_then_stop [OF run] show ?thesis by simp
qed

theorem video_stop_returns_all_witness:
  "\<exists>d'. run_ops (video_step frames_example) ([Streamon, Qbuf 9, Tick 1] @ [Streamoff]) two_queued =
      Some d' \<and> queued_bufs d' = [] \<and>
    map fst (rev (done_log d')) = map fst (rev (done_log two_queued)) @ queued_bufs two_queued @
      accepted (\<lambda>b. DUMMY_VIDEO_PLANE_SIZE \<le> plane_size (bufs two_queued b)) [Streamon, Qbuf 9, Tick 1]"
  by (rule video_stop_returns_all [OF frames_real_ok [OF frames_example_real]])
    (simp add: video_ok_def two_queued_def)

text \<open>
  C38. The index into the frame table is in range for every sequence number; it cycles through the
  25 frames as long as the signed counter has not wrapped, and skips from frame 22 to frame 18
  when it wraps.
\<close>

theorem video_frame_index:
  "frame_index q < length (frames fr) \<and>
   (\<forall>n < 2 ^ 31. frame_index (of_nat n) = n mod 25) \<and>
   frame_index (2 ^ 31 - 1) = 22 \<and> frame_index ((2 ^ 31 - 1) + 1) = 18"
  using frame_index_less [of q] frame_index_wrap
  by (simp add: frames_def frame_index_of_nat) (simp add: FRAME_COUNT_def)

theorem video_frame_index_witness:
  "frame_index (of_nat 26) = 26 mod 25"
proof -
  have "(26 :: nat) < 2 ^ 31" by simp
  with video_frame_index show ?thesis by blast
qed


definition zero_planes :: "nat \<Rightarrow> u8 list option" where
  "zero_planes b = (if b < 4 then Some (replicate 420000 0) else None)"

lemma zero_planes_documented [simp]: "documented (Mmap_buffers zero_planes)"
  by (simp add: zero_planes_def DUMMY_VIDEO_PLANE_SIZE_def DUMMY_VIDEO_WIDTH_def DUMMY_VIDEO_HEIGHT_def)




text \<open>
  C17. From loading to the picture: on any kernel, a program that opens the device, asks for buffers as
  large as the driver wants them, queues some in any order and starts the stream finds, after the
  timer expired \<open>n\<close> times, the first \<open>n\<close> of them completed in that order, the \<open>k\<close>-th with frame
  \<open>k\<close> of the animation and the time of its expiration.
\<close>

theorem video_end_to_end:
  assumes "frames_ok fr" and "distinct bs" and "length bs \<le> 2 ^ 31"
    and "\<forall>b\<in>set bs. \<exists>mem. mems b = Some mem \<and> DUMMY_VIDEO_PLANE_SIZE \<le> length mem"
    and "length ts \<le> length bs"
  shows "\<exists>s. video_events fr core m K (viewer mems bs ts) (absent w) = Some s \<and>
    done_log (strm (vdv s)) = rev (map (\<lambda>b. (b, VB2_BUF_STATE_DONE)) (take (length ts) bs)) \<and>
    (\<forall>k < length ts. shows_frame fr k (ts ! k) (bufs (strm (vdv s)) (bs ! k)))"
  using assms by (rule viewer_shows)

theorem video_end_to_end_witness:
  "\<exists>s. video_events frames_example (\<lambda>_ b. (0, b)) ''video'' granting
      [Command Insmod, Open, Mmap_buffers zero_planes, Stream_on [3, 0, 1], Expire 40, Expire 80]
      (absent (fresh video_d0)) = Some s \<and>
    done_log (strm (vdv s)) = [(0, VB2_BUF_STATE_DONE), (3, VB2_BUF_STATE_DONE)] \<and>
    shows_frame frames_example 1 80 (bufs (strm (vdv s)) 0)"
proof -
  have "\<forall>b\<in>set [3, 0, 1]. \<exists>mem. zero_planes b = Some mem \<and> DUMMY_VIDEO_PLANE_SIZE \<le> length mem"
    by (simp add: zero_planes_def DUMMY_VIDEO_PLANE_SIZE_def DUMMY_VIDEO_WIDTH_def DUMMY_VIDEO_HEIGHT_def)
  from video_end_to_end [OF frames_real_ok [OF frames_example_real] _ _ this, of "[40, 80]"
      "\<lambda>_ b. (0, b)" "''video''" granting "fresh video_d0"]
  obtain s where "video_events frames_example (\<lambda>_ b. (0, b)) ''video'' granting
      (viewer zero_planes [3, 0, 1] [40, 80]) (absent (fresh video_d0)) = Some s"
    "done_log (strm (vdv s)) = [(0, VB2_BUF_STATE_DONE), (3, VB2_BUF_STATE_DONE)]"
    "\<forall>k < length [40, 80 :: u64]. shows_frame frames_example k ([40, 80] ! k)
      (bufs (strm (vdv s)) ([3, 0, 1] ! k))"
    by auto
  moreover from this(3) have "shows_frame frames_example 1 80 (bufs (strm (vdv s)) 0)"
    by (auto dest: spec [of _ 1])
  ultimately show ?thesis by (auto simp: viewer_def simp del: run_ops.simps)
qed



section \<open>Reading and writing the screen\<close>

text \<open>
  C2. Writing and reading agree: when \<open>fb_str\<close> puts a pixel of a colour on the driver's screen and
  \<open>fbcat\<close>, run on the driver's device, ends with a picture of it, the three bytes of that pixel in
  the picture differ from the colour by at most 7 in red and blue and at most 3 in green.
\<close>

theorem pixel_round_trip:
  assumes "length mem = 480 * 320 * 2" and "x < 480" and "y < 320"
    and "lcd_put_pixel (screen_of fill_var) (of_nat x) (of_nat y) c mem = Some mem'"
    and "get_fscreeninfo e = Some fill_fix" and "get_vscreeninfo e = Some v" and "unpanned v"
    and "mapping e 307200 = Some mem'" and "fbcat_main e = Done out"
  shows "let i = length (ppm_header v) + (y * 480 + x) * 3 in
    near 7 (out ! i) (drop_bit 16 c AND 0xff) \<and> near 3 (out ! (i + 1)) (drop_bit 8 c AND 0xff) \<and>
    near 7 (out ! (i + 2)) (c AND 0xff)"
proof -
  from put_then_load [OF screen_of_fill assms(2,3) assms(1)] assms(4)
  have load: "load_pixel mem' 2 ((y * 480 + x) * 2) = Some (rgb565 c)" by blast
  from fbcat_main_driver [OF assms(5-9)] obtain cm where
    "true_cmap fill_var (stack_cmap e) = Some cm"
    "dump_video_memory (written e) (malloc_ok e) mem' v cm 960 = Done out" by blast
  from dump_shows_pixel [OF assms(7) this(1) assms(2,3) load this(2)] show ?thesis
    by (simp add: red8_def green8_def blue8_def)
qed

text \<open>The driver's device as \<open>fbcat\<close> finds it, with a screen that is not panned.\<close>

definition whole_screen :: var_screeninfo where
  "whole_screen = fb_var.extend fill_var \<lparr>xoffset = 0, yoffset = 0\<rparr>"

definition driver_env :: "u8 list \<Rightarrow> fbcat_env" where
  "driver_env mem = \<lparr>tty = False, args = [], env_framebuffer = None, opens = (\<lambda>_. True),
     get_fscreeninfo = Some fill_fix, get_vscreeninfo = Some whole_screen, get_cmap = None,
     stack_cmap = \<lparr>cm_red = [], cm_green = [], cm_blue = []\<rparr>, mapping = (\<lambda>n. if unat n \<le> length mem then Some mem else None),
     buffer_ok = False, file_read = (\<lambda>_. None), malloc_ok = True, written = (\<lambda>_. True),
     close_ok = True\<rparr>"

lemma whole_screen_unpanned: "unpanned whole_screen"
  by (simp add: unpanned_def whole_screen_def fb_var.extend_def fb_var.truncate_def)

lemma driver_env_simps:
  "get_fscreeninfo (driver_env mem) = Some fill_fix"
  "get_vscreeninfo (driver_env mem) = Some whole_screen"
  "length mem = 307200 \<Longrightarrow> mapping (driver_env mem) 307200 = Some mem"
  "fbcat_runs (driver_env mem)"
  by (simp_all add: driver_env_def fbcat_runs_def)

lemma driver_env_consistent: "env_consistent (driver_env mem)"
proof -
  note f = unpanned_fields [OF whole_screen_unpanned]
  have "yoffset whole_screen = 0" "xoffset whole_screen = 0"
    using whole_screen_unpanned by (simp_all add: unpanned_def)
  then have "geometry_ok whole_screen 960" by (simp add: geometry_ok_def f pixel_bytes_def)
  then have "description_ok fill_fix whole_screen"
    by (simp add: description_ok_def fill_fix_def display_def f) (simp add: fill_var_def)
  then show ?thesis
    by (auto simp: env_consistent_def driver_env_simps) (auto simp: driver_env_def split: if_splits)
qed

lemma driver_env_picture: "length mem = 307200 \<Longrightarrow> \<exists>out. fbcat_main (driver_env mem) = Done out"
  by (rule fbcat_main_succeeds [OF driver_env_simps(1,2) whole_screen_unpanned driver_env_simps(3) _
        driver_env_simps(4)]) simp_all

theorem pixel_round_trip_witness:
  "\<exists>mem' out. lcd_put_pixel (screen_of fill_var) (of_nat 7) (of_nat 9) 0x12c0ff (replicate 307200 0) =
      Some mem' \<and>
    fbcat_main (driver_env mem') = Done out \<and>
    near 7 (out ! (length (ppm_header whole_screen) + (9 * 480 + 7) * 3)) 0x12"
proof -
  from lcd_put_pixel_ok [OF screen_of_fill, where x = 7 and y = 9 and mem = "replicate 307200 0"
      and color = "0x12c0ff"]
  obtain mem' where put: "lcd_put_pixel (screen_of fill_var) (of_nat 7) (of_nat 9) 0x12c0ff
      (replicate 307200 0) = Some mem'" and len: "length mem' = 307200"
    by auto
  from driver_env_picture [OF len] obtain out where out: "fbcat_main (driver_env mem') = Done out" by blast
  from pixel_round_trip [OF _ _ _ put driver_env_simps(1,2) whole_screen_unpanned driver_env_simps(3) [OF len] out]
  have "near 7 (out ! (length (ppm_header whole_screen) + (9 * 480 + 7) * 3)) 0x12"
    by (simp add: Let_def)
  with put out show ?thesis by blast
qed



text \<open>
  C6. A dump that succeeds is a PPM file of the screen: its length is the header and three bytes for
  each pixel, and the bytes of the pixel in row \<open>y\<close> and column \<open>x\<close> are its colours, looked up
  with the pixel read from video memory at the panned offset.
\<close>

theorem fbcat_picture:
  assumes "dump_video_memory wr mok mem v cm ll = Done out"
  shows "length out = length (ppm_header v) + unat (yres v) * (unat (xres v) * 3) \<and>
    take (length (ppm_header v)) out = ppm_header v \<and>
    (\<forall>y < unat (yres v). \<forall>x < unat (xres v). \<exists>p.
       load_pixel mem (pixel_bytes v) (line_start v ll y + x * pixel_bytes v) = Some p \<and>
       (let i = length (ppm_header v) + (y * (unat (xres v) * 3) + x * 3)
        in out ! i = get_color p (red v) (cm_red cm) \<and>
           out ! (i + 1) = get_color p (green v) (cm_green cm) \<and>
           out ! (i + 2) = get_color p (blue v) (cm_blue cm)))"
  using assms by (rule dump_video_memory_Done)

text \<open>A screen of two by one pixels, and the colour map of its fields.\<close>

definition tiny_screen :: var_screeninfo where
  "tiny_screen = fb_var.extend (fill_var\<lparr>xres := 2, yres := 1\<rparr>) \<lparr>xoffset = 0, yoffset = 0\<rparr>"

definition grey_map :: cmap where
  "grey_map = \<lparr>cm_red = replicate 32 0x8000, cm_green = replicate 64 0x8000,
     cm_blue = replicate 32 0x8000\<rparr>"

lemma two_steps:
  "colour_row mem vi cm n a 2 = colour_row mem vi cm n a (Suc (Suc 0))"
  "load_bytes mem a i 2 q = load_bytes mem a i (Suc (Suc 0)) q"
  by (simp_all only: numeral_2_eq_2)

lemma tiny_dump:
  "dump_video_memory (\<lambda>_. True) True [0x1f, 0, 0, 0xf8] tiny_screen grey_map 4 =
     Done (ppm_header tiny_screen @ [128, 128, 128, 128, 128, 128])"
  by (simp add: dump_video_memory_def ppm_header_def tiny_screen_def grey_map_def fill_var_def
      display_def fb_var.extend_def fb_var.truncate_def two_steps load_pixel_def load8_def
      get_color_def colour_index_def)

theorem fbcat_picture_witness:
  "length (ppm_header tiny_screen @ [128, 128, 128, 128, 128, 128 :: u8]) =
    length (ppm_header tiny_screen) + unat (yres tiny_screen) * (unat (xres tiny_screen) * 3)"
  using fbcat_picture [OF tiny_dump] by blast

text \<open>
  C21. \<open>fbcat\<close> stays inside video memory: on every device whose description is consistent, colour or
  black and white, mapped or read, it never accesses memory out of bounds and never divides by
  zero. It ends with a picture or with one of its three exit statuses, and with the first exactly
  when it is used wrongly.
\<close>

theorem fbcat_never_crashes:
  assumes "env_consistent e"
  shows "fbcat_main e \<noteq> Crash \<and> (\<forall>n. fbcat_main e = Exit n \<longrightarrow> n \<in> {1, 2, 3}) \<and>
    (fbcat_main e = Exit 1 \<longleftrightarrow> tty e \<or> 1 < length (args e))"
  using fbcat_main_orderly [OF assms] by (auto simp: orderly_def split: if_splits)

theorem fbcat_never_crashes_witness:
  "fbcat_main (driver_env (replicate 307200 3)) \<noteq> Crash \<and>
    fbcat_main (driver_env (replicate 307200 3)) \<noteq> Exit 1"
  using fbcat_never_crashes [OF driver_env_consistent, of "replicate 307200 3"]
  by (simp add: driver_env_def)

text \<open>
  C33. A black and white dump that succeeds is a PBM file of the screen: each output byte is the byte
  of video memory at the panned offset with its bits in reverse order, inverted when black is zero.
\<close>

theorem fbcat_mono_picture:
  assumes "dump_video_memory_mono wr mok mem v bz ll = Done out"
  shows "let n = unat ((xres v + 7) div 8) in
    length out = length (pbm_header v) + unat (yres v) * n \<and>
    take (length (pbm_header v)) out = pbm_header v \<and>
    (\<forall>y < unat (yres v). \<forall>k < n. \<forall>i < 8.
       bit (out ! (length (pbm_header v) + (y * n + k))) i =
         (bit (mem ! (unat ((of_nat y + yoffset v) * ll) + unat (xoffset v div 8) + k)) (7 - i) \<noteq> bz))"
  using dump_video_memory_mono_Done [OF assms] by (simp add: Let_def)

theorem fbcat_mono_picture_witness:
  "take (length (pbm_header (tiny_screen\<lparr>xres := 8\<rparr>)))
      (pbm_header (tiny_screen\<lparr>xres := 8\<rparr>) @ [0x3f]) = pbm_header (tiny_screen\<lparr>xres := 8\<rparr>)"
proof -
  have "dump_video_memory_mono (\<lambda>_. True) True [0x03, 0] (tiny_screen\<lparr>xres := 8\<rparr>) True 1 =
      Done (pbm_header (tiny_screen\<lparr>xres := 8\<rparr>) @ [0x3f])"
    by (simp add: dump_video_memory_mono_def pbm_header_def tiny_screen_def fill_var_def display_def
        fb_var.extend_def load8_def reverse_bits_def Let_def)
  from fbcat_mono_picture [OF this] show ?thesis by (simp only: Let_def)
qed

text \<open>
  C25. A character whose cell lies on the screen is drawn exactly: inside its 8 by 16 cell every pixel
  has the colour where the glyph has a bit and is black elsewhere, and no other pixel changes.
\<close>

theorem fb_str_glyph:
  assumes "screen_ok s W H P" and "x + 8 \<le> W" and "y + 16 \<le> H" and "length mem = W * H * P"
  shows "\<exists>mem'. lcd_put_ascii font s (of_nat x) (of_nat y) color c mem = Some mem' \<and>
    length mem' = length mem \<and>
    (\<forall>u < W. \<forall>v < H. px P mem' (v * W + u) =
      (if x \<le> u \<and> u < x + 8 \<and> y \<le> v \<and> v < y + 16
       then colour_bytes P (if bit (glyph_row font c (v - y)) (7 - (u - x)) then color else 0)
       else px P mem (v * W + u)))"
  using assms by (rule lcd_put_ascii_ok)

theorem fb_str_glyph_witness:
  "\<exists>mem'. lcd_put_ascii (replicate 4096 0x81) (screen_of fill_var) (of_nat 472) (of_nat 304) 0xff00
      65 (replicate 307200 0) = Some mem' \<and>
    length mem' = length (replicate 307200 (0 :: u8)) \<and>
    (\<forall>u < 480. \<forall>v < 320. px 2 mem' (v * 480 + u) =
      (if 472 \<le> u \<and> u < 472 + 8 \<and> 304 \<le> v \<and> v < 304 + 16
       then colour_bytes 2 (if bit (glyph_row (replicate 4096 0x81) 65 (v - 304)) (7 - (u - 472))
              then 0xff00 else 0)
       else px 2 (replicate 307200 0) (v * 480 + u)))"
  by (rule fb_str_glyph [OF screen_of_fill]) simp_all

text \<open>
  C11. A string drawn from the origin fills a grid: the printable bytes, and the terminating zero,
  take the cells of four lines of \<open>(W - 9) div 8\<close> columns in turn, starting over at the top after
  the fourth line; bytes with the top bit set take no cell.
\<close>

theorem fb_str_grid:
  assumes "screen_ok s W H P" and "17 \<le> W"
  shows "lcd_put_string font s 0 0 color str mem =
    draw_cells font s W color (filter (\<lambda>c. c AND 0x80 \<noteq> 0x80) str @ [0]) 0 mem"
  using lcd_put_string_origin [OF assms, of font color str mem] by (simp add: printed_def)

theorem fb_str_grid_witness:
  "lcd_put_string [] (screen_of fill_var) 0 0 0xffffff [0x48, 0xe9, 0x69] (replicate 307200 0) =
    draw_cells [] (screen_of fill_var) 480 0xffffff
      (filter (\<lambda>c. c AND 0x80 \<noteq> 0x80) [0x48, 0xe9, 0x69] @ [0]) 0 (replicate 307200 0)"
  by (rule fb_str_grid [OF screen_of_fill]) simp





text \<open>
  C29. The check of the position is not enough: started on any of the lines 305 to 320 of the driver's
  screen, all of which \<open>main\<close> admits, \<open>fb_str\<close> stores outside the mapping, for every column, font
  and text whose first byte is drawn (also the empty text, whose terminating zero is drawn).
\<close>

theorem fb_str_position_crashes:
  assumes "atoi sx \<le> 480" and "atoi sy = of_nat y" and "304 < y" and "y \<le> 320"
    and "mmap 307200 = Some mem" and "length mem = 307200"
    and "hd (text_bytes t @ [0]) AND 0x80 \<noteq> 0x80"
  shows "fb_str_main font [sx, sy, t] (Some fill_var) mmap = Crash"
  using assms by (rule fb_str_main_below_crashes)

theorem fb_str_position_crashes_witness:
  "fb_str_main fontdata_8x16 [''12'', ''320'', ''A''] (Some fill_var)
     (\<lambda>n. Some (replicate (unat n) 0)) = Crash"
  by (rule fb_str_position_crashes [where y = 320 and mem = "replicate 307200 0"])
    (simp_all add: atoi_def is_blank_def is_digit_def read_dec_def undigit_def text_bytes_def)



text \<open>
  C22. A rectangle of \<open>fb_rectangle\<close> on a screen of 16-bit pixels, anywhere in a part of the screen
  that the environment may choose, is drawn without leaving the mapping; its pixels hold the blue
  and green bytes, the column right of it has its low byte overwritten by red, and no other pixel
  changes.
\<close>

theorem rectangle_picture:
  assumes "bench_fits B W H posx posy bw bh" and "length mem = W * H * 2"
  shows "\<exists>mem'. bench_round B rnd n mem = Done mem' \<and> length mem' = length mem \<and>
    (\<forall>u < W. \<forall>l < H. px 2 mem' (l * W + u) =
       rect_pixel (colour_of rnd n) (posx + rect_x rnd n bw) (posy + rect_y rnd n bh)
         (bw div 4) (bh div 4) u l (px 2 mem (l * W + u)))"
  using assms by (rule bench_round_16)

theorem rectangle_picture_witness:
  "\<exists>mem'. bench_round (bench_of (\<lambda>_. None) fill_var) (\<lambda>k. of_nat k) 0 (replicate 307200 0) = Done mem' \<and>
    px 2 mem' (4 * 480 + 3) = [2, 1] \<and> px 2 mem' (4 * 480 + 123) = [0, 0] \<and>
    px 2 mem' (3 * 480 + 3) = [0, 0]"
proof -
  let ?m = "replicate 307200 (0 :: u8)"
  have "length (px 2 ?m i) = 2 \<and> px 2 ?m i = [0, 0]" if "i < 153600" for i
    using that by (simp add: px_2)
  moreover have "colour_of (\<lambda>k. of_nat k) 0 = (0, 1, 2)" "rect_x (\<lambda>k. of_nat k) 0 480 = 3"
    "rect_y (\<lambda>k. of_nat k) 0 320 = 4"
    by (simp_all add: colour_of_def rect_x_def rect_y_def)
  moreover obtain mem' where
    "bench_round (bench_of (\<lambda>_. None) fill_var) (\<lambda>k. of_nat k) 0 ?m = Done mem'"
    and px: "\<forall>u < 480. \<forall>l < 320. px 2 mem' (l * 480 + u) =
       rect_pixel (colour_of (\<lambda>k. of_nat k) 0) (0 + rect_x (\<lambda>k. of_nat k) 0 480)
         (0 + rect_y (\<lambda>k. of_nat k) 0 320) (480 div 4) (320 div 4) u l (px 2 ?m (l * 480 + u))"
    using rectangle_picture [OF bench_fits_default, of ?m "\<lambda>k. of_nat k" 0] by auto
  ultimately show ?thesis
    using px [rule_format, of 3 4] px [rule_format, of 123 4] px [rule_format, of 3 3]
    by (simp add: rect_pixel_def inside_def)
qed

text \<open>
  C23. \<open>fb_rectangle\<close> without arguments of its environment returns on the driver's screen when the
  clock reaches five seconds before its milliseconds wrap: it draws one rectangle more than there
  were readings before that time, stays inside the mapping, and reports the size, the pixels drawn
  modulo 32 bits and a time of at least five seconds; the last rectangle is the one of the last
  round.
\<close>

theorem rectangle_run:
  assumes "dev (if length argv = 1 then argv ! 0 else ''/dev/fb0'') = Some fill_var"
    and "mmap 307200 = Some mem" and "length mem = 307200" and "clock_runs tod t N"
  shows "5000 \<le> t (Suc N) - t 0 \<and>
    (\<exists>mem1 mem'. fb_rectangle_main argv dev (\<lambda>_. None) mmap rnd tod =
       Some (Done (0, Some (\<lparr>rep_w = 120, rep_h = 80, rep_pixels = of_nat (Suc N * 9600),
         rep_ms = of_nat (t (Suc N) - t 0)\<rparr>, mem'))) \<and>
     length mem1 = 307200 \<and> length mem' = 307200 \<and>
     bench_round (bench_of (\<lambda>_. None) fill_var) rnd N mem1 = Done mem')"
proof -
  let ?B = "bench_of (\<lambda>_. None) fill_var"
  from bench_loop_run [OF bench_fits_default assms(4), of 0 mem rnd] assms(3)
  obtain mem1 mem' where run: "bench_loop ?B rnd tod (now_ms (tod 0)) 0 mem =
      Some (Done (of_nat (Suc N), of_nat (t (Suc N)), mem'))" "length mem1 = 307200"
    "bench_round ?B rnd N mem1 = Done mem'" "length mem' = 307200" by auto
  have "b_w ?B = 120" "b_h ?B = 80" "xres fill_var * yres fill_var * bits_per_pixel fill_var div 8 = 307200"
    by (simp_all add: bench_of_def env_int_def fill_var_def display_def)
  with run assms show ?thesis
    by (auto simp: fb_rectangle_main_def Let_def clock_runs_def algebra_simps)
qed

theorem rectangle_run_witness:
  "\<exists>mem'. fb_rectangle_main [] (\<lambda>_. Some fill_var) (\<lambda>_. None) (\<lambda>_. Some (replicate 307200 0))
      (\<lambda>_. 7) (\<lambda>k. (5 * int k, 0)) =
    Some (Done (0, Some (\<lparr>rep_w = 120, rep_h = 80, rep_pixels = 9600, rep_ms = 5000\<rparr>, mem')))"
proof -
  have "clock_runs (\<lambda>k. (5 * int k, 0)) (\<lambda>k. 5000 * k) 0"
    by (simp add: clock_runs_def now_ms_def le_Suc_eq)
  from rectangle_run [OF _ _ _ this, of "\<lambda>_. Some fill_var" "[]" "\<lambda>_. Some (replicate 307200 0)"
      "replicate 307200 0" "\<lambda>_. 7"] show ?thesis by auto
qed

section \<open>The I2C adapter\<close>

text \<open>
  C10. A transfer touches only the buffers of its read messages: every other byte of memory keeps its
  value, whatever the messages' addresses, flags and lengths, and the answer is their number.
\<close>

theorem i2c_transfer_frame:
  assumes "\<forall>m\<in>set ms. is_read m \<longrightarrow> a \<notin> msg_range m"
  shows "case run_state (dummy_i2c_xfer K ms) w of (r, w') \<Rightarrow>
    r = of_nat (length ms) \<and> i2c_mem (dv w') a = i2c_mem (dv w) a"
proof -
  obtain r w' where run: "run_state (dummy_i2c_xfer K ms) w = (r, w')" by (metis surj_pair)
  from xfer_frame [OF assms run] run show ?thesis by simp
qed

definition read4 :: i2c_msg where
  "read4 = \<lparr>msg_addr = 0x50, msg_flags = 1, msg_len = 4, msg_buf = 0x1000\<rparr>"

theorem i2c_transfer_frame_witness:
  "case run_state (dummy_i2c_xfer granting [read4, read4\<lparr>msg_flags := 0, msg_buf := 0x2000\<rparr>])
      (fresh (dummy_i2c0 (\<lambda>_. 9))) of (r, w') \<Rightarrow>
    r = of_nat (length [read4, read4\<lparr>msg_flags := 0, msg_buf := 0x2000\<rparr>]) \<and>
    i2c_mem (dv w') 0x2000 = i2c_mem (dv (fresh (dummy_i2c0 (\<lambda>_. 9))
      :: (i2c_call kcall, dummy_i2c) world)) 0x2000"
proof (rule i2c_transfer_frame)
  have "0x2000 \<notin> msg_range read4"
    by (auto simp: msg_range_def read4_def lessThan_nat_numeral lessThan_Suc)
  then show "\<forall>m\<in>set [read4, read4\<lparr>msg_flags := 0, msg_buf := 0x2000\<rparr>].
      is_read m \<longrightarrow> 0x2000 \<notin> msg_range m"
    by (simp add: is_read_def)
qed

text \<open>
  C37. A read message fills its whole buffer: the \<open>k\<close>-th byte is the low byte of the answer to the
  \<open>k\<close>-th request for a random byte, for every length up to 65535 and every buffer address.
\<close>

theorem i2c_read_fills:
  assumes "is_read m" and "k < unat (msg_len m)"
  shows "i2c_mem (dv (snd (run_state (dummy_i2c_do_msg K m) w))) (msg_buf m + of_nat k) =
    ucast (r_int (K (length (hist w) + 2 + 2 * k) (Sub Get_random_u8)))"
  using do_msg_read [OF assms, of K w] by (simp add: random_byte_def)

theorem i2c_read_fills_witness:
  "i2c_mem (dv (snd (run_state (dummy_i2c_do_msg (\<lambda>n c. \<lparr>r_int = of_nat n, r_ptr = 1, r_out = 0\<rparr>) read4)
      (fresh (dummy_i2c0 (\<lambda>_. 9)))))) (msg_buf read4 + of_nat 3) =
    ucast (r_int ((\<lambda>n c. \<lparr>r_int = of_nat n, r_ptr = 1, r_out = 0\<rparr>)
      (length (hist (fresh (dummy_i2c0 (\<lambda>_. 9)) :: (i2c_call kcall, dummy_i2c) world)) + 2 + 2 * 3)
      (Sub Get_random_u8 :: i2c_call kcall)))"
  by (rule i2c_read_fills) (simp_all add: is_read_def read4_def)

text \<open>
  C27. No transfer waits in vain: the interrupt handler runs inside the start of a message, so each
  wait of \<open>dummy_i2c_do_msgs\<close> finds the completion already signalled.
\<close>

theorem i2c_waits_complete:
  assumes "waits_ok (hist w)"
  shows "waits_ok (hist (snd (run_state (dummy_i2c_xfer K ms) w)))"
proof -
  obtain r w' where run: "run_state (dummy_i2c_xfer K ms) w = (r, w')" by (metis surj_pair)
  from xfer_waits_ok [OF assms run] run show ?thesis by simp
qed

theorem i2c_waits_complete_witness:
  "waits_ok (hist (snd (run_state (dummy_i2c_xfer granting [read4, read4])
     (fresh (dummy_i2c0 (\<lambda>_. 0))))))"
  by (rule i2c_waits_complete) simp

text \<open>
  C26. The loop of the interrupt handler ends after exactly \<open>byte_left\<close> rounds. It leaves the counter
  wrapped to its largest value, not at zero, and the position at the end of the message.
\<close>

theorem i2c_isr_counts:
  "dv (dummy_i2c_isr_loop K b w) =
     (dv w)\<lparr>byte_left := 0xffffffff, byte_pos := byte_pos (dv w) + byte_left (dv w),
       i2c_mem := (if dir (dv w) = DUMMY_I2C_BUS_DIR_WR then i2c_mem (dv w)
                   else fill K (length (hist w)) b (byte_pos (dv w)) (unat (byte_left (dv w)))
                          (i2c_mem (dv w)))\<rparr>"
  using isr_loop_state [OF refl, of K b w] by simp

section \<open>The other drivers\<close>



text \<open>
  C40. A load of the SPI driver for which \<open>class_create\<close> failed is reported as a success with nothing
  held, and unloading the module then destroys a device that does not exist.
\<close>

theorem spi_false_success:
  assumes "alloc_succeeds K" and "spi_acct (hist w) = Some []"
    and "\<forall>n s. IS_ERR (r_ptr (K n (Base (Class_create s))))"
  shows "(case mod_session (dummy_spi_register sz K) (dummy_spi_unregister K) d0 [Insmod] (False, w)
      of (l, w') \<Rightarrow> l \<and> spi_acct (hist w') = Some []) \<and>
    (case mod_session (dummy_spi_register sz K) (dummy_spi_unregister K) d0 [Insmod, Rmmod] (False, w)
      of (l, w') \<Rightarrow> \<not> l \<and> spi_acct (hist w') = None)"
proof
  have err: "\<And>n s. IS_ERR (r_ptr (K n (Base (Class_create s))))" using assms(3) by blast
  show "case mod_session (dummy_spi_register sz K) (dummy_spi_unregister K) d0 [Insmod] (False, w)
      of (l, w') \<Rightarrow> l \<and> spi_acct (hist w') = Some []"
    using assms(1,2) err by (rule spi_false_load(1))
  show "case mod_session (dummy_spi_register sz K) (dummy_spi_unregister K) d0 [Insmod, Rmmod] (False, w)
      of (l, w') \<Rightarrow> \<not> l \<and> spi_acct (hist w') = None"
    using assms(1,2) err by (rule spi_false_load(2))
qed

theorem spi_false_success_witness:
  "(case mod_session (dummy_spi_register 64 (refusing (\<lambda>c. case c of Base (Class_create s) \<Rightarrow> True | _ \<Rightarrow> False)))
      (dummy_spi_unregister (refusing (\<lambda>c. case c of Base (Class_create s) \<Rightarrow> True | _ \<Rightarrow> False)))
      dummy_spi0 [Insmod] (False, fresh dummy_spi0) of (l, w') \<Rightarrow> l \<and> spi_acct (hist w') = Some []) \<and>
   (case mod_session (dummy_spi_register 64 (refusing (\<lambda>c. case c of Base (Class_create s) \<Rightarrow> True | _ \<Rightarrow> False)))
      (dummy_spi_unregister (refusing (\<lambda>c. case c of Base (Class_create s) \<Rightarrow> True | _ \<Rightarrow> False)))
      dummy_spi0 [Insmod, Rmmod] (False, fresh dummy_spi0) of (l, w') \<Rightarrow>
      \<not> l \<and> spi_acct (hist w') = None)"
  by (rule spi_false_success) (simp_all add: alloc_succeeds_def)

text \<open>
  C31. The regulator implements a switch and a voltage: every sequence of operations gives the answers
  of the abstract device and leaves its state; once enabled it stays enabled, and an enable anywhere
  in the sequence enables it, for the answers of every kernel.
\<close>

theorem regulator_refines:
  "case run_state (reg_run K xs) w of (rs, w') \<Rightarrow>
     (rs, reg_abs (dv w')) = abs_run xs (reg_abs (dv w)) \<and>
     (enabled (dv w) \<or> Enable \<in> set xs \<longrightarrow> enabled (dv w'))"
proof -
  obtain rs w' where run: "run_state (reg_run K xs) w = (rs, w')" by (metis surj_pair)
  from reg_run_refines [OF run] have "snd (abs_run xs (reg_abs (dv w))) = reg_abs (dv w')"
    by (metis snd_conv)
  with reg_run_refines [OF run] enabled_stays [of "reg_abs (dv w)" xs]
    enable_enables [of xs "reg_abs (dv w)"] run show ?thesis by (auto simp: reg_abs_def)
qed

theorem regulator_refines_witness:
  "fst (run_state (reg_run granting [Set_voltage 1200000 1300000, Enable, Get_voltage, Is_enabled])
     (fresh regulator0)) = [0, 0, 1200000, 1]"
  using regulator_refines [where K = granting and w = "fresh regulator0"
      and xs = "[Set_voltage 1200000 1300000, Enable, Get_voltage, Is_enabled]"]
  by (auto simp: reg_abs_def Let_def split: prod.splits)

text \<open>
  C32. The matching function of \<open>dummy_bus\<close> answers 1 exactly when the device's name is in the driver's
  table before its sentinel; with drivers that serve different names, the driver a device is bound
  to does not depend on the order in which the drivers were loaded.
\<close>

theorem bus_binding:
  assumes "set drvs = set drvs'"
    and "\<forall>u\<in>set drvs. \<forall>v\<in>set drvs. u \<noteq> v \<longrightarrow> served u \<inter> served v = {}"
  shows "(dummy_matches K dev drv \<longleftrightarrow> dev \<in> served drv) \<and>
    List.find (dummy_matches K dev) drvs = List.find (dummy_matches K dev) drvs'"
  using dummy_names.match_iff [of K dev drv] dummy_names.bound_order [OF assms(1), of K dev] assms(2)
  by (auto simp: dummy_names.bound_to_def)

definition other_driver :: "(unit dummy_driver) \<Rightarrow> unit dummy_driver" where
  "other_driver d = d\<lparr>id_table := Some [''other'', []]\<rparr>"

definition plain_driver :: "unit dummy_driver" where
  "plain_driver = \<lparr>drv_probe = None, drv_remove = None, id_table = Some dummy_ids,
     drv_name = ''dummy0'', drv_owner = [], drv_bus = []\<rparr>"

theorem bus_binding_witness:
  "(dummy_matches granting ''dummy-device'' plain_driver \<longleftrightarrow> ''dummy-device'' \<in> served plain_driver) \<and>
    List.find (dummy_matches granting ''dummy-device'') [plain_driver, other_driver plain_driver] =
    List.find (dummy_matches granting ''dummy-device'') [other_driver plain_driver, plain_driver]"
  by (rule bus_binding)
    (auto simp: other_driver_def plain_driver_def served_def dummy_ids_def)

end
